(* ===== verification/Prelude.thy ===== *)
theory Prelude
  imports Main "HOL-Library.Word" 
begin

unbundle bit_operations_syntax

text \<open>
  Shared vocabulary of the development: Go's 64-bit signed arithmetic (\<open>wrap64\<close> and the
  operations built on it), bytes and readers, the string functions of Go's standard library
  that the cache uses (\<open>strings.Split\<close>, \<open>strings.HasPrefix\<close>, \<open>strconv.ParseInt\<close>, \<open>%d\<close>), the
  lower-case hexadecimal test behind every cache key, and generic list lemmas.

  A Go error is the left side of a sum; a panic is an error constructor of its own in the
  components that can panic.
\<close>

named_theorems go_arith \<open>unfolding rules for 64-bit arithmetic\<close>
named_theorems go_string \<open>facts about the string functions\<close>

section \<open>64-bit signed integers\<close>

text \<open>
  An \<open>int64\<close> is an integer of the model; every sum or difference of the code is brought back
  into the range of the type by \<open>wrap64\<close>, two's complement wrap-around.
\<close>

definition wrap64 :: "int \<Rightarrow> int" where
  "wrap64 x = (x + 9223372036854775808) mod 18446744073709551616 - 9223372036854775808"

abbreviation maxInt64 :: int where
  "maxInt64 \<equiv> 9223372036854775807"

definition in64 :: "int \<Rightarrow> bool" where
  "in64 x \<longleftrightarrow> - 9223372036854775808 \<le> x \<and> x \<le> maxInt64"

definition add64 :: "int \<Rightarrow> int \<Rightarrow> int" where
  "add64 a b = wrap64 (a + b)"

definition sub64 :: "int \<Rightarrow> int \<Rightarrow> int" where
  "sub64 a b = wrap64 (a - b)"

declare add64_def [go_arith] sub64_def [go_arith]

lemma wrap64_in64 [simp]: "in64 (wrap64 x)"
  unfolding in64_def wrap64_def by simp

lemma wrap64_id: "in64 x \<Longrightarrow> wrap64 x = x"
  by (simp add: wrap64_def in64_def)

lemma wrap64_idem [simp]: "wrap64 (wrap64 x) = wrap64 x"
  by (rule wrap64_id) simp

lemma wrap64_range: "- 9223372036854775808 \<le> x \<Longrightarrow> x \<le> maxInt64 \<Longrightarrow> wrap64 x = x"
  by (rule wrap64_id) (simp add: in64_def)

lemma wrap64_cong_mod:
  "x mod 18446744073709551616 = y mod 18446744073709551616 \<Longrightarrow> wrap64 x = wrap64 y"
  by (simp add: wrap64_def mod_add_cong)

lemma wrap64_mod: "wrap64 x mod 18446744073709551616 = x mod 18446744073709551616"
  by (simp add: wrap64_def mod_diff_left_eq)

lemma wrap64_add_left [simp]: "wrap64 (wrap64 a + b) = wrap64 (a + b)"
  by (rule wrap64_cong_mod) (metis mod_add_left_eq wrap64_mod)

lemma wrap64_add_right [simp]: "wrap64 (a + wrap64 b) = wrap64 (a + b)"
  using wrap64_add_left [of b a] by (simp add: add.commute)

lemma wrap64_diff_left [simp]: "wrap64 (wrap64 a - b) = wrap64 (a - b)"
  using wrap64_add_left [of a "- b"] by simp

lemma wrap64_diff_right [simp]: "wrap64 (a - wrap64 b) = wrap64 (a - b)"
  by (rule wrap64_cong_mod) (metis mod_diff_right_eq wrap64_mod)

text \<open>Go's integer division and remainder truncate towards zero.\<close>

definition go_div :: "int \<Rightarrow> int \<Rightarrow> int" where
  "go_div a b = sgn a * sgn b * (\<bar>a\<bar> div \<bar>b\<bar>)"

definition go_mod :: "int \<Rightarrow> int \<Rightarrow> int" where
  "go_mod a b = a - b * go_div a b"

lemma go_div_nonneg: "0 \<le> a \<Longrightarrow> 0 < b \<Longrightarrow> go_div a b = a div b"
  by (cases "a = 0") (simp_all add: go_div_def)

lemma go_mod_nonneg: "0 \<le> a \<Longrightarrow> 0 < b \<Longrightarrow> go_mod a b = a mod b"
  by (simp add: go_mod_def go_div_nonneg minus_mult_div_eq_mod)

section \<open>Bytes and readers\<close>

type_synonym byte = "8 word"
type_synonym bytes = "byte list"

text \<open>
  An \<open>io.Reader\<close> is the data it will deliver and whether it then fails (any error other than
  \<open>io.EOF\<close>) instead of ending.
\<close>

record reader =
  rdata :: bytes
  rfails :: bool

definition bytes_reader :: "bytes \<Rightarrow> reader" where
  "bytes_reader bs = \<lparr>rdata = bs, rfails = False\<rparr>"

definition blen :: "'a list \<Rightarrow> int" where
  "blen xs = int (length xs)"

lemma blen_simps [simp]:
  "blen [] = 0" "blen (x # xs) = blen xs + 1" "blen (xs @ ys) = blen xs + blen ys" "0 \<le> blen xs"
  by (simp_all add: blen_def)

lemma blen_0_iff [simp]: "blen xs = 0 \<longleftrightarrow> xs = []"
  by (simp add: blen_def)

lemma nat_blen [simp]: "nat (blen xs) = length xs"
  by (simp add: blen_def)

section \<open>Strings\<close>

definition hasPrefix :: "string \<Rightarrow> string \<Rightarrow> bool" where
  "hasPrefix s p \<longleftrightarrow> take (length p) s = p"

definition trimPrefix :: "string \<Rightarrow> string \<Rightarrow> string" where
  "trimPrefix s p = (if hasPrefix s p then drop (length p) s else s)"

definition hasSuffix :: "string \<Rightarrow> string \<Rightarrow> bool" where
  "hasSuffix s p \<longleftrightarrow> length p \<le> length s \<and> drop (length s - length p) s = p"

definition trimSuffix :: "string \<Rightarrow> string \<Rightarrow> string" where
  "trimSuffix s p = (if hasSuffix s p then take (length s - length p) s else s)"

lemma hasPrefix_append [simp]: "hasPrefix (p @ s) p"
  by (simp add: hasPrefix_def)

lemma trimPrefix_append [simp]: "trimPrefix (p @ s) p = s"
  by (simp add: trimPrefix_def)

lemma hasSuffix_append [simp]: "hasSuffix (s @ p) p"
  by (simp add: hasSuffix_def)

lemma trimSuffix_append [simp]: "trimSuffix (s @ p) p = s"
  by (simp add: trimSuffix_def)

text \<open>\<open>strings.Split\<close> on a one-character separator.\<close>

fun split_on :: "char \<Rightarrow> string \<Rightarrow> string list" where
  "split_on c [] = [[]]"
| "split_on c (x # xs) =
     (if x = c then [] # split_on c xs
      else (case split_on c xs of [] \<Rightarrow> [[x]] | y # ys \<Rightarrow> (x # y) # ys))"

text \<open>\<open>strings.SplitN\<close> on a one-character separator: at most \<open>n\<close> fields (\<open>n > 0\<close>).\<close>

fun splitN_on :: "nat \<Rightarrow> char \<Rightarrow> string \<Rightarrow> string list" where
  "splitN_on 0 c s = []"
| "splitN_on (Suc 0) c s = [s]"
| "splitN_on (Suc (Suc n)) c s =
     (let a = takeWhile (\<lambda>x. x \<noteq> c) s; b = dropWhile (\<lambda>x. x \<noteq> c) s
      in if b = [] then [a] else a # splitN_on (Suc n) c (tl b))"

fun join_with :: "char \<Rightarrow> string list \<Rightarrow> string" where
  "join_with c [] = []"
| "join_with c [s] = s"
| "join_with c (s # t # ss) = s @ c # join_with c (t # ss)"

lemma split_on_nonempty [simp]: "split_on c s \<noteq> []"
  by (induction s) (auto split: list.splits)

lemma split_on_free: "c \<notin> set s \<Longrightarrow> split_on c s = [s]"
  by (induction s) auto

lemma split_on_append: "c \<notin> set s \<Longrightarrow> split_on c (s @ c # t) = s # split_on c t"
  by (induction s) auto

lemma join_split: "join_with c (split_on c s) = s"
proof (induction s)
  case (Cons x xs)
  then show ?case
    by (cases "split_on c xs") (auto, metis join_with.simps(2,3) neq_Nil_conv append_Cons)+
qed simp

lemma split_on_parts_free: "p \<in> set (split_on c s) \<Longrightarrow> c \<notin> set p"
proof (induction s arbitrary: p)
  case (Cons x xs)
  then show ?case by (auto split: if_splits list.splits)
qed simp

lemma split_join:
  "ps \<noteq> [] \<Longrightarrow> \<forall>p \<in> set ps. c \<notin> set p \<Longrightarrow> split_on c (join_with c ps) = ps"
proof (induction c ps rule: join_with.induct)
  case (3 c s t ss)
  then show ?case by (simp add: split_on_append)
qed (simp_all add: split_on_free)

declare split_on_free [go_string] split_on_append [go_string]

section \<open>Decimal numbers\<close>

definition digit_val :: "char \<Rightarrow> nat option" where
  "digit_val c = (let n = (of_char c :: nat) in if 48 \<le> n \<and> n \<le> 57 then Some (n - 48) else None)"

definition digit_char :: "nat \<Rightarrow> char" where
  "digit_char n = char_of (48 + n)"

fun parse_digits :: "nat \<Rightarrow> string \<Rightarrow> nat option" where
  "parse_digits acc [] = Some acc"
| "parse_digits acc (c # cs) =
     (case digit_val c of None \<Rightarrow> None | Some d \<Rightarrow> parse_digits (acc * 10 + d) cs)"

text \<open>
  \<open>strconv.ParseInt(s, 10, 64)\<close>: an optional sign, at least one digit, a value in the range of
  \<open>int64\<close>; \<open>None\<close> is an error (syntax or range).
\<close>

definition parse_int64 :: "string \<Rightarrow> int option" where
  "parse_int64 s =
     (let neg = (case s of [] \<Rightarrow> False | c # _ \<Rightarrow> c = CHR ''-'');
          body = (case s of [] \<Rightarrow> [] | c # cs \<Rightarrow> if c = CHR ''-'' \<or> c = CHR ''+'' then cs else s)
      in if body = [] then None
         else case parse_digits 0 body of
           None \<Rightarrow> None
         | Some n \<Rightarrow>
             (let v = (if neg then - int n else int n) in if in64 v then Some v else None))"

text \<open>\<open>%d\<close> of \<open>fmt.Sprintf\<close>.\<close>

fun show_nat :: "nat \<Rightarrow> string" where
  "show_nat n = (if n < 10 then [digit_char n] else show_nat (n div 10) @ [digit_char (n mod 10)])"

declare show_nat.simps [simp del]

definition show_int :: "int \<Rightarrow> string" where
  "show_int i = (if i < 0 then CHR ''-'' # show_nat (nat (- i)) else show_nat (nat i))"

lemma of_char_digit_char: "n < 10 \<Longrightarrow> of_char (digit_char n) = 48 + n"
  by (simp add: digit_char_def)

lemma digit_val_digit_char [simp]: "n < 10 \<Longrightarrow> digit_val (digit_char n) = Some n"
  by (simp add: digit_val_def of_char_digit_char)

lemma parse_digits_append:
  "parse_digits acc (xs @ ys) =
     (case parse_digits acc xs of None \<Rightarrow> None | Some a \<Rightarrow> parse_digits a ys)"
  by (induction xs arbitrary: acc) (auto split: option.splits)

lemma parse_show_nat [simp]: "parse_digits 0 (show_nat n) = Some n"
proof (induction n rule: show_nat.induct)
  case (1 n)
  then show ?case
    by (cases "n < 10") (auto simp: show_nat.simps [of n] parse_digits_append)
qed

lemma show_nat_nonempty [simp]: "show_nat n \<noteq> []"
  by (simp add: show_nat.simps [of n])

lemma show_nat_digits: "c \<in> set (show_nat n) \<Longrightarrow> \<exists>d < 10. c = digit_char d"
proof (induction n rule: show_nat.induct)
  case (1 n)
  then show ?case
    by (cases "n < 10") (auto simp: show_nat.simps [of n] intro: exI [of _ "n mod 10"])
qed

lemma digit_char_neq:
  "d < 10 \<Longrightarrow> of_char c < (48 :: nat) \<or> 57 < (of_char c :: nat) \<Longrightarrow> digit_char d \<noteq> c"
  using of_char_digit_char [of d] by force

lemma show_nat_free:
  "of_char c < (48 :: nat) \<or> 57 < (of_char c :: nat) \<Longrightarrow> c \<notin> set (show_nat n)"
  using digit_char_neq show_nat_digits by blast

lemma parse_show_int: "in64 i \<Longrightarrow> parse_int64 (show_int i) = Some i"
proof -
  assume i: "in64 i"
  have hd: "c \<noteq> CHR ''-'' \<and> c \<noteq> CHR ''+''" if "show_nat n = c # cs" for n c cs
  proof -
    have "c \<in> set (show_nat n)" by (simp add: that)
    then show ?thesis using show_nat_free [of "CHR ''-''" n] show_nat_free [of "CHR ''+''" n] by auto
  qed
  show ?thesis
  proof (cases "i < 0")
    case True
    then show ?thesis using i by (simp add: show_int_def parse_int64_def)
  next
    case False
    obtain c cs where c: "show_nat (nat i) = c # cs" by (meson neq_Nil_conv show_nat_nonempty)
    have "parse_digits 0 (c # cs) = Some (nat i)" using parse_show_nat [of "nat i"] by (simp only: c)
    then show ?thesis using False i c hd [OF c]
      by (simp add: show_int_def parse_int64_def del: parse_digits.simps)
  qed
qed

lemma show_int_free_slash [go_string]: "CHR ''/'' \<notin> set (show_int i)"
  using show_nat_free [of "CHR ''/''"] by (auto simp: show_int_def)

lemma show_int_inj: "in64 i \<Longrightarrow> in64 j \<Longrightarrow> show_int i = show_int j \<Longrightarrow> i = j"
  using parse_show_int by (metis option.inject)

section \<open>Hexadecimal digests\<close>

text \<open>The character class \<open>[a-f0-9]\<close>, and the regular expression \<open>^[a-f0-9]{64}$\<close>.\<close>

definition is_hex :: "char \<Rightarrow> bool" where
  "is_hex c = (let n = (of_char c :: nat) in 48 \<le> n \<and> n \<le> 57 \<or> 97 \<le> n \<and> n \<le> 102)"

definition hex64 :: "string \<Rightarrow> bool" where
  "hex64 s \<longleftrightarrow> length s = 64 \<and> list_all is_hex s"

lemma hex64_free: "hex64 s \<Longrightarrow> \<not> is_hex c \<Longrightarrow> c \<notin> set s"
  by (auto simp: hex64_def list_all_iff)

lemma not_hex_sep [simp]: "\<not> is_hex CHR ''/''" "\<not> is_hex CHR ''-''" "\<not> is_hex CHR ''.''"
  by (simp_all add: is_hex_def)

lemma hex64_length: "hex64 s \<Longrightarrow> length s = 64"
  by (simp add: hex64_def)

section \<open>Lists\<close>

lemma last_snoc_rev: "xs \<noteq> [] \<Longrightarrow> \<exists>ys y. xs = ys @ [y] \<and> last xs = y"
  by (metis append_butlast_last_id)

lemma remove1_last_distinct: "distinct (xs @ [x]) \<Longrightarrow> remove1 x (xs @ [x]) = xs"
  by (simp add: remove1_append)

lemma set_remove1_distinct: "distinct xs \<Longrightarrow> set (remove1 x xs) = set xs - {x}"
  by (rule set_remove1_eq)

lemma map_remove1_inj:
  "inj_on f (insert x (set xs)) \<Longrightarrow> map f (remove1 x xs) = remove1 (f x) (map f xs)"
  by (induction xs) (auto simp: inj_on_def)


text \<open>Cutting a list into pieces of \<open>n\<close> elements; the last piece may be shorter.\<close>

fun chunks :: "nat \<Rightarrow> 'a list \<Rightarrow> 'a list list" where
  "chunks n xs = (if n = 0 \<or> xs = [] then [] else take n xs # chunks n (drop n xs))"

declare chunks.simps [simp del]

lemma chunks_Nil [simp]: "chunks n [] = []"
  by (simp add: chunks.simps)

lemma chunks_step: "0 < n \<Longrightarrow> xs \<noteq> [] \<Longrightarrow> chunks n xs = take n xs # chunks n (drop n xs)"
  by (simp add: chunks.simps [of n xs])

lemma concat_chunks: "0 < n \<Longrightarrow> concat (chunks n xs) = xs"
proof (induction n xs rule: chunks.induct)
  case (1 n xs)
  then show ?case by (cases "xs = []") (simp_all add: chunks_step)
qed

lemma chunks_drop: "0 < n \<Longrightarrow> chunks n (drop (k * n) xs) = drop k (chunks n xs)"
proof (induction k arbitrary: xs)
  case (Suc k)
  show ?case
  proof (cases "xs = []")
    case False
    then show ?thesis
      using Suc.prems Suc.IH [of "drop n xs"] by (simp add: chunks_step [of n xs] add.commute)
  qed simp
qed simp

lemma length_chunks: "0 < n \<Longrightarrow> length (chunks n xs) = (length xs + n - 1) div n"
proof (induction n xs rule: chunks.induct)
  case (1 n xs)
  show ?case
  proof (cases "xs = []")
    case True
    then show ?thesis using 1 by simp
  next
    case False
    then have "length (chunks n xs) = Suc ((length xs - n + n - 1) div n)"
      using 1 by (simp add: chunks_step)
    also have "\<dots> = (length xs + n - 1) div n"
    proof (cases "n \<le> length xs")
      case True
      then have "length xs + n - 1 = (length xs - n + n - 1) + n" using 1(2) False by (cases xs) auto
      then show ?thesis using 1(2) by (metis div_add_self2 Suc_eq_plus1 less_numeral_extra(3))
    next
      case le: False
      then have "(length xs + n - 1) div n = 1"
        using False by (cases xs) (auto intro!: div_nat_eqI)
      then show ?thesis using le 1(2) by simp
    qed
    finally show ?thesis .
  qed
qed

lemma chunks_nonempty_parts: "c \<in> set (chunks n xs) \<Longrightarrow> c \<noteq> []"
proof (induction n xs rule: chunks.induct)
  case (1 n xs)
  then show ?case by (auto simp: chunks.simps [of n xs] split: if_splits)
qed

lemma length_chunk_le: "c \<in> set (chunks n xs) \<Longrightarrow> length c \<le> n"
proof (induction n xs rule: chunks.induct)
  case (1 n xs)
  then show ?case by (cases "n = 0 \<or> xs = []") (auto simp: chunks.simps [of n xs])
qed

lemma chunks_nth:
  "0 < n \<Longrightarrow> k < length (chunks n xs) \<Longrightarrow> chunks n xs ! k = take n (drop (k * n) xs)"
proof (induction k arbitrary: xs)
  case 0
  then have "xs \<noteq> []" by auto
  then show ?case using 0 by (simp add: chunks_step)
next
  case (Suc k)
  then have "xs \<noteq> []" by auto
  then show ?case using Suc by (simp add: chunks_step [of n xs] add.commute)
qed

section \<open>Addresses\<close>

text \<open>Cutting a string at the first and at the last occurrence of a character.\<close>

fun cutAt :: "char \<Rightarrow> string \<Rightarrow> (string \<times> string) option" where
  "cutAt x [] = None"
| "cutAt x (y # ys) = (if y = x then Some ([], ys) else map_option (\<lambda>(a, b). (y # a, b)) (cutAt x ys))"

definition cutAtLast :: "char \<Rightarrow> string \<Rightarrow> (string \<times> string) option" where
  "cutAtLast x s = map_option (\<lambda>(a, b). (rev b, rev a)) (cutAt x (rev s))"

text \<open>\<open>net.SplitHostPort\<close> and \<open>net.JoinHostPort\<close>; a host with colons is written in brackets.\<close>

definition SplitHostPort :: "string \<Rightarrow> (string \<times> string) option" where
  "SplitHostPort hp =
     (case cutAtLast CHR '':'' hp of
        None \<Rightarrow> None
      | Some (before, port) \<Rightarrow>
          if hd hp = CHR ''['' then
            (case cutAt CHR '']'' hp of
               None \<Rightarrow> None
             | Some (h, rest) \<Rightarrow>
                 if rest = CHR '':'' # port \<and> CHR ''['' \<notin> set (tl hp) \<and> CHR '']'' \<notin> set rest
                 then Some (tl h, port) else None)
          else if CHR '':'' \<in> set before \<or> CHR ''['' \<in> set hp \<or> CHR '']'' \<in> set hp then None
          else Some (before, port))"

definition JoinHostPort :: "string \<Rightarrow> string \<Rightarrow> string" where
  "JoinHostPort host port =
     (if CHR '':'' \<in> set host then ''['' @ host @ '']:'' @ port else host @ '':'' @ port)"

lemma cutAt_first: "x \<notin> set a \<Longrightarrow> cutAt x (a @ x # b) = Some (a, b)"
  by (induction a) auto

lemma cutAtLast_last: "x \<notin> set b \<Longrightarrow> cutAtLast x (a @ x # b) = Some (a, b)"
  using cutAt_first [of x "rev b" "rev a"] by (simp add: cutAtLast_def)

text \<open>Hosts and ports without brackets, and ports without a colon, come back.\<close>

definition plainHost :: "string \<Rightarrow> bool" where
  "plainHost h \<longleftrightarrow> CHR ''['' \<notin> set h \<and> CHR '']'' \<notin> set h"

lemma SplitHostPort_JoinHostPort:
  assumes "plainHost h" "plainHost p" "CHR '':'' \<notin> set p"
  shows "SplitHostPort (JoinHostPort h p) = Some (h, p)"
proof (cases "CHR '':'' \<in> set h")
  case True
  have "cutAtLast CHR '':'' ((''['' @ h @ '']'') @ '':'' @ p) = Some (''['' @ h @ '']'', p)"
    using cutAtLast_last [OF assms(3), of "''['' @ h @ '']''"] by simp
  moreover have "cutAt CHR '']'' ((''['' @ h) @ CHR '']'' # ('':'' @ p)) = Some (''['' @ h, '':'' @ p)"
    using assms(1) by (intro cutAt_first) (simp add: plainHost_def)
  ultimately show ?thesis
    using True assms by (simp add: SplitHostPort_def JoinHostPort_def plainHost_def)
next
  case False
  have "hd (h @ '':'' @ p) \<noteq> CHR ''[''" using assms(1) by (cases h) (auto simp: plainHost_def)
  then show ?thesis
    using False assms cutAtLast_last [OF assms(3), of h] by (simp add: SplitHostPort_def JoinHostPort_def plainHost_def)
qed

lemma show_int_plain: "plainHost (show_int i)" "CHR '':'' \<notin> set (show_int i)"
  using show_nat_free [of "CHR ''[''"] show_nat_free [of "CHR '']''"] show_nat_free [of "CHR '':''"]
  by (auto simp: plainHost_def show_int_def)

end
