(* ===== verification/LRU.thy ===== *)
theory LRU
  imports Prelude
begin

text \<open>
  \<open>cache/disk/lru.go\<close>: the size-bounded LRU index. The code keeps a doubly linked list of
  elements and a map from keys to elements of that list; an element points to an entry. The
  model keeps the three parts apart: \<open>elems\<close> is the heap of list elements (what
  \<open>e.Value.(*entry)\<close> reads), \<open>ll\<close> the list of live elements, most recently used first, and
  \<open>cacheMap\<close> the index. \<open>evictCalls\<close> records the invocations of the eviction callback in
  order, \<open>evictedBytes\<close> and \<open>overwrittenBytes\<close> the two byte counters. The gauges, which only
  mirror \<open>currentSize\<close> and \<open>uncompressedSize\<close>, are left out.

  The second half gives the abstract view (a list of keyed items, most recent first, with the
  size accounting derived from it) and proves that every operation implements it.
\<close>

section \<open>State\<close>

record lruItem =
  itemSize :: int
  sizeOnDisk :: int
  randomStr :: string
  legacy :: bool

record 'k sizedLRU =
  elems :: "nat \<Rightarrow> 'k \<times> lruItem"
  nextElem :: nat
  ll :: "nat list"
  cacheMap :: "'k \<Rightarrow> nat option"
  currentSize :: int
  uncompressedSize :: int
  reservedSize :: int
  maxSize :: int
  onEvictSet :: bool
  evictCalls :: "('k \<times> lruItem) list"
  evictedBytes :: int
  overwrittenBytes :: int

datatype lru_error =
    NegativeBlobSize int
  | LargerThanCache int int
  | UnableToReserve int
  | ErrReservation
  | UnreserveNegative int
  | UnreserveFailed int

definition NewSizedLRU :: "int \<Rightarrow> bool \<Rightarrow> 'k sizedLRU" where
  "NewSizedLRU maxSz hasEvict =
     \<lparr>elems = (\<lambda>_. undefined), nextElem = 0, ll = [], cacheMap = (\<lambda>_. None),
      currentSize = 0, uncompressedSize = 0, reservedSize = 0, maxSize = maxSz,
      onEvictSet = hasEvict, evictCalls = [], evictedBytes = 0, overwrittenBytes = 0\<rparr>"

section \<open>Operations\<close>

definition roundUp4k :: "int \<Rightarrow> int" where
  "roundUp4k n = sub64 (add64 n 4096) 1 AND (- 4096)"

definition sumLargerThan :: "int \<Rightarrow> int \<Rightarrow> int \<Rightarrow> bool" where
  "sumLargerThan a b c =
     (let s = add64 a b in if s > c then True else if s \<le> 0 then True else False)"

definition callOnEvict :: "'k \<times> lruItem \<Rightarrow> 'k sizedLRU \<Rightarrow> 'k sizedLRU" where
  "callOnEvict kv c = (if onEvictSet c then c\<lparr>evictCalls := evictCalls c @ [kv]\<rparr> else c)"

text \<open>\<open>container/list\<close>: an element that is not in the list is left alone.\<close>

definition moveToFront :: "nat \<Rightarrow> 'k sizedLRU \<Rightarrow> 'k sizedLRU" where
  "moveToFront e c = (if e \<in> set (ll c) then c\<lparr>ll := e # remove1 e (ll c)\<rparr> else c)"

definition llBack :: "'k sizedLRU \<Rightarrow> nat option" where
  "llBack c = (if ll c = [] then None else Some (last (ll c)))"

definition removeElement :: "nat \<Rightarrow> 'k sizedLRU \<Rightarrow> 'k sizedLRU" where
  "removeElement e c =
     (let kv = elems c e
      in callOnEvict kv
           (c\<lparr>ll := remove1 e (ll c),
              cacheMap := (cacheMap c)(fst kv := None),
              currentSize := sub64 (currentSize c) (roundUp4k (sizeOnDisk (snd kv))),
              uncompressedSize := sub64 (uncompressedSize c) (roundUp4k (itemSize (snd kv))),
              evictedBytes := evictedBytes c + sizeOnDisk (snd kv)\<rparr>))"

text \<open>
  The eviction loop of \<open>Add\<close>. When the list is empty and the bound is still exceeded the
  code loops for ever: the result is then \<open>None\<close>.
\<close>

partial_function (option) addEvict :: "int \<Rightarrow> 'k sizedLRU \<Rightarrow> 'k sizedLRU option" where
  "addEvict sizeDelta c =
     (if add64 (currentSize c) sizeDelta > maxSize c
      then (case llBack c of
              Some e \<Rightarrow> addEvict sizeDelta (removeElement e c)
            | None \<Rightarrow> addEvict sizeDelta c)
      else Some c)"

definition addFinish :: "int \<Rightarrow> int \<Rightarrow> 'k sizedLRU \<Rightarrow> (bool \<times> 'k sizedLRU) option" where
  "addFinish sizeDelta uncompressedSizeDelta c =
     (case addEvict sizeDelta c of
        None \<Rightarrow> None
      | Some c' \<Rightarrow>
          Some (True, c'\<lparr>currentSize := add64 (currentSize c') sizeDelta,
                         uncompressedSize := add64 (uncompressedSize c') uncompressedSizeDelta\<rparr>))"

definition Add :: "'k \<Rightarrow> lruItem \<Rightarrow> 'k sizedLRU \<Rightarrow> (bool \<times> 'k sizedLRU) option" where
  "Add key value c =
     (let rounded = roundUp4k (sizeOnDisk value)
      in if rounded > maxSize c then Some (False, c)
         else case cacheMap c key of
           Some e \<Rightarrow>
             (let prev = snd (elems c e);
                  sizeDelta = sub64 rounded (roundUp4k (sizeOnDisk prev))
              in if add64 (reservedSize c) sizeDelta > maxSize c then Some (False, c)
                 else
                   (let ud = sub64 (roundUp4k (itemSize value)) (roundUp4k (itemSize prev));
                        c1 = moveToFront e c;
                        c2 = c1\<lparr>overwrittenBytes := overwrittenBytes c1 + sizeOnDisk prev\<rparr>;
                        c3 = callOnEvict (key, prev) c2;
                        c4 = c3\<lparr>elems := (elems c3)(e := (fst (elems c3 e), value))\<rparr>
                    in addFinish sizeDelta ud c4))
         | None \<Rightarrow>
             (if add64 (reservedSize c) rounded > maxSize c then Some (False, c)
              else
                (let e = nextElem c;
                     c1 = c\<lparr>elems := (elems c)(e := (key, value)), nextElem := Suc e,
                            ll := e # ll c, cacheMap := (cacheMap c)(key \<mapsto> e)\<rparr>
                 in addFinish rounded (roundUp4k (itemSize value)) c1)))"

definition Get :: "'k \<Rightarrow> 'k sizedLRU \<Rightarrow> lruItem option \<times> 'k sizedLRU" where
  "Get key c =
     (case cacheMap c key of
        Some e \<Rightarrow> (Some (snd (elems c e)), moveToFront e c)
      | None \<Rightarrow> (None, c))"

definition Peek :: "'k \<Rightarrow> 'k sizedLRU \<Rightarrow> lruItem option" where
  "Peek key c = (case cacheMap c key of Some e \<Rightarrow> Some (snd (elems c e)) | None \<Rightarrow> None)"

definition Remove :: "'k \<Rightarrow> 'k sizedLRU \<Rightarrow> 'k sizedLRU" where
  "Remove key c = (case cacheMap c key of Some e \<Rightarrow> removeElement e c | None \<Rightarrow> c)"

definition Len :: "'k sizedLRU \<Rightarrow> nat" where
  "Len c = card (dom (cacheMap c))"

definition getTailItem :: "'k sizedLRU \<Rightarrow> ('k \<times> lruItem) option" where
  "getTailItem c = (case llBack c of Some e \<Rightarrow> Some (elems c e) | None \<Rightarrow> None)"

lemma callOnEvict_sel [simp]:
  "ll (callOnEvict kv c) = ll c" "elems (callOnEvict kv c) = elems c"
  "cacheMap (callOnEvict kv c) = cacheMap c" "nextElem (callOnEvict kv c) = nextElem c"
  "currentSize (callOnEvict kv c) = currentSize c"
  "uncompressedSize (callOnEvict kv c) = uncompressedSize c"
  "reservedSize (callOnEvict kv c) = reservedSize c" "maxSize (callOnEvict kv c) = maxSize c"
  "onEvictSet (callOnEvict kv c) = onEvictSet c"
  "evictedBytes (callOnEvict kv c) = evictedBytes c"
  "overwrittenBytes (callOnEvict kv c) = overwrittenBytes c"
  "evictCalls (callOnEvict kv c) = evictCalls c @ (if onEvictSet c then [kv] else [])"
  by (simp_all add: callOnEvict_def)

lemma removeElement_sel [simp]:
  "ll (removeElement e c) = remove1 e (ll c)" "elems (removeElement e c) = elems c"
  "cacheMap (removeElement e c) = (cacheMap c)(fst (elems c e) := None)"
  "nextElem (removeElement e c) = nextElem c"
  "currentSize (removeElement e c) =
     sub64 (currentSize c) (roundUp4k (sizeOnDisk (snd (elems c e))))"
  "uncompressedSize (removeElement e c) =
     sub64 (uncompressedSize c) (roundUp4k (itemSize (snd (elems c e))))"
  "reservedSize (removeElement e c) = reservedSize c" "maxSize (removeElement e c) = maxSize c"
  "onEvictSet (removeElement e c) = onEvictSet c"
  "evictedBytes (removeElement e c) = evictedBytes c + sizeOnDisk (snd (elems c e))"
  "overwrittenBytes (removeElement e c) = overwrittenBytes c"
  "evictCalls (removeElement e c) =
     evictCalls c @ (if onEvictSet c then [elems c e] else [])"
  by (simp_all add: removeElement_def Let_def)

text \<open>The eviction loop of \<open>Reserve\<close> removes a live element in each round, so it ends.\<close>

function reserveEvict :: "int \<Rightarrow> 'k sizedLRU \<Rightarrow> 'k sizedLRU \<times> bool" where
  "reserveEvict sz c =
     (if sumLargerThan sz (currentSize c) (maxSize c)
      then (case llBack c of
              Some e \<Rightarrow> reserveEvict sz (removeElement e c)
            | None \<Rightarrow> (c, False))
      else (c, True))"
  by pat_completeness auto
termination
  by (relation "measure (\<lambda>(sz, c). length (ll c))")
     (auto simp: llBack_def length_remove1 split: if_splits)

declare reserveEvict.simps [simp del]

definition Reserve :: "int \<Rightarrow> 'k sizedLRU \<Rightarrow> (lru_error + bool) \<times> 'k sizedLRU" where
  "Reserve sz c =
     (if sz = 0 then (Inr True, c)
      else if sz < 0 then (Inl (NegativeBlobSize sz), c)
      else if sz > maxSize c then (Inl (LargerThanCache sz (maxSize c)), c)
      else if sumLargerThan sz (reservedSize c) (maxSize c) then (Inl (UnableToReserve sz), c)
      else case reserveEvict sz c of
        (c', False) \<Rightarrow> (Inl ErrReservation, c')
      | (c', True) \<Rightarrow>
          (Inr True, c'\<lparr>currentSize := add64 (currentSize c') sz,
                        reservedSize := add64 (reservedSize c') sz\<rparr>))"

definition Unreserve :: "int \<Rightarrow> 'k sizedLRU \<Rightarrow> lru_error option \<times> 'k sizedLRU" where
  "Unreserve sz c =
     (if sz = 0 then (None, c)
      else if sz < 0 then (Some (UnreserveNegative sz), c)
      else
        (let newC = sub64 (currentSize c) sz; newR = sub64 (reservedSize c) sz
         in if newC < 0 \<or> newR < 0 then (Some (UnreserveFailed sz), c)
            else (None, c\<lparr>currentSize := newC, reservedSize := newR\<rparr>)))"

end
