(* ===== verification/LRU_Spec.thy ===== *)
theory LRU_Spec
  imports LRU
begin

text \<open>
  What the LRU index promises, and the proof that \<open>LRU\<close> keeps it.

  The abstract index is the list of its entries, most recently used first, together with the
  reserved bytes; its eviction policy is a single function, \<open>fit\<close>: keep the longest prefix of
  the recency list whose rounded sizes fit the budget. \<open>lru_ok\<close> is the invariant of the
  concrete index (list, heap and map agree; the sizes are exactly accounted for; the total
  never exceeds the maximum), \<open>absList\<close> the abstraction function.

  The accounting is exact as long as no sum leaves the range of \<open>int64\<close>. That is guaranteed
  by \<open>maxSize < 2 ^ 62\<close> (4 EiB) and by file sizes below \<open>2 ^ 63 - 4096\<close>, both part of the
  hypotheses.
\<close>

section \<open>Rounding and the overflow test\<close>

lemma and_minus_4096: "(x :: int) AND (- 4096) = 4096 * (x div 4096)"
proof -
  have a: "(- 4096 :: int) = NOT (mask 12)"
    by (simp add: mask_eq_exp_minus_1 not_int_def)
  have "x AND NOT (mask 12) = push_bit 12 (drop_bit 12 x)"
    by (rule bit_eqI) (auto simp: bit_simps)
  then show ?thesis
    by (simp add: a push_bit_eq_mult drop_bit_eq_div mult.commute)
qed

definition size_ok :: "int \<Rightarrow> bool" where
  "size_ok n \<longleftrightarrow> 0 \<le> n \<and> n \<le> maxInt64 - 4095"

lemma roundUp4k_eq: "size_ok n \<Longrightarrow> roundUp4k n = 4096 * ((n + 4095) div 4096)"
  by (simp add: roundUp4k_def go_arith and_minus_4096 wrap64_range size_ok_def)

lemma roundUp4k_bounds: "size_ok n \<Longrightarrow> n \<le> roundUp4k n \<and> roundUp4k n < n + 4096"
  by (simp add: roundUp4k_eq) linarith

lemma roundUp4k_nonneg: "size_ok n \<Longrightarrow> 0 \<le> roundUp4k n"
  using roundUp4k_bounds [of n] by (simp add: size_ok_def)

lemma sumLargerThan_iff:
  assumes "0 < a" "0 \<le> b" "0 < c" "in64 a" "in64 b" "in64 c"
  shows "sumLargerThan a b c \<longleftrightarrow> a + b > c"
proof (cases "a + b \<le> maxInt64")
  case True
  then have "add64 a b = a + b" using assms by (simp add: go_arith wrap64_range)
  then show ?thesis using assms by (simp add: sumLargerThan_def)
next
  case False
  then have "wrap64 (a + b) = a + b - 18446744073709551616"
    using assms wrap64_range [of "a + b - 18446744073709551616"]
      wrap64_cong_mod [of "a + b - 18446744073709551616" "a + b"]
    by (simp add: in64_def)
  then have "add64 a b < 0" using assms by (simp add: go_arith in64_def)
  then show ?thesis using assms False by (simp add: sumLargerThan_def in64_def)
qed

section \<open>The abstract index\<close>

record 'k lruSpec =
  entries :: "('k \<times> lruItem) list"
  reserved :: int
  capacity :: int

definition diskUse :: "'k \<times> lruItem \<Rightarrow> int" where
  "diskUse kv = roundUp4k (sizeOnDisk (snd kv))"

definition logicalUse :: "'k \<times> lruItem \<Rightarrow> int" where
  "logicalUse kv = roundUp4k (itemSize (snd kv))"

definition totalDisk :: "('k \<times> lruItem) list \<Rightarrow> int" where
  "totalDisk xs = sum_list (map diskUse xs)"

definition totalLogical :: "('k \<times> lruItem) list \<Rightarrow> int" where
  "totalLogical xs = sum_list (map logicalUse xs)"

fun fit :: "int \<Rightarrow> ('k \<times> lruItem) list \<Rightarrow> ('k \<times> lruItem) list" where
  "fit budget [] = []"
| "fit budget (x # xs) = (if diskUse x \<le> budget then x # fit (budget - diskUse x) xs else [])"

definition without :: "'k \<Rightarrow> ('k \<times> lruItem) list \<Rightarrow> ('k \<times> lruItem) list" where
  "without k xs = filter (\<lambda>p. fst p \<noteq> k) xs"

definition specAdd :: "'k \<Rightarrow> lruItem \<Rightarrow> 'k lruSpec \<Rightarrow> bool \<times> 'k lruSpec" where
  "specAdd k v s =
     (let new = diskUse (k, v);
          old = (case map_of (entries s) k of Some w \<Rightarrow> diskUse (k, w) | None \<Rightarrow> 0)
      in if new > capacity s \<or> reserved s + new - old > capacity s then (False, s)
         else (True, s\<lparr>entries := fit (capacity s - reserved s) ((k, v) # without k (entries s))\<rparr>))"

definition specGet :: "'k \<Rightarrow> 'k lruSpec \<Rightarrow> lruItem option \<times> 'k lruSpec" where
  "specGet k s =
     (case map_of (entries s) k of
        Some v \<Rightarrow> (Some v, s\<lparr>entries := (k, v) # without k (entries s)\<rparr>)
      | None \<Rightarrow> (None, s))"

definition specRemove :: "'k \<Rightarrow> 'k lruSpec \<Rightarrow> 'k lruSpec" where
  "specRemove k s = s\<lparr>entries := without k (entries s)\<rparr>"

definition specReserve :: "int \<Rightarrow> 'k lruSpec \<Rightarrow> bool \<times> 'k lruSpec" where
  "specReserve n s =
     (if n = 0 then (True, s)
      else if n < 0 \<or> reserved s + n > capacity s then (False, s)
      else (True, s\<lparr>entries := fit (capacity s - reserved s - n) (entries s),
                    reserved := reserved s + n\<rparr>))"

definition specUnreserve :: "int \<Rightarrow> 'k lruSpec \<Rightarrow> bool \<times> 'k lruSpec" where
  "specUnreserve n s =
     (if n < 0 \<or> n > reserved s then (False, s) else (True, s\<lparr>reserved := reserved s - n\<rparr>))"

lemma totalDisk_simps [simp]:
  "totalDisk [] = 0" "totalDisk (x # xs) = diskUse x + totalDisk xs" "totalDisk (xs @ ys) = totalDisk xs + totalDisk ys"
  by (simp_all add: totalDisk_def)

lemma totalLogical_simps [simp]:
  "totalLogical [] = 0" "totalLogical (x # xs) = logicalUse x + totalLogical xs"
  "totalLogical (xs @ ys) = totalLogical xs + totalLogical ys"
  by (simp_all add: totalLogical_def)

definition items_ok :: "('k \<times> lruItem) list \<Rightarrow> bool" where
  "items_ok xs \<longleftrightarrow> (\<forall>p \<in> set xs. size_ok (sizeOnDisk (snd p)))"

lemma items_ok_simps [simp]:
  "items_ok []" "items_ok (x # xs) \<longleftrightarrow> size_ok (sizeOnDisk (snd x)) \<and> items_ok xs"
  "items_ok (xs @ ys) \<longleftrightarrow> items_ok xs \<and> items_ok ys"
  by (auto simp: items_ok_def)

lemma items_ok_subset: "items_ok xs \<Longrightarrow> set ys \<subseteq> set xs \<Longrightarrow> items_ok ys"
  by (auto simp: items_ok_def)

lemma items_ok_without: "items_ok xs \<Longrightarrow> items_ok (without k xs)"
  by (rule items_ok_subset) (auto simp: without_def)

lemma items_ok_take: "items_ok xs \<Longrightarrow> items_ok (take n xs)"
  by (auto simp: items_ok_def dest: in_set_takeD)

lemma items_ok_drop: "items_ok xs \<Longrightarrow> items_ok (drop n xs)"
  by (auto simp: items_ok_def dest: in_set_dropD)

lemma diskUse_nonneg: "size_ok (sizeOnDisk (snd x)) \<Longrightarrow> 0 \<le> diskUse x"
  by (simp add: diskUse_def roundUp4k_nonneg)

lemma totalDisk_nonneg: "items_ok xs \<Longrightarrow> 0 \<le> totalDisk xs"
  by (induction xs) (auto simp: diskUse_nonneg)

lemma totalDisk_take_drop: "totalDisk (take n xs) + totalDisk (drop n xs) = totalDisk xs"
  by (metis append_take_drop_id totalDisk_simps(3))

lemma totalLogical_take_drop: "totalLogical (take n xs) + totalLogical (drop n xs) = totalLogical xs"
  by (metis append_take_drop_id totalLogical_simps(3))

lemma totalDisk_without:
  "distinct (map fst xs) \<Longrightarrow> map_of xs k = Some v \<Longrightarrow>
   totalDisk (without k xs) = totalDisk xs - diskUse (k, v)"
proof (induction xs)
  case (Cons x xs)
  then show ?case
    by (cases x; cases "fst x = k")
      (auto simp: without_def, metis (mono_tags, lifting) filter_True fst_conv image_eqI)
qed simp

lemma totalLogical_without:
  "distinct (map fst xs) \<Longrightarrow> map_of xs k = Some v \<Longrightarrow>
   totalLogical (without k xs) = totalLogical xs - logicalUse (k, v)"
proof (induction xs)
  case (Cons x xs)
  then show ?case
    by (cases x; cases "fst x = k")
      (auto simp: without_def, metis (mono_tags, lifting) filter_True fst_conv image_eqI)
qed simp

lemma without_absent: "map_of xs k = None \<Longrightarrow> without k xs = xs"
  by (induction xs) (auto simp: without_def split: if_splits)

subsection \<open>The eviction policy\<close>

lemma fit_prefix: "fit b xs = take (length (fit b xs)) xs"
  by (induction b xs rule: fit.induct) auto

lemma length_fit_le: "length (fit b xs) \<le> length xs"
  by (induction b xs rule: fit.induct) auto

lemma totalDisk_fit_le: "0 \<le> b \<Longrightarrow> totalDisk (fit b xs) \<le> b"
  by (induction b xs rule: fit.induct) auto

lemma fit_maximal:
  "items_ok xs \<Longrightarrow> length (fit b xs) < m \<Longrightarrow> m \<le> length xs \<Longrightarrow> b < totalDisk (take m xs)"
proof (induction b xs arbitrary: m rule: fit.induct)
  case (2 b x xs)
  then obtain m' where m: "m = Suc m'" by (cases m) auto
  show ?case
  proof (cases "diskUse x \<le> b")
    case True
    then have "b - diskUse x < totalDisk (take m' xs)" using 2 m by simp
    then show ?thesis by (simp add: m)
  next
    case False
    moreover have "0 \<le> totalDisk (take m' xs)"
      using "2.prems" by (simp add: totalDisk_nonneg items_ok_take)
    ultimately show ?thesis by (simp add: m)
  qed
qed simp

lemma fit_all: "items_ok xs \<Longrightarrow> totalDisk xs \<le> b \<Longrightarrow> fit b xs = xs"
proof (rule ccontr)
  assume *: "items_ok xs" "totalDisk xs \<le> b" "fit b xs \<noteq> xs"
  then have "length (fit b xs) < length xs"
    using fit_prefix [of b xs] length_fit_le [of b xs] by (metis le_neq_implies_less take_all_iff)
  then show False using fit_maximal [of xs b "length xs"] * by simp
qed

section \<open>The invariant and the abstraction\<close>

definition absList :: "'k sizedLRU \<Rightarrow> ('k \<times> lruItem) list" where
  "absList c = map (elems c) (ll c)"

definition lruAbs :: "'k sizedLRU \<Rightarrow> 'k lruSpec" where
  "lruAbs c = \<lparr>entries = absList c, reserved = reservedSize c, capacity = maxSize c\<rparr>"

definition lru_wf :: "'k sizedLRU \<Rightarrow> bool" where
  "lru_wf c \<longleftrightarrow>
     distinct (ll c) \<and> (\<forall>e \<in> set (ll c). e < nextElem c) \<and>
     (\<forall>k e. cacheMap c k = Some e \<longleftrightarrow> e \<in> set (ll c) \<and> fst (elems c e) = k)"

definition lru_ok :: "'k sizedLRU \<Rightarrow> bool" where
  "lru_ok c \<longleftrightarrow>
     lru_wf c \<and> items_ok (absList c) \<and>
     0 < maxSize c \<and> maxSize c \<le> 4611686018427387903 \<and>
     0 \<le> reservedSize c \<and>
     currentSize c = reservedSize c + totalDisk (absList c) \<and> currentSize c \<le> maxSize c \<and>
     uncompressedSize c = wrap64 (totalLogical (absList c))"

lemma absList_sel [simp]: "length (absList c) = length (ll c)"
  by (simp add: absList_def)

lemma lru_wf_inj: "lru_wf c \<Longrightarrow> inj_on (\<lambda>e. fst (elems c e)) (set (ll c))"
  unfolding lru_wf_def inj_on_def by (metis option.inject)

lemma absList_distinct: "lru_wf c \<Longrightarrow> distinct (map fst (absList c))"
  using lru_wf_inj [of c] by (simp add: absList_def distinct_map lru_wf_def comp_def)

lemma map_of_absList:
  assumes "lru_wf c"
  shows "map_of (absList c) k = map_option (\<lambda>e. snd (elems c e)) (cacheMap c k)"
proof (cases "cacheMap c k")
  case None
  have "k \<notin> fst ` set (absList c)"
  proof
    assume "k \<in> fst ` set (absList c)"
    then obtain e where "e \<in> set (ll c)" "fst (elems c e) = k" by (auto simp: absList_def)
    with assms have "cacheMap c k = Some e" by (simp add: lru_wf_def)
    with None show False by simp
  qed
  then show ?thesis using None by (simp add: map_of_eq_None_iff)
next
  case (Some e)
  then have "(k, snd (elems c e)) \<in> set (absList c)"
    using assms by (force simp: lru_wf_def absList_def)
  then show ?thesis using Some absList_distinct [OF assms] by simp
qed

lemma Peek_map_of: "lru_wf c \<Longrightarrow> Peek k c = map_of (absList c) k"
  by (simp add: Peek_def map_of_absList split: option.splits)

lemma remove1_filter_key:
  assumes "lru_wf c" "cacheMap c k = Some e"
  shows "remove1 e (ll c) = filter (\<lambda>x. fst (elems c x) \<noteq> k) (ll c)"
proof -
  have "remove1 e (ll c) = filter (\<lambda>x. e \<noteq> x) (ll c)"
    using assms by (simp add: lru_wf_def distinct_remove1_removeAll removeAll_filter_not_eq)
  also have "\<dots> = filter (\<lambda>x. fst (elems c x) \<noteq> k) (ll c)"
    using assms lru_wf_inj [OF assms(1)]
    by (intro filter_cong) (auto simp: lru_wf_def inj_on_def)
  finally show ?thesis .
qed

lemma map_remove1_key:
  assumes "lru_wf c" "cacheMap c k = Some e"
  shows "map (elems c) (remove1 e (ll c)) = without k (absList c)"
  by (simp add: remove1_filter_key [OF assms] without_def absList_def filter_map comp_def)

lemma lru_wf_removeElement:
  assumes "lru_wf c" "e \<in> set (ll c)"
  shows "lru_wf (removeElement e c)"
  using assms lru_wf_inj [OF assms(1)] by (auto simp: lru_wf_def set_remove1_distinct inj_on_def)

lemma absList_removeElement:
  assumes "lru_wf c" "cacheMap c k = Some e"
  shows "absList (removeElement e c) = without k (absList c)"
  using map_remove1_key [OF assms] by (simp add: absList_def)


section \<open>Evicting from the back\<close>

text \<open>
  Both eviction loops remove elements from the back until a condition fails; \<open>evictN n\<close> is the
  state after \<open>n\<close> rounds.
\<close>

fun evictN :: "nat \<Rightarrow> 'k sizedLRU \<Rightarrow> 'k sizedLRU" where
  "evictN 0 c = c"
| "evictN (Suc n) c = evictN n (removeElement (last (ll c)) c)"

lemma evictN_frame [simp]:
  "elems (evictN n c) = elems c" "nextElem (evictN n c) = nextElem c"
  "reservedSize (evictN n c) = reservedSize c" "maxSize (evictN n c) = maxSize c"
  "onEvictSet (evictN n c) = onEvictSet c" "overwrittenBytes (evictN n c) = overwrittenBytes c"
  by (induction n arbitrary: c) simp_all

lemma evictN_in64: "in64 (currentSize c) \<Longrightarrow> in64 (currentSize (evictN n c))"
  by (induction n arbitrary: c) (simp_all add: sub64_def)

lemma evictN_unc64: "in64 (uncompressedSize c) \<Longrightarrow> in64 (uncompressedSize (evictN n c))"
  by (induction n arbitrary: c) (simp_all add: sub64_def)

lemma remove1_last: "distinct xs \<Longrightarrow> xs \<noteq> [] \<Longrightarrow> remove1 (last xs) xs = butlast xs"
  by (metis append_butlast_last_id remove1_last_distinct)

lemma evictN_ll:
  assumes "distinct (ll c)" "n \<le> length (ll c)"
  shows "ll (evictN n c) = take (length (ll c) - n) (ll c)"
  using assms
proof (induction n arbitrary: c)
  case (Suc n)
  then have ne: "ll c \<noteq> []" by auto
  with Suc.prems have r: "ll (removeElement (last (ll c)) c) = butlast (ll c)"
    by (simp add: remove1_last)
  from Suc.prems have "ll (evictN n (removeElement (last (ll c)) c)) =
      take (length (butlast (ll c)) - n) (butlast (ll c))"
    by (subst Suc.IH) (simp_all add: remove1_last ne distinct_butlast del: length_butlast, simp)
  then show ?case using Suc.prems by (simp add: take_butlast butlast_conv_take)
qed simp

lemma evictN_absList:
  "distinct (ll c) \<Longrightarrow> n \<le> length (ll c) \<Longrightarrow>
   absList (evictN n c) = take (length (ll c) - n) (absList c)"
  by (simp add: absList_def evictN_ll take_map)

lemma evictN_wf: "lru_wf c \<Longrightarrow> n \<le> length (ll c) \<Longrightarrow> lru_wf (evictN n c)"
proof (induction n arbitrary: c)
  case (Suc n)
  then have "ll c \<noteq> []" by auto
  then show ?case using Suc by (simp add: lru_wf_removeElement length_remove1)
qed simp

lemma drop_pred_last:
  assumes "xs \<noteq> []" "n \<le> length xs - 1"
  shows "drop (length xs - Suc n) xs = drop (length xs - 1 - n) (butlast xs) @ [last xs]"
  using assms by (metis Suc_eq_plus1_left append_butlast_last_id diff_diff_left drop_append
      length_butlast diff_le_self drop_0 diff_is_0_eq')

lemma removeElement_last:
  assumes "distinct (ll c)" "Suc n \<le> length (ll c)"
  defines "c' \<equiv> removeElement (last (ll c)) c"
  shows "distinct (ll c')" "n \<le> length (ll c')"
    and "drop (length (ll c) - Suc n) (absList c) =
           drop (length (ll c') - n) (absList c') @ [elems c (last (ll c))]"
proof -
  have ne: "ll c \<noteq> []" using assms by auto
  then have b: "ll c' = butlast (ll c)" using assms by (simp add: remove1_last)
  show "distinct (ll c')" "n \<le> length (ll c')"
    unfolding b using assms(1,2) by (simp_all add: distinct_butlast)
  show "drop (length (ll c) - Suc n) (absList c) =
      drop (length (ll c') - n) (absList c') @ [elems c (last (ll c))]"
    using drop_pred_last [OF ne, of n] assms(2)
    by (simp only: absList_def drop_map b length_butlast) (simp add: drop_map c'_def)
qed

lemma evictN_effects:
  assumes "distinct (ll c)" "n \<le> length (ll c)"
  defines "gone \<equiv> drop (length (ll c) - n) (absList c)"
  shows "add64 (currentSize (evictN n c)) d = wrap64 (currentSize c + d - totalDisk gone)"
    and "add64 (uncompressedSize (evictN n c)) d =
           wrap64 (uncompressedSize c + d - totalLogical gone)"
    and "evictCalls (evictN n c) = evictCalls c @ (if onEvictSet c then rev gone else [])"
    and "evictedBytes (evictN n c) =
           evictedBytes c + sum_list (map (\<lambda>p. sizeOnDisk (snd p)) gone)"
proof -
  have wl: "wrap64 (wrap64 (a - b) + e - f) = wrap64 (a + e - (f + b))" for a b e f :: int
    using wrap64_add_left [of "a - b" "e - f"] by (simp add: algebra_simps)
  have "add64 (currentSize (evictN n c)) d = wrap64 (currentSize c + d - totalDisk gone) \<and>
     add64 (uncompressedSize (evictN n c)) d = wrap64 (uncompressedSize c + d - totalLogical gone) \<and>
     evictCalls (evictN n c) = evictCalls c @ (if onEvictSet c then rev gone else []) \<and>
     evictedBytes (evictN n c) = evictedBytes c + sum_list (map (\<lambda>p. sizeOnDisk (snd p)) gone)"
    unfolding gone_def using assms(1,2)
  proof (induction n arbitrary: c)
    case 0
    then show ?case by (simp add: add64_def)
  next
    case (Suc n)
    note st = removeElement_last [OF Suc.prems]
    from Suc.IH [OF st(1,2)] show ?case
      by (simp add: st(3) sub64_def wl diskUse_def logicalUse_def)
  qed
  then show "add64 (currentSize (evictN n c)) d = wrap64 (currentSize c + d - totalDisk gone)"
    "add64 (uncompressedSize (evictN n c)) d = wrap64 (uncompressedSize c + d - totalLogical gone)"
    "evictCalls (evictN n c) = evictCalls c @ (if onEvictSet c then rev gone else [])"
    "evictedBytes (evictN n c) = evictedBytes c + sum_list (map (\<lambda>p. sizeOnDisk (snd p)) gone)"
    by blast+
qed

text \<open>The loops run \<open>evictN\<close> for exactly as long as their condition holds.\<close>

lemma addEvict_evictN:
  "\<lbrakk>\<And>m. m < n \<Longrightarrow> add64 (currentSize (evictN m c)) d > maxSize c \<and> ll (evictN m c) \<noteq> [];
    \<not> add64 (currentSize (evictN n c)) d > maxSize c\<rbrakk> \<Longrightarrow>
   addEvict d c = Some (evictN n c)"
proof (induction n arbitrary: c)
  case 0
  then show ?case by (simp add: addEvict.simps)
next
  case (Suc n)
  from Suc.prems(1) [of 0] have "add64 (currentSize c) d > maxSize c" "ll c \<noteq> []" by simp_all
  then have "addEvict d c = addEvict d (removeElement (last (ll c)) c)"
    by (subst addEvict.simps) (simp add: llBack_def)
  also have "\<dots> = Some (evictN n (removeElement (last (ll c)) c))"
    using Suc.prems(1) [of "Suc _"] Suc.prems(2) by (intro Suc.IH) simp_all
  finally show ?case by simp
qed

lemma reserveEvict_evictN:
  "\<lbrakk>\<And>m. m < n \<Longrightarrow> sumLargerThan s (currentSize (evictN m c)) (maxSize c) \<and> ll (evictN m c) \<noteq> [];
    \<not> sumLargerThan s (currentSize (evictN n c)) (maxSize c)\<rbrakk> \<Longrightarrow>
   reserveEvict s c = (evictN n c, True)"
proof (induction n arbitrary: c)
  case 0
  then show ?case by (simp add: reserveEvict.simps)
next
  case (Suc n)
  from Suc.prems(1) [of 0] have "sumLargerThan s (currentSize c) (maxSize c)" "ll c \<noteq> []" by simp_all
  then have "reserveEvict s c = reserveEvict s (removeElement (last (ll c)) c)"
    by (subst reserveEvict.simps) (simp add: llBack_def)
  also have "\<dots> = (evictN n (removeElement (last (ll c)) c), True)"
    using Suc.prems(1) [of "Suc _"] Suc.prems(2) by (intro Suc.IH) simp_all
  finally show ?case by simp
qed

text \<open>
  The number of rounds after which the kept prefix fits a budget, and what the state is then.
\<close>

definition evictTo :: "int \<Rightarrow> 'k sizedLRU \<Rightarrow> 'k sizedLRU" where
  "evictTo budget c = evictN (length (ll c) - length (fit budget (absList c))) c"

lemma evictTo_frame [simp]:
  "elems (evictTo b c) = elems c" "nextElem (evictTo b c) = nextElem c"
  "reservedSize (evictTo b c) = reservedSize c" "maxSize (evictTo b c) = maxSize c"
  "onEvictSet (evictTo b c) = onEvictSet c" "overwrittenBytes (evictTo b c) = overwrittenBytes c"
  by (simp_all add: evictTo_def)

lemma evictTo_facts:
  fixes c :: "'k sizedLRU" and b :: int
  assumes "lru_wf c"
  defines "kept \<equiv> fit b (absList c)"
  shows "absList (evictTo b c) = kept"
    and "lru_wf (evictTo b c)"
    and "add64 (currentSize (evictTo b c)) d =
           wrap64 (currentSize c + d - (totalDisk (absList c) - totalDisk kept))"
    and "add64 (uncompressedSize (evictTo b c)) d =
           wrap64 (uncompressedSize c + d - (totalLogical (absList c) - totalLogical kept))"
    and "evictCalls (evictTo b c) =
           evictCalls c @ (if onEvictSet c then rev (drop (length kept) (absList c)) else [])"
proof -
  let ?n = "length (ll c) - length kept"
  have le: "length kept \<le> length (ll c)" using length_fit_le [of b "absList c"] by (simp add: kept_def)
  have d: "distinct (ll c)" using assms(1) by (simp add: lru_wf_def)
  have n: "?n \<le> length (ll c)" by simp
  have e: "evictTo b c = evictN ?n c" by (simp add: evictTo_def kept_def)
  have k: "kept = take (length kept) (absList c)" unfolding kept_def by (rule fit_prefix)
  have eq: "length (ll c) - ?n = length kept" using le by simp
  show "absList (evictTo b c) = kept" using evictN_absList [OF d n] eq k by (simp add: e)
  show "lru_wf (evictTo b c)" unfolding e by (rule evictN_wf [OF assms(1) n])
  have t: "totalDisk (drop (length kept) (absList c)) = totalDisk (absList c) - totalDisk kept"
    using totalDisk_take_drop [of "length kept" "absList c"] k by simp
  have u: "totalLogical (drop (length kept) (absList c)) = totalLogical (absList c) - totalLogical kept"
    using totalLogical_take_drop [of "length kept" "absList c"] k by simp
  show "add64 (currentSize (evictTo b c)) d =
           wrap64 (currentSize c + d - (totalDisk (absList c) - totalDisk kept))"
    using evictN_effects(1) [OF d n] unfolding e eq t .
  show "add64 (uncompressedSize (evictTo b c)) d =
           wrap64 (uncompressedSize c + d - (totalLogical (absList c) - totalLogical kept))"
    using evictN_effects(2) [OF d n] unfolding e eq u .
  show "evictCalls (evictTo b c) =
           evictCalls c @ (if onEvictSet c then rev (drop (length kept) (absList c)) else [])"
    using evictN_effects(3) [OF d n] unfolding e eq .
qed


lemma addEvict_fit:
  assumes wf: "lru_wf c" and items: "items_ok (absList c)"
    and R: "0 \<le> R" "R \<le> maxSize c" "R + totalDisk (absList c) \<le> maxInt64"
    and cur: "add64 (currentSize c) d = R + totalDisk (absList c)"
  shows "addEvict d c = Some (evictTo (maxSize c - R) c)"
proof -
  let ?kept = "fit (maxSize c - R) (absList c)"
  have dist: "distinct (ll c)" using wf by (simp add: lru_wf_def)
  have cond: "add64 (currentSize (evictN m c)) d = R + totalDisk (take (length (ll c) - m) (absList c))"
    if "m \<le> length (ll c)" for m
  proof -
    let ?gone = "totalDisk (drop (length (ll c) - m) (absList c))"
    have "wrap64 (currentSize c + d - ?gone) = wrap64 (R + totalDisk (absList c) - ?gone)"
      using cur wrap64_diff_left [of "currentSize c + d" ?gone] by (simp add: add64_def)
    moreover have "totalDisk (absList c) = totalDisk (take (length (ll c) - m) (absList c)) + ?gone"
      by (simp add: totalDisk_take_drop)
    moreover have "0 \<le> totalDisk (take (length (ll c) - m) (absList c))"
      "totalDisk (take (length (ll c) - m) (absList c)) \<le> totalDisk (absList c)"
      using totalDisk_take_drop [of "length (ll c) - m" "absList c"] items
        totalDisk_nonneg [OF items_ok_take] totalDisk_nonneg [OF items_ok_drop]
      by (auto, smt (verit))
    ultimately show ?thesis using evictN_effects(1) [OF dist that] R by (simp add: wrap64_range)
  qed
  have len: "length ?kept \<le> length (ll c)" using length_fit_le [of "maxSize c - R" "absList c"] by simp
  show ?thesis
    unfolding evictTo_def
  proof (rule addEvict_evictN)
    fix m assume m: "m < length (ll c) - length ?kept"
    then have "maxSize c - R < totalDisk (take (length (ll c) - m) (absList c))"
      using items len by (intro fit_maximal) simp_all
    then show "add64 (currentSize (evictN m c)) d > maxSize c \<and> ll (evictN m c) \<noteq> []"
      using m cond [of m] evictN_ll [OF dist, of m] by auto
  next
    have "take (length ?kept) (absList c) = ?kept" using fit_prefix by metis
    then show "\<not> add64 (currentSize (evictN (length (ll c) - length ?kept) c)) d > maxSize c"
      using cond [of "length (ll c) - length ?kept"] len R
        totalDisk_fit_le [of "maxSize c - R" "absList c"] by simp
  qed
qed

lemma reserveEvict_fit:
  assumes ok: "lru_ok c" and n: "0 < n" "reservedSize c + n \<le> maxSize c"
  shows "reserveEvict n c = (evictTo (maxSize c - reservedSize c - n) c, True)"
proof -
  let ?b = "maxSize c - reservedSize c - n"
  let ?kept = "fit ?b (absList c)"
  note okd = ok [unfolded lru_ok_def]
  have items: "items_ok (absList c)" using okd by simp
  have dist: "distinct (ll c)" using okd by (simp add: lru_wf_def)
  have cur: "currentSize (evictN m c) = reservedSize c + totalDisk (take (length (ll c) - m) (absList c))"
    if "m \<le> length (ll c)" for m
  proof -
    have "in64 (currentSize c)"
      using okd totalDisk_nonneg [OF items] by (simp add: in64_def)
    then have *: "add64 (currentSize (evictN m c)) 0 = currentSize (evictN m c)"
      by (simp add: add64_def wrap64_id evictN_in64)
    have "0 \<le> totalDisk (take (length (ll c) - m) (absList c))"
      "0 \<le> totalDisk (drop (length (ll c) - m) (absList c))"
      using items by (simp_all add: totalDisk_nonneg items_ok_take items_ok_drop)
    then have "wrap64 (currentSize c + 0 - totalDisk (drop (length (ll c) - m) (absList c))) =
        reservedSize c + totalDisk (take (length (ll c) - m) (absList c))"
      using okd totalDisk_take_drop [of "length (ll c) - m" "absList c"]
      by (subst wrap64_range) simp_all
    then show ?thesis using evictN_effects(1) [OF dist that, of 0] * by simp
  qed
  have cond: "sumLargerThan n (currentSize (evictN m c)) (maxSize c) \<longleftrightarrow>
      n + reservedSize c + totalDisk (take (length (ll c) - m) (absList c)) > maxSize c"
    if "m \<le> length (ll c)" for m
  proof -
    have "0 \<le> totalDisk (take (length (ll c) - m) (absList c))"
      "0 \<le> totalDisk (drop (length (ll c) - m) (absList c))"
      using items by (simp_all add: totalDisk_nonneg items_ok_take items_ok_drop)
    then show ?thesis
      using okd n totalDisk_take_drop [of "length (ll c) - m" "absList c"] unfolding cur [OF that]
      by (subst sumLargerThan_iff) (auto simp: in64_def)
  qed
  have len: "length ?kept \<le> length (ll c)" using length_fit_le [of ?b "absList c"] by simp
  show ?thesis
    unfolding evictTo_def
  proof (rule reserveEvict_evictN)
    fix m assume m: "m < length (ll c) - length ?kept"
    then have "?b < totalDisk (take (length (ll c) - m) (absList c))"
      using items len by (intro fit_maximal) simp_all
    then show "sumLargerThan n (currentSize (evictN m c)) (maxSize c) \<and> ll (evictN m c) \<noteq> []"
      using m cond [of m] n evictN_ll [OF dist, of m] by auto
  next
    have "take (length ?kept) (absList c) = ?kept" using fit_prefix by metis
    then show "\<not> sumLargerThan n (currentSize (evictN (length (ll c) - length ?kept) c)) (maxSize c)"
      using cond [of "length (ll c) - length ?kept"] len n
        totalDisk_fit_le [of ?b "absList c"] by simp
  qed
qed

end
