(* ===== verification/LRU_Correct.thy ===== *)
theory LRU_Correct
  imports LRU_Spec
begin

text \<open>
  The operations of the LRU index refine their specifications, the interface that the disk
  cache relies on (locale \<open>bounded_index\<close>) with the facts proved once inside it, and its
  interpretation on the model of \<open>lru.go\<close>. The end of the theory is the state machine of the
  index: every state reached from \<open>NewSizedLRU\<close> by its operations satisfies \<open>lru_ok\<close>.
\<close>

section \<open>Refinement, one operation at a time\<close>

lemma lru_okD:
  assumes "lru_ok c"
  shows "lru_wf c" "items_ok (absList c)" "0 < maxSize c" "maxSize c \<le> 4611686018427387903"
    "0 \<le> reservedSize c" "currentSize c = reservedSize c + totalDisk (absList c)"
    "currentSize c \<le> maxSize c" "uncompressedSize c = wrap64 (totalLogical (absList c))"
    "0 \<le> totalDisk (absList c)" "distinct (map fst (absList c))"
  using assms totalDisk_nonneg absList_distinct by (auto simp: lru_ok_def)

lemma lruAbs_sel [simp]:
  "entries (lruAbs c) = absList c" "reserved (lruAbs c) = reservedSize c"
  "capacity (lruAbs c) = maxSize c"
  by (simp_all add: lruAbs_def)

lemma lru_wf_cong:
  "ll a = ll b \<Longrightarrow> elems a = elems b \<Longrightarrow> cacheMap a = cacheMap b \<Longrightarrow> nextElem a = nextElem b \<Longrightarrow>
   lru_wf a \<longleftrightarrow> lru_wf b"
  by (simp add: lru_wf_def)

lemma New_ok:
  "0 < m \<Longrightarrow> m \<le> 4611686018427387903 \<Longrightarrow> lru_ok (NewSizedLRU m h)"
  by (simp add: lru_ok_def lru_wf_def NewSizedLRU_def absList_def wrap64_range)

text \<open>The common tail of both branches of \<open>Add\<close>.\<close>

lemma addFinish_fit:
  assumes wf: "lru_wf c" and items: "items_ok (absList c)"
    and m: "0 < maxSize c" "maxSize c \<le> 4611686018427387903"
    and r: "0 \<le> reservedSize c" "reservedSize c \<le> maxSize c"
    and tot: "reservedSize c + totalDisk (absList c) \<le> maxInt64"
    and cur: "add64 (currentSize c) d = reservedSize c + totalDisk (absList c)"
    and unc: "add64 (uncompressedSize c) u = wrap64 (totalLogical (absList c))"
  shows "\<exists>c'. addFinish d u c = Some (True, c') \<and> lru_ok c' \<and>
      absList c' = fit (maxSize c - reservedSize c) (absList c) \<and>
      reservedSize c' = reservedSize c \<and> maxSize c' = maxSize c \<and> onEvictSet c' = onEvictSet c \<and>
      evictCalls c' = evictCalls c @
        (if onEvictSet c then rev (drop (length (absList c')) (absList c)) else [])"
proof -
  let ?b = "maxSize c - reservedSize c"
  let ?kept = "fit ?b (absList c)" and ?e = "evictTo ?b c"
  let ?c' = "?e\<lparr>currentSize := add64 (currentSize ?e) d,
                uncompressedSize := add64 (uncompressedSize ?e) u\<rparr>"
  have run: "addEvict d c = Some ?e"
    by (rule addEvict_fit) (use assms in auto)
  note ev = evictTo_facts [OF wf, of ?b]
  have abs: "absList ?c' = ?kept" using ev(1) by (simp add: absList_def)
  have kept: "items_ok ?kept"
    using fit_prefix [of ?b "absList c"] items by (metis items_ok_take)
  have tk: "0 \<le> totalDisk ?kept" "totalDisk ?kept \<le> ?b"
    using kept r by (simp_all add: totalDisk_nonneg totalDisk_fit_le)
  have "wrap64 (currentSize c + d) = wrap64 (reservedSize c + totalDisk (absList c))"
    using cur by (metis add64_def wrap64_idem)
  then have "wrap64 (currentSize c + d - (totalDisk (absList c) - totalDisk ?kept)) =
      wrap64 (reservedSize c + totalDisk (absList c) - (totalDisk (absList c) - totalDisk ?kept))"
    by (metis wrap64_diff_left)
  then have c1: "add64 (currentSize ?e) d = reservedSize c + totalDisk ?kept"
    using ev(3) [of d] tk r m by (simp add: wrap64_range)
  have "wrap64 (uncompressedSize c + u) = wrap64 (totalLogical (absList c))"
    using unc by (metis add64_def wrap64_idem)
  then have "wrap64 (uncompressedSize c + u - (totalLogical (absList c) - totalLogical ?kept)) =
      wrap64 (totalLogical (absList c) - (totalLogical (absList c) - totalLogical ?kept))"
    by (metis wrap64_diff_left)
  then have u1: "add64 (uncompressedSize ?e) u = wrap64 (totalLogical ?kept)"
    using ev(4) [of u] by simp
  have "lru_wf ?c'" using ev(2) by (simp add: lru_wf_def)
  then have "lru_ok ?c'"
    using kept m r tk unfolding lru_ok_def abs by (simp add: c1 u1)
  then show ?thesis
    using run abs ev(5) by (simp add: addFinish_def)
qed

lemma Add_insert_prep:
  fixes c :: "'k sizedLRU" and v :: lruItem
  assumes wf: "lru_wf c" and new: "cacheMap c k = None"
  defines "c1 \<equiv> c\<lparr>elems := (elems c)(nextElem c := (k, v)), nextElem := Suc (nextElem c),
                 ll := nextElem c # ll c, cacheMap := (cacheMap c)(k \<mapsto> nextElem c)\<rparr>"
  shows "lru_wf c1" "absList c1 = (k, v) # absList c"
proof -
  have fresh: "nextElem c \<notin> set (ll c)" using wf by (auto simp: lru_wf_def)
  have absent: "\<forall>e \<in> set (ll c). fst (elems c e) \<noteq> k"
    using wf new unfolding lru_wf_def by (metis option.distinct(1))
  show "lru_wf c1"
    using wf fresh absent by (auto simp: lru_wf_def c1_def)
  show "absList c1 = (k, v) # absList c"
    using fresh by (auto simp: absList_def c1_def)
qed

lemma Add_overwrite_prep:
  fixes c :: "'k sizedLRU" and v :: lruItem
  assumes wf: "lru_wf c" and old: "cacheMap c k = Some e"
  defines "c1 \<equiv> c\<lparr>ll := e # remove1 e (ll c), elems := (elems c)(e := (fst (elems c e), v))\<rparr>"
  shows "lru_wf c1" "absList c1 = (k, v) # without k (absList c)"
proof -
  have e: "e \<in> set (ll c)" "fst (elems c e) = k" "distinct (ll c)"
    using wf old by (auto simp: lru_wf_def)
  have r: "map ((elems c)(e := (k, v))) (remove1 e (ll c)) = map (elems c) (remove1 e (ll c))"
    using e by (auto simp: set_remove1_distinct)
  show "absList c1 = (k, v) # without k (absList c)"
    using r map_remove1_key [OF wf old] e by (simp add: absList_def c1_def)
  show "lru_wf c1"
    using wf e lru_wf_inj [OF wf]
    by (auto simp: lru_wf_def c1_def set_remove1_distinct inj_on_def)
qed

lemma Add_refines:
  assumes ok: "lru_ok c" and v: "size_ok (sizeOnDisk v)"
  shows "\<exists>b c'. Add k v c = Some (b, c') \<and> lru_ok c' \<and> specAdd k v (lruAbs c) = (b, lruAbs c') \<and>
           onEvictSet c' = onEvictSet c"
proof -
  note d = lru_okD [OF ok]
  let ?new = "roundUp4k (sizeOnDisk v)"
  have new: "diskUse (k, v) = ?new" "0 \<le> ?new" using v by (simp_all add: diskUse_def roundUp4k_nonneg)
  show ?thesis
  proof (cases "?new > maxSize c")
    case True
    then show ?thesis
      using ok new by (intro exI [of _ False] exI [of _ c]) (simp add: Add_def specAdd_def)
  next
    case small: False
    show ?thesis
    proof (cases "cacheMap c k")
      case None
      have old: "map_of (absList c) k = None" using None d(1) by (simp add: map_of_absList)
      have sum: "add64 (reservedSize c) ?new = reservedSize c + ?new"
        unfolding add64_def by (rule wrap64_range) (use d small new in linarith)+
      show ?thesis
      proof (cases "reservedSize c + ?new > maxSize c")
        case True
        then show ?thesis
          using ok small None old sum new
          by (intro exI [of _ False] exI [of _ c]) (simp add: Add_def specAdd_def)
      next
        case False
        let ?c1 = "c\<lparr>elems := (elems c)(nextElem c := (k, v)), nextElem := Suc (nextElem c),
                 ll := nextElem c # ll c, cacheMap := (cacheMap c)(k \<mapsto> nextElem c)\<rparr>"
        note p = Add_insert_prep [OF d(1) None, of v]
        obtain c' where c': "addFinish ?new (roundUp4k (itemSize v)) ?c1 = Some (True, c')"
          "lru_ok c'" "absList c' = fit (maxSize c - reservedSize c) ((k, v) # absList c)"
          "reservedSize c' = reservedSize c" "maxSize c' = maxSize c" "onEvictSet c' = onEvictSet c"
        proof -
          have "\<exists>c'. addFinish ?new (roundUp4k (itemSize v)) ?c1 = Some (True, c') \<and> lru_ok c' \<and>
            absList c' = fit (maxSize ?c1 - reservedSize ?c1) (absList ?c1) \<and>
            reservedSize c' = reservedSize ?c1 \<and> maxSize c' = maxSize ?c1 \<and>
            onEvictSet c' = onEvictSet ?c1 \<and>
            evictCalls c' = evictCalls ?c1 @
              (if onEvictSet ?c1 then rev (drop (length (absList c')) (absList ?c1)) else [])"
            by (rule addFinish_fit [OF p(1)])
              (use d v new small in \<open>simp_all add: p(2) add64_def wrap64_range logicalUse_def add.commute\<close>)
          then show ?thesis using that by (auto simp: p(2))
        qed
        show ?thesis
          using small False None old sum new c'
          by (auto simp: Add_def specAdd_def Let_def lruAbs_def without_absent)
      qed
    next
      case (Some e)
      let ?prev = "snd (elems c e)"
      have e: "e \<in> set (ll c)" "fst (elems c e) = k" using Some d(1) by (auto simp: lru_wf_def)
      have old: "map_of (absList c) k = Some ?prev" using Some d(1) by (simp add: map_of_absList)
      then have mem: "(k, ?prev) \<in> set (absList c)" by (rule map_of_SomeD)
      have rest: "totalDisk (without k (absList c)) = totalDisk (absList c) - diskUse (k, ?prev)"
        by (rule totalDisk_without [OF d(10) old])
      have iw: "items_ok (without k (absList c))" using d(2) by (rule items_ok_without)
      have po: "0 \<le> diskUse (k, ?prev)" "diskUse (k, ?prev) \<le> totalDisk (absList c)"
        using mem d(2) rest totalDisk_nonneg [OF iw]
        by (auto simp: items_ok_def intro!: diskUse_nonneg)
      have delta: "sub64 ?new (roundUp4k (sizeOnDisk ?prev)) = ?new - diskUse (k, ?prev)"
        using d po small new by (simp add: sub64_def wrap64_range diskUse_def)
      have sum: "add64 (reservedSize c) (?new - diskUse (k, ?prev)) =
          reservedSize c + ?new - diskUse (k, ?prev)"
        using d po small new by (simp add: add64_def wrap64_range)
      show ?thesis
      proof (cases "reservedSize c + ?new - diskUse (k, ?prev) > maxSize c")
        case True
        then show ?thesis
          using ok small Some old sum delta new
          by (intro exI [of _ False] exI [of _ c]) (simp add: Add_def specAdd_def Let_def)
      next
        case False
        let ?u = "sub64 (roundUp4k (itemSize v)) (roundUp4k (itemSize ?prev))"
        let ?c0 = "c\<lparr>ll := e # remove1 e (ll c), elems := (elems c)(e := (fst (elems c e), v))\<rparr>"
        let ?c1 = "callOnEvict (k, ?prev) ((moveToFront e c)
          \<lparr>overwrittenBytes := overwrittenBytes (moveToFront e c) + sizeOnDisk ?prev\<rparr>)"
        let ?c2 = "?c1\<lparr>elems := (elems ?c1)(e := (fst (elems ?c1 e), v))\<rparr>"
        have same: "ll ?c2 = ll ?c0" "elems ?c2 = elems ?c0" "cacheMap ?c2 = cacheMap ?c0"
          "nextElem ?c2 = nextElem ?c0"
          using e by (simp_all add: moveToFront_def)
        have sel: "reservedSize ?c2 = reservedSize c" "maxSize ?c2 = maxSize c"
          "currentSize ?c2 = currentSize c" "uncompressedSize ?c2 = uncompressedSize c"
          "onEvictSet ?c2 = onEvictSet c"
          using e by (simp_all add: moveToFront_def)
        note p = Add_overwrite_prep [OF d(1) Some, of v]
        have wf: "lru_wf ?c2" by (rule lru_wf_cong [OF same, THEN iffD2, OF p(1)])
        have abs: "absList ?c2 = (k, v) # without k (absList c)"
          using p(2) by (simp only: absList_def same)
        have lg: "wrap64 (totalLogical (absList c) + ?u) =
            wrap64 (totalLogical ((k, v) # without k (absList c)))"
        proof -
          have "totalLogical (absList c) = totalLogical (without k (absList c)) + logicalUse (k, ?prev)"
            using totalLogical_without [OF d(10) old] by simp
          then show ?thesis
            by (simp only: sub64_def wrap64_add_right) (simp add: logicalUse_def add.commute)
        qed
        have "\<exists>c'. addFinish (?new - diskUse (k, ?prev)) ?u ?c2 = Some (True, c') \<and> lru_ok c' \<and>
            absList c' = fit (maxSize ?c2 - reservedSize ?c2) (absList ?c2) \<and>
            reservedSize c' = reservedSize ?c2 \<and> maxSize c' = maxSize ?c2 \<and>
            onEvictSet c' = onEvictSet ?c2 \<and>
            evictCalls c' = evictCalls ?c2 @
              (if onEvictSet ?c2 then rev (drop (length (absList c')) (absList ?c2)) else [])"
          unfolding abs sel
          by (rule addFinish_fit [OF wf, unfolded abs sel])
            (use d v new small iw rest po lg in \<open>simp_all add: add64_def wrap64_range\<close>)
        then show ?thesis
          using small False Some old sum delta new
          unfolding abs sel
          by (auto simp: Add_def specAdd_def Let_def lruAbs_def)
      qed
    qed
  qed
qed


lemma Get_refines:
  assumes ok: "lru_ok c"
  shows "specGet k (lruAbs c) = (fst (Get k c), lruAbs (snd (Get k c)))" (is ?g1)
    and "lru_ok (snd (Get k c))" (is ?g2)
    and "onEvictSet (snd (Get k c)) = onEvictSet c"
    and "evictCalls (snd (Get k c)) = evictCalls c"
proof -
  note d = lru_okD [OF ok]
  have main: "?g1 \<and> ?g2"
  proof (cases "cacheMap c k")
    case None
    then show ?thesis using ok d(1) by (simp add: Get_def specGet_def map_of_absList)
  next
    case (Some e)
    have e: "e \<in> set (ll c)" "fst (elems c e) = k" "distinct (ll c)"
      using Some d(1) by (auto simp: lru_wf_def)
    let ?c = "moveToFront e c"
    have old: "map_of (absList c) k = Some (snd (elems c e))" using Some d(1) by (simp add: map_of_absList)
    have abs: "absList ?c = (k, snd (elems c e)) # without k (absList c)"
      using map_remove1_key [OF d(1) Some] e
      by (simp add: absList_def moveToFront_def) (metis prod.collapse)
    have wf: "lru_wf ?c"
      using d(1) e by (auto simp: lru_wf_def moveToFront_def set_remove1_distinct)
    have t: "totalDisk (absList ?c) = totalDisk (absList c)"
      "totalLogical (absList ?c) = totalLogical (absList c)"
      using abs totalDisk_without [OF d(10) old] totalLogical_without [OF d(10) old] by simp_all
    have i: "items_ok (absList ?c)"
      using d(2) abs items_ok_without [OF d(2), of k] map_of_SomeD [OF old]
      by (auto simp: items_ok_def)
    have "lru_ok ?c"
      using d wf t i unfolding lru_ok_def by (simp add: moveToFront_def)
    then show ?thesis
      using Some old abs by (simp add: Get_def specGet_def lruAbs_def) (simp add: moveToFront_def)
  qed
  then show ?g1 ?g2 by blast+
  show "onEvictSet (snd (Get k c)) = onEvictSet c" "evictCalls (snd (Get k c)) = evictCalls c"
    by (auto simp: Get_def moveToFront_def split: option.splits)
qed

lemma Remove_refines:
  assumes ok: "lru_ok c"
  shows "lru_ok (Remove k c)" "lruAbs (Remove k c) = specRemove k (lruAbs c)"
proof -
  note d = lru_okD [OF ok]
  have "lru_ok (Remove k c) \<and> lruAbs (Remove k c) = specRemove k (lruAbs c)"
  proof (cases "cacheMap c k")
    case None
    then show ?thesis
      using ok d(1) by (simp add: Remove_def specRemove_def lruAbs_def without_absent map_of_absList)
  next
    case (Some e)
    have e: "e \<in> set (ll c)" "fst (elems c e) = k" using Some d(1) by (auto simp: lru_wf_def)
    have old: "map_of (absList c) k = Some (snd (elems c e))" using Some d(1) by (simp add: map_of_absList)
    note abs = absList_removeElement [OF d(1) Some]
    have iw: "items_ok (without k (absList c))" using d(2) by (rule items_ok_without)
    have t: "totalDisk (without k (absList c)) =
        totalDisk (absList c) - roundUp4k (sizeOnDisk (snd (elems c e)))"
      "totalLogical (without k (absList c)) =
        totalLogical (absList c) - roundUp4k (itemSize (snd (elems c e)))"
      using totalDisk_without [OF d(10) old] totalLogical_without [OF d(10) old]
      by (simp_all add: diskUse_def logicalUse_def)
    have "0 \<le> totalDisk (without k (absList c))" using iw by (rule totalDisk_nonneg)
    moreover have "0 \<le> roundUp4k (sizeOnDisk (snd (elems c e)))"
      using d(2) map_of_SomeD [OF old] by (auto simp: items_ok_def intro!: roundUp4k_nonneg)
    ultimately have "lru_ok (removeElement e c)"
      using d iw lru_wf_removeElement [OF d(1) e(1)] t unfolding lru_ok_def
      by (simp add: abs sub64_def wrap64_range)
    then show ?thesis using Some abs by (simp add: Remove_def specRemove_def lruAbs_def)
  qed
  then show "lru_ok (Remove k c)" "lruAbs (Remove k c) = specRemove k (lruAbs c)" by blast+
qed

lemma Reserve_refines:
  assumes ok: "lru_ok c" and n: "in64 n"
  shows "\<exists>r c'. Reserve n c = (r, c') \<and> lru_ok c' \<and>
     specReserve n (lruAbs c) = (r = Inr True, lruAbs c') \<and>
     (r = Inr True \<or> c' = c \<and> (\<exists>e. r = Inl e \<and> e \<noteq> ErrReservation)) \<and>
     onEvictSet c' = onEvictSet c"
proof -
  note d = lru_okD [OF ok]
  consider (zero) "n = 0" | (neg) "n < 0" | (big) "0 < n" "reservedSize c + n > maxSize c"
    | (fits) "0 < n" "reservedSize c + n \<le> maxSize c" by linarith
  then show ?thesis
  proof cases
    case zero
    then show ?thesis using ok by (simp add: Reserve_def specReserve_def)
  next
    case neg
    then show ?thesis using ok by (simp add: Reserve_def specReserve_def)
  next
    case big
    have "sumLargerThan n (reservedSize c) (maxSize c) \<longleftrightarrow> n + reservedSize c > maxSize c"
      using big d n by (intro sumLargerThan_iff) (auto simp: in64_def)
    then show ?thesis using big ok d by (simp add: Reserve_def specReserve_def)
  next
    case fits
    let ?b = "maxSize c - reservedSize c - n"
    let ?e = "evictTo ?b c" and ?kept = "fit ?b (absList c)"
    let ?c' = "?e\<lparr>currentSize := add64 (currentSize ?e) n, reservedSize := add64 (reservedSize ?e) n\<rparr>"
    have s: "\<not> sumLargerThan n (reservedSize c) (maxSize c)"
      using fits d n by (subst sumLargerThan_iff) (auto simp: in64_def)
    have R: "Reserve n c = (Inr True, ?c')"
      using fits s d(5) reserveEvict_fit [OF ok fits] by (simp add: Reserve_def)
    note ev = evictTo_facts [OF d(1), of ?b]
    have kept: "items_ok ?kept" using fit_prefix [of ?b "absList c"] d(2) by (metis items_ok_take)
    have tk: "0 \<le> totalDisk ?kept" "totalDisk ?kept \<le> ?b"
      using kept fits by (simp_all add: totalDisk_nonneg totalDisk_fit_le)
    have abs: "absList ?c' = ?kept" using ev(1) by (simp add: absList_def)
    have c1: "add64 (currentSize ?e) n = reservedSize c + n + totalDisk ?kept"
      using ev(3) [of n] d tk fits by (simp add: wrap64_range algebra_simps)
    have r1: "add64 (reservedSize c) n = reservedSize c + n"
      using d fits by (simp add: add64_def wrap64_range)
    have "in64 (uncompressedSize c)" using d(8) by simp
    then have "in64 (uncompressedSize ?e)"
      unfolding evictTo_def
      by (induction "length (ll c) - length ?kept" arbitrary: c) (auto simp: evictN_unc64)
    then have u1: "uncompressedSize ?e = wrap64 (totalLogical ?kept)"
      using ev(4) [of 0] d(8) by (simp add: add64_def wrap64_id)
    have "lru_wf ?c'" using ev(2) by (simp add: lru_wf_def)
    then have "lru_ok ?c'"
      using kept d tk fits unfolding lru_ok_def abs by (simp add: c1 u1 r1)
    then show ?thesis
      using R abs fits by (simp add: specReserve_def lruAbs_def r1)
  qed
qed

lemma Unreserve_refines:
  assumes ok: "lru_ok c" and n: "in64 n"
  shows "\<exists>r c'. Unreserve n c = (r, c') \<and> lru_ok c' \<and>
     specUnreserve n (lruAbs c) = (r = None, lruAbs c') \<and> (r \<noteq> None \<longrightarrow> c' = c) \<and>
     onEvictSet c' = onEvictSet c \<and> evictCalls c' = evictCalls c"
proof -
  note d = lru_okD [OF ok]
  have w: "sub64 (currentSize c) n = currentSize c - n" "sub64 (reservedSize c) n = reservedSize c - n"
    if "0 < n"
    using d n that by (simp_all add: sub64_def wrap64_range in64_def)
  have keep: "lru_ok (c\<lparr>currentSize := currentSize c - n, reservedSize := reservedSize c - n\<rparr>)"
    if "0 \<le> n" "n \<le> reservedSize c"
    using d that by (simp add: lru_ok_def lru_wf_def absList_def)
  consider (zero) "n = 0" | (neg) "n < 0" | (over) "0 < n" "reservedSize c < n"
    | (fits) "0 < n" "n \<le> reservedSize c" by linarith
  then show ?thesis
  proof cases
    case fits
    then have "currentSize c - n \<ge> 0" using d by linarith
    then show ?thesis
      using fits w keep by (simp add: Unreserve_def specUnreserve_def lruAbs_def absList_def Let_def)
  qed (use ok w d(5) in \<open>simp_all add: Unreserve_def specUnreserve_def lruAbs_def Let_def\<close>)
qed


section \<open>The interface of a bounded index\<close>

lemma specAdd_TrueD:
  "specAdd k v t = (True, t') \<Longrightarrow>
   t' = t\<lparr>entries := fit (capacity t - reserved t) ((k, v) # without k (entries t))\<rparr>"
  by (simp add: specAdd_def Let_def split: if_splits)

lemma specAdd_FalseD: "specAdd k v t = (False, t') \<Longrightarrow> t' = t"
  by (simp add: specAdd_def Let_def split: if_splits)

lemma specReserve_TrueD:
  "specReserve n t = (True, t') \<Longrightarrow>
   0 \<le> n \<and> (n = 0 \<or> reserved t + n \<le> capacity t) \<and>
   t' = (if n = 0 then t
         else t\<lparr>entries := fit (capacity t - reserved t - n) (entries t),
                reserved := reserved t + n\<rparr>)"
  by (auto simp: specReserve_def split: if_splits)

lemma specUnreserve_TrueD:
  "specUnreserve n t = (True, t') \<Longrightarrow> t' = t\<lparr>reserved := reserved t - n\<rparr>"
  by (simp add: specUnreserve_def split: if_splits)

lemma specUnreserve_ok: "0 \<le> n \<Longrightarrow> n \<le> reserved t \<Longrightarrow> fst (specUnreserve n t)"
  by (simp add: specUnreserve_def)

lemma specAdd_iff:
  "fst (specAdd k v t) \<longleftrightarrow>
     diskUse (k, v) \<le> capacity t \<and>
     reserved t + diskUse (k, v)
       - (case map_of (entries t) k of Some w \<Rightarrow> diskUse (k, w) | None \<Rightarrow> 0) \<le> capacity t"
  by (auto simp: specAdd_def Let_def)

text \<open>
  What the disk cache relies on: a state with an invariant \<open>ok\<close> and a view as an abstract
  index; every operation keeps the invariant and acts on the view as specified.
\<close>

locale bounded_index =
  fixes get :: "'k \<Rightarrow> 's \<Rightarrow> lruItem option \<times> 's"
    and peek :: "'k \<Rightarrow> 's \<Rightarrow> lruItem option"
    and add :: "'k \<Rightarrow> lruItem \<Rightarrow> 's \<Rightarrow> (bool \<times> 's) option"
    and reserve :: "int \<Rightarrow> 's \<Rightarrow> ('e + bool) \<times> 's"
    and unreserve :: "int \<Rightarrow> 's \<Rightarrow> 'e option \<times> 's"
    and ok :: "'s \<Rightarrow> bool"
    and view :: "'s \<Rightarrow> 'k lruSpec"
  assumes view_get: "ok s \<Longrightarrow> specGet k (view s) = (fst (get k s), view (snd (get k s)))"
    and ok_get: "ok s \<Longrightarrow> ok (snd (get k s))"
    and view_peek: "ok s \<Longrightarrow> peek k s = map_of (entries (view s)) k"
    and add_total: "ok s \<Longrightarrow> size_ok (sizeOnDisk v) \<Longrightarrow>
      \<exists>b s'. add k v s = Some (b, s') \<and> ok s' \<and> specAdd k v (view s) = (b, view s')"
    and reserve_total: "ok s \<Longrightarrow> in64 n \<Longrightarrow>
      \<exists>r s'. reserve n s = (r, s') \<and> ok s' \<and> specReserve n (view s) = (r = Inr True, view s') \<and>
             (r = Inr True \<or> s' = s)"
    and unreserve_total: "ok s \<Longrightarrow> in64 n \<Longrightarrow>
      \<exists>r s'. unreserve n s = (r, s') \<and> ok s' \<and> specUnreserve n (view s) = (r = None, view s') \<and>
             (r \<noteq> None \<longrightarrow> s' = s)"
    and view_bounds: "ok s \<Longrightarrow> 0 \<le> reserved (view s) \<and> items_ok (entries (view s)) \<and>
      reserved (view s) + totalDisk (entries (view s)) \<le> capacity (view s) \<and>
      distinct (map fst (entries (view s)))"
begin

lemma add_cases:
  assumes "ok s" "size_ok (sizeOnDisk v)"
  obtains s' where "add k v s = Some (True, s')" "ok s'"
      "reserved (view s') = reserved (view s)" "capacity (view s') = capacity (view s)"
      "entries (view s') =
         fit (capacity (view s) - reserved (view s)) ((k, v) # without k (entries (view s)))"
  | s' where "add k v s = Some (False, s')" "ok s'" "view s' = view s"
proof -
  obtain b s' where *: "add k v s = Some (b, s')" "ok s'" "specAdd k v (view s) = (b, view s')"
    using add_total assms by blast
  show ?thesis
    using * that by (cases b) (auto dest: specAdd_TrueD specAdd_FalseD)
qed

lemma add_present:
  assumes "ok s" "size_ok (sizeOnDisk v)"
  shows "(\<exists>s'. add k v s = Some (True, s') \<and> peek k s' = Some v) \<longleftrightarrow>
           reserved (view s) + diskUse (k, v) \<le> capacity (view s)"
proof -
  let ?s = "view s"
  let ?old = "case map_of (entries ?s) k of Some w \<Rightarrow> diskUse (k, w) | None \<Rightarrow> 0"
  have b: "0 \<le> reserved ?s" "items_ok (entries ?s)" using view_bounds assms(1) by blast+
  have old: "0 \<le> ?old"
    using b(2) by (auto simp: items_ok_def dest!: map_of_SomeD intro!: diskUse_nonneg split: option.splits)
  obtain r s' where *: "add k v s = Some (r, s')" "ok s'" "specAdd k v ?s = (r, view s')"
    using add_total assms by blast
  have rr: "r \<longleftrightarrow> fst (specAdd k v ?s)" using *(3) by simp
  have ent: "entries (view s') = fit (capacity ?s - reserved ?s) ((k, v) # without k (entries ?s))" if r
    using specAdd_TrueD [of k v ?s "view s'"] *(3) that by simp
  show ?thesis
  proof (cases "reserved ?s + diskUse (k, v) \<le> capacity ?s")
    case True
    then have r using old b(1) by (simp add: rr specAdd_iff)
    then have "peek k s' = Some v" using True ent view_peek [OF *(2)] by simp
    then show ?thesis using True * \<open>r\<close> by simp
  next
    case False
    then have "peek k s' \<noteq> Some v" if r using ent [OF that] view_peek [OF *(2)] by simp
    then show ?thesis using False * by auto
  qed
qed

lemma reserve_then_unreserve:
  assumes "ok s" "in64 n" "reserve n s = (Inr True, s1)"
  shows "\<exists>s2. unreserve n s1 = (None, s2) \<and> ok s1 \<and> ok s2 \<and>
      reserved (view s1) = reserved (view s) + n \<and> 0 \<le> n \<and>
      reserved (view s2) = reserved (view s) \<and> capacity (view s2) = capacity (view s) \<and>
      entries (view s2) = entries (view s1) \<and>
      entries (view s1) = (if n = 0 then entries (view s)
        else fit (capacity (view s) - reserved (view s) - n) (entries (view s)))"
proof -
  have b: "0 \<le> reserved (view s)" using view_bounds assms(1) by blast
  obtain r s' where r: "reserve n s = (r, s')" "ok s'" "specReserve n (view s) = (r = Inr True, view s')"
    using reserve_total assms by blast
  then have ok1: "ok s1" and v1: "specReserve n (view s) = (True, view s1)" using assms(3) by auto
  obtain r2 s2 where u: "unreserve n s1 = (r2, s2)" "ok s2"
    "specUnreserve n (view s1) = (r2 = None, view s2)"
    using unreserve_total ok1 assms(2) by blast
  note t = specReserve_TrueD [OF v1]
  have n0: "0 \<le> n" using t by simp
  have r1: "reserved (view s1) = reserved (view s) + n" "capacity (view s1) = capacity (view s)"
    "entries (view s1) = (if n = 0 then entries (view s)
        else fit (capacity (view s) - reserved (view s) - n) (entries (view s)))"
    using t by auto
  have "r2 = None" using specUnreserve_ok [of n "view s1"] u(3) n0 r1 b by simp
  then have "r2 = None \<and> view s2 = (view s1)\<lparr>reserved := reserved (view s1) - n\<rparr>"
    using specUnreserve_TrueD [of n "view s1" "view s2"] u(3) by simp
  then show ?thesis using u ok1 r1 n0 by auto
qed

lemma unreserve_exact:
  assumes "ok s" "in64 n" "0 \<le> n" "n \<le> reserved (view s)"
  shows "\<exists>s'. unreserve n s = (None, s') \<and> ok s' \<and>
     view s' = (view s)\<lparr>reserved := reserved (view s) - n\<rparr>"
proof -
  obtain r s' where "unreserve n s = (r, s')" "ok s'" "specUnreserve n (view s) = (r = None, view s')"
    using unreserve_total assms by blast
  then show ?thesis using assms by (auto simp: specUnreserve_def)
qed

end

lemma ok_size64: "lru_ok c \<Longrightarrow> in64 (maxSize c)"
  using lru_okD(3,4) by (force simp: in64_def)

interpretation lq: bounded_index Get Peek Add Reserve Unreserve lru_ok lruAbs
proof
  show "\<And>s k. lru_ok s \<Longrightarrow> specGet k (lruAbs s) = (fst (Get k s), lruAbs (snd (Get k s)))"
    by (rule Get_refines(1))
  show "\<And>s k. lru_ok s \<Longrightarrow> lru_ok (snd (Get k s))" by (rule Get_refines(2))
  show "\<And>s k. lru_ok s \<Longrightarrow> Peek k s = map_of (entries (lruAbs s)) k"
    by (simp add: Peek_map_of lru_okD(1))
qed (use Add_refines Reserve_refines Unreserve_refines lru_okD in \<open>fastforce+\<close>)

end
