(* ===== verification/LRU_Props.thy ===== *)
theory LRU_Props
  imports LRU_Correct
begin

text \<open>
  The properties of the LRU index (\<open>cache/disk/lru.go\<close>) with their witnesses: the invariant of
  every reachable index, the refinement of \<open>Add\<close> and of \<open>Reserve\<close> on every branch, the rounding
  and overflow helpers, and when an added item is really in the index.
\<close>

section \<open>Reachable indexes\<close>

inductive lru_reach :: "int \<Rightarrow> bool \<Rightarrow> 'k sizedLRU \<Rightarrow> bool" for m h where
  new: "lru_reach m h (NewSizedLRU m h)"
| add: "lru_reach m h c \<Longrightarrow> size_ok (sizeOnDisk v) \<Longrightarrow> Add k v c = Some (b, c') \<Longrightarrow> lru_reach m h c'"
| get: "lru_reach m h c \<Longrightarrow> lru_reach m h (snd (Get k c))"
| remove: "lru_reach m h c \<Longrightarrow> lru_reach m h (Remove k c)"
| reserve: "lru_reach m h c \<Longrightarrow> in64 n \<Longrightarrow> lru_reach m h (snd (Reserve n c))"
| unreserve: "lru_reach m h c \<Longrightarrow> in64 n \<Longrightarrow> lru_reach m h (snd (Unreserve n c))"

lemma specAdd_capacity: "capacity (snd (specAdd k v s)) = capacity s"
  by (simp add: specAdd_def Let_def)

lemma specReserve_capacity: "capacity (snd (specReserve n s)) = capacity s"
  by (simp add: specReserve_def)

lemma specUnreserve_capacity: "capacity (snd (specUnreserve n s)) = capacity s"
  by (simp add: specUnreserve_def)

lemma specGet_capacity: "capacity (snd (specGet k s)) = capacity s"
  by (simp add: specGet_def split: option.splits)

lemma lru_reach_ok:
  "lru_reach m h c \<Longrightarrow> 0 < m \<Longrightarrow> m \<le> 4611686018427387903 \<Longrightarrow> lru_ok c \<and> maxSize c = m"
proof (induction rule: lru_reach.induct)
  case new
  then show ?case by (simp add: New_ok) (simp add: NewSizedLRU_def)
next
  case (add c v k b c')
  then show ?case
    using Add_refines [of c v k] specAdd_capacity [of k v "lruAbs c"] by auto
next
  case (get c k)
  then show ?case
    using Get_refines(1,2) [of c k] specGet_capacity [of k "lruAbs c"] by auto
next
  case (remove c k)
  then show ?case
    using Remove_refines [of c k] lruAbs_sel(3) [of "Remove k c"]
    by (simp add: specRemove_def del: lruAbs_sel(3)) (simp add: lruAbs_def)
next
  case (reserve c n)
  then obtain r c' where "Reserve n c = (r, c')" "lru_ok c'"
    "specReserve n (lruAbs c) = (r = Inr True, lruAbs c')"
    using Reserve_refines [of c n] by blast
  with reserve show ?case
    using specReserve_capacity [of n "lruAbs c"] by simp
next
  case (unreserve c n)
  then obtain r c' where "Unreserve n c = (r, c')" "lru_ok c'"
    "specUnreserve n (lruAbs c) = (r = None, lruAbs c')"
    using Unreserve_refines [of c n] by blast
  with unreserve show ?case
    using specUnreserve_capacity [of n "lruAbs c"] by simp
qed

lemma Len_absList: "lru_wf c \<Longrightarrow> Len c = length (absList c)"
proof -
  assume wf: "lru_wf c"
  have "dom (cacheMap c) = (\<lambda>e. fst (elems c e)) ` set (ll c)"
    using wf by (auto simp: lru_wf_def dom_def)
  then show ?thesis
    using wf lru_wf_inj [OF wf] by (simp add: Len_def card_image distinct_card lru_wf_def)
qed

text \<open>
  Property C1. In every state that the operations of the index can reach from an empty index
  with a maximum below 4 EiB, the three data structures agree and the accounting is exact: the
  current size is the reserved bytes plus the rounded sizes of the live items, it never exceeds
  the maximum, reserved bytes are never negative, \<open>Len\<close> counts the live items, no key occurs
  twice, and the uncompressed total is the (wrapped) sum of the rounded logical sizes.
\<close>

theorem lru_reachable_invariant:
  assumes "0 < m" "m \<le> 4611686018427387903" "lru_reach m h c"
  shows "currentSize c = reservedSize c + totalDisk (absList c) \<and>
    currentSize c \<le> m \<and> 0 \<le> reservedSize c \<and> Len c = length (absList c) \<and>
    distinct (map fst (absList c)) \<and> (\<forall>k. Peek k c = map_of (absList c) k) \<and>
    uncompressedSize c = wrap64 (totalLogical (absList c))"
  using lru_reach_ok [OF assms(3,1,2)] lru_okD [of c]
  by (auto simp: Len_absList Peek_map_of)

definition demoItem :: "int \<Rightarrow> lruItem" where
  "demoItem n = \<lparr>itemSize = n, sizeOnDisk = n, randomStr = ''1'', legacy = False\<rparr>"

lemma demoItem_sel [simp]: "sizeOnDisk (demoItem n) = n" "itemSize (demoItem n) = n"
  by (simp_all add: demoItem_def)

lemma roundUp4k_demo [simp]:
  "roundUp4k 100 = 4096" "roundUp4k 5000 = 8192" "roundUp4k 4096 = 4096" "roundUp4k 8192 = 8192"
  by (simp_all add: roundUp4k_eq size_ok_def)

theorem lru_reachable_invariant_witness:
  "lru_reach 12288 True (snd (Reserve 8192 (snd (Get ''k'' (NewSizedLRU 12288 True))))) \<and>
   currentSize (snd (Reserve 8192 (snd (Get ''k'' (NewSizedLRU 12288 True))))) \<le> 12288"
proof -
  have r: "lru_reach 12288 True (snd (Reserve 8192 (snd (Get ''k'' (NewSizedLRU 12288 True)))))"
    by (rule lru_reach.reserve [OF lru_reach.get [OF lru_reach.new]]) (simp add: in64_def)
  have "0 < (12288 :: int)" "(12288 :: int) \<le> 4611686018427387903" by simp_all
  note inv = lru_reachable_invariant [OF this r]
  show ?thesis by (rule conjI [OF r inv [THEN conjunct2, THEN conjunct1]])
qed

section \<open>Adding and reserving\<close>

text \<open>
  Property C2. \<open>Add\<close> always returns (its eviction loop ends), keeps the invariant, and does
  what the specification says: it refuses exactly the items that are larger than the cache or
  do not fit beside the reserved space, leaving the index unchanged; otherwise the new item
  becomes the most recent one and the index keeps the longest prefix of the recency order that
  fits, evicting the rest from the least recent end.
\<close>

theorem Add_implements_spec:
  assumes "lru_ok c" "size_ok (sizeOnDisk v)"
  shows "\<exists>b c'. Add k v c = Some (b, c') \<and> lru_ok c' \<and> specAdd k v (lruAbs c) = (b, lruAbs c') \<and>
    (\<forall>n. b \<and> length (absList c') < n \<and> n \<le> length ((k, v) # without k (absList c)) \<longrightarrow>
       maxSize c - reservedSize c < totalDisk (take n ((k, v) # without k (absList c))))"
proof -
  obtain b c' where *: "Add k v c = Some (b, c')" "lru_ok c'" "specAdd k v (lruAbs c) = (b, lruAbs c')"
    using Add_refines [OF assms] by blast
  have items: "items_ok ((k, v) # without k (absList c))"
    using assms(2) items_ok_without [OF lru_okD(2) [OF assms(1)]] by simp
  have "maxSize c - reservedSize c < totalDisk (take n ((k, v) # without k (absList c)))"
    if b "length (absList c') < n" "n \<le> length ((k, v) # without k (absList c))" for n
  proof -
    have "lruAbs c' = (lruAbs c)\<lparr>entries := fit (maxSize c - reservedSize c) ((k, v) # without k (absList c))\<rparr>"
      using specAdd_TrueD [of k v "lruAbs c" "lruAbs c'"] *(3) that(1) by (simp only: lruAbs_sel)
    from arg_cong [OF this, of entries]
    have e: "absList c' = fit (maxSize c - reservedSize c) ((k, v) # without k (absList c))"
      by (simp del: fit.simps)
    show ?thesis by (rule fit_maximal [OF items that(2) [unfolded e] that(3)])
  qed
  with * show ?thesis by blast
qed

theorem Add_implements_spec_witness:
  "\<exists>b c'. Add ''k'' (demoItem 5000) (NewSizedLRU 12288 True) = Some (b, c') \<and> lru_ok c' \<and> b"
proof -
  have ok: "lru_ok (NewSizedLRU 12288 True)" by (rule New_ok) simp_all
  have "size_ok (sizeOnDisk (demoItem 5000))" by (simp add: size_ok_def)
  from Add_implements_spec [OF ok this, of "''k''"] show ?thesis
    by (auto simp: specAdd_def lruAbs_def diskUse_def NewSizedLRU_def absList_def)
qed

text \<open>
  The outcome of \<open>Reserve\<close> on every branch, and its effect: the three refusals
  (negative size, larger than the cache, not enough space beside the existing reservations)
  leave the index unchanged, every other request succeeds after evicting exactly the least
  recent items that do not fit. The internal error \<open>errReservation\<close> never occurs.
\<close>

theorem Reserve_outcome:
  assumes "lru_ok c" "in64 n"
  shows "fst (Reserve n c) =
      (if n = 0 then Inr True
       else if n < 0 then Inl (NegativeBlobSize n)
       else if n > maxSize c then Inl (LargerThanCache n (maxSize c))
       else if reservedSize c + n > maxSize c then Inl (UnableToReserve n)
       else Inr True) \<and>
    lru_ok (snd (Reserve n c)) \<and>
    specReserve n (lruAbs c) = (fst (Reserve n c) = Inr True, lruAbs (snd (Reserve n c))) \<and>
    (fst (Reserve n c) \<noteq> Inr True \<longrightarrow> snd (Reserve n c) = c)"
proof -
  note d = lru_okD [OF assms(1)]
  obtain r c' where *: "Reserve n c = (r, c')" "lru_ok c'"
    "specReserve n (lruAbs c) = (r = Inr True, lruAbs c')" "r = Inr True \<or> c' = c"
    using Reserve_refines [OF assms] by blast
  have "sumLargerThan n (reservedSize c) (maxSize c) \<longleftrightarrow> n + reservedSize c > maxSize c" if "0 < n"
    using that d assms(2) by (intro sumLargerThan_iff) (auto simp: in64_def)
  moreover have "r = Inr True" if "0 < n" "reservedSize c + n \<le> maxSize c"
    using *(3) that by (simp add: specReserve_def)
  ultimately show ?thesis
    using * by (cases "0 < n") (auto simp: Reserve_def add.commute split: if_splits)
qed

theorem Reserve_outcome_witness:
  "lru_ok (NewSizedLRU 12288 True :: string sizedLRU) \<and>
   fst (Reserve 20000 (NewSizedLRU 12288 True :: string sizedLRU)) = Inl (LargerThanCache 20000 12288)"
proof -
  have ok: "lru_ok (NewSizedLRU 12288 True :: string sizedLRU)" by (rule New_ok) simp_all
  have "in64 20000" by (simp add: in64_def)
  from Reserve_outcome [OF ok this] ok show ?thesis by (simp add: NewSizedLRU_def)
qed

text \<open>
  An item that \<open>Add\<close> accepts is in the index afterwards exactly when its rounded
  size fits beside the reserved bytes. \<open>Add\<close> itself only tests that the growth of the entry
  fits, so replacing an existing key while much space is reserved can return \<open>true\<close> although
  the new item has been evicted again.
\<close>

theorem Add_present_iff:
  assumes "lru_ok c" "size_ok (sizeOnDisk v)"
  shows "(\<exists>c'. Add k v c = Some (True, c') \<and> Peek k c' = Some v) \<longleftrightarrow>
           reservedSize c + roundUp4k (sizeOnDisk v) \<le> maxSize c"
  using lq.add_present [OF assms, of k] by (simp add: diskUse_def)

theorem Add_present_iff_witness:
  "\<exists>c'. Add ''k'' (demoItem 100) (NewSizedLRU 4096 True) = Some (True, c') \<and>
        Peek ''k'' c' = Some (demoItem 100)"
proof -
  have ok: "lru_ok (NewSizedLRU 4096 True :: string sizedLRU)" by (rule New_ok) simp_all
  have v: "size_ok (sizeOnDisk (demoItem 100))" by (simp add: size_ok_def)
  show ?thesis using Add_present_iff [OF ok v, of "''k''"] by (simp add: NewSizedLRU_def)
qed

text \<open>
  A concrete run of that corner: in a cache of three blocks, an item of one block
  is stored and two blocks are reserved; replacing the item by one of two blocks makes \<open>Add\<close>
  return \<open>true\<close>, but the key is gone and both the old and the new file have been handed to the
  eviction callback.
\<close>

theorem Add_true_but_absent:
  "\<exists>c1 c2 c3.
     Add ''k'' (demoItem 100) (NewSizedLRU 12288 True) = Some (True, c1) \<and>
     Reserve 8192 c1 = (Inr True, c2) \<and>
     Add ''k'' (demoItem 5000) c2 = Some (True, c3) \<and>
     Peek ''k'' c3 = None \<and>
     evictCalls c3 = [(''k'', demoItem 100), (''k'', demoItem 5000)]"
  by (simp add: Add_def addFinish_def addEvict.simps NewSizedLRU_def Reserve_def Peek_def
      reserveEvict.simps sumLargerThan_def go_arith wrap64_def moveToFront_def callOnEvict_def
      removeElement_def llBack_def Let_def)

section \<open>Arithmetic helpers\<close>

text \<open>
  \<open>roundUp4k\<close>, a sum and a bit mask on \<open>int64\<close>, returns the least multiple of
  4096 that is not below the file size, for every size up to \<open>2 ^ 63 - 4096\<close>.
\<close>

theorem roundUp4k_least_multiple:
  assumes "0 \<le> n" "n \<le> 9223372036854771712"
  shows "4096 dvd roundUp4k n \<and> n \<le> roundUp4k n \<and>
    (\<forall>j. 4096 dvd j \<and> n \<le> j \<longrightarrow> roundUp4k n \<le> j)"
proof -
  have s: "size_ok n" using assms by (simp add: size_ok_def)
  have d: "4096 dvd roundUp4k n" by (simp add: roundUp4k_eq [OF s])
  have "roundUp4k n \<le> j" if "4096 dvd j" "n \<le> j" for j
    using that d roundUp4k_bounds [OF s] by (auto elim!: dvdE)
  then show ?thesis using d roundUp4k_bounds [OF s] by blast
qed

theorem roundUp4k_least_multiple_witness: "4096 dvd roundUp4k 5000 \<and> 5000 \<le> roundUp4k 5000"
  using roundUp4k_least_multiple [of 5000] by simp

text \<open>
  \<open>sumLargerThan\<close> decides whether the sum of two sizes exceeds a third one over
  the unbounded integers, although it computes the sum in \<open>int64\<close>: an overflow shows as a
  non-positive sum.
\<close>

theorem sumLargerThan_exact:
  assumes "0 < a" "0 \<le> b" "0 < c" "a \<le> maxInt64" "b \<le> maxInt64" "c \<le> maxInt64"
  shows "sumLargerThan a b c \<longleftrightarrow> a + b > c"
  using assms by (intro sumLargerThan_iff) (auto simp: in64_def)

theorem sumLargerThan_exact_witness:
  "sumLargerThan 9223372036854775807 9223372036854775807 9223372036854775807"
  using sumLargerThan_exact [of "9223372036854775807" "9223372036854775807" "9223372036854775807"]
  by simp

end
