(* ===== verification/CacheKeys.thy ===== *)
theory CacheKeys
  imports Sha256
begin

text \<open>
  Names of cache entries: \<open>cache/cache.go\<close> and \<open>cache/storage_prefix.go\<close> (the request context,
  the lookup keys of the LRU index, the remapping of action cache keys), the file names of
  \<open>cache/disk/disk.go\<close> and \<open>utils/tempfile\<close>, and \<open>path.Join\<close>, which builds them. A lookup key
  is \<open>kind/hash\<close> or \<open>kind/hash/prefixID\<close>; a file name adds the logical size and a random
  string; both must give the entry back, and entries of different request scopes must never
  share one.
\<close>

section \<open>\<open>path.Join\<close>\<close>

text \<open>
  \<open>path.Clean\<close> processes the elements between slashes: empty ones and dots are dropped, a
  double dot removes the element before it (and is dropped at the root).
\<close>

fun clean_parts :: "bool \<Rightarrow> string list \<Rightarrow> string list \<Rightarrow> string list" where
  "clean_parts rooted out [] = rev out"
| "clean_parts rooted out (p # ps) =
     (if p = [] \<or> p = ''.'' then clean_parts rooted out ps
      else if p = ''..'' then
        (case out of
           [] \<Rightarrow> clean_parts rooted (if rooted then [] else [p]) ps
         | o' # os \<Rightarrow> if o' = ''..'' then clean_parts rooted (p # out) ps
                     else clean_parts rooted os ps)
      else clean_parts rooted (p # out) ps)"

definition path_clean :: "string \<Rightarrow> string" where
  "path_clean s =
     (let rooted = hasPrefix s ''/'';
          body = join_with CHR ''/'' (clean_parts rooted [] (split_on CHR ''/'' s))
      in if rooted then CHR ''/'' # body else if body = [] then ''.'' else body)"

definition path_join :: "string list \<Rightarrow> string" where
  "path_join ps =
     (let qs = filter (\<lambda>p. p \<noteq> []) ps
      in if qs = [] then [] else path_clean (join_with CHR ''/'' qs))"

definition good_part :: "string \<Rightarrow> bool" where
  "good_part p \<longleftrightarrow> p \<noteq> [] \<and> p \<noteq> ''.'' \<and> p \<noteq> ''..'' \<and> CHR ''/'' \<notin> set p"

lemma clean_parts_good: "list_all good_part ps \<Longrightarrow> clean_parts r out ps = rev out @ ps"
  by (induction ps arbitrary: out) (auto simp: good_part_def)

lemma join_with_first:
  "list_all good_part (p # ps) \<Longrightarrow> \<exists>c cs. join_with CHR ''/'' (p # ps) = c # cs \<and> c \<noteq> CHR ''/''"
  by (cases p; cases ps) (auto simp: good_part_def)

lemma path_clean_good:
  assumes "ps \<noteq> []" "list_all good_part ps"
  shows "path_clean (join_with CHR ''/'' ps) = join_with CHR ''/'' ps"
proof -
  have sp: "split_on CHR ''/'' (join_with CHR ''/'' ps) = ps"
    using assms by (intro split_join) (auto simp: list_all_iff good_part_def)
  obtain c cs where c: "join_with CHR ''/'' ps = c # cs" "c \<noteq> CHR ''/''"
    using assms join_with_first by (cases ps) blast+
  then have "\<not> hasPrefix (join_with CHR ''/'' ps) ''/''" by (simp add: hasPrefix_def)
  then show ?thesis
    unfolding path_clean_def Let_def sp using assms c by (simp add: clean_parts_good)
qed

lemma join_with_append:
  "ps \<noteq> [] \<Longrightarrow> qs \<noteq> [] \<Longrightarrow> join_with c (ps @ qs) = join_with c ps @ c # join_with c qs"
proof (induction ps rule: join_with.induct [where ?a0.0 = c, case_names Nil One More])
  case (One c s)
  then show ?case by (cases qs) simp_all
qed (auto simp: neq_Nil_conv)

lemma path_join_good:
  "ps \<noteq> [] \<Longrightarrow> list_all good_part ps \<Longrightarrow> path_join ps = join_with CHR ''/'' ps"
proof -
  assume a: "ps \<noteq> []" "list_all good_part ps"
  then have "filter (\<lambda>p. p \<noteq> []) ps = ps" by (auto simp: filter_id_conv list_all_iff good_part_def)
  then show ?thesis using a by (simp add: path_join_def path_clean_good)
qed

text \<open>Joining a clean name below a cleanly joined directory.\<close>

lemma path_join_under:
  assumes "ps \<noteq> []" "list_all good_part ps" "list_all good_part qs" "qs \<noteq> []"
  shows "path_join [join_with CHR ''/'' ps, join_with CHR ''/'' qs] = join_with CHR ''/'' (ps @ qs)"
proof -
  have ne: "join_with CHR ''/'' ps \<noteq> []" "join_with CHR ''/'' qs \<noteq> []"
    using assms join_with_first [of "hd ps" "tl ps"] join_with_first [of "hd qs" "tl qs"]
    by (cases ps; cases qs; auto)+
  have "join_with CHR ''/'' [join_with CHR ''/'' ps, join_with CHR ''/'' qs] = join_with CHR ''/'' (ps @ qs)"
    using assms by (simp add: join_with_append)
  then show ?thesis
    using ne assms path_clean_good [of "ps @ qs"] by (simp add: path_join_def)
qed

section \<open>Kinds, contexts and lookup keys\<close>

datatype EntryKind = AC | CAS | RAW

fun kindString :: "EntryKind \<Rightarrow> string" where
  "kindString AC = ''ac''" | "kindString CAS = ''cas''" | "kindString RAW = ''raw''"

fun DirName :: "EntryKind \<Rightarrow> string" where
  "DirName AC = ''ac.v2''" | "DirName CAS = ''cas.v2''" | "DirName RAW = ''raw.v2''"

text \<open>
  The values that the repository stores in a \<open>context.Context\<close>: the request-scoped storage
  prefix, the marker that one is required, and whether a leaf size sink is attached. A nil
  context behaves as one without values.
\<close>

record ctx =
  ctxStoragePrefix :: "string option"
  ctxPrefixRequired :: bool
  ctxLeafSizeSink :: bool

definition emptyCtx :: ctx where
  "emptyCtx = \<lparr>ctxStoragePrefix = None, ctxPrefixRequired = False, ctxLeafSizeSink = False\<rparr>"

definition WithStoragePrefix :: "ctx \<Rightarrow> string \<Rightarrow> ctx" where
  "WithStoragePrefix c p = c\<lparr>ctxStoragePrefix := Some p\<rparr>"

definition WithRequiredStoragePrefix :: "ctx \<Rightarrow> ctx" where
  "WithRequiredStoragePrefix c = c\<lparr>ctxPrefixRequired := True\<rparr>"

definition WithLeafSizeSink :: "ctx \<Rightarrow> ctx" where
  "WithLeafSizeSink c = c\<lparr>ctxLeafSizeSink := True\<rparr>"

definition StoragePrefixFromContext :: "ctx \<Rightarrow> string option" where
  "StoragePrefixFromContext c =
     (case ctxStoragePrefix c of
        None \<Rightarrow> None
      | Some p \<Rightarrow> if p = [] then None else Some p)"

definition StoragePrefixRequiredFromContext :: "ctx \<Rightarrow> bool" where
  "StoragePrefixRequiredFromContext c = ctxPrefixRequired c"

definition StoragePrefixID :: "string \<Rightarrow> string" where
  "StoragePrefixID prefix = hexEncode (sha256 (string_bytes prefix))"

definition StoragePrefixIDFromContext :: "ctx \<Rightarrow> string option" where
  "StoragePrefixIDFromContext c = map_option StoragePrefixID (StoragePrefixFromContext c)"

definition LookupKey :: "EntryKind \<Rightarrow> string \<Rightarrow> string" where
  "LookupKey kind hash = kindString kind @ ''/'' @ hash"

definition LookupKeyForStoragePrefixID :: "string \<Rightarrow> EntryKind \<Rightarrow> string \<Rightarrow> string" where
  "LookupKeyForStoragePrefixID prefixID kind hash =
     (let key = LookupKey kind hash
      in if (kind = AC \<or> kind = CAS) \<and> prefixID \<noteq> [] then key @ ''/'' @ prefixID else key)"

definition LookupKeyForContext :: "ctx \<Rightarrow> EntryKind \<Rightarrow> string \<Rightarrow> string" where
  "LookupKeyForContext c kind hash =
     (if kind = AC \<or> kind = CAS
      then (case StoragePrefixIDFromContext c of
              Some prefixID \<Rightarrow> LookupKeyForStoragePrefixID prefixID kind hash
            | None \<Rightarrow> LookupKey kind hash)
      else LookupKey kind hash)"

definition TransformActionCacheKey :: "string \<Rightarrow> string \<Rightarrow> string" where
  "TransformActionCacheKey key inst =
     (if inst = [] then key else hexEncode (sha256 (string_bytes key @ string_bytes inst)))"

definition emptySha256 :: string where
  "emptySha256 = ''e3b0c44298fc1c149afbf4c8996fb92427ae41e4649b934ca495991b7852b855''"

text \<open>\<open>lookupKeyParts\<close> of \<open>disk.go\<close> takes a lookup key apart again.\<close>

definition lookupKeyParts :: "string \<Rightarrow> EntryKind \<times> string \<times> string" where
  "lookupKeyParts key =
     (let parts = split_on CHR ''/'' key;
          hash0 = (if length parts \<ge> 2 then parts ! 1 else []);
          prefixID = (if length parts \<ge> 3 then parts ! 2 else []);
          hash = (if hash0 = [] \<and> length key \<ge> 64 then drop (length key - 64) key else hash0);
          kind = (if hasPrefix key ''cas'' then CAS
                  else if hasPrefix key ''ac'' then AC
                  else if hasPrefix key ''raw'' then RAW
                  else AC)
      in (kind, hash, prefixID))"

section \<open>File names\<close>

text \<open>
  The slice \<open>hash[:2]\<close> is \<open>take 2 hash\<close>: the code forms file names only from hashes whose length
  \<open>Put\<close>, \<open>Get\<close> and \<open>Contains\<close> have checked to be 64, or that the directory scan matched as 64
  hexadecimal digits, so the slice is never out of range.
\<close>

definition FileLocationBase :: "EntryKind \<Rightarrow> bool \<Rightarrow> string \<Rightarrow> int \<Rightarrow> string" where
  "FileLocationBase kind legacy hash sz =
     (if kind = RAW then path_join [''raw.v2'', take 2 hash, hash]
      else if kind = AC then path_join [''ac.v2'', take 2 hash, hash]
      else if legacy then path_join [''cas.v2'', take 2 hash, hash]
      else ''cas.v2/'' @ take 2 hash @ ''/'' @ hash @ ''-'' @ show_int sz)"

definition FileLocationBaseForStoragePrefixID ::
    "string \<Rightarrow> EntryKind \<Rightarrow> bool \<Rightarrow> string \<Rightarrow> int \<Rightarrow> string" where
  "FileLocationBaseForStoragePrefixID prefixID kind legacy hash sz =
     (let location = FileLocationBase kind legacy hash sz
      in if kind = RAW \<or> prefixID = [] then location else path_join [prefixID, location])"

definition FileLocationBaseForContext ::
    "ctx \<Rightarrow> EntryKind \<Rightarrow> bool \<Rightarrow> string \<Rightarrow> int \<Rightarrow> string" where
  "FileLocationBaseForContext c kind legacy hash sz =
     (if kind = RAW then FileLocationBase kind legacy hash sz
      else FileLocationBaseForStoragePrefixID
             (case StoragePrefixIDFromContext c of Some p \<Rightarrow> p | None \<Rightarrow> []) kind legacy hash sz)"

definition FileLocation :: "EntryKind \<Rightarrow> bool \<Rightarrow> string \<Rightarrow> int \<Rightarrow> string \<Rightarrow> string" where
  "FileLocation kind legacy hash sz random =
     (if kind = RAW then path_join [''raw.v2'', take 2 hash, hash @ ''-'' @ random]
      else if kind = AC then path_join [''ac.v2'', take 2 hash, hash @ ''-'' @ random]
      else if legacy then ''cas.v2/'' @ take 2 hash @ ''/'' @ hash @ ''-'' @ random @ ''.v1''
      else ''cas.v2/'' @ take 2 hash @ ''/'' @ hash @ ''-'' @ show_int sz @ ''-'' @ random)"

definition FileLocationForStoragePrefixID ::
    "string \<Rightarrow> EntryKind \<Rightarrow> bool \<Rightarrow> string \<Rightarrow> int \<Rightarrow> string \<Rightarrow> string" where
  "FileLocationForStoragePrefixID prefixID kind legacy hash sz random =
     (let location = FileLocation kind legacy hash sz random
      in if kind = RAW \<or> prefixID = [] then location else path_join [prefixID, location])"

definition FileLocationForContext ::
    "ctx \<Rightarrow> EntryKind \<Rightarrow> bool \<Rightarrow> string \<Rightarrow> int \<Rightarrow> string \<Rightarrow> string" where
  "FileLocationForContext c kind legacy hash sz random =
     (if kind = RAW then FileLocation kind legacy hash sz random
      else FileLocationForStoragePrefixID
             (case StoragePrefixIDFromContext c of Some p \<Rightarrow> p | None \<Rightarrow> []) kind legacy hash sz random)"

text \<open>
  The name that \<open>tempfile.Creator.Create\<close> gives a new file: the final name of the entry, so
  that no rename is needed. Its random string is the output of a 32-bit linear congruential
  generator, printed with nine digits; on a collision with an existing file the next value is
  tried, up to 10000 times.
\<close>

definition tempName :: "string \<Rightarrow> string \<Rightarrow> bool \<Rightarrow> string" where
  "tempName base random legacy =
     (if legacy then base @ ''-'' @ random @ ''.v1'' else base @ ''-'' @ random)"

definition ranqd1 :: "32 word \<Rightarrow> 32 word \<times> string" where
  "ranqd1 idum =
     (let idum' = idum * 1664525 + 1013904223
      in (idum', drop 1 (show_nat (1000000000 + unat idum' mod 1000000000))))"

text \<open>
  What \<open>os.OpenFile\<close> with \<open>O_CREATE|O_EXCL\<close> says of a name: the file system is an argument.
\<close>

datatype 'e open_result = OpenOk | OpenExists | OpenError 'e

datatype 'e create_result = Created string string | CreateError 'e | NoTempfile

fun tempCreate :: "nat \<Rightarrow> (string \<Rightarrow> 'e open_result) \<Rightarrow> string \<Rightarrow> bool \<Rightarrow> 32 word \<Rightarrow>
    'e create_result \<times> 32 word" where
  "tempCreate 0 openFile base legacy idum = (NoTempfile, idum)"
| "tempCreate (Suc tries) openFile base legacy idum =
     (let (idum', random) = ranqd1 idum; name = tempName base random legacy
      in case openFile name of
           OpenOk \<Rightarrow> (Created name random, idum')
         | OpenExists \<Rightarrow> tempCreate tries openFile base legacy idum'
         | OpenError e \<Rightarrow> (CreateError e, idum'))"

definition Create :: "(string \<Rightarrow> 'e open_result) \<Rightarrow> string \<Rightarrow> bool \<Rightarrow> 32 word \<Rightarrow>
    'e create_result \<times> 32 word" where
  "Create openFile base legacy idum = tempCreate 10000 openFile base legacy idum"

text \<open>\<open>getElementPath\<close>: the file of an index entry, from its lookup key and its \<open>lruItem\<close> fields.\<close>

definition getElementPath :: "string \<Rightarrow> string \<Rightarrow> bool \<Rightarrow> int \<Rightarrow> string \<Rightarrow> string" where
  "getElementPath dir key legacy sz random =
     (let (kind, hash, prefixID) = lookupKeyParts key
      in path_join [dir, FileLocationForStoragePrefixID prefixID kind legacy hash sz random])"

end
