(* ===== verification/Key_Props.thy ===== *)
theory Key_Props
  imports CacheKeys
begin

text \<open>
  What the naming of entries promises: a lookup key gives back the kind, hash and scope it was
  made from, entries of different scopes have different keys, and the path computed from a key
  is the path of the file that was created for it.
\<close>

section \<open>Lookup keys\<close>

definition scopeID :: "ctx \<Rightarrow> string" where
  "scopeID c = (case StoragePrefixIDFromContext c of Some p \<Rightarrow> p | None \<Rightarrow> [])"

lemma scopeID_cases: "scopeID c = [] \<or> hex64 (scopeID c)"
  by (auto simp: scopeID_def StoragePrefixIDFromContext_def StoragePrefixID_def hex64_sha256
      split: option.splits)

lemma hex64_good [intro]: "hex64 s \<Longrightarrow> good_part s"
  using hex64_free [of s "CHR ''/''"] by (auto simp: good_part_def hex64_def)

lemma hex64_nonempty: "hex64 s \<Longrightarrow> s \<noteq> []"
  by (auto simp: hex64_def)

definition keyParts :: "ctx \<Rightarrow> EntryKind \<Rightarrow> string \<Rightarrow> string list" where
  "keyParts c k h = kindString k # h # (if k = RAW \<or> scopeID c = [] then [] else [scopeID c])"

lemma key_join: "LookupKeyForContext c k h = join_with CHR ''/'' (keyParts c k h)"
  using scopeID_cases [of c]
  by (cases k) (auto simp: LookupKeyForContext_def LookupKeyForStoragePrefixID_def LookupKey_def
      keyParts_def scopeID_def Let_def split: option.splits)

lemma kindString_free: "CHR ''/'' \<notin> set (kindString k)"
  by (cases k) auto

lemma kindString_inj: "kindString k = kindString k' \<Longrightarrow> k = k'"
  by (cases k; cases k') auto

lemma key_split: "hex64 h \<Longrightarrow> split_on CHR ''/'' (LookupKeyForContext c k h) = keyParts c k h"
  unfolding key_join using scopeID_cases [of c] hex64_free [of _ "CHR ''/''"] kindString_free
  by (intro split_join) (auto simp: keyParts_def)

lemma keyParts_form: "\<exists>s. join_with CHR ''/'' (keyParts c k h) = kindString k @ CHR ''/'' # s"
  by (simp add: keyParts_def)

lemma lookupKeyParts_key:
  assumes "hex64 h"
  shows "lookupKeyParts (LookupKeyForContext c k h) = (k, h, if k = RAW then [] else scopeID c)"
proof -
  obtain s where s: "LookupKeyForContext c k h = kindString k @ CHR ''/'' # s"
    using keyParts_form key_join by metis
  have h0: "h \<noteq> []" using assms hex64_nonempty by blast
  show ?thesis
    unfolding lookupKeyParts_def Let_def key_split [OF assms]
    using h0 s by (cases k) (simp_all add: hasPrefix_def keyParts_def)
qed

section \<open>Paths\<close>

lemma split_on_snoc: "c \<notin> set p \<Longrightarrow> split_on c (x @ c # p) = split_on c x @ [p]"
proof (induction x)
  case (Cons a x)
  then show ?case by (auto split: list.splits)
qed (simp add: split_on_free)

lemma clean_parts_snoc: "good_part p \<Longrightarrow> clean_parts r out (ds @ [p]) = clean_parts r out ds @ [p]"
  by (induction r out ds rule: clean_parts.induct) (auto simp: good_part_def split: list.splits)

lemma join_with_snoc_suffix: "join_with c (ys @ [p]) @ s = join_with c (ys @ [p @ s])"
  by (cases "ys = []") (simp_all add: join_with_append)

lemma path_clean_suffix:
  assumes "good_part p" "good_part (p @ s)"
  shows "path_clean (x @ CHR ''/'' # p) @ s = path_clean (x @ CHR ''/'' # p @ s)"
proof -
  have f: "CHR ''/'' \<notin> set p" "CHR ''/'' \<notin> set (p @ s)"
    using assms by (auto simp: good_part_def)
  have pre: "hasPrefix (x @ CHR ''/'' # t) ''/'' = hasPrefix (x @ [CHR ''/'']) ''/''" for t
    by (cases x) (auto simp: hasPrefix_def)
  let ?r = "hasPrefix (x @ [CHR ''/'']) ''/''"
  let ?ys = "clean_parts ?r [] (split_on CHR ''/'' x)"
  have ne: "join_with CHR ''/'' (ys @ [q]) \<noteq> []" if "q \<noteq> []" for ys q
    using that by (induction "CHR ''/''" ys rule: join_with.induct) (auto simp: neq_Nil_conv)
  have a: "path_clean (x @ CHR ''/'' # q) =
      (if ?r then CHR ''/'' # join_with CHR ''/'' (?ys @ [q]) else join_with CHR ''/'' (?ys @ [q]))"
    if "good_part q" for q
    using that ne [of q] unfolding path_clean_def Let_def pre [of q]
    by (simp add: split_on_snoc clean_parts_snoc good_part_def)
  show ?thesis
    unfolding a [OF assms(1)] using a [OF assms(2)]
    by (simp add: join_with_snoc_suffix)
qed

lemma join_with_snoc: "qs \<noteq> [] \<Longrightarrow> join_with c (qs @ [p]) = join_with c qs @ c # p"
  by (simp add: join_with_append)

lemma path_join_suffix:
  assumes "qs \<noteq> []" "list_all good_part qs" "good_part p" "good_part (p @ s)"
  shows "path_join [d, join_with CHR ''/'' (qs @ [p])] @ s = path_join [d, join_with CHR ''/'' (qs @ [p @ s])]"
  using assms path_clean_suffix [of p s "d @ CHR ''/'' # join_with CHR ''/'' qs"]
    path_clean_suffix [of p s "join_with CHR ''/'' qs"]
  by (cases "d = []") (simp_all add: path_join_def join_with_snoc)

section \<open>The files of an entry\<close>

text \<open>The last element of an entry's path, without the random string and the suffix.\<close>

definition entryStem :: "EntryKind \<Rightarrow> bool \<Rightarrow> string \<Rightarrow> int \<Rightarrow> string" where
  "entryStem k legacy h sz = (if k = CAS \<and> \<not> legacy then h @ ''-'' @ show_int sz else h)"

definition scopeDirs :: "string \<Rightarrow> EntryKind \<Rightarrow> string \<Rightarrow> string list" where
  "scopeDirs prefixID k h = (if k = RAW \<or> prefixID = [] then [] else [prefixID]) @ [DirName k, take 2 h]"

lemma hex_take2_good: "hex64 h \<Longrightarrow> good_part (take 2 h)"
proof -
  assume h: "hex64 h"
  then have "list_all is_hex (take 2 h)" "length (take 2 h) = 2"
    by (auto simp: hex64_def list_all_iff dest: in_set_takeD)
  then show ?thesis by (auto simp: good_part_def list_all_iff)
qed

lemma good_part_extend: "good_part p \<Longrightarrow> CHR ''/'' \<notin> set s \<Longrightarrow> 2 < length p \<Longrightarrow> good_part (p @ s)"
  unfolding good_part_def by (intro conjI notI; (drule arg_cong [of _ _ length])?; auto)

lemma entryStem_good: "hex64 h \<Longrightarrow> good_part (entryStem k legacy h sz) \<and> 2 < length (entryStem k legacy h sz)"
  using hex64_good [of h] show_int_free_slash hex64_length [of h]
  by (auto simp: entryStem_def intro!: good_part_extend)

lemma DirName_good: "good_part (DirName k)"
  by (cases k) (simp_all add: good_part_def)

lemma scopeDirs_good: "hex64 h \<Longrightarrow> p = [] \<or> hex64 p \<Longrightarrow> list_all good_part (scopeDirs p k h)"
  by (auto simp: scopeDirs_def hex_take2_good DirName_good)

lemma scopeDirs_nonempty [simp]: "scopeDirs p k h \<noteq> []"
  by (simp add: scopeDirs_def)

definition legacySuffix :: "EntryKind \<Rightarrow> bool \<Rightarrow> string" where
  "legacySuffix k legacy = (if k = CAS \<and> legacy then ''.v1'' else [])"

lemma FileLocation_join:
  assumes "hex64 h" "CHR ''/'' \<notin> set r"
  shows "FileLocation k legacy h sz r =
    join_with CHR ''/'' [DirName k, take 2 h, entryStem k legacy h sz @ ''-'' @ r @ legacySuffix k legacy]"
proof -
  have "good_part (h @ ''-'' @ r)"
    using good_part_extend [of h "''-'' @ r"] assms hex64_good hex64_length by fastforce
  then show ?thesis
    using path_join_good [of "[DirName k, take 2 h, h @ ''-'' @ r]"] assms DirName_good [of k] hex_take2_good [of h]
    by (cases k) (simp_all add: FileLocation_def entryStem_def legacySuffix_def)
qed

lemma FileLocationBase_join:
  assumes "hex64 h"
  shows "FileLocationBase k legacy h sz = join_with CHR ''/'' [DirName k, take 2 h, entryStem k legacy h sz]"
  using path_join_good [of "[DirName k, take 2 h, h]"] assms DirName_good [of k] hex_take2_good [of h] hex64_good [of h]
  by (cases k) (simp_all add: FileLocationBase_def entryStem_def)

lemma path_join_single:
  assumes "hex64 p" "list_all good_part qs" "qs \<noteq> []"
  shows "path_join [p, join_with CHR ''/'' qs] = join_with CHR ''/'' (p # qs)"
  using path_join_under [of "[p]" qs] assms hex64_good by simp

lemma FileLocationForPrefix_join:
  assumes "hex64 h" "CHR ''/'' \<notin> set r" "p = [] \<or> hex64 p"
  shows "FileLocationForStoragePrefixID p k legacy h sz r =
    join_with CHR ''/'' (scopeDirs p k h @ [entryStem k legacy h sz @ ''-'' @ r @ legacySuffix k legacy])"
proof -
  have g: "good_part (entryStem k legacy h sz @ ''-'' @ r @ legacySuffix k legacy)"
    using entryStem_good [OF assms(1)] assms(2) by (intro good_part_extend) (auto simp: legacySuffix_def)
  show ?thesis
    using assms g hex_take2_good [of h] DirName_good [of k]
    by (auto simp: FileLocationForStoragePrefixID_def Let_def FileLocation_join path_join_single scopeDirs_def
        simp del: join_with.simps)
qed

lemma FileLocationBaseForPrefix_join:
  assumes "hex64 h" "p = [] \<or> hex64 p"
  shows "FileLocationBaseForStoragePrefixID p k legacy h sz =
    join_with CHR ''/'' (scopeDirs p k h @ [entryStem k legacy h sz])"
  using assms entryStem_good [OF assms(1)] hex_take2_good [of h] DirName_good [of k]
  by (auto simp: FileLocationBaseForStoragePrefixID_def Let_def FileLocationBase_join path_join_single scopeDirs_def
      simp del: join_with.simps)

lemma FileLocationForContext_scope:
  "FileLocationForContext c k legacy h sz r =
     FileLocationForStoragePrefixID (if k = RAW then [] else scopeID c) k legacy h sz r"
  by (simp add: FileLocationForContext_def FileLocationForStoragePrefixID_def scopeID_def Let_def split: option.splits)

lemma FileLocationBaseForContext_scope:
  "FileLocationBaseForContext c k legacy h sz =
     FileLocationBaseForStoragePrefixID (if k = RAW then [] else scopeID c) k legacy h sz"
  by (simp add: FileLocationBaseForContext_def FileLocationBaseForStoragePrefixID_def scopeID_def Let_def split: option.splits)

lemma getElementPath_key:
  "hex64 h \<Longrightarrow> getElementPath dir (LookupKeyForContext c k h) legacy sz r =
     path_join [dir, FileLocationForContext c k legacy h sz r]"
  by (simp add: getElementPath_def lookupKeyParts_key FileLocationForContext_scope)

lemma tempName_path:
  assumes "hex64 h" "CHR ''/'' \<notin> set r" "legacy \<longrightarrow> k = CAS"
  shows "tempName (path_join [dir, FileLocationBaseForContext c k legacy h sz]) r legacy =
    path_join [dir, FileLocationForContext c k legacy h sz r]"
proof -
  let ?p = "if k = RAW then [] else scopeID c"
  let ?s = "''-'' @ r @ legacySuffix k legacy"
  have p: "?p = [] \<or> hex64 ?p" using scopeID_cases by simp
  have g: "good_part (entryStem k legacy h sz @ ?s)"
    using entryStem_good [OF assms(1)] assms(2) by (intro good_part_extend) (auto simp: legacySuffix_def)
  have "path_join [dir, FileLocationBaseForContext c k legacy h sz] @ ?s =
      path_join [dir, FileLocationForContext c k legacy h sz r]"
    unfolding FileLocationBaseForContext_scope FileLocationForContext_scope
      FileLocationBaseForPrefix_join [OF assms(1) p] FileLocationForPrefix_join [OF assms(1,2) p]
    using assms(1) p g entryStem_good by (intro path_join_suffix) (auto simp: scopeDirs_good)
  then show ?thesis using assms(3) by (auto simp: tempName_def legacySuffix_def)
qed

section \<open>The temporary file names\<close>

lemma ranqd1_random: "ranqd1 x = (y, r) \<Longrightarrow> CHR ''/'' \<notin> set r"
  using show_nat_free [of "CHR ''/''"] by (auto simp: ranqd1_def Let_def dest: in_set_dropD)

lemma tempCreate_Created:
  "tempCreate n openFile base legacy x = (Created name random, y) \<Longrightarrow>
     name = tempName base random legacy \<and> openFile name = OpenOk \<and> CHR ''/'' \<notin> set random"
  by (induction n openFile base legacy x rule: tempCreate.induct)
    (auto simp: Let_def ranqd1_random split: prod.splits open_result.splits)

section \<open>Properties\<close>

text \<open>
  Property C3. Taking the lookup key of an entry apart gives back its kind, its hash and the
  identifier of the request's storage prefix (none for raw entries), for every 64-digit hash.
\<close>

theorem lookup_key_round_trip:
  "hex64 hash \<Longrightarrow>
   lookupKeyParts (LookupKeyForContext c kind hash) =
     (kind, hash, if kind = RAW then [] else (case StoragePrefixIDFromContext c of Some p \<Rightarrow> p | None \<Rightarrow> []))"
  by (simp add: lookupKeyParts_key scopeID_def)

lemma hex64_emptySha256: "hex64 emptySha256"
  by (simp add: hex64_def emptySha256_def is_hex_def Let_def)

theorem lookup_key_round_trip_witness:
  "lookupKeyParts (LookupKeyForContext emptyCtx CAS emptySha256) = (CAS, emptySha256, [])"
  using lookup_key_round_trip [OF hex64_emptySha256, of emptyCtx CAS]
  by (simp add: StoragePrefixIDFromContext_def StoragePrefixFromContext_def emptyCtx_def)

text \<open>
  Property C4. Isolation of the request scopes: two requests address the same index entry
  exactly when they name the same kind and hash and, outside the unvalidated raw kind, carry
  storage prefixes with the same identifier.
\<close>

theorem lookup_key_isolation:
  assumes "hex64 h1" "hex64 h2"
  shows "LookupKeyForContext c1 k1 h1 = LookupKeyForContext c2 k2 h2 \<longleftrightarrow>
    k1 = k2 \<and> h1 = h2 \<and> (k1 = RAW \<or> StoragePrefixIDFromContext c1 = StoragePrefixIDFromContext c2)"
proof -
  have sc: "scopeID c1 = scopeID c2 \<longleftrightarrow> StoragePrefixIDFromContext c1 = StoragePrefixIDFromContext c2"
    using hex64_nonempty [OF hex64_sha256] not_sym [OF hex64_nonempty [OF hex64_sha256]]
    by (auto simp: scopeID_def StoragePrefixIDFromContext_def StoragePrefixID_def split: option.splits)
  have "LookupKeyForContext c1 k1 h1 = LookupKeyForContext c2 k2 h2 \<longleftrightarrow> keyParts c1 k1 h1 = keyParts c2 k2 h2"
    unfolding key_join using assms key_split by (metis key_join)
  also have "\<dots> \<longleftrightarrow> k1 = k2 \<and> h1 = h2 \<and> (k1 = RAW \<or> scopeID c1 = scopeID c2)"
    using kindString_inj by (auto simp: keyParts_def)
  finally show ?thesis by (simp only: sc)
qed

theorem lookup_key_isolation_witness:
  "LookupKeyForContext emptyCtx AC emptySha256 \<noteq> LookupKeyForContext emptyCtx CAS emptySha256"
  using lookup_key_isolation [OF hex64_emptySha256 hex64_emptySha256, of emptyCtx AC emptyCtx CAS] by simp

text \<open>
  The file that \<open>Put\<close> creates for an entry is the file that the index later reads
  and removes: whenever the temporary file creator succeeds below the base location of the
  entry, the name it created is the path that \<open>getElementPath\<close> computes from the entry's lookup
  key, legacy flag, size and the random string that the creator returned, and no file of that
  name existed before.
\<close>

theorem created_file_is_element_path:
  assumes "hex64 hash" "legacy \<longrightarrow> kind = CAS"
    and "Create openFile (path_join [dir, FileLocationBaseForContext c kind legacy hash sz]) legacy seed
           = (Created name random, seed')"
  shows "name = getElementPath dir (LookupKeyForContext c kind hash) legacy sz random \<and> openFile name = OpenOk"
proof -
  note t = tempCreate_Created [OF assms(3) [unfolded Create_def]]
  have "CHR ''/'' \<notin> set random" using t by blast
  from tempName_path [OF assms(1) this assms(2), of dir c sz] t
  have "name = path_join [dir, FileLocationForContext c kind legacy hash sz random]" by (elim conjE) (rule trans)
  with t show ?thesis unfolding getElementPath_key [OF assms(1)] by (elim conjE) (rule conjI)
qed

theorem created_file_is_element_path_witness:
  "getElementPath ''/data'' (LookupKeyForContext emptyCtx CAS emptySha256) False 0 ''013904223''
     = tempName (path_join [''/data'', FileLocationBaseForContext emptyCtx CAS False emptySha256 0]) ''013904223'' False"
proof -
  have r: "ranqd1 0 = (1013904223, ''013904223'')"
    by (simp add: ranqd1_def Let_def show_nat.simps digit_char_def char_of_def bit_Suc bit_0)
  have n: "(10000 :: nat) = Suc 9999" by simp
  have "Create (\<lambda>_. OpenOk :: unit open_result)
      (path_join [''/data'', FileLocationBaseForContext emptyCtx CAS False emptySha256 0]) False 0
    = (Created (tempName (path_join [''/data'', FileLocationBaseForContext emptyCtx CAS False emptySha256 0])
        ''013904223'' False) ''013904223'', 1013904223)"
    unfolding Create_def n tempCreate.simps r by simp
  from created_file_is_element_path [OF hex64_emptySha256 _ this] show ?thesis by simp
qed

text \<open>
  Remapping an action cache key by a non-empty instance name always gives a
  well-formed 64-digit key, whatever the original key was, and it depends only on the
  concatenation of the two strings: moving characters from the instance name to the key does
  not change the result.
\<close>

theorem remapped_key_well_formed_and_ambiguous:
  "hex64 (TransformActionCacheKey key (x # inst)) \<and>
   TransformActionCacheKey (key @ a) (x # inst) = TransformActionCacheKey key (a @ x # inst)"
  by (simp add: TransformActionCacheKey_def hex64_sha256)

end
