(* ===== verification/Sha256_Vector.thy ===== *)
theory Sha256_Vector
  imports CacheKeys
begin

text \<open>
  The digest that \<open>cache/disk/disk.go\<close> and \<open>server/grpc.go\<close> hard-code for the empty blob is the
  digest of the empty blob. The kernel runs the 64 rounds, which takes about two minutes.
\<close>

text \<open>
  The constant \<open>emptySha256\<close> of the code is the SHA-256 digest of the empty byte
  string, so that the special treatment of that hash (a blob that is always present and never
  stored) is the treatment of the empty blob.
\<close>

theorem emptySha256_correct: "emptySha256 = hexEncode (sha256 [])"
  by code_simp

end
