(* ===== verification/Codec.thy ===== *)
theory Codec
  imports Prelude
begin

text \<open>
  Files and readers as the program uses them, and the little-endian fixed-width encoding of
  \<open>encoding/binary\<close>. A codec of a fixed width is an interface (locale \<open>fixed_codec\<close>) whose one
  law is the round trip; it is interpreted at \<open>uint8\<close>, \<open>uint32\<close>, \<open>int64\<close> and at arrays of
  \<open>int64\<close>, and its lemma about reading a value from a file carries the header proofs.
\<close>

section \<open>Reading\<close>

datatype rd_error = REOF | RUnexpectedEOF | RError

text \<open>\<open>io.ReadFull\<close>.\<close>

definition readFull :: "nat \<Rightarrow> reader \<Rightarrow> (rd_error + bytes) \<times> reader" where
  "readFull n r =
     (if n \<le> length (rdata r) then (Inr (take n (rdata r)), r\<lparr>rdata := drop n (rdata r)\<rparr>)
      else (Inl (if rfails r then RError else if rdata r = [] then REOF else RUnexpectedEOF),
            r\<lparr>rdata := []\<rparr>))"

text \<open>\<open>io.MultiReader\<close> of some bytes and a reader.\<close>

definition multiReader :: "bytes \<Rightarrow> reader \<Rightarrow> reader" where
  "multiReader bs r = r\<lparr>rdata := bs @ rdata r\<rparr>"

text \<open>
  An open file: its content, the read position, and which operating system calls fail on it
  (\<open>ReadOp p\<close>: reading at position \<open>p\<close>).
\<close>

datatype fop = StatOp | SeekOp | ReadOp nat

record osfile =
  fdata :: bytes
  fpos :: nat
  ffail :: "fop \<Rightarrow> bool"

definition openBytes :: "bytes \<Rightarrow> osfile" where
  "openBytes bs = \<lparr>fdata = bs, fpos = 0, ffail = (\<lambda>_. False)\<rparr>"

definition frest :: "osfile \<Rightarrow> bytes" where
  "frest f = drop (fpos f) (fdata f)"

definition fadv :: "nat \<Rightarrow> osfile \<Rightarrow> osfile" where
  "fadv n f = f\<lparr>fpos := fpos f + n\<rparr>"

text \<open>The first of the next \<open>n\<close> positions at which reading fails.\<close>

definition readFault :: "nat \<Rightarrow> osfile \<Rightarrow> nat option" where
  "readFault n f = find (\<lambda>k. ffail f (ReadOp (fpos f + k))) [0..<n]"

definition fread :: "nat \<Rightarrow> osfile \<Rightarrow> rd_error + bytes \<times> osfile" where
  "fread n f =
     (if readFault (min n (length (frest f) + 1)) f \<noteq> None then Inl RError
      else if n \<le> length (frest f) then Inr (take n (frest f), fadv n f)
      else Inl (if frest f = [] then REOF else RUnexpectedEOF))"

definition fseek :: "int \<Rightarrow> osfile \<Rightarrow> osfile option" where
  "fseek p f = (if ffail f SeekOp \<or> p < 0 then None else Some (f\<lparr>fpos := nat p\<rparr>))"

text \<open>Reading on from the position of a file, as a stream.\<close>

definition fileReader :: "osfile \<Rightarrow> reader" where
  "fileReader f =
     (case readFault (length (frest f) + 1) f of
        Some k \<Rightarrow> \<lparr>rdata = take k (frest f), rfails = True\<rparr>
      | None \<Rightarrow> bytes_reader (frest f))"

lemma readFault_None [simp]: "ffail f = (\<lambda>_. False) \<Longrightarrow> readFault n f = None"
  by (simp add: readFault_def find_None_iff)

lemma frest_fadv: "frest (fadv n f) = drop n (frest f)"
  by (simp add: frest_def fadv_def add.commute)

lemma fadv_simps [simp]:
  "ffail (fadv n f) = ffail f" "fdata (fadv n f) = fdata f" "fpos (fadv n f) = fpos f + n"
  by (simp_all add: fadv_def)

lemma fadv_fadv: "fadv a (fadv b f) = fadv (b + a) f"
  by (simp add: fadv_def add.assoc)

section \<open>Little-endian integers\<close>

fun le_enc :: "nat \<Rightarrow> nat \<Rightarrow> bytes" where
  "le_enc 0 v = []"
| "le_enc (Suc n) v = of_nat (v mod 256) # le_enc n (v div 256)"

fun le_dec :: "bytes \<Rightarrow> nat" where
  "le_dec [] = 0"
| "le_dec (b # bs) = unat b + 256 * le_dec bs"

lemma length_le_enc [simp]: "length (le_enc n v) = n"
  by (induction n arbitrary: v) auto

lemma le_dec_enc: "le_dec (le_enc n v) = v mod 256 ^ n"
proof (induction n arbitrary: v)
  case (Suc n)
  have "unat (of_nat (v mod 256) :: byte) = v mod 256"
    by (simp add: unat_of_nat)
  then show ?case using Suc by (simp add: mod_mult2_eq)
qed simp

definition put_u8 :: "byte \<Rightarrow> bytes" where
  "put_u8 b = [b]"

definition get_u8 :: "bytes \<Rightarrow> byte" where
  "get_u8 bs = (case bs of [] \<Rightarrow> 0 | b # _ \<Rightarrow> b)"

definition put_u32 :: "32 word \<Rightarrow> bytes" where
  "put_u32 w = le_enc 4 (unat w)"

definition get_u32 :: "bytes \<Rightarrow> 32 word" where
  "get_u32 bs = of_nat (le_dec bs)"

definition put_i64 :: "int \<Rightarrow> bytes" where
  "put_i64 i = le_enc 8 (nat (i mod 18446744073709551616))"

definition get_i64 :: "bytes \<Rightarrow> int" where
  "get_i64 bs = wrap64 (int (le_dec bs))"

definition enc_array :: "('a \<Rightarrow> bytes) \<Rightarrow> 'a list \<Rightarrow> bytes" where
  "enc_array enc xs = concat (map enc xs)"

definition dec_array :: "nat \<Rightarrow> (bytes \<Rightarrow> 'a) \<Rightarrow> bytes \<Rightarrow> 'a list" where
  "dec_array w dec bs = map dec (chunks w bs)"

text \<open>\<open>binary.Read\<close> of one value, with the rest of the function as a continuation.\<close>

definition rdVal :: "nat \<Rightarrow> (bytes \<Rightarrow> 'a) \<Rightarrow> osfile \<Rightarrow> (rd_error \<Rightarrow> 'b) \<Rightarrow> ('a \<Rightarrow> osfile \<Rightarrow> 'b) \<Rightarrow> 'b" where
  "rdVal w dec f onError k =
     (case fread w f of Inl e \<Rightarrow> onError e | Inr (bs, f') \<Rightarrow> k (dec bs) f')"

section \<open>The interface of a codec\<close>

locale fixed_codec =
  fixes enc :: "'a \<Rightarrow> bytes" and dec :: "bytes \<Rightarrow> 'a" and width :: nat and dom :: "'a \<Rightarrow> bool"
  assumes length_enc: "dom x \<Longrightarrow> length (enc x) = width"
    and dec_enc: "dom x \<Longrightarrow> dec (enc x) = x"
begin

lemma read_enc:
  assumes "frest f = enc x @ rest" "dom x" "ffail f = (\<lambda>_. False)"
  shows "rdVal width dec f e k = k x (fadv width f)"
  using assms by (simp add: rdVal_def fread_def length_enc dec_enc)

lemma rest_enc: "frest f = enc x @ rest \<Longrightarrow> dom x \<Longrightarrow> frest (fadv width f) = rest"
  by (simp add: frest_fadv length_enc)

lemma array_length: "list_all dom xs \<Longrightarrow> length (enc_array enc xs) = length xs * width"
  by (induction xs) (auto simp: enc_array_def length_enc)

lemma array_dec: "0 < width \<Longrightarrow> list_all dom xs \<Longrightarrow> dec_array width dec (enc_array enc xs) = xs"
proof (induction xs)
  case (Cons x xs)
  then have "enc x \<noteq> []" "length (enc x) = width" using length_enc [of x] by auto
  then have "chunks width (enc x @ enc_array enc xs) = enc x # chunks width (enc_array enc xs)"
    using Cons.prems by (subst chunks_step) auto
  then show ?case using Cons by (simp add: enc_array_def dec_array_def dec_enc)
qed (simp add: enc_array_def dec_array_def)

end

interpretation u8: fixed_codec put_u8 get_u8 "Suc 0" "\<lambda>_. True"
  by unfold_locales (simp_all add: put_u8_def get_u8_def)

interpretation u32: fixed_codec put_u32 get_u32 4 "\<lambda>_. True"
proof unfold_locales
  fix w :: "32 word"
  have "unat w < 2 ^ 32" using unsigned_less [of w, where ?'a = nat] by simp
  then show "get_u32 (put_u32 w) = w" by (simp add: put_u32_def get_u32_def le_dec_enc)
qed (simp add: put_u32_def)

interpretation i64: fixed_codec put_i64 get_i64 8 in64
proof unfold_locales
  fix i assume i: "in64 i"
  have "le_dec (put_i64 i) = nat (i mod 18446744073709551616) mod 256 ^ 8"
    by (simp add: put_i64_def le_dec_enc)
  then have "int (le_dec (put_i64 i)) = i mod 18446744073709551616"
    by (simp add: nat_less_iff)
  then have "get_i64 (put_i64 i) = wrap64 i"
    using wrap64_cong_mod [of "i mod 18446744073709551616" i] by (simp add: get_i64_def)
  then show "get_i64 (put_i64 i) = i" using i by (simp add: wrap64_id)
qed (simp add: put_i64_def)

interpretation i64s: fixed_codec "enc_array put_i64" "dec_array 8 get_i64" "n * 8"
    "\<lambda>xs. length xs = n \<and> list_all in64 xs" for n
  by unfold_locales (auto simp: i64.array_length i64.array_dec)

end
