(* ===== verification/Casblob.thy ===== *)
theory Casblob
  imports Codec Sha256
begin

text \<open>
  \<open>cache/disk/casblob/casblob.go\<close>: the file format of compressed CAS blobs. A header in the form
  of a zstd skippable frame holds the logical size, the compression type, the chunk size and a
  table of the offsets of independently compressed chunks; the chunks follow. The zstd
  implementation is not part of the program: it is the record \<open>zstd\<close> of functions, an argument
  of the operations that use it. A Go panic is the error \<open>GoPanic\<close>.
\<close>

section \<open>The header\<close>

type_synonym compressionType = "8 word"

definition Identity :: compressionType where "Identity = 0"
definition Zstandard :: compressionType where "Zstandard = 1"

definition defaultChunkSize :: int where "defaultChunkSize = 1048576"

definition skippableFrameMagicNumber :: "32 word" where
  "skippableFrameMagicNumber = 0x184D2A50"

definition chunkTableOffset :: int where "chunkTableOffset = 4 + 4 + 8 + 1 + 4 + 8"

record header =
  hUncompressedSize :: int
  hCompression :: compressionType
  hChunkSize :: "32 word"
  hChunkOffsets :: "int list"

definition headerSize :: "header \<Rightarrow> int" where
  "headerSize h = add64 chunkTableOffset (wrap64 (blen (hChunkOffsets h) * 8))"

definition frameSize :: "header \<Rightarrow> 32 word" where
  "frameSize h = word_of_int chunkTableOffset + of_nat (length (hChunkOffsets h)) * 8 - 4 - 4"

datatype cb_error =
    InvalidFileSize int
  | WriteHeaderFailed
  | CopyFailed
  | CopiedWrong int int
  | ChecksumMismatch string string
  | ShortChunk rd_error
  | WriteChunkFailed
  | TrailingData
  | ReadAfterFailed rd_error
  | SeekFailed
  | WriteOffsetsFailed
  | SyncFailed
  | CloseFailed
  | StatFailed
  | FileTooSmall int
  | HeaderRead string rd_error
  | WrongMagicNum
  | NoChunks int
  | FrameSizeMismatch int int
  | OffsetsNotIncreasing int int
  | FinalOffsetMismatch int int
  | UnexpectedSize int int
  | UnsupportedCompression compressionType
  | DecoderFailed
  | EncoderFailed
  | DecodeAllFailed
  | ShortCompressedChunk rd_error
  | ShortEarlyHeader rd_error
  | NonPositiveSize int
  | GoPanic string

text \<open>\<open>header.write\<close>: the bytes it writes.\<close>

definition writeHeader :: "header \<Rightarrow> bytes" where
  "writeHeader h =
     put_u32 skippableFrameMagicNumber @
     put_u32 (frameSize h) @
     put_i64 (hUncompressedSize h) @
     put_u8 (hCompression h) @
     put_u32 (hChunkSize h) @
     put_i64 (blen (hChunkOffsets h)) @
     enc_array put_i64 (hChunkOffsets h)"

text \<open>The loop over the offset table: every value is larger than the one before it.\<close>

fun checkOffsets :: "int \<Rightarrow> int list \<Rightarrow> cb_error + int" where
  "checkOffsets prev [] = Inr prev"
| "checkOffsets prev (x # xs) =
     (if x \<le> prev then Inl (OffsetsNotIncreasing x prev) else checkOffsets x xs)"

text \<open>
  The largest length for which \<open>make([]int64, n)\<close> does not panic: the runtime refuses slices of
  more than \<open>2^48\<close> bytes. \<open>readHeader\<close> leaves the file at the start of the data.
\<close>

definition maxOffsetsLen :: int where "maxOffsetsLen = 281474976710656 div 8"

definition readHeader :: "osfile \<Rightarrow> cb_error + header \<times> osfile" where
  "readHeader f =
     (if ffail f StatOp then Inl StatFailed else
      let foundFileSize = blen (fdata f) in
      if foundFileSize \<le> chunkTableOffset + 16 then Inl (FileTooSmall foundFileSize) else
      rdVal 4 get_u32 f (\<lambda>e. Inl (HeaderRead ''magic number'' e)) (\<lambda>magic f.
      if magic \<noteq> skippableFrameMagicNumber then Inl WrongMagicNum else
      rdVal 4 get_u32 f (\<lambda>e. Inl (HeaderRead ''frameSize'' e)) (\<lambda>fsize f.
      rdVal 8 get_i64 f (\<lambda>e. Inl (HeaderRead ''uncompressedSize'' e)) (\<lambda>usize f.
      rdVal 1 get_u8 f (\<lambda>e. Inl (HeaderRead ''compression'' e)) (\<lambda>comp f.
      rdVal 4 get_u32 f (\<lambda>e. Inl (HeaderRead ''chunkSize'' e)) (\<lambda>csize f.
      rdVal 8 get_i64 f (\<lambda>e. Inl (HeaderRead ''numOffsets'' e)) (\<lambda>numOffsets f.
      if numOffsets < 2 then Inl (NoChunks (sub64 numOffsets 1)) else
      let metadataSize = wrap64 (numOffsets * 8 + 8 + 1 + 4 + 8) in
      if uint fsize \<noteq> metadataSize then Inl (FrameSizeMismatch (uint fsize) metadataSize) else
      if numOffsets > maxOffsetsLen then Inl (GoPanic ''makeslice: len out of range'') else
      rdVal (nat numOffsets * 8) (dec_array 8 get_i64) f (\<lambda>e. Inl (HeaderRead ''chunkOffsets'' e)) (\<lambda>offs f.
      (case checkOffsets (- 1) offs of
         Inl e \<Rightarrow> Inl e
       | Inr prevOffset \<Rightarrow>
           if prevOffset \<noteq> foundFileSize then Inl (FinalOffsetMismatch prevOffset foundFileSize)
           else Inr (\<lparr>hUncompressedSize = usize, hCompression = comp, hChunkSize = csize, hChunkOffsets = offs\<rparr>, f))))))))))"

text \<open>
  \<open>ExtractLogicalSize\<close>: the size, and a reader equivalent to the original one.
\<close>

definition ExtractLogicalSize :: "reader \<Rightarrow> cb_error + reader \<times> int" where
  "ExtractLogicalSize rc =
     (case readFull 16 rc of
        (Inl e, _) \<Rightarrow> Inl (ShortEarlyHeader e)
      | (Inr earlyHeader, rc') \<Rightarrow>
          let uncompressedSize = get_i64 (drop 8 earlyHeader)
          in if uncompressedSize \<le> 0 then Inl (NonPositiveSize uncompressedSize)
             else Inr (multiReader earlyHeader rc', uncompressedSize))"

section \<open>Reading blobs\<close>

text \<open>
  The zstd implementation: one-shot compression and decompression, and the streaming decoder
  and encoder, each from a reader to the reader of the converted data (\<open>None\<close>: the constructor
  returned an error).
\<close>

record zstd =
  EncodeAll :: "bytes \<Rightarrow> bytes"
  DecodeAll :: "bytes \<Rightarrow> bytes option"
  GetDecoder :: "reader \<Rightarrow> reader option"
  GetEncoder :: "reader \<Rightarrow> reader option"

text \<open>Indexing a slice: \<open>None\<close> is the out of range panic.\<close>

definition at_go :: "'a list \<Rightarrow> int \<Rightarrow> 'a option" where
  "at_go xs i = (if 0 \<le> i \<and> i < blen xs then Some (xs ! nat i) else None)"

definition from_go :: "'a list \<Rightarrow> int \<Rightarrow> 'a list option" where
  "from_go xs i = (if 0 \<le> i \<and> i \<le> blen xs then Some (drop (nat i) xs) else None)"

definition indexPanic :: "cb_error" where
  "indexPanic = GoPanic ''index out of range''"

text \<open>
  The part that \<open>GetUncompressedReadCloser\<close> and \<open>GetZstdReadCloser\<close> have word for word in
  common: move the file to the chunk that contains the offset.
\<close>

definition seekChunk :: "header \<Rightarrow> osfile \<Rightarrow> int \<Rightarrow> cb_error + osfile" where
  "seekChunk h f chunkNum =
     (if chunkNum > 0 then
        (case at_go (hChunkOffsets h) chunkNum of
           None \<Rightarrow> Inl indexPanic
         | Some p \<Rightarrow> (case fseek p f of None \<Rightarrow> Inl SeekFailed | Some f' \<Rightarrow> Inr f'))
      else Inr f)"

definition readFirstChunk :: "zstd \<Rightarrow> header \<Rightarrow> osfile \<Rightarrow> int \<Rightarrow> cb_error + bytes \<times> osfile" where
  "readFirstChunk z h f chunkNum =
     (case (at_go (hChunkOffsets h) (chunkNum + 1), at_go (hChunkOffsets h) chunkNum) of
        (Some b, Some a) \<Rightarrow>
          (case fread (nat (b - a)) f of
             Inl e \<Rightarrow> Inl (ShortCompressedChunk e)
           | Inr (compressedFirstChunk, f') \<Rightarrow>
               (case DecodeAll z compressedFirstChunk of
                  None \<Rightarrow> Inl DecodeAllFailed
                | Some c \<Rightarrow> Inr (c, f')))
      | _ \<Rightarrow> Inl indexPanic)"

definition seekIdentity :: "osfile \<Rightarrow> int \<Rightarrow> cb_error + osfile" where
  "seekIdentity f offset =
     (if offset > 0 then
        (case fseek (int (fpos f) + offset) f of None \<Rightarrow> Inl SeekFailed | Some f' \<Rightarrow> Inr f')
      else Inr f)"

text \<open>
  The result is the stream that the returned \<open>io.ReadCloser\<close> delivers. Every error return
  closes the file (a panic does not).
\<close>

definition GetUncompressedReadCloser :: "zstd \<Rightarrow> osfile \<Rightarrow> int \<Rightarrow> int \<Rightarrow> cb_error + reader" where
  "GetUncompressedReadCloser z f expectedSize offset =
     (case readHeader f of
        Inl e \<Rightarrow> Inl e
      | Inr (h, f) \<Rightarrow>
          if expectedSize \<noteq> - 1 \<and> hUncompressedSize h \<noteq> expectedSize
          then Inl (UnexpectedSize expectedSize (hUncompressedSize h))
          else if hCompression h = Identity then map_sum id fileReader (seekIdentity f offset)
          else if hCompression h \<noteq> Zstandard then Inl (UnsupportedCompression (hCompression h))
          else if hChunkSize h = 0 then Inl (GoPanic ''integer divide by zero'')
          else
            let chunkNum = go_div offset (uint (hChunkSize h));
                remainder = go_mod offset (uint (hChunkSize h))
            in case seekChunk h f chunkNum of
                 Inl e \<Rightarrow> Inl e
               | Inr f \<Rightarrow>
                   if remainder = 0 then
                     (case GetDecoder z (fileReader f) of None \<Rightarrow> Inl DecoderFailed | Some r \<Rightarrow> Inr r)
                   else
                     (case readFirstChunk z h f chunkNum of
                        Inl e \<Rightarrow> Inl e
                      | Inr (c, f) \<Rightarrow>
                          if chunkNum = blen (hChunkOffsets h) - 2 then
                            (case from_go c remainder of
                               None \<Rightarrow> Inl indexPanic
                             | Some c' \<Rightarrow> Inr (bytes_reader c'))
                          else
                            (case GetDecoder z (fileReader f) of
                               None \<Rightarrow> Inl DecoderFailed
                             | Some r \<Rightarrow>
                                 (case from_go c remainder of
                                    None \<Rightarrow> Inl indexPanic
                                  | Some c' \<Rightarrow> Inr (multiReader c' r)))))"

definition GetLegacyZstdReadCloser :: "zstd \<Rightarrow> osfile \<Rightarrow> cb_error + reader" where
  "GetLegacyZstdReadCloser z f =
     (case GetEncoder z (fileReader f) of None \<Rightarrow> Inl EncoderFailed | Some r \<Rightarrow> Inr r)"

definition GetZstdReadCloser :: "zstd \<Rightarrow> osfile \<Rightarrow> int \<Rightarrow> int \<Rightarrow> cb_error + reader" where
  "GetZstdReadCloser z f expectedSize offset =
     (case readHeader f of
        Inl e \<Rightarrow> Inl e
      | Inr (h, f) \<Rightarrow>
          if expectedSize \<noteq> - 1 \<and> hUncompressedSize h \<noteq> expectedSize
          then Inl (UnexpectedSize expectedSize (hUncompressedSize h))
          else if hCompression h = Identity then
            (case seekIdentity f offset of Inl e \<Rightarrow> Inl e | Inr f \<Rightarrow> GetLegacyZstdReadCloser z f)
          else if hCompression h \<noteq> Zstandard then Inl (UnsupportedCompression (hCompression h))
          else if hChunkSize h = 0 then Inl (GoPanic ''integer divide by zero'')
          else
            let chunkNum = go_div offset (uint (hChunkSize h));
                remainder = go_mod offset (uint (hChunkSize h))
            in case seekChunk h f chunkNum of
                 Inl e \<Rightarrow> Inl e
               | Inr f \<Rightarrow>
                   if remainder = 0 then Inr (fileReader f)
                   else
                     (case readFirstChunk z h f chunkNum of
                        Inl e \<Rightarrow> Inl e
                      | Inr (c, f) \<Rightarrow>
                          (case from_go c remainder of
                             None \<Rightarrow> Inl indexPanic
                           | Some c' \<Rightarrow>
                               if chunkNum = blen (hChunkOffsets h) - 2
                               then Inr (bytes_reader (EncodeAll z c'))
                               else Inr (multiReader (EncodeAll z c') (fileReader f)))))"

section \<open>Writing blobs\<close>

text \<open>
  The operating system calls of \<open>WriteAndClose\<close> that can fail; the argument \<open>io\<close> says which do.
  The result is paired with the content of the file when the function returns (a failing call
  is taken to write nothing).
\<close>

datatype wstep = WHeader | WCopy | WChunk nat | WSeek | WOffsets | WSync | WClose

text \<open>One iteration per chunk: remember its offset, read, compress, hash and write it.\<close>

fun writeChunks :: "zstd \<Rightarrow> (wstep \<Rightarrow> bool) \<Rightarrow> nat \<Rightarrow> nat \<Rightarrow> int \<Rightarrow> reader \<Rightarrow> int \<Rightarrow> bytes \<Rightarrow> bytes \<Rightarrow> int list \<Rightarrow>
    (cb_error + reader \<times> int \<times> bytes \<times> int list) \<times> bytes" where
  "writeChunks z io 0 nextChunk remaining r fileOffset file hashed offs = (Inr (r, fileOffset, hashed, offs), file)"
| "writeChunks z io (Suc n) nextChunk remaining r fileOffset file hashed offs =
     (let offs' = offs[nextChunk := fileOffset];
          chunkEnd = (if remaining \<le> defaultChunkSize then remaining else defaultChunkSize)
      in case readFull (nat chunkEnd) r of
           (Inl e, _) \<Rightarrow> (Inl (ShortChunk e), file)
         | (Inr chunk, r') \<Rightarrow>
             let compressedChunk = EncodeAll z chunk
             in if io (WChunk nextChunk) then (Inl WriteChunkFailed, file)
                else writeChunks z io n (Suc nextChunk) (remaining - chunkEnd) r'
                       (add64 fileOffset (blen compressedChunk)) (file @ compressedChunk) (hashed @ chunk) offs')"

definition overwriteAt :: "nat \<Rightarrow> bytes \<Rightarrow> bytes \<Rightarrow> bytes" where
  "overwriteAt p bs file = take p file @ bs @ drop (p + length bs) file"

definition WriteAndClose :: "zstd \<Rightarrow> (wstep \<Rightarrow> bool) \<Rightarrow> reader \<Rightarrow> compressionType \<Rightarrow> string \<Rightarrow> int \<Rightarrow>
    (cb_error + int) \<times> bytes" where
  "WriteAndClose z io r t hash sz =
     (if sz \<le> 0 then (Inl (InvalidFileSize sz), []) else
      let numChunks =
            (if t = Zstandard
             then go_div sz defaultChunkSize + (if go_mod sz defaultChunkSize > 0 then 1 else 0)
             else 1);
          numOffsets = numChunks + 1;
          offs = (replicate (nat numOffsets) 0)[0 := chunkTableOffset];
          h = \<lparr>hUncompressedSize = sz, hCompression = t, hChunkSize = word_of_int defaultChunkSize,
               hChunkOffsets = offs\<rparr>
      in
      if io WHeader then (Inl WriteHeaderFailed, []) else
      let file = writeHeader h; fileOffset = headerSize h in
      if t = Identity then
        (if rfails r \<or> io WCopy then (Inl CopyFailed, file)
         else
           let n = blen (rdata r); file = file @ rdata r;
               actualHash = hexEncode (sha256 (rdata r))
           in if n \<noteq> sz then (Inl (CopiedWrong sz n), file)
              else if actualHash \<noteq> hash then (Inl (ChecksumMismatch hash actualHash), file)
              else if io WClose then (Inl CloseFailed, file)
              else (Inr (add64 n fileOffset), file))
      else
        (case writeChunks z io (nat numOffsets - 1) 0 sz r fileOffset file [] offs of
           (Inl e, file) \<Rightarrow> (Inl e, file)
         | (Inr (r, fileOffset, hashed, offs), file) \<Rightarrow>
             let offs = offs[nat numOffsets - 1 := fileOffset];
                 actualHash = hexEncode (sha256 hashed)
             in case fst (readFull (nat defaultChunkSize) r) of
                  Inr _ \<Rightarrow> (Inl TrailingData, file)
                | Inl e \<Rightarrow>
                    if e \<noteq> REOF then (Inl (ReadAfterFailed e), file)
                    else if actualHash \<noteq> hash then (Inl (ChecksumMismatch hash actualHash), file)
                    else if io WSeek then (Inl SeekFailed, file)
                    else if io WOffsets then (Inl WriteOffsetsFailed, file)
                    else
                      let file = overwriteAt (nat chunkTableOffset) (enc_array put_i64 offs) file
                      in if io WSync then (Inl SyncFailed, file)
                         else if io WClose then (Inl CloseFailed, file)
                         else (Inr fileOffset, file)))"

end
