(* ===== verification/Casblob_Correct.thy ===== *)
theory Casblob_Correct
  imports Casblob
begin

text \<open>
  The layout that a written blob has (\<open>casFile\<close>), and the lemmas that lead from the operations
  of \<open>casblob.go\<close> to it: \<open>WriteAndClose\<close> produces exactly this layout, \<open>readHeader\<close> accepts
  it, and from any offset the readers find the chunk that holds it.
\<close>

section \<open>The layout\<close>

abbreviation chunkLen :: nat where "chunkLen \<equiv> 1048576"

definition blobChunks :: "bytes \<Rightarrow> bytes list" where
  "blobChunks blob = chunks chunkLen blob"

fun offTable :: "int \<Rightarrow> bytes list \<Rightarrow> int list" where
  "offTable p [] = [p]"
| "offTable p (c # cs) = p # offTable (p + blen c) cs"

definition dataStart :: "nat \<Rightarrow> int" where
  "dataStart n = 29 + 8 * (int n + 1)"

definition casHeader :: "zstd \<Rightarrow> bytes \<Rightarrow> header" where
  "casHeader z blob =
     \<lparr>hUncompressedSize = blen blob, hCompression = Zstandard, hChunkSize = 1048576,
      hChunkOffsets = offTable (dataStart (length (blobChunks blob))) (map (EncodeAll z) (blobChunks blob))\<rparr>"

definition casFile :: "zstd \<Rightarrow> bytes \<Rightarrow> bytes" where
  "casFile z blob = writeHeader (casHeader z blob) @ concat (map (EncodeAll z) (blobChunks blob))"

text \<open>What the program relies on in the zstd library.\<close>

definition zstd_laws :: "zstd \<Rightarrow> bool" where
  "zstd_laws z \<longleftrightarrow>
     (\<forall>c. EncodeAll z c \<noteq> [] \<and> DecodeAll z (EncodeAll z c) = Some c) \<and>
     (\<forall>cs. GetDecoder z (bytes_reader (concat (map (EncodeAll z) cs))) = Some (bytes_reader (concat cs))) \<and>
     (\<forall>bs. \<exists>out. GetEncoder z (bytes_reader bs) = Some out \<and> GetDecoder z out = Some (bytes_reader bs))"

lemma zstd_lawsD:
  assumes "zstd_laws z"
  shows "EncodeAll z c \<noteq> []" "DecodeAll z (EncodeAll z c) = Some c"
    "GetDecoder z (bytes_reader (concat (map (EncodeAll z) cs))) = Some (bytes_reader (concat cs))"
  using assms by (auto simp: zstd_laws_def)

section \<open>The offset table\<close>

lemma length_offTable [simp]: "length (offTable p cs) = Suc (length cs)"
  by (induction cs arbitrary: p) auto

lemma offTable_neq_Nil [simp]: "offTable p cs \<noteq> []"
  by (cases cs) auto

lemma offTable_nth: "k \<le> length cs \<Longrightarrow> offTable p cs ! k = p + blen (concat (take k cs))"
proof (induction cs arbitrary: p k)
  case (Cons c cs)
  then show ?case by (cases k) (simp_all add: Cons)
qed simp

lemma offTable_range: "x \<in> set (offTable p cs) \<Longrightarrow> p \<le> x \<and> x \<le> p + blen (concat cs)"
proof (induction cs arbitrary: p)
  case (Cons c cs)
  show ?case
  proof (cases "x = p")
    case False
    then have "x \<in> set (offTable (p + blen c) cs)" using Cons.prems by simp
    then show ?thesis using Cons.IH [of "p + blen c"] by (simp add: blen_def)
  qed (simp add: blen_def)
qed simp

lemma checkOffsets_offTable:
  "prev < p \<Longrightarrow> \<forall>c \<in> set cs. c \<noteq> [] \<Longrightarrow> checkOffsets prev (offTable p cs) = Inr (p + blen (concat cs))"
proof (induction cs arbitrary: prev p)
  case (Cons c cs)
  then have "0 < blen c" by (simp add: blen_def)
  then show ?case using Cons by simp
qed simp

section \<open>The header\<close>

lemma length_writeHeader: "length (writeHeader h) = 29 + 8 * length (hChunkOffsets h)"
  by (simp add: writeHeader_def put_u32_def put_i64_def put_u8_def enc_array_def length_concat
      comp_def sum_list_triv)

definition goodHeader :: "header \<Rightarrow> int \<Rightarrow> bool" where
  "goodHeader h filesize \<longleftrightarrow>
     in64 (hUncompressedSize h) \<and> list_all in64 (hChunkOffsets h) \<and>
     2 \<le> length (hChunkOffsets h) \<and> length (hChunkOffsets h) \<le> 536870909 \<and>
     checkOffsets (- 1) (hChunkOffsets h) = Inr filesize"

lemma frameSize_uint:
  "length (hChunkOffsets h) \<le> 536870909 \<Longrightarrow> uint (frameSize h) = 21 + 8 * int (length (hChunkOffsets h))"
proof -
  assume le: "length (hChunkOffsets h) \<le> 536870909"
  have "frameSize h = word_of_int (21 + 8 * int (length (hChunkOffsets h)))"
    by (simp add: frameSize_def chunkTableOffset_def)
  then have "uint (frameSize h) = (21 + 8 * int (length (hChunkOffsets h))) mod 2 ^ 32"
    by (simp only: uint_word_of_int len_num1 len_bit0) simp
  then show ?thesis using le by simp
qed

lemma readHeader_writeHeader:
  fixes h :: header and d :: bytes
  defines "bs \<equiv> writeHeader h @ d"
  assumes g: "goodHeader h (blen bs)" and d: "d \<noteq> []"
  shows "readHeader (openBytes bs) = Inr (h, fadv (length (writeHeader h)) (openBytes bs))"
proof -
  let ?n = "length (hChunkOffsets h)"
  have n: "2 \<le> ?n" "?n \<le> 536870909" and u: "in64 (hUncompressedSize h)"
    and offs: "length (hChunkOffsets h) = ?n \<and> list_all in64 (hChunkOffsets h)"
    and chk: "checkOffsets (- 1) (hChunkOffsets h) = Inr (blen bs)"
    using g by (auto simp: goodHeader_def)
  have ni: "in64 (blen (hChunkOffsets h))" using n by (simp add: blen_def in64_def)
  have small: "\<not> blen bs \<le> chunkTableOffset + 16"
    using n d by (cases d) (simp_all add: bs_def chunkTableOffset_def blen_def length_writeHeader)
  have f0: "frest (openBytes bs) = put_u32 skippableFrameMagicNumber @ put_u32 (frameSize h) @
      put_i64 (hUncompressedSize h) @ put_u8 (hCompression h) @ put_u32 (hChunkSize h) @
      put_i64 (blen (hChunkOffsets h)) @ enc_array put_i64 (hChunkOffsets h) @ d"
    by (simp add: frest_def openBytes_def bs_def writeHeader_def)
  note f1 = u32.rest_enc [OF f0]
  note f2 = u32.rest_enc [OF f1 [simplified]]
  note f3 = i64.rest_enc [OF f2 [simplified]]
  note f4 = u8.rest_enc [OF f3 [OF u]]
  note f5 = u32.rest_enc [OF f4 [simplified]]
  note f6 = i64.rest_enc [OF f5 [simplified]]
  note f7 = i64s.rest_enc [OF f6 [OF ni]]
  have fd: "fdata (openBytes bs) = bs" by (simp add: openBytes_def)
  have fa: "fadv (?n * 8) (fadv 8 (fadv 4 (fadv (Suc 0) (fadv 8 (fadv 4 (fadv 4 (openBytes bs))))))) =
      fadv (length (writeHeader h)) (openBytes bs)"
    by (simp add: fadv_fadv length_writeHeader)
  have nof: "ffail (openBytes bs) = (\<lambda>_. False)" by (simp add: openBytes_def)
  have ms: "wrap64 (21 + blen (hChunkOffsets h) * 8) = uint (frameSize h)"
    using n frameSize_uint [OF n(2)] by (simp add: blen_def wrap64_range)
  have pan: "\<not> blen (hChunkOffsets h) > maxOffsetsLen" using n by (simp add: blen_def maxOffsetsLen_def)
  have two: "\<not> blen (hChunkOffsets h) < 2" using n by (simp add: blen_def)
  have nn: "nat (blen (hChunkOffsets h)) = ?n" by simp
  show ?thesis
    unfolding readHeader_def Let_def
    using small nof
    by (simp add: u32.read_enc [OF f0] u32.read_enc [OF f1 [simplified]] i64.read_enc [OF f2 [simplified] u]
        u8.read_enc [OF f3 [OF u]] u32.read_enc [OF f4 [simplified]] i64.read_enc [OF f5 [simplified] ni]
        i64s.read_enc [OF f6 [OF ni] offs] two ms pan chk fd fa)
qed

section \<open>Writing\<close>

lemma blobChunks_props:
  "concat (blobChunks b) = b" "c \<in> set (blobChunks b) \<Longrightarrow> c \<noteq> []"
  by (simp_all add: blobChunks_def concat_chunks chunks_nonempty_parts)

text \<open>\<open>n\<close> iterations are left exactly when \<open>remaining\<close> bytes make \<open>n\<close> chunks.\<close>

definition chunksLeft :: "nat \<Rightarrow> int \<Rightarrow> bool" where
  "chunksLeft n rem \<longleftrightarrow> 0 \<le> rem \<and> rem \<le> int n * defaultChunkSize \<and> (n = 0 \<or> (int n - 1) * defaultChunkSize < rem)"

lemma chunksLeft_blob: "chunksLeft (length (blobChunks b)) (blen b)"
proof -
  let ?m = "length (blobChunks b)"
  obtain q where q: "?m * chunkLen + q = length b + chunkLen - 1" "q < chunkLen"
  proof
    show "?m * chunkLen + (length b + chunkLen - 1) mod chunkLen = length b + chunkLen - 1"
      by (simp only: blobChunks_def length_chunks zero_less_numeral) (rule div_mult_mod_eq)
  qed simp
  then have "int ?m * 1048576 + int q = int (length b) + 1048575" "int q < 1048576" "0 \<le> int q" by linarith+
  then show ?thesis unfolding chunksLeft_def defaultChunkSize_def blen_def
    by (intro conjI disjI2; simp add: left_diff_distrib; linarith?)
qed

lemma readFull_append: "rdata r = c @ d \<Longrightarrow> readFull (length c) r = (Inr c, r\<lparr>rdata := d\<rparr>)"
  by (simp add: readFull_def)

lemma chunksLeft_unique: "chunksLeft n rem \<Longrightarrow> chunksLeft m rem \<Longrightarrow> n = m"
  by (auto simp: chunksLeft_def defaultChunkSize_def)

lemma chunksLeft_step:
  "chunksLeft (Suc n) rem \<Longrightarrow>
     0 < rem \<and> chunksLeft n (rem - (if rem \<le> defaultChunkSize then rem else defaultChunkSize))"
  by (auto simp: chunksLeft_def defaultChunkSize_def algebra_simps split: if_splits)

lemma writeChunks_reads:
  "chunksLeft n rem \<Longrightarrow> fst (writeChunks z io n k rem r off fl hashed offs) = Inr res \<Longrightarrow>
     rem \<le> blen (rdata r) \<and> (\<forall>i < n. \<not> io (WChunk (k + i)))"
proof (induction n arbitrary: k rem r off fl hashed offs)
  case (Suc n)
  let ?e = "if rem \<le> defaultChunkSize then rem else defaultChunkSize"
  from chunksLeft_step [OF Suc.prems(1)] have rem: "0 < rem" "chunksLeft n (rem - ?e)" by simp_all
  have e: "0 < ?e" "nat ?e \<le> length (rdata r)" "\<not> io (WChunk k)"
    using Suc.prems(2) rem by (auto simp: readFull_def Let_def defaultChunkSize_def split: if_splits)
  from Suc.IH [OF rem(2)] Suc.prems(2) e
  have ih: "rem - ?e \<le> blen (drop (nat ?e) (rdata r))" "\<forall>i < n. \<not> io (WChunk (Suc k + i))"
    by (force simp: readFull_def Let_def)+
  have "rem \<le> blen (rdata r)" using ih(1) e by (simp add: blen_def)
  moreover have "\<not> io (WChunk (k + i))" if "i < Suc n" for i
    using that e(3) ih(2) by (cases i) auto
  ultimately show ?case by blast
next
  case 0
  then have "rem \<le> 0" by (simp add: chunksLeft_def)
  then show ?case using order_trans [OF _ blen_simps(4)] by simp
qed

lemma take_drop_update:
  "length offs = k + Suc n + 1 \<Longrightarrow> take (Suc k) (offs[k := x]) = take k offs @ [x]"
  by (simp add: take_Suc_conv_app_nth)

lemma writeChunks_correct:
  assumes "rdata r = b @ rest" "n = length (blobChunks b)" "rem = blen b"
    "length offs = k + n + 1" "\<forall>i < n. \<not> io (WChunk (k + i))" "0 \<le> off"
    "off + blen (concat (map (EncodeAll z) (blobChunks b))) \<le> maxInt64"
  shows "writeChunks z io n k rem r off fl hashed offs =
    (Inr (r\<lparr>rdata := rest\<rparr>, off + blen (concat (map (EncodeAll z) (blobChunks b))), hashed @ b,
       take k offs @ butlast (offTable off (map (EncodeAll z) (blobChunks b))) @ drop (k + n) offs),
     fl @ concat (map (EncodeAll z) (blobChunks b)))"
  using assms
proof (induction n arbitrary: b k rem r off fl hashed offs)
  case 0
  then have "blobChunks b = []" by simp
  then have "b = []" using blobChunks_props(1) [of b] by simp
  then show ?case using 0 by (simp add: blobChunks_def)
next
  case (Suc n)
  have bne: "b \<noteq> []" using Suc.prems(2) by (auto simp: blobChunks_def)
  let ?c = "take chunkLen b" and ?d = "drop chunkLen b"
  have bc: "blobChunks b = ?c # blobChunks ?d"
    using bne by (simp add: blobChunks_def chunks_step)
  let ?e = "if rem \<le> defaultChunkSize then rem else defaultChunkSize"
  have e: "nat ?e = length ?c"
    using Suc.prems(3) by (auto simp: defaultChunkSize_def blen_def)
  have rd: "readFull (nat ?e) r = (Inr ?c, r\<lparr>rdata := ?d @ rest\<rparr>)"
    unfolding e using Suc.prems(1) by (intro readFull_append) simp
  let ?x = "EncodeAll z ?c"
  have le: "off + blen ?x \<le> maxInt64" "add64 off (blen ?x) = off + blen ?x"
    using Suc.prems(6,7) by (simp_all add: bc add64_def wrap64_range blen_def)
  have step: "writeChunks z io (Suc n) k rem r off fl hashed offs =
      writeChunks z io n (Suc k) (rem - ?e) (r\<lparr>rdata := ?d @ rest\<rparr>) (off + blen ?x) (fl @ ?x)
        (hashed @ ?c) (offs[k := off])"
    using Suc.prems(5) [rule_format, of 0] rd le(2) by (simp add: Let_def)
  have re: "rem - ?e = blen ?d"
    using Suc.prems(3) by (simp add: defaultChunkSize_def blen_def)
  have "writeChunks z io n (Suc k) (rem - ?e) (r\<lparr>rdata := ?d @ rest\<rparr>) (off + blen ?x) (fl @ ?x)
      (hashed @ ?c) (offs[k := off]) =
    (Inr (r\<lparr>rdata := rest\<rparr>, off + blen ?x + blen (concat (map (EncodeAll z) (blobChunks ?d))), hashed @ ?c @ ?d,
       take (Suc k) (offs[k := off]) @ butlast (offTable (off + blen ?x) (map (EncodeAll z) (blobChunks ?d)))
         @ drop (Suc k + n) (offs[k := off])),
     (fl @ ?x) @ concat (map (EncodeAll z) (blobChunks ?d)))"
    unfolding re using Suc.prems(2,4,6,7) Suc.prems(5) [rule_format, of "Suc _"] bc
    by (subst Suc.IH [where b = ?d]) (simp_all add: le(2) blen_def)
  then show ?case
    unfolding step using Suc.prems(4)
    by (simp add: bc take_Suc_conv_app_nth)
qed

text \<open>Going back to fill in the offset table.\<close>

lemma enc_array_length [simp]: "length (enc_array put_i64 xs) = 8 * length xs"
  by (induction xs) (simp_all add: enc_array_def put_i64_def)

lemma overwriteAt_append:
  "length p = k \<Longrightarrow> length xs = length ys \<Longrightarrow> overwriteAt k ys (p @ xs @ d) = p @ ys @ d"
  by (simp add: overwriteAt_def)

lemma overwrite_header:
  assumes "length offs = length (hChunkOffsets h)"
  shows "overwriteAt 29 (enc_array put_i64 offs) (writeHeader h @ d) = writeHeader (h\<lparr>hChunkOffsets := offs\<rparr>) @ d"
proof -
  let ?p = "put_u32 skippableFrameMagicNumber @ put_u32 (frameSize h) @ put_i64 (hUncompressedSize h) @
      put_u8 (hCompression h) @ put_u32 (hChunkSize h) @ put_i64 (blen (hChunkOffsets h))"
  have p: "length ?p = 29" by (simp add: put_u32_def put_i64_def put_u8_def)
  have w: "writeHeader h = ?p @ enc_array put_i64 (hChunkOffsets h)"
    by (simp add: writeHeader_def)
  have w': "writeHeader (h\<lparr>hChunkOffsets := offs\<rparr>) = ?p @ enc_array put_i64 offs"
    using assms by (simp add: writeHeader_def frameSize_def blen_def)
  have "overwriteAt 29 (enc_array put_i64 offs) (?p @ enc_array put_i64 (hChunkOffsets h) @ d) =
      ?p @ enc_array put_i64 offs @ d"
    using p assms by (intro overwriteAt_append) simp_all
  then show ?thesis unfolding w w' append_assoc .
qed

definition numChunks :: "int \<Rightarrow> int" where
  "numChunks sz = go_div sz defaultChunkSize + (if go_mod sz defaultChunkSize > 0 then 1 else 0)"

lemma numChunks_left: "0 < sz \<Longrightarrow> 0 < numChunks sz \<and> chunksLeft (nat (numChunks sz)) sz"
proof -
  assume s: "0 < sz"
  have e: "sz div 1048576 * 1048576 + sz mod 1048576 = sz" by (rule div_mult_mod_eq)
  have m: "0 \<le> sz mod 1048576" "sz mod 1048576 < 1048576" by simp_all
  have n: "numChunks sz = sz div 1048576 + (if sz mod 1048576 > 0 then 1 else 0)"
    using s by (simp add: numChunks_def defaultChunkSize_def go_div_nonneg go_mod_nonneg)
  have "0 < numChunks sz" unfolding n using e m s by (simp; linarith)
  moreover have "sz \<le> numChunks sz * 1048576 \<and> (numChunks sz - 1) * 1048576 < sz"
    unfolding n using e m s by (simp add: algebra_simps; linarith)
  ultimately show ?thesis using s by (simp add: chunksLeft_def defaultChunkSize_def)
qed

lemma numChunks_blob: "b \<noteq> [] \<Longrightarrow> numChunks (blen b) = int (length (blobChunks b)) \<and> 0 < length (blobChunks b)"
proof -
  assume "b \<noteq> []"
  then have "0 < blen b" by (simp add: blen_def)
  then have n: "0 < numChunks (blen b)" "chunksLeft (nat (numChunks (blen b))) (blen b)"
    using numChunks_left by blast+
  from chunksLeft_unique [OF n(2) chunksLeft_blob] n(1) show ?thesis by auto
qed

lemma length_casFile:
  "blen (casFile z b) = dataStart (length (blobChunks b)) + blen (concat (map (EncodeAll z) (blobChunks b)))"
  by (simp add: casFile_def blen_def length_writeHeader casHeader_def dataStart_def)

lemma offTable_finish:
  assumes "cs \<noteq> []" "length xs = 1"
  shows "(butlast (offTable p cs) @ xs)[length cs := p + blen (concat cs)] = offTable p cs"
proof -
  obtain x where x: "xs = [x]" using assms(2) by (auto simp: length_Suc_conv)
  have "last (offTable p cs) = p + blen (concat cs)"
    by (simp add: last_conv_nth offTable_nth)
  then show ?thesis
    unfolding x by (metis append_butlast_last_id length_butlast length_offTable list_update_length
        offTable_neq_Nil diff_Suc_1)
qed

text \<open>The steps of writing a blob of a given size, all of which have to succeed.\<close>

definition writeSteps :: "int \<Rightarrow> wstep set" where
  "writeSteps sz = {WHeader, WSeek, WOffsets, WSync, WClose} \<union> WChunk ` {..<nat (numChunks sz)}"

lemma WriteAndClose_run:
  assumes b: "rdata r = b" "b \<noteq> []" and small: "blen (casFile z b) \<le> maxInt64" "blen b \<le> maxInt64"
    and io: "\<not> io WHeader" "\<forall>i < length (blobChunks b). \<not> io (WChunk i)"
  shows "WriteAndClose z io r Zstandard hash (blen b) =
    (let file = (writeHeader (casHeader z b\<lparr>hChunkOffsets := (replicate (Suc (length (blobChunks b))) 0)[0 := 29]\<rparr>)
                  @ concat (map (EncodeAll z) (blobChunks b)))
     in if rfails r then (Inl (ReadAfterFailed RError), file)
        else if hexEncode (sha256 b) \<noteq> hash then (Inl (ChecksumMismatch hash (hexEncode (sha256 b))), file)
        else if io WSeek then (Inl SeekFailed, file)
        else if io WOffsets then (Inl WriteOffsetsFailed, file)
        else if io WSync then (Inl SyncFailed, casFile z b)
        else if io WClose then (Inl CloseFailed, casFile z b)
        else (Inr (blen (casFile z b)), casFile z b))"
proof -
  let ?n = "length (blobChunks b)"
  let ?offs = "(replicate (Suc ?n) 0)[0 := 29 :: int]"
  let ?h = "casHeader z b\<lparr>hChunkOffsets := ?offs\<rparr>"
  let ?comp = "map (EncodeAll z) (blobChunks b)"
  have nc: "go_div (blen b) defaultChunkSize + (if go_mod (blen b) defaultChunkSize > 0 then 1 else 0) = int ?n"
      "0 < ?n"
    using numChunks_blob [OF b(2)] by (simp_all add: numChunks_def)
  have pos: "\<not> blen b \<le> 0" using b(2) by (simp add: blen_def)
  have nsmall: "int ?n \<le> maxInt64 div 1048576 + 1"
    using chunksLeft_blob [of b] small(2) by (auto simp: chunksLeft_def defaultChunkSize_def)
  have hs: "headerSize ?h = dataStart ?n"
    using nsmall by (simp add: headerSize_def chunkTableOffset_def dataStart_def add64_def wrap64_range
        blen_def casHeader_def)
  have heq: "\<lparr>hUncompressedSize = blen b, hCompression = Zstandard, hChunkSize = word_of_int defaultChunkSize,
      hChunkOffsets = ?offs\<rparr> = ?h"
    by (simp add: casHeader_def defaultChunkSize_def)
  have sum: "dataStart ?n + blen (concat ?comp) \<le> maxInt64" using small(1) length_casFile by simp
  have w: "writeChunks z io ?n 0 (blen b) r (dataStart ?n) (writeHeader ?h) [] ?offs =
     (Inr (r\<lparr>rdata := []\<rparr>, dataStart ?n + blen (concat ?comp), b,
        butlast (offTable (dataStart ?n) ?comp) @ drop ?n ?offs), writeHeader ?h @ concat ?comp)"
    using writeChunks_correct [where b = b and rest = "[]" and k = 0 and offs = ?offs and n = ?n and hashed = "[]"
        and r = r and off = "dataStart ?n" and z = z and io = io and fl = "writeHeader ?h" and rem = "blen b"]
      b(1) io(2) sum by (simp add: dataStart_def)
  have fin: "(butlast (offTable (dataStart ?n) ?comp) @ drop ?n ?offs)[?n := dataStart ?n + blen (concat ?comp)]
      = offTable (dataStart ?n) ?comp"
    using offTable_finish [of ?comp "drop ?n ?offs" "dataStart ?n"] nc(2) by simp
  have ow: "overwriteAt 29 (enc_array put_i64 (offTable (dataStart ?n) ?comp)) (writeHeader ?h @ concat ?comp)
      = casFile z b"
    by (subst overwrite_header) (simp_all add: casFile_def casHeader_def)
  have nn: "nat (int ?n + 1) = Suc ?n" by simp
  have rf: "fst (readFull (nat defaultChunkSize) (r\<lparr>rdata := []\<rparr>)) = Inl (if rfails r then RError else REOF)"
    by (simp add: readFull_def defaultChunkSize_def)
  have ct: "nat chunkTableOffset = 29" "chunkTableOffset = 29" by (simp_all add: chunkTableOffset_def)
  have zi: "Zstandard \<noteq> Identity" by (simp add: Zstandard_def Identity_def)
  show ?thesis
    unfolding WriteAndClose_def Let_def if_P [OF refl] nc(1) nn ct heq diff_Suc_1 hs w sum.case prod.case fin ow
    using pos io(1) zi rf length_casFile [of z b] ow by simp
qed

lemma WriteAndClose_success_reads:
  assumes "fst (WriteAndClose z io r Zstandard hash sz) = Inr n"
  shows "0 < sz \<and> sz \<le> blen (rdata r) \<and> (\<forall>s \<in> writeSteps sz. \<not> io s)"
proof -
  let ?m = "numChunks sz"
  have sz: "0 < sz" using assms by (simp add: WriteAndClose_def split: if_splits)
  note left = numChunks_left [OF sz]
  have m: "nat (?m + 1) - 1 = nat ?m" using left by simp
  let ?offs = "(replicate (nat (?m + 1)) 0)[0 := chunkTableOffset]"
  let ?h = "\<lparr>hUncompressedSize = sz, hCompression = Zstandard, hChunkSize = word_of_int defaultChunkSize,
      hChunkOffsets = ?offs\<rparr>"
  have zi: "Zstandard \<noteq> Identity" by (simp add: Zstandard_def Identity_def)
  obtain res where res: "fst (writeChunks z io (nat ?m) 0 sz r (headerSize ?h) (writeHeader ?h) [] ?offs) = Inr res"
      and hd: "\<not> io WHeader"
    using assms zi sz unfolding WriteAndClose_def Let_def numChunks_def [symmetric] if_P [OF refl] m
    by (auto split: if_splits sum.splits prod.splits)
  note rd = writeChunks_reads [OF conjunct2 [OF left] res]
  have "\<not> io WSeek \<and> \<not> io WOffsets \<and> \<not> io WSync \<and> \<not> io WClose"
    using assms zi sz hd unfolding WriteAndClose_def Let_def numChunks_def [symmetric] if_P [OF refl] m
    by (auto split: if_splits sum.splits prod.splits)
  then show ?thesis using sz hd rd by (auto simp: writeSteps_def)
qed

text \<open>A blob with more data than announced is refused.\<close>

lemma WriteAndClose_trailing:
  assumes "rdata r = b @ x # rest" "b \<noteq> []"
    and small: "blen (casFile z b) \<le> maxInt64" "blen b \<le> maxInt64"
  shows "fst (WriteAndClose z io r Zstandard hash (blen b)) \<noteq> Inr n"
proof
  assume ok: "fst (WriteAndClose z io r Zstandard hash (blen b)) = Inr n"
  let ?n = "length (blobChunks b)"
  let ?m = "numChunks (blen b)"
  have mn: "?m = int ?n" "0 < ?n" using numChunks_blob [OF assms(2)] by simp_all
  have nofail: "\<forall>s \<in> writeSteps (blen b). \<not> io s"
    using WriteAndClose_success_reads [OF ok] by blast
  let ?offs = "(replicate (nat (?m + 1)) 0)[0 := chunkTableOffset]"
  let ?h = "\<lparr>hUncompressedSize = blen b, hCompression = Zstandard, hChunkSize = word_of_int defaultChunkSize,
      hChunkOffsets = ?offs\<rparr>"
  have nsmall: "int ?n \<le> maxInt64 div 1048576 + 1"
    using chunksLeft_blob [of b] small(2) by (auto simp: chunksLeft_def defaultChunkSize_def)
  have hs: "headerSize ?h = dataStart ?n"
    using nsmall mn by (simp add: headerSize_def chunkTableOffset_def dataStart_def add64_def wrap64_range blen_def)
  have sum: "dataStart ?n + blen (concat (map (EncodeAll z) (blobChunks b))) \<le> maxInt64"
    using small(1) length_casFile by simp
  have m: "nat (?m + 1) - 1 = nat ?m" using mn by simp
  have w: "\<exists>off hs' os fl. writeChunks z io (nat ?m) 0 (blen b) r (headerSize ?h) (writeHeader ?h) [] ?offs =
      (Inr (r\<lparr>rdata := x # rest\<rparr>, off, hs', os), fl)"
  proof -
    have "writeChunks z io (nat ?m) 0 (blen b) r (dataStart ?n) (writeHeader ?h) [] ?offs =
        (Inr (r\<lparr>rdata := x # rest\<rparr>, dataStart ?n + blen (concat (map (EncodeAll z) (blobChunks b))), [] @ b,
           take 0 ?offs @ butlast (offTable (dataStart ?n) (map (EncodeAll z) (blobChunks b))) @ drop (0 + nat ?m) ?offs),
         writeHeader ?h @ concat (map (EncodeAll z) (blobChunks b)))"
      using nofail mn sum
      by (intro writeChunks_correct [where rest = "x # rest"] assms(1)) (auto simp: writeSteps_def dataStart_def)
    then show ?thesis unfolding hs by blast
  qed
  have zi: "Zstandard \<noteq> Identity" by (simp add: Zstandard_def Identity_def)
  have "fst (readFull (nat defaultChunkSize) (r\<lparr>rdata := x # rest\<rparr>)) \<noteq> Inl REOF"
    by (simp add: readFull_def)
  then show False
    using ok w zi unfolding WriteAndClose_def Let_def numChunks_def [symmetric] if_P [OF refl] m
    by (auto split: if_splits sum.splits prod.splits)
qed

section \<open>Reading back\<close>

lemma casHeader_good:
  assumes "b \<noteq> []" "zstd_laws z" "length (blobChunks b) \<le> 536870908" "blen (casFile z b) \<le> maxInt64" "blen b \<le> maxInt64"
  shows "goodHeader (casHeader z b) (blen (casFile z b))"
proof -
  let ?cs = "map (EncodeAll z) (blobChunks b)"
  have ne: "\<forall>c \<in> set ?cs. c \<noteq> []" using zstd_lawsD(1) [OF assms(2)] by auto
  have rng: "in64 x" if "x \<in> set (offTable (dataStart (length (blobChunks b))) ?cs)" for x
    using offTable_range [OF that] assms(4) length_casFile [of z b] by (simp add: in64_def dataStart_def)
  show ?thesis
    using checkOffsets_offTable [OF _ ne, of "- 1" "dataStart (length (blobChunks b))"] rng assms
      numChunks_blob [OF assms(1)] length_casFile [of z b]
    by (auto simp: Suc_le_eq goodHeader_def casHeader_def list_all_iff in64_def dataStart_def order_trans [OF _ blen_simps(4)])
qed

lemma concat_map_ne: "xs \<noteq> [] \<Longrightarrow> (\<And>c. f c \<noteq> []) \<Longrightarrow> concat (map f xs) \<noteq> []"
  by (cases xs) auto

lemma readHeader_casFile:
  assumes "b \<noteq> []" "zstd_laws z" "length (blobChunks b) \<le> 536870908" "blen (casFile z b) \<le> maxInt64" "blen b \<le> maxInt64"
  shows "readHeader (openBytes (casFile z b)) =
    Inr (casHeader z b, fadv (nat (dataStart (length (blobChunks b)))) (openBytes (casFile z b)))"
proof -
  have "blobChunks b \<noteq> []" using numChunks_blob [OF assms(1)] by auto
  then have "concat (map (EncodeAll z) (blobChunks b)) \<noteq> []"
    using zstd_lawsD(1) [OF assms(2)] by (rule concat_map_ne)
  moreover have "length (writeHeader (casHeader z b)) = nat (dataStart (length (blobChunks b)))"
    by (simp add: length_writeHeader casHeader_def dataStart_def)
  ultimately show ?thesis
    using readHeader_writeHeader [OF casHeader_good [OF assms, unfolded casFile_def]] by (simp add: casFile_def)
qed

text \<open>A file positioned at the start of chunk \<open>k\<close> of a well-behaved disk.\<close>

definition atChunk :: "zstd \<Rightarrow> bytes \<Rightarrow> nat \<Rightarrow> osfile \<Rightarrow> bool" where
  "atChunk z b k f \<longleftrightarrow> ffail f = (\<lambda>_. False) \<and> frest f = concat (map (EncodeAll z) (drop k (blobChunks b)))"

lemma fileReader_atChunk:
  "atChunk z b k f \<Longrightarrow> fileReader f = bytes_reader (concat (map (EncodeAll z) (drop k (blobChunks b))))"
  by (simp add: atChunk_def fileReader_def)

lemma atChunk_pos:
  assumes "ffail f = (\<lambda>_. False)" "fdata f = casFile z b" "k \<le> length (blobChunks b)"
    "fpos f = nat (offTable (dataStart (length (blobChunks b))) (map (EncodeAll z) (blobChunks b)) ! k)"
  shows "atChunk z b k f"
proof -
  let ?cs = "map (EncodeAll z) (blobChunks b)"
  have p: "fpos f = length (writeHeader (casHeader z b)) + length (concat (take k ?cs))"
    using assms(3,4) by (simp add: offTable_nth length_writeHeader casHeader_def dataStart_def blen_def nat_add_distrib)
  have "concat ?cs = concat (take k ?cs) @ concat (drop k ?cs)"
    by (simp only: concat_append [symmetric] append_take_drop_id)
  then have "fdata f = (writeHeader (casHeader z b) @ concat (take k ?cs)) @ concat (drop k ?cs)"
    using assms(2) by (simp add: casFile_def)
  then have "frest f = concat (drop k ?cs)" unfolding frest_def p by (simp del: append_assoc)
  then show ?thesis using assms(1) by (simp add: atChunk_def drop_map)
qed

lemma casHeader_offsets:
  "k \<le> length (blobChunks b) \<Longrightarrow> at_go (hChunkOffsets (casHeader z b)) (int k) =
     Some (dataStart (length (blobChunks b)) + blen (concat (take k (map (EncodeAll z) (blobChunks b)))))"
  by (simp add: at_go_def casHeader_def offTable_nth blen_def)

lemma dataStart_nonneg: "0 \<le> dataStart n"
  by (simp add: dataStart_def)

lemma seekChunk_casFile:
  fixes z :: zstd
  assumes "k \<le> length (blobChunks b)"
  defines "f0 \<equiv> fadv (nat (dataStart (length (blobChunks b)))) (openBytes (casFile z b))"
  shows "\<exists>f. seekChunk (casHeader z b) f0 (int k) = Inr f \<and> atChunk z b k f"
proof (cases k)
  case 0
  have "atChunk z b 0 f0"
    by (intro atChunk_pos) (simp_all add: f0_def openBytes_def offTable_nth)
  then show ?thesis using 0 by (simp add: seekChunk_def)
next
  case (Suc j)
  let ?p = "dataStart (length (blobChunks b)) + blen (concat (take k (map (EncodeAll z) (blobChunks b))))"
  have "0 \<le> ?p" by (simp add: dataStart_def)
  then have "seekChunk (casHeader z b) f0 (int k) = Inr (f0\<lparr>fpos := nat ?p\<rparr>)"
    using Suc casHeader_offsets [OF assms(1)] by (simp add: seekChunk_def fseek_def f0_def openBytes_def)
  moreover have "atChunk z b k (f0\<lparr>fpos := nat ?p\<rparr>)"
    using assms(1) by (intro atChunk_pos) (simp_all add: f0_def openBytes_def offTable_nth)
  ultimately show ?thesis by blast
qed

lemma readFirstChunk_casFile:
  assumes "atChunk z b k f" "k < length (blobChunks b)" "zstd_laws z"
  shows "\<exists>f'. readFirstChunk z (casHeader z b) f (int k) = Inr (blobChunks b ! k, f') \<and> atChunk z b (Suc k) f'"
proof -
  let ?c = "EncodeAll z (blobChunks b ! k)"
  have "concat (take (Suc k) (map (EncodeAll z) (blobChunks b))) =
      concat (take k (map (EncodeAll z) (blobChunks b))) @ ?c"
    using assms(2) by (simp add: take_Suc_conv_app_nth)
  then have diff: "at_go (hChunkOffsets (casHeader z b)) (int k + 1) =
      Some (dataStart (length (blobChunks b)) + blen (concat (take k (map (EncodeAll z) (blobChunks b)))) + blen ?c)"
    using casHeader_offsets [of "Suc k" b z] assms(2) by (simp add: add.commute)
  have fr: "frest f = ?c @ concat (map (EncodeAll z) (drop (Suc k) (blobChunks b)))" "ffail f = (\<lambda>_. False)"
    using assms(1,2) by (simp_all add: atChunk_def Cons_nth_drop_Suc [symmetric])
  then have rd: "fread (length ?c) f = Inr (?c, fadv (length ?c) f)"
    by (simp add: fread_def)
  have "atChunk z b (Suc k) (fadv (length ?c) f)"
    using fr by (simp add: atChunk_def frest_fadv)
  moreover have "readFirstChunk z (casHeader z b) f (int k) = Inr (blobChunks b ! k, fadv (length ?c) f)"
    using rd assms(2) zstd_lawsD(2) [OF assms(3)]
    by (simp add: readFirstChunk_def diff casHeader_offsets del: of_nat_Suc)
  ultimately show ?thesis by blast
qed

lemma drop_at_boundary: "drop (k * chunkLen) b = concat (drop k (blobChunks b))"
  by (simp add: blobChunks_def concat_chunks flip: chunks_drop)

lemma drop_at_chunk:
  assumes "k < length (blobChunks b)" "r < chunkLen" "k * chunkLen + r \<le> length b"
  shows "drop (k * chunkLen + r) b = drop r (blobChunks b ! k) @ concat (drop (Suc k) (blobChunks b))"
    and "r \<le> length (blobChunks b ! k)"
proof -
  have len: "r \<le> length (blobChunks b ! k)"
    using assms chunks_nth [of chunkLen k b] by (simp add: blobChunks_def)
  have "drop (k * chunkLen) b = concat (drop k (blobChunks b))"
    by (rule drop_at_boundary)
  also have "\<dots> = blobChunks b ! k @ concat (drop (Suc k) (blobChunks b))"
    using assms(1) by (simp add: Cons_nth_drop_Suc [symmetric])
  finally have "drop r (drop (k * chunkLen) b) = drop r (blobChunks b ! k) @ concat (drop (Suc k) (blobChunks b))"
    using len by simp
  then show "drop (k * chunkLen + r) b = drop r (blobChunks b ! k) @ concat (drop (Suc k) (blobChunks b))"
    by (simp add: add.commute)
  show "r \<le> length (blobChunks b ! k)" by (rule len)
qed

end
