(* ===== verification/Casblob_Props.thy ===== *)
theory Casblob_Props
  imports Casblob_Correct
begin

text \<open>
  The properties of the blob format: which uploads \<open>WriteAndClose\<close> accepts and what it leaves on
  disk, the round trip through both readers from every offset, what an accepted header
  guarantees, and the corners in which the format code does not behave as intended.
\<close>

lemma WriteAndClose_success:
  assumes ok: "WriteAndClose z io r Zstandard hash sz = (Inr n, file)"
    and sz: "sz \<le> maxInt64" and fit: "blen (casFile z (take (nat sz) (rdata r))) \<le> maxInt64"
  shows "0 < sz \<and> \<not> rfails r \<and> blen (rdata r) = sz \<and> hash = hexEncode (sha256 (rdata r)) \<and>
    (\<forall>s \<in> writeSteps sz. \<not> io s) \<and> file = casFile z (rdata r) \<and> n = blen file"
proof -
  have fst: "fst (WriteAndClose z io r Zstandard hash sz) = Inr n" using ok by simp
  note rd = WriteAndClose_success_reads [OF fst]
  let ?b = "take (nat sz) (rdata r)"
  have b: "?b \<noteq> []" "blen ?b = sz" using rd by (auto simp: blen_def)
  have "drop (nat sz) (rdata r) = []"
  proof (cases "drop (nat sz) (rdata r)")
    case (Cons x rest)
    then have "rdata r = ?b @ x # rest" by (metis append_take_drop_id)
    from WriteAndClose_trailing [OF this b(1) fit] fst b(2) sz show ?thesis by simp
  qed
  then have bb: "?b = rdata r" by simp
  have io: "\<not> io WHeader" "\<forall>i < length (blobChunks ?b). \<not> io (WChunk i)"
    using rd numChunks_blob [OF b(1)] b(2) by (auto simp: writeSteps_def)
  from WriteAndClose_run [OF bb [symmetric] b(1) fit _ io, of hash] ok b sz
  have "\<not> rfails r \<and> hexEncode (sha256 ?b) = hash \<and> file = casFile z ?b \<and> n = blen file"
    by (auto simp: Let_def split: if_splits)
  then show ?thesis using rd b bb by auto
qed

text \<open>
  Property C6. In the compressing mode \<open>WriteAndClose\<close> succeeds exactly when the announced size
  is positive, the reader delivers exactly that many bytes without failing, their SHA-256 digest
  is the announced hash, and no operating system call fails; then the file on disk is the
  header with the completed offset table followed by the compressed chunks, and the returned
  number is its size.
\<close>

theorem WriteAndClose_exact:
  assumes "sz \<le> maxInt64" "blen (casFile z (take (nat sz) (rdata r))) \<le> maxInt64"
  shows "WriteAndClose z io r Zstandard hash sz = (Inr n, file) \<longleftrightarrow>
    0 < sz \<and> \<not> rfails r \<and> blen (rdata r) = sz \<and> hash = hexEncode (sha256 (rdata r)) \<and>
    (\<forall>s \<in> writeSteps sz. \<not> io s) \<and> file = casFile z (rdata r) \<and> n = blen file"
    (is "?l \<longleftrightarrow> ?r")
proof
  assume ?l
  then show ?r using assms by (rule WriteAndClose_success)
next
  assume r: ?r
  then have b: "rdata r \<noteq> []" "take (nat sz) (rdata r) = rdata r" by auto
  have io: "\<not> io WHeader" "\<forall>i < length (blobChunks (rdata r)). \<not> io (WChunk i)"
    using r numChunks_blob [OF b(1)] by (auto simp: writeSteps_def)
  show ?l
    using WriteAndClose_run [OF refl b(1) _ _ io, of z hash] assms r unfolding b(2)
    by (simp add: Let_def writeSteps_def)
qed

text \<open>A codec that satisfies the laws: every byte is preceded by 1, a frame ends with 0.\<close>

fun toyDecode :: "bytes \<Rightarrow> bytes option" where
  "toyDecode [] = Some []"
| "toyDecode [x] = (if x = 0 then Some [] else None)"
| "toyDecode (x # y # zs) = (if x = 0 then toyDecode (y # zs) else map_option (Cons y) (toyDecode zs))"

definition toyEncode :: "bytes \<Rightarrow> bytes" where
  "toyEncode bs = concat (map (\<lambda>b. [1, b]) bs) @ [0]"

definition toyZstd :: zstd where
  "toyZstd = \<lparr>EncodeAll = toyEncode, DecodeAll = toyDecode,
     GetDecoder = (\<lambda>r. map_option (\<lambda>d. r\<lparr>rdata := d\<rparr>) (toyDecode (rdata r))),
     GetEncoder = (\<lambda>r. Some (r\<lparr>rdata := toyEncode (rdata r)\<rparr>))\<rparr>"

lemma toyDecode_0: "toyDecode (0 # zs) = toyDecode zs"
  by (cases zs) auto

lemma toyDecode_append: "toyDecode (toyEncode bs @ zs) = map_option ((@) bs) (toyDecode zs)"
  by (induction bs) (simp_all add: toyEncode_def toyDecode_0 option.map_comp comp_def option.map_ident)

lemma toyDecode_frames: "toyDecode (concat (map toyEncode cs)) = Some (concat cs)"
  by (induction cs) (simp_all add: toyDecode_append)

lemma toyZstd_laws: "zstd_laws toyZstd"
  using toyDecode_frames [of "[_]"] toyDecode_frames
  by (auto simp: zstd_laws_def toyZstd_def bytes_reader_def toyEncode_def)

lemma toy_chunks: "blobChunks [1, 2, 3] = [[1, 2, 3]]"
  by (simp add: blobChunks_def chunks.simps)

lemma toy_casFile_fits: "blen (casFile toyZstd [1, 2, 3]) \<le> maxInt64"
  by (simp add: length_casFile toy_chunks dataStart_def toyZstd_def toyEncode_def)

abbreviation toyHash :: string where
  "toyHash \<equiv> hexEncode (sha256 [1, 2, 3])"

lemma toy_written:
  "WriteAndClose toyZstd (\<lambda>_. False) (bytes_reader [1, 2, 3]) Zstandard toyHash 3 =
     (Inr (blen (casFile toyZstd [1, 2, 3])), casFile toyZstd [1, 2, 3])"
  using WriteAndClose_run [of "bytes_reader [1, 2, 3]" "[1, 2, 3]" toyZstd "\<lambda>_. False" toyHash] toy_casFile_fits
  by (simp add: bytes_reader_def Let_def)

theorem WriteAndClose_exact_witness:
  "fst (WriteAndClose toyZstd (\<lambda>_. False) (bytes_reader [1, 2, 3, 4]) Zstandard toyHash 3)
     \<noteq> Inr (blen (casFile toyZstd [1, 2, 3]))"
  using WriteAndClose_exact [of 3 toyZstd "bytes_reader [1, 2, 3, 4]" "\<lambda>_. False" toyHash
      "blen (casFile toyZstd [1, 2, 3])" "snd (WriteAndClose toyZstd (\<lambda>_. False) (bytes_reader [1, 2, 3, 4]) Zstandard toyHash 3)"]
    toy_casFile_fits
  by (auto simp: bytes_reader_def prod_eq_iff)

section \<open>Round trips\<close>

text \<open>The largest size whose offset table fits the 32-bit frame size (the source says about 511 TB).\<close>

definition maxBlobSize :: int where
  "maxBlobSize = 562949949227008"

lemma written_facts:
  assumes "WriteAndClose z io r Zstandard hash sz = (Inr n, file)" "sz \<le> maxBlobSize"
    "blen (casFile z (take (nat sz) (rdata r))) \<le> maxInt64" "zstd_laws z"
  shows "rdata r \<noteq> []" "blen (rdata r) = sz" "file = casFile z (rdata r)"
    "readHeader (openBytes file) =
       Inr (casHeader z (rdata r), fadv (nat (dataStart (length (blobChunks (rdata r))))) (openBytes file))"
proof -
  have "sz \<le> maxInt64" using assms(2) by (simp add: maxBlobSize_def)
  from WriteAndClose_success [OF assms(1) this assms(3)]
  have s: "0 < sz" "blen (rdata r) = sz" "file = casFile z (rdata r)" by simp_all
  then show ne: "rdata r \<noteq> []" and len: "blen (rdata r) = sz" and f: "file = casFile z (rdata r)" by auto
  have "take (nat sz) (rdata r) = rdata r" using len by auto
  then have fit: "blen (casFile z (rdata r)) \<le> maxInt64" using assms(3) by simp
  have "length (blobChunks (rdata r)) \<le> 536870908"
    using chunksLeft_blob [of "rdata r"] len assms(2)
    by (auto simp: chunksLeft_def defaultChunkSize_def maxBlobSize_def)
  from readHeader_casFile [OF ne assms(4) this fit] len \<open>sz \<le> maxInt64\<close>
  show "readHeader (openBytes file) =
       Inr (casHeader z (rdata r), fadv (nat (dataStart (length (blobChunks (rdata r))))) (openBytes file))"
    by (simp add: f)
qed

lemma offset_split:
  assumes "0 \<le> off" "off \<le> blen b"
  obtains k rem where "go_div off 1048576 = int k" "go_mod off 1048576 = int rem" "rem < chunkLen"
    "nat off = k * chunkLen + rem" "k * chunkLen + rem \<le> length b" "k \<le> length (blobChunks b)"
    "0 < rem \<Longrightarrow> k < length (blobChunks b)"
proof
  let ?k = "nat off div chunkLen" and ?r = "nat off mod chunkLen"
  show "go_div off 1048576 = int ?k" "go_mod off 1048576 = int ?r"
    using assms(1) by (simp_all add: go_div_nonneg go_mod_nonneg nat_div_distrib nat_mod_distrib zdiv_int zmod_int)
  show "?r < chunkLen" by simp
  show e: "nat off = ?k * chunkLen + ?r" by simp
  show le: "?k * chunkLen + ?r \<le> length b" using assms by (simp add: blen_def)
  have c: "blen b \<le> int (length (blobChunks b)) * 1048576"
    using chunksLeft_blob [of b] by (simp add: chunksLeft_def defaultChunkSize_def)
  then have "?k * chunkLen + ?r \<le> length (blobChunks b) * chunkLen"
    using le by (simp add: blen_def)
  then show "?k \<le> length (blobChunks b)" "0 < ?r \<Longrightarrow> ?k < length (blobChunks b)"
    by (linarith, linarith)
qed

lemma read_back_uncompressed:
  assumes w: "WriteAndClose z io r Zstandard hash sz = (Inr n, file)" "sz \<le> maxBlobSize"
      "blen (casFile z (take (nat sz) (rdata r))) \<le> maxInt64" "zstd_laws z"
    and off: "0 \<le> off" "off \<le> sz" and ex: "expected = - 1 \<or> expected = sz"
  shows "GetUncompressedReadCloser z (openBytes file) expected off = Inr (bytes_reader (drop (nat off) (rdata r)))"
proof -
  note f = written_facts [OF w]
  let ?b = "rdata r" and ?h = "casHeader z (rdata r)"
  obtain k rem where k: "go_div off 1048576 = int k" "go_mod off 1048576 = int rem" "rem < chunkLen"
      "nat off = k * chunkLen + rem" "k * chunkLen + rem \<le> length ?b" "k \<le> length (blobChunks ?b)"
      "0 < rem \<Longrightarrow> k < length (blobChunks ?b)"
    using offset_split [of off ?b] off f(2) by blast
  obtain f1 where f1: "seekChunk ?h (fadv (nat (dataStart (length (blobChunks ?b)))) (openBytes file)) (int k) = Inr f1"
      "atChunk z ?b k f1"
    using seekChunk_casFile [OF k(6), of z] f(3) by auto
  have hd: "hUncompressedSize ?h = sz" "hCompression ?h = Zstandard" "hChunkSize ?h = 1048576"
      "blen (hChunkOffsets ?h) - 2 = int (length (blobChunks ?b)) - 1"
    using f(2) by (simp_all add: casHeader_def blen_def)
  have zi: "Zstandard \<noteq> Identity" by (simp add: Zstandard_def Identity_def)
  have dec: "GetDecoder z (fileReader f') = Some (bytes_reader (concat (drop j (blobChunks ?b))))"
    if "atChunk z ?b j f'" for j f'
    using fileReader_atChunk [OF that] zstd_lawsD(3) [OF w(4)] by simp
  show ?thesis
  proof (cases "rem = 0")
    case True
    then have "drop (nat off) ?b = concat (drop k (blobChunks ?b))" using k(4) drop_at_boundary by simp
    then show ?thesis
      using ex True zi k(1,2) f1(1) dec [OF f1(2)]
      by (auto simp: GetUncompressedReadCloser_def f(4) hd Let_def)
  next
    case False
    then have kl: "k < length (blobChunks ?b)" using k(7) by simp
    obtain f2 where f2: "readFirstChunk z ?h f1 (int k) = Inr (blobChunks ?b ! k, f2)" "atChunk z ?b (Suc k) f2"
      using readFirstChunk_casFile [OF f1(2) kl w(4)] by blast
    note d = drop_at_chunk [OF kl k(3) k(5)]
    have sl: "from_go (blobChunks ?b ! k) (int rem) = Some (drop rem (blobChunks ?b ! k))"
      using d(2) by (simp add: from_go_def blen_def)
    have last: "int k = int (length (blobChunks ?b)) - 1 \<Longrightarrow> drop (Suc k) (blobChunks ?b) = []"
      by auto
    show ?thesis
      using ex False zi k(1,2) f1(1) f2(1) dec [OF f2(2)] d(1) sl last
      by (auto simp: GetUncompressedReadCloser_def f(4) hd Let_def multiReader_def bytes_reader_def k(4))
  qed
qed



lemma read_back_zstd:
  assumes w: "WriteAndClose z io r Zstandard hash sz = (Inr n, file)" "sz \<le> maxBlobSize"
      "blen (casFile z (take (nat sz) (rdata r))) \<le> maxInt64" "zstd_laws z"
    and off: "0 \<le> off" "off \<le> sz" and ex: "expected = - 1 \<or> expected = sz"
  shows "\<exists>out. GetZstdReadCloser z (openBytes file) expected off = Inr out \<and>
    GetDecoder z out = Some (bytes_reader (drop (nat off) (rdata r)))"
proof -
  note f = written_facts [OF w]
  let ?b = "rdata r" and ?h = "casHeader z (rdata r)"
  obtain k rem where k: "go_div off 1048576 = int k" "go_mod off 1048576 = int rem" "rem < chunkLen"
      "nat off = k * chunkLen + rem" "k * chunkLen + rem \<le> length ?b" "k \<le> length (blobChunks ?b)"
      "0 < rem \<Longrightarrow> k < length (blobChunks ?b)"
    using offset_split [of off ?b] off f(2) by blast
  obtain f1 where f1: "seekChunk ?h (fadv (nat (dataStart (length (blobChunks ?b)))) (openBytes file)) (int k) = Inr f1"
      "atChunk z ?b k f1"
    using seekChunk_casFile [OF k(6), of z] f(3) by auto
  have hd: "hUncompressedSize ?h = sz" "hCompression ?h = Zstandard" "hChunkSize ?h = 1048576"
      "blen (hChunkOffsets ?h) - 2 = int (length (blobChunks ?b)) - 1"
    using f(2) by (simp_all add: casHeader_def blen_def)
  have zi: "Zstandard \<noteq> Identity" by (simp add: Zstandard_def Identity_def)
  show ?thesis
  proof (cases "rem = 0")
    case True
    have "drop (nat off) ?b = concat (drop k (blobChunks ?b))" using True k(4) drop_at_boundary by simp
    moreover have "GetZstdReadCloser z (openBytes file) expected off =
        Inr (bytes_reader (concat (map (EncodeAll z) (drop k (blobChunks ?b)))))"
      using ex True zi k(1,2) f1(1) fileReader_atChunk [OF f1(2)]
      by (auto simp: GetZstdReadCloser_def f(4) hd Let_def)
    ultimately show ?thesis using zstd_lawsD(3) [OF w(4)] by simp
  next
    case False
    then have kl: "k < length (blobChunks ?b)" using k(7) by simp
    obtain f2 where f2: "readFirstChunk z ?h f1 (int k) = Inr (blobChunks ?b ! k, f2)" "atChunk z ?b (Suc k) f2"
      using readFirstChunk_casFile [OF f1(2) kl w(4)] by blast
    note d = drop_at_chunk [OF kl k(3) k(5)]
    let ?c = "drop rem (blobChunks ?b ! k)"
    have sl: "from_go (blobChunks ?b ! k) (int rem) = Some ?c"
      using d(2) by (simp add: from_go_def blen_def)
    have last: "int k = int (length (blobChunks ?b)) - 1 \<Longrightarrow> drop (Suc k) (blobChunks ?b) = []"
      by auto
    have "GetZstdReadCloser z (openBytes file) expected off =
        Inr (bytes_reader (concat (map (EncodeAll z) (?c # drop (Suc k) (blobChunks ?b)))))"
      using ex False zi k(1,2) f1(1) f2(1) fileReader_atChunk [OF f2(2)] sl last
      by (auto simp: GetZstdReadCloser_def f(4) hd Let_def multiReader_def bytes_reader_def)
    moreover have "GetDecoder z (bytes_reader (concat (map (EncodeAll z) (?c # drop (Suc k) (blobChunks ?b))))) =
        Some (bytes_reader (drop (nat off) ?b))"
      using zstd_lawsD(3) [OF w(4), of "?c # drop (Suc k) (blobChunks ?b)"] d(1) by (simp add: k(4))
    ultimately show ?thesis by blast
  qed
qed



text \<open>
  The proxies transfer blobs in the file format; \<open>ExtractLogicalSize\<close> finds the
  logical size of a blob that was written by \<open>WriteAndClose\<close> in the stream of its file, and the
  reader it hands back still delivers the whole stream.
\<close>

lemma logical_size_found:
  assumes "WriteAndClose z io r Zstandard hash sz = (Inr n, file)" "sz \<le> maxBlobSize"
      "blen (casFile z (take (nat sz) (rdata r))) \<le> maxInt64" "zstd_laws z"
  shows "ExtractLogicalSize \<lparr>rdata = file, rfails = fl\<rparr> = Inr (\<lparr>rdata = file, rfails = fl\<rparr>, sz)"
proof -
  note f = written_facts [OF assms]
  let ?b = "rdata r"
  have sz: "0 < sz" using f(1,2) by (auto simp: blen_def)
  obtain d where d: "file = (put_u32 skippableFrameMagicNumber @ put_u32 (frameSize (casHeader z ?b))) @ put_i64 (blen ?b) @ d"
    unfolding f(3) casFile_def writeHeader_def by (simp add: casHeader_def)
  have len: "length (put_u32 skippableFrameMagicNumber @ put_u32 (frameSize (casHeader z ?b))) = 8"
      "length (put_i64 (blen ?b)) = 8"
    by (simp_all add: put_u32_def put_i64_def)
  have "get_i64 (put_i64 (blen ?b)) = blen ?b"
    using f(2) assms(2) sz by (intro i64.dec_enc) (simp add: in64_def maxBlobSize_def)
  then show ?thesis
    using len sz f(2) unfolding d ExtractLogicalSize_def readFull_def
    by (simp add: multiReader_def Let_def)
qed

lemma logical_size_found_demo:
  "ExtractLogicalSize (bytes_reader (casFile toyZstd [1, 2, 3])) = Inr (bytes_reader (casFile toyZstd [1, 2, 3]), 3)"
  using logical_size_found [OF toy_written _ _ toyZstd_laws, of False] toy_casFile_fits
  by (simp add: maxBlobSize_def bytes_reader_def)

section \<open>What an accepted header guarantees\<close>

lemma checkOffsets_sound:
  "checkOffsets prev xs = Inr y \<Longrightarrow>
     sorted_wrt (<) (prev # xs) \<and> y = last (prev # xs)"
proof (induction prev xs rule: checkOffsets.induct)
  case (2 prev x xs)
  then have "prev < x" "sorted_wrt (<) (x # xs)" "y = last (x # xs)" by (auto split: if_splits)
  then show ?case by fastforce
qed simp

lemma rdVal_Inr:
  "rdVal w dec f (\<lambda>e. Inl (c e)) k = Inr x \<Longrightarrow> \<exists>bs f'. fread w f = Inr (bs, f') \<and> k (dec bs) f' = Inr x"
  by (auto simp: rdVal_def split: sum.splits prod.splits)

lemma fread_file: "fread n f = Inr (bs, f') \<Longrightarrow> fdata f' = fdata f"
  by (auto simp: fread_def split: if_splits)

lemma dec_array_length: "0 < w \<Longrightarrow> length bs = m * w \<Longrightarrow> length (dec_array w d bs) = m"
proof -
  assume w: "0 < w" "length bs = m * w"
  obtain v where v: "w = Suc v" using w(1) by (cases w) auto
  have "m * w + w - 1 = v + m * w" using v by simp
  also have "\<dots> div w = m" using v by (simp only: div_mult_self1 nat.distinct not_False_eq_True) simp
  finally have "(m * w + w - 1) div w = m" .
  then show ?thesis using w by (simp add: dec_array_def length_chunks)
qed

text \<open>
  Property C9. Whatever the file contains and whichever reads fail, a header that \<open>readHeader\<close>
  accepts has at least one chunk, its offset table is strictly increasing and non-negative, and
  the last offset is the size of the file: every chunk that the readers cut out of the file lies
  inside it and is not empty.
\<close>

theorem readHeader_sound:
  assumes "readHeader f = Inr (h, f')"
  shows "sorted_wrt (<) (hChunkOffsets h) \<and> 2 \<le> length (hChunkOffsets h) \<and>
    last (hChunkOffsets h) = blen (fdata f) \<and>
    list_all (\<lambda>x. 0 \<le> x \<and> x \<le> blen (fdata f)) (hChunkOffsets h)"
proof -
  from assms obtain numOffsets bs f1 f2 where
    n: "\<not> numOffsets < (2 :: int)" and rd: "fread (nat numOffsets * 8) f1 = Inr (bs, f2)"
    and ho: "hChunkOffsets h = dec_array 8 get_i64 bs"
    and chk: "checkOffsets (- 1) (dec_array 8 get_i64 bs) = Inr (blen (fdata f))"
    by (auto simp: readHeader_def Let_def split: if_splits sum.splits dest!: rdVal_Inr)
  have "length bs = nat numOffsets * 8"
    using rd by (auto simp: fread_def split: if_splits)
  then have len: "length (hChunkOffsets h) = nat numOffsets" unfolding ho by (intro dec_array_length) simp
  from checkOffsets_sound [OF chk] have s: "sorted_wrt (<) (- 1 # hChunkOffsets h)"
    "blen (fdata f) = last (- 1 # hChunkOffsets h)" unfolding ho by auto
  have ne: "hChunkOffsets h \<noteq> []" using len n by auto
  then have last: "last (hChunkOffsets h) = blen (fdata f)" using s(2) by simp
  have "x \<le> blen (fdata f)" if "x \<in> set (hChunkOffsets h)" for x
  proof -
    have "sorted (hChunkOffsets h)" using s(1) strict_sorted_imp_sorted by auto
    then show ?thesis using that last ne by (metis in_set_conv_nth last_conv_nth sorted_nth_mono
        Suc_pred length_pos_if_in_set lessI less_Suc_eq_le diff_Suc_1 length_greater_0_conv)
  qed
  then show ?thesis using s(1) last len n by (auto simp: list_all_iff)
qed

theorem readHeader_sound_witness:
  "list_all (\<lambda>x. 0 \<le> x \<and> x \<le> blen (casFile toyZstd [1, 2, 3])) (hChunkOffsets (casHeader toyZstd [1, 2, 3]))"
  using readHeader_sound [OF written_facts(4) [OF toy_written _ _ toyZstd_laws]] toy_casFile_fits
  by (simp add: maxBlobSize_def bytes_reader_def openBytes_def)

section \<open>Corners\<close>

text \<open>
  The identity mode of \<open>WriteAndClose\<close> never goes back to fill in the offset table,
  so the file of every blob that it reports as stored is one that \<open>readHeader\<close> refuses: the end
  offset in the table is still 0.
\<close>

theorem identity_blob_unreadable:
  assumes "WriteAndClose z io r Identity hash sz = (Inr n, file)"
  shows "readHeader (openBytes file) = Inl (OffsetsNotIncreasing 0 29)"
proof -
  let ?h = "\<lparr>hUncompressedSize = sz, hCompression = Identity, hChunkSize = word_of_int defaultChunkSize,
      hChunkOffsets = [29, 0]\<rparr>"
  have zi: "Identity \<noteq> Zstandard" by (simp add: Zstandard_def Identity_def)
  have rep: "(replicate (nat (1 + 1)) 0)[0 := chunkTableOffset] = [29, 0 :: int]"
    by (simp add: chunkTableOffset_def numeral_2_eq_2)
  from assms zi have f: "0 < sz" "blen (rdata r) = sz" "file = writeHeader ?h @ rdata r"
    unfolding WriteAndClose_def Let_def if_not_P [OF zi] rep by (auto split: if_splits)
  obtain x xs where x: "rdata r = x # xs" using f(1,2) by (cases "rdata r") auto
  let ?f = "openBytes file"
  have f0: "frest ?f = put_u32 skippableFrameMagicNumber @ put_u32 (frameSize ?h) @
      put_i64 sz @ put_u8 Identity @ put_u32 (word_of_int defaultChunkSize) @
      put_i64 2 @ enc_array put_i64 [29, 0] @ rdata r"
    by (simp add: frest_def openBytes_def f(3) writeHeader_def)
  note f1 = u32.rest_enc [OF f0]
  note f2 = u32.rest_enc [OF f1 [simplified]]
  have f3: "frest (fadv 8 (fadv 4 (fadv 4 ?f))) = put_u8 Identity @ put_u32 (word_of_int defaultChunkSize) @
      put_i64 2 @ enc_array put_i64 [29, 0] @ rdata r"
    using f2 by (simp add: frest_fadv put_i64_def)
  note f4 = u8.rest_enc [OF f3]
  note f5 = u32.rest_enc [OF f4 [simplified]]
  have two: "in64 2" by (simp add: in64_def)
  note f6 = i64.rest_enc [OF f5 [simplified] two]
  have offs: "length [29, 0 :: int] = 2 \<and> list_all in64 [29, 0]" by (simp add: in64_def)
  have rd3: "rdVal 8 get_i64 (fadv 4 (fadv 4 ?f)) e k = k (get_i64 (put_i64 sz)) (fadv 8 (fadv 4 (fadv 4 ?f)))" for e k
    using f2 by (simp add: rdVal_def fread_def openBytes_def put_i64_def)
  have nof: "ffail ?f = (\<lambda>_. False)" by (simp add: openBytes_def)
  have fd: "fdata ?f = file" by (simp add: openBytes_def)
  have sm: "\<not> blen file \<le> chunkTableOffset + 16"
    using x by (simp add: f(3) blen_def length_writeHeader chunkTableOffset_def)
  have fs: "uint (frameSize ?h) = 37" using frameSize_uint [of ?h] by simp
  have ms: "wrap64 (2 * 8 + 8 + 1 + 4 + 8) = 37" "\<not> (2 :: int) > maxOffsetsLen" "\<not> (2 :: int) < 2" "nat 2 * 8 = 2 * 8"
    by (simp_all add: wrap64_def maxOffsetsLen_def)
  show ?thesis
    unfolding readHeader_def Let_def fd if_not_P [OF sm]
    using nof ms fs
    by (simp add: u32.read_enc [OF f0] u32.read_enc [OF f1 [simplified]] rd3
        u8.read_enc [OF f3] u32.read_enc [OF f4 [simplified]] i64.read_enc [OF f5 [simplified] two]
        i64s.read_enc [OF f6 offs, simplified])
qed

theorem identity_blob_unreadable_witness:
  "\<exists>file. WriteAndClose toyZstd (\<lambda>_. False) (bytes_reader [1, 2, 3]) Identity toyHash 3 =
      (Inr 48, file) \<and> readHeader (openBytes file) = Inl (OffsetsNotIncreasing 0 29)"
proof -
  have zi: "Identity \<noteq> Zstandard" by (simp add: Zstandard_def Identity_def)
  obtain fl where w: "WriteAndClose toyZstd (\<lambda>_. False) (bytes_reader [1, 2, 3]) Identity toyHash 3 = (Inr 48, fl)"
    using zi by (simp add: WriteAndClose_def Let_def bytes_reader_def headerSize_def chunkTableOffset_def
        add64_def wrap64_def blen_def)
  then show ?thesis using identity_blob_unreadable [OF w] by blast
qed

text \<open>
  The product \<open>numOffsets*8\<close> of \<open>readHeader\<close> wraps around, so a file that claims
  \<open>2^61+2\<close> offsets passes the check against the frame size and the allocation of the offset
  table panics instead of the file being refused.
\<close>

theorem readHeader_panics_on_huge_table:
  "length d = 17 \<Longrightarrow> in64 u \<Longrightarrow>
   readHeader (openBytes (put_u32 skippableFrameMagicNumber @ put_u32 37 @ put_i64 u @ put_u8 c @ put_u32 s @
     put_i64 2305843009213693954 @ d)) = Inl (GoPanic ''makeslice: len out of range'')"
proof -
  assume d: "length d = 17" and u: "in64 u"
  let ?bs = "put_u32 skippableFrameMagicNumber @ put_u32 37 @ put_i64 u @ put_u8 c @ put_u32 s @
     put_i64 2305843009213693954 @ d"
  let ?f = "openBytes ?bs"
  have f0: "frest ?f = ?bs" by (simp add: frest_def openBytes_def)
  note f1 = u32.rest_enc [OF f0]
  note f2 = u32.rest_enc [OF f1 [simplified]]
  note f3 = i64.rest_enc [OF f2 [simplified] u]
  note f4 = u8.rest_enc [OF f3]
  note f5 = u32.rest_enc [OF f4 [simplified]]
  have two: "in64 2305843009213693954" by (simp add: in64_def)
  have nof: "ffail ?f = (\<lambda>_. False)" by (simp add: openBytes_def)
  have sm: "\<not> blen (fdata ?f) \<le> chunkTableOffset + 16"
    using d by (simp add: openBytes_def blen_def put_u32_def put_i64_def put_u8_def chunkTableOffset_def)
  show ?thesis
    unfolding readHeader_def Let_def if_not_P [OF sm]
    using nof
    by (simp add: u32.read_enc [OF f0] u32.read_enc [OF f1 [simplified]] i64.read_enc [OF f2 [simplified] u]
        u8.read_enc [OF f3] u32.read_enc [OF f4 [simplified]] i64.read_enc [OF f5 [simplified] two]
        wrap64_def maxOffsetsLen_def)
qed

theorem readHeader_panics_on_huge_table_witness:
  "readHeader (openBytes (put_u32 skippableFrameMagicNumber @ put_u32 37 @ put_i64 1 @ put_u8 1 @ put_u32 1 @
     put_i64 2305843009213693954 @ replicate 17 0)) = Inl (GoPanic ''makeslice: len out of range'')"
  using readHeader_panics_on_huge_table [of "replicate 17 0" 1 1 1] by (simp add: in64_def)

end
