(* ===== verification/Messages.thy ===== *)
theory Messages
  imports Prelude
begin

text \<open>
  The protobuf messages of the remote execution API as far as the program reads or writes them.
  A pointer to a message is an \<open>option\<close> (nil is \<open>None\<close>); strings and repeated fields default to
  empty, sizes are \<open>int64\<close>.
\<close>

record digest =
  dHash :: string
  dSizeBytes :: int

record outputFile =
  ofPath :: string
  ofDigest :: "digest option"
  ofContents :: bytes

record outputDirectory =
  odPath :: string
  odTreeDigest :: "digest option"

record outputSymlink =
  osPath :: string
  osTarget :: string

record execMetadata =
  emWorker :: string

record actionResult =
  arOutputFiles :: "outputFile option list"
  arOutputFileSymlinks :: "outputSymlink option list"
  arOutputSymlinks :: "outputSymlink option list"
  arOutputDirectories :: "outputDirectory option list"
  arOutputDirectorySymlinks :: "outputSymlink option list"
  arExitCode :: int
  arStdoutRaw :: bytes
  arStdoutDigest :: "digest option"
  arStderrRaw :: bytes
  arStderrDigest :: "digest option"
  arExecutionMetadata :: "execMetadata option"

definition emptyActionResult :: actionResult where
  "emptyActionResult =
     \<lparr>arOutputFiles = [], arOutputFileSymlinks = [], arOutputSymlinks = [], arOutputDirectories = [],
      arOutputDirectorySymlinks = [], arExitCode = 0, arStdoutRaw = [], arStdoutDigest = None,
      arStderrRaw = [], arStderrDigest = None, arExecutionMetadata = None\<rparr>"

record fileNode =
  fnName :: string
  fnDigest :: "digest option"

record directoryNode =
  dnName :: string
  dnDigest :: "digest option"

record directory =
  dirFiles :: "fileNode option list"
  dirDirectories :: "directoryNode option list"

record treeMsg =
  treeRoot :: "directory option"
  treeChildren :: "directory option list"

text \<open>The getters that the generated code provides read a nil message as an empty one.\<close>

definition treeRootFiles :: "treeMsg \<Rightarrow> fileNode option list" where
  "treeRootFiles t = (case treeRoot t of None \<Rightarrow> [] | Some d \<Rightarrow> dirFiles d)"

definition getDirFiles :: "directory option \<Rightarrow> fileNode option list" where
  "getDirFiles d = (case d of None \<Rightarrow> [] | Some d \<Rightarrow> dirFiles d)"

end
