(* ===== verification/DiskCache.thy ===== *)
theory DiskCache
  imports Casblob CacheKeys LRU Messages
begin

text \<open>
  \<open>cache/disk/disk.go\<close>, \<open>options.go\<close> and \<open>lru_capture.go\<close>: the local disk cache. Its state is the
  LRU index, the files below the cache directory, the file removals that the eviction callback
  has started but that have not run yet, the state of the temporary name generator, the used
  part of the capture budget, and three logs: what was handed to the proxy, the closures handed
  to the LRU observer and the reasons for which observations were dropped.

  The configuration holds what the code keeps in \<open>diskCache\<close> and never changes: the zstd
  implementation, the proxy backend (both parameters) and protobuf decoding. An argument \<open>os\<close>
  says which operating system calls fail. An operation that takes the lock several times is
  composed of parts, one for each critical section, so that the interleaving of several
  requests can be expressed with the same parts.
\<close>

section \<open>State and configuration\<close>

record cfile =
  cfData :: bytes
  cfComplete :: bool

record lruObject =
  loHash :: string
  loSizeOnDisk :: int

record acClosure =
  acObject :: lruObject
  acLeaves :: "lruObject list"

record proxyPut =
  ppCtx :: ctx
  ppKind :: EntryKind
  ppHash :: string
  ppLogicalSize :: int
  ppSizeOnDisk :: int
  ppData :: bytes

record dcState =
  dLru :: "string sizedLRU"
  dFs :: "string \<Rightarrow> cfile option"
  dPending :: "string list"
  dRand :: "32 word"
  dCaptureUsed :: int
  dProxyPuts :: "proxyPut list"
  dClosures :: "acClosure list"
  dDropped :: "string list"

text \<open>
  A proxy backend: \<open>Get\<close> returns a reader, if any, the size it found and an error, if any;
  \<open>Contains\<close> whether the item exists and its size. Errors are their texts.
\<close>

record proxy =
  proxyGet :: "ctx \<Rightarrow> EntryKind \<Rightarrow> string \<Rightarrow> int \<Rightarrow> reader option \<times> int \<times> string option"
  proxyContains :: "ctx \<Rightarrow> EntryKind \<Rightarrow> string \<Rightarrow> int \<Rightarrow> bool \<times> int"

record dcConfig =
  cDir :: string
  cProxy :: "proxy option"
  cObserver :: bool
  cStorageMode :: compressionType
  cZstd :: zstd
  cMaxBlobSize :: int
  cMaxProxyBlobSize :: int
  cCaptureSem :: "int option"
  cUnmarshalAR :: "bytes \<Rightarrow> actionResult option"

record osFaults =
  osMkdir :: "string \<Rightarrow> bool"
  osCreate :: "string \<Rightarrow> bool"
  osWrite :: "wstep \<Rightarrow> bool"
  osOpen :: "string \<Rightarrow> bool"
  osRead :: "string \<Rightarrow> fop \<Rightarrow> bool"
  osChmod :: "string \<Rightarrow> bool"
  osRemove :: "string \<Rightarrow> bool"

definition noFaults :: osFaults where
  "noFaults = \<lparr>osMkdir = (\<lambda>_. False), osCreate = (\<lambda>_. False), osWrite = (\<lambda>_. False), osOpen = (\<lambda>_. False),
     osRead = (\<lambda>_ _. False), osChmod = (\<lambda>_. False), osRemove = (\<lambda>_. False)\<rparr>"

section \<open>Errors\<close>

datatype dc_detail =
    NegativeSize int
  | BlobTooLarge int int
  | InvalidHashSize nat
  | ReadBodyFailed
  | LongerThanDeclared int
  | ReserveError lru_error
  | ReserveRefused int int
  | MkdirFailed
  | TempfileError
  | WriteCasError cb_error
  | CopyError
  | SizesDontMatch int int
  | SyncError
  | CloseError
  | UnreserveError lru_error
  | FailedToAdd string int int
  | OnlyCompressedCAS
  | InvalidOffset int
  | InvalidOffsetForSize int int
  | StatError
  | SeekError
  | ProxyError string
  | OpenError'
  | ReadCloserError cb_error

record dc_error =
  errCode :: int
  errDetail :: dc_detail

definition internalErr :: "dc_detail \<Rightarrow> dc_error" where
  "internalErr d = \<lparr>errCode = 500, errDetail = d\<rparr>"

definition badReqErr :: "dc_detail \<Rightarrow> dc_error" where
  "badReqErr d = \<lparr>errCode = 400, errDetail = d\<rparr>"

definition insufficientStorage :: "dc_detail \<Rightarrow> dc_error" where
  "insufficientStorage d = \<lparr>errCode = 507, errDetail = d\<rparr>"

definition isSizeMismatch :: "int \<Rightarrow> int \<Rightarrow> bool" where
  "isSizeMismatch requestedSize foundSize \<longleftrightarrow>
     requestedSize > - 1 \<and> foundSize > - 1 \<and> requestedSize \<noteq> foundSize"

section \<open>Files and eviction\<close>

definition elementFile :: "dcConfig \<Rightarrow> string \<times> lruItem \<Rightarrow> string" where
  "elementFile cfg kv =
     getElementPath (cDir cfg) (fst kv) (legacy (snd kv)) (itemSize (snd kv)) (randomStr (snd kv))"

text \<open>The eviction callback starts a goroutine that removes the file of the evicted item.\<close>

definition startRemovals :: "dcConfig \<Rightarrow> dcState \<Rightarrow> dcState" where
  "startRemovals cfg st =
     st\<lparr>dPending := dPending st @ map (elementFile cfg) (evictCalls (dLru st)),
        dLru := (dLru st)\<lparr>evictCalls := []\<rparr>\<rparr>"

definition setLru :: "dcConfig \<Rightarrow> string sizedLRU \<Rightarrow> dcState \<Rightarrow> dcState" where
  "setLru cfg l st = startRemovals cfg (st\<lparr>dLru := l\<rparr>)"

text \<open>A removal goroutine runs; a failure is only logged.\<close>

definition removeFile :: "osFaults \<Rightarrow> string \<Rightarrow> dcState \<Rightarrow> dcState" where
  "removeFile os f st = (if osRemove os f then st else st\<lparr>dFs := (dFs st)(f := None)\<rparr>)"

definition runRemoval :: "osFaults \<Rightarrow> dcState \<Rightarrow> dcState" where
  "runRemoval os st =
     (case dPending st of [] \<Rightarrow> st | f # fs \<Rightarrow> removeFile os f (st\<lparr>dPending := fs\<rparr>))"

definition openTemp :: "osFaults \<Rightarrow> dcState \<Rightarrow> string \<Rightarrow> unit open_result" where
  "openTemp os st name =
     (if osCreate os name then OpenError ()
      else if dFs st name \<noteq> None then OpenExists else OpenOk)"

definition createTemp :: "osFaults \<Rightarrow> string \<Rightarrow> bool \<Rightarrow> dcState \<Rightarrow> (string \<times> string) option \<times> dcState" where
  "createTemp os base leg st =
     (case Create (openTemp os st) base leg (dRand st) of
        (Created name random, seed) \<Rightarrow>
          (Some (name, random), st\<lparr>dRand := seed, dFs := (dFs st)(name \<mapsto> \<lparr>cfData = [], cfComplete = False\<rparr>)\<rparr>)
      | (_, seed) \<Rightarrow> (None, st\<lparr>dRand := seed\<rparr>))"

definition setFile :: "string \<Rightarrow> bytes \<Rightarrow> dcState \<Rightarrow> dcState" where
  "setFile name bs st = st\<lparr>dFs := (dFs st)(name \<mapsto> \<lparr>cfData = bs, cfComplete = False\<rparr>)\<rparr>"

definition openFile :: "osFaults \<Rightarrow> dcState \<Rightarrow> string \<Rightarrow> osfile option" where
  "openFile os st name =
     (if osOpen os name then None
      else map_option (\<lambda>f. \<lparr>fdata = cfData f, fpos = 0, ffail = osRead os name\<rparr>) (dFs st name))"

section \<open>The deferred cleanup\<close>

text \<open>
  The variables \<open>blobFile\<close>, \<open>removeTempfile\<close> and \<open>unreserve\<close> that the deferred function of \<open>Put\<close>
  and \<open>get\<close> reads when the operation returns.
\<close>

record cleanup =
  cuBlobFile :: "string option"
  cuRemove :: bool
  cuUnreserve :: bool

definition noCleanup :: cleanup where
  "noCleanup = \<lparr>cuBlobFile = None, cuRemove = False, cuUnreserve = False\<rparr>"

definition cleanupFile :: "osFaults \<Rightarrow> cleanup \<Rightarrow> dcState \<Rightarrow> dcState" where
  "cleanupFile os cu st =
     (case cuBlobFile cu of
        None \<Rightarrow> st
      | Some f \<Rightarrow>
          if cuRemove cu then removeFile os f st
          else if osChmod os f then st
          else st\<lparr>dFs := (dFs st)(f := map_option (\<lambda>c. c\<lparr>cfComplete := True\<rparr>) (dFs st f))\<rparr>)"

definition cleanupReservation :: "dcConfig \<Rightarrow> int \<Rightarrow> cleanup \<Rightarrow> dc_error option \<Rightarrow> dcState \<Rightarrow> dc_error option \<times> dcState" where
  "cleanupReservation cfg sz cu rErr st =
     (if cuUnreserve cu then
        (case Unreserve sz (dLru st) of
           (Some e, l) \<Rightarrow> (Some (internalErr (UnreserveError e)), setLru cfg l st)
         | (None, l) \<Rightarrow> (rErr, setLru cfg l st))
      else (rErr, st))"

section \<open>Writing\<close>

definition writeAndCloseFile :: "dcConfig \<Rightarrow> osFaults \<Rightarrow> reader \<Rightarrow> EntryKind \<Rightarrow> string \<Rightarrow> int \<Rightarrow>
    (dc_detail + int) \<times> bytes" where
  "writeAndCloseFile cfg os r kind hash sz =
     (if kind = CAS \<and> cStorageMode cfg \<noteq> Identity then
        (case WriteAndClose (cZstd cfg) (osWrite os) r (cStorageMode cfg) hash sz of
           (Inl e, bs) \<Rightarrow> (Inl (WriteCasError e), bs)
         | (Inr n, bs) \<Rightarrow> (Inr n, bs))
      else if rfails r \<or> osWrite os WCopy then (Inl CopyError, [])
      else
        let sizeOnDisk = blen (rdata r)
        in if isSizeMismatch sizeOnDisk sz then (Inl (SizesDontMatch sz sizeOnDisk), rdata r)
           else if osWrite os WSync then (Inl SyncError, rdata r)
           else if osWrite os WClose then (Inl CloseError, rdata r)
           else (Inr sizeOnDisk, rdata r))"

text \<open>
  \<open>commit\<close> returns the new values of \<open>unreserve\<close> and \<open>removeTempfile\<close>, and an error. \<open>None\<close>
  means that the eviction loop of the index does not end.
\<close>

definition commit :: "dcConfig \<Rightarrow> string \<Rightarrow> bool \<Rightarrow> int \<Rightarrow> int \<Rightarrow> int \<Rightarrow> string \<Rightarrow> dcState \<Rightarrow>
    (bool \<times> bool \<times> dc_detail option \<times> dcState) option" where
  "commit cfg key leg reservedSz logicalSize sizeOnDsk random st =
     (case (if reservedSz > 0 then Unreserve reservedSz (dLru st) else (None, dLru st)) of
        (Some e, l) \<Rightarrow> Some (True, True, Some (UnreserveError e), setLru cfg l st)
      | (None, l) \<Rightarrow>
          (case Add key \<lparr>itemSize = logicalSize, sizeOnDisk = sizeOnDsk, randomStr = random, legacy = leg\<rparr> l of
             None \<Rightarrow> None
           | Some (False, l') \<Rightarrow>
               Some (False, True, Some (FailedToAdd key logicalSize sizeOnDsk), setLru cfg l' st)
           | Some (True, l') \<Rightarrow> Some (False, False, None, setLru cfg l' st)))"

section \<open>LRU observation of action cache writes\<close>

definition lruMaxACCaptureBytes :: int where "lruMaxACCaptureBytes = 4194304"
definition lruCaptureBudgetBytes :: int where "lruCaptureBudgetBytes = 67108864"

definition tryAcquireCaptureBudget :: "dcConfig \<Rightarrow> int \<Rightarrow> dcState \<Rightarrow> bool \<times> dcState" where
  "tryAcquireCaptureBudget cfg sz st =
     (case cCaptureSem cfg of
        None \<Rightarrow> (True, st)
      | Some budget \<Rightarrow>
          if dCaptureUsed st + sz \<le> budget then (True, st\<lparr>dCaptureUsed := dCaptureUsed st + sz\<rparr>)
          else (False, st))"

definition releaseCaptureBudget :: "dcConfig \<Rightarrow> int \<Rightarrow> dcState \<Rightarrow> dcState" where
  "releaseCaptureBudget cfg sz st =
     (case cCaptureSem cfg of None \<Rightarrow> st | Some _ \<Rightarrow> st\<lparr>dCaptureUsed := dCaptureUsed st - sz\<rparr>)"

definition dropObservation :: "string \<Rightarrow> dcState \<Rightarrow> dcState" where
  "dropObservation reason st = st\<lparr>dDropped := dDropped st @ [reason]\<rparr>"

definition lookupSizeOnDisk :: "ctx \<Rightarrow> EntryKind \<Rightarrow> string \<Rightarrow> dcState \<Rightarrow> int option" where
  "lookupSizeOnDisk c kind hash st =
     (if kind = CAS \<and> hash = emptySha256 then Some 0
      else map_option sizeOnDisk (Peek (LookupKeyForContext c kind hash) (dLru st)))"

text \<open>The closure over \<open>addLeaf\<close>: the leaves so far, without duplicates, in order.\<close>

definition addLeaf :: "ctx \<Rightarrow> dcState \<Rightarrow> digest option \<Rightarrow> lruObject list \<Rightarrow> lruObject list option" where
  "addLeaf c st d leaves =
     (case d of
        None \<Rightarrow> Some leaves
      | Some d \<Rightarrow>
          if dHash d \<in> set (map loHash leaves) then Some leaves
          else (case lookupSizeOnDisk c CAS (dHash d) st of
                  None \<Rightarrow> None
                | Some n \<Rightarrow> Some (leaves @ [\<lparr>loHash = dHash d, loSizeOnDisk = n\<rparr>])))"

fun writeLeaves :: "ctx \<Rightarrow> dcState \<Rightarrow> outputFile option list \<Rightarrow> lruObject list \<Rightarrow> string + lruObject list" where
  "writeLeaves c st [] leaves = Inr leaves"
| "writeLeaves c st (None # fs) leaves = writeLeaves c st fs leaves"
| "writeLeaves c st (Some f # fs) leaves =
     (if ofContents f \<noteq> [] then Inl ''write_inlined_leaf''
      else (case addLeaf c st (ofDigest f) leaves of
              None \<Rightarrow> Inl ''incomplete_closure''
            | Some leaves' \<Rightarrow> writeLeaves c st fs leaves'))"

definition emitACClosureFromWrite :: "ctx \<Rightarrow> string \<Rightarrow> int \<Rightarrow> actionResult \<Rightarrow> dcState \<Rightarrow> dcState" where
  "emitACClosureFromWrite c acHash acSize ar st =
     (if arOutputDirectories ar \<noteq> [] then dropObservation ''write_has_directories'' st
      else
        (case writeLeaves c st (arOutputFiles ar) [] of
           Inl reason \<Rightarrow> dropObservation reason st
         | Inr leaves \<Rightarrow>
             if arStdoutRaw ar \<noteq> [] \<or> arStderrRaw ar \<noteq> [] then dropObservation ''write_inlined_leaf'' st
             else
               (case Option.bind (addLeaf c st (arStdoutDigest ar) leaves) (addLeaf c st (arStderrDigest ar)) of
                  None \<Rightarrow> dropObservation ''incomplete_closure'' st
                | Some leaves' \<Rightarrow>
                    st\<lparr>dClosures := dClosures st @
                        [\<lparr>acObject = \<lparr>loHash = acHash, loSizeOnDisk = acSize\<rparr>, acLeaves = leaves'\<rparr>]\<rparr>)))"

end
