(* ===== verification/DiskOps.thy ===== *)
theory DiskOps
  imports DiskCache
begin

text \<open>
  The operations of the disk cache: \<open>Put\<close>, \<open>Get\<close> and \<open>GetZstd\<close>, \<open>Contains\<close>, each composed of the
  parts that run between two lock operations. An operation returns \<open>None\<close> only if the eviction
  loop of the index does not end.
\<close>

section \<open>Put\<close>

text \<open>
  The buffering of action cache writes for the observer. The result: an error, or the reader to
  go on with and the decoded message for the observer; and whether capture budget is held.
\<close>

definition captureAC :: "dcConfig \<Rightarrow> EntryKind \<Rightarrow> int \<Rightarrow> reader \<Rightarrow> dcState \<Rightarrow>
    (dc_error + reader \<times> actionResult option) \<times> bool \<times> dcState" where
  "captureAC cfg kind sz r st =
     (if kind = AC \<and> cObserver cfg then
        (if sz > lruMaxACCaptureBytes then (Inr (r, None), False, dropObservation ''ac_too_large'' st)
         else
           (case tryAcquireCaptureBudget cfg sz st of
              (False, st) \<Rightarrow> (Inr (r, None), False, dropObservation ''capture_budget'' st)
            | (True, st) \<Rightarrow>
                let acBytes = take (nat (sz + 1)) (rdata r)
                in if rfails r \<and> blen (rdata r) < sz + 1 then (Inl (internalErr ReadBodyFailed), True, st)
                   else if blen acBytes > sz then (Inl (badReqErr (LongerThanDeclared sz)), True, st)
                   else
                     (case cUnmarshalAR cfg acBytes of
                        Some ar \<Rightarrow> (Inr (bytes_reader acBytes, Some ar), True, st)
                      | None \<Rightarrow> (Inr (bytes_reader acBytes, None), True, dropObservation ''ac_unmarshal_failed'' st))))
      else (Inr (r, None), False, st))"

text \<open>First critical section: reserve the space.\<close>

definition putReserve :: "dcConfig \<Rightarrow> int \<Rightarrow> dcState \<Rightarrow> dc_error option \<times> dcState" where
  "putReserve cfg sz st =
     (if sz > 0 then
        (case Reserve sz (dLru st) of
           (Inl e, l) \<Rightarrow> (Some (insufficientStorage (ReserveError e)), setLru cfg l st)
         | (Inr ok, l) \<Rightarrow>
             if ok then (None, setLru cfg l st)
             else (Some (insufficientStorage (ReserveRefused sz (maxSize l))), setLru cfg l st))
      else (None, st))"

text \<open>
  Outside the lock: create the file and write it. The result is an error or the file, its
  random string and its size on disk, with the variables of the deferred cleanup.
\<close>

definition putWrite :: "dcConfig \<Rightarrow> osFaults \<Rightarrow> ctx \<Rightarrow> EntryKind \<Rightarrow> string \<Rightarrow> int \<Rightarrow> reader \<Rightarrow> dcState \<Rightarrow>
    (dc_error + string \<times> string \<times> int) \<times> cleanup \<times> dcState" where
  "putWrite cfg os c kind hash sz r st =
     (let unres = noCleanup\<lparr>cuUnreserve := sz > 0\<rparr>;
          leg = (kind = CAS \<and> cStorageMode cfg = Identity);
          filePath = path_join [cDir cfg, FileLocationBaseForContext c kind leg hash sz]
      in if osMkdir os filePath then (Inl (internalErr MkdirFailed), unres, st)
         else
           (case createTemp os filePath leg st of
              (None, st) \<Rightarrow> (Inl (internalErr TempfileError), unres, st)
            | (Some (blobFile, random), st) \<Rightarrow>
                let cu = unres\<lparr>cuBlobFile := Some blobFile, cuRemove := True\<rparr>
                in case writeAndCloseFile cfg os r kind hash sz of
                     (Inl e, bs) \<Rightarrow> (Inl (internalErr e), cu, setFile blobFile bs st)
                   | (Inr sizeOnDsk, bs) \<Rightarrow> (Inr (blobFile, random, sizeOnDsk), cu, setFile blobFile bs st)))"

definition putToProxy :: "dcConfig \<Rightarrow> osFaults \<Rightarrow> ctx \<Rightarrow> EntryKind \<Rightarrow> string \<Rightarrow> int \<Rightarrow> int \<Rightarrow> string \<Rightarrow> dcState \<Rightarrow> dcState" where
  "putToProxy cfg os c kind hash sz sizeOnDsk blobFile st =
     (case (cProxy cfg, openFile os st blobFile) of
        (Some _, Some f) \<Rightarrow>
          st\<lparr>dProxyPuts := dProxyPuts st @
              [\<lparr>ppCtx = c, ppKind = kind, ppHash = hash, ppLogicalSize = sz, ppSizeOnDisk = sizeOnDsk, ppData = fdata f\<rparr>]\<rparr>
      | _ \<Rightarrow> st)"

text \<open>Second critical section: exchange the reservation for the entry.\<close>

definition putCommit :: "dcConfig \<Rightarrow> ctx \<Rightarrow> EntryKind \<Rightarrow> string \<Rightarrow> int \<Rightarrow> string \<times> string \<times> int \<Rightarrow> dcState \<Rightarrow>
    (dc_error option \<times> cleanup \<times> dcState) option" where
  "putCommit cfg c kind hash sz written st =
     (case written of (blobFile, random, sizeOnDsk) \<Rightarrow>
        (case commit cfg (LookupKeyForContext c kind hash) (kind = CAS \<and> cStorageMode cfg = Identity)
                sz sz sizeOnDsk random st of
           None \<Rightarrow> None
         | Some (unres, rem, err, st) \<Rightarrow>
             Some (map_option internalErr err,
                   \<lparr>cuBlobFile = Some blobFile, cuRemove = rem, cuUnreserve = unres\<rparr>, st)))"

text \<open>The deferred function, then the third critical section when a reservation is left.\<close>

definition putFinish :: "dcConfig \<Rightarrow> osFaults \<Rightarrow> int \<Rightarrow> dc_error option \<Rightarrow> cleanup \<Rightarrow> dcState \<Rightarrow> dc_error option \<times> dcState" where
  "putFinish cfg os sz err cu st = cleanupReservation cfg sz cu err (cleanupFile os cu st)"

definition putBody :: "dcConfig \<Rightarrow> osFaults \<Rightarrow> ctx \<Rightarrow> EntryKind \<Rightarrow> string \<Rightarrow> int \<Rightarrow> reader \<Rightarrow> actionResult option \<Rightarrow> dcState \<Rightarrow>
    (dc_error option \<times> dcState) option" where
  "putBody cfg os c kind hash sz r ar st =
     (case putReserve cfg sz st of
        (Some e, st) \<Rightarrow> Some (putFinish cfg os sz (Some e) noCleanup st)
      | (None, st) \<Rightarrow>
          (case putWrite cfg os c kind hash sz r st of
             (Inl e, cu, st) \<Rightarrow> Some (putFinish cfg os sz (Some e) cu st)
           | (Inr (blobFile, random, sizeOnDsk), _, st) \<Rightarrow>
               let st = putToProxy cfg os c kind hash sz sizeOnDsk blobFile st
               in case putCommit cfg c kind hash sz (blobFile, random, sizeOnDsk) st of
                    None \<Rightarrow> None
                  | Some (Some e, cu, st) \<Rightarrow> Some (putFinish cfg os sz (Some e) cu st)
                  | Some (None, cu, st) \<Rightarrow>
                      let st = (case ar of None \<Rightarrow> st | Some ar \<Rightarrow> emitACClosureFromWrite c hash sz ar st)
                      in Some (putFinish cfg os sz None cu st)))"

definition Put :: "dcConfig \<Rightarrow> osFaults \<Rightarrow> ctx \<Rightarrow> EntryKind \<Rightarrow> string \<Rightarrow> int \<Rightarrow> reader \<Rightarrow> dcState \<Rightarrow>
    (dc_error option \<times> dcState) option" where
  "Put cfg os c kind hash sz r st =
     (if sz < 0 then Some (Some (badReqErr (NegativeSize sz)), st)
      else if sz > cMaxBlobSize cfg then Some (Some (badReqErr (BlobTooLarge sz (cMaxBlobSize cfg))), st)
      else if length hash \<noteq> 64 then Some (Some (badReqErr (InvalidHashSize (length hash))), st)
      else if kind = CAS \<and> sz = 0 \<and> hash = emptySha256 then Some (None, st)
      else
        (case captureAC cfg kind sz r st of
           (captured, held, st) \<Rightarrow>
             map_option (\<lambda>(err, st). (err, if held then releaseCaptureBudget cfg sz st else st))
               (case captured of
                  Inl e \<Rightarrow> Some (Some e, st)
                | Inr (r, ar) \<Rightarrow> putBody cfg os c kind hash sz r ar st)))"

section \<open>Get\<close>

definition emptyZstdBlob :: bytes where
  "emptyZstdBlob = [40, 181, 47, 253, 32, 0, 1, 0, 0]"

definition itemPath :: "dcConfig \<Rightarrow> ctx \<Rightarrow> EntryKind \<Rightarrow> string \<Rightarrow> lruItem \<Rightarrow> string" where
  "itemPath cfg c kind hash item =
     path_join [cDir cfg, FileLocationForContext c kind (legacy item) hash (itemSize item) (randomStr item)]"

text \<open>
  Open the file of an indexed item and make a reader for it: \<open>Inl None\<close> goes on to the proxy,
  \<open>Inl (Some e)\<close> is an error that is returned.
\<close>

definition openItem :: "dcConfig \<Rightarrow> EntryKind \<Rightarrow> lruItem \<Rightarrow> int \<Rightarrow> int \<Rightarrow> bool \<Rightarrow> osfile \<Rightarrow>
    dc_detail option + reader \<times> int" where
  "openItem cfg kind item sz offset z f =
     (if kind = CAS then
        (let rc =
           (if legacy item then
              (case fseek offset f of
                 None \<Rightarrow> Inl SeekFailed
               | Some f \<Rightarrow> if z then GetLegacyZstdReadCloser (cZstd cfg) f else Inr (fileReader f))
            else if z then GetZstdReadCloser (cZstd cfg) f sz offset
            else GetUncompressedReadCloser (cZstd cfg) f sz offset)
         in case rc of Inl _ \<Rightarrow> Inl None | Inr rd \<Rightarrow> Inr (rd, itemSize item))
      else if ffail f StatOp then Inl (Some StatError)
      else
        let foundSize = blen (fdata f)
        in if isSizeMismatch sz foundSize then Inl None
           else (case fseek offset f of
                   None \<Rightarrow> Inl (Some SeekError)
                 | Some f \<Rightarrow> Inr (fileReader f, foundSize)))"

text \<open>
  \<open>env\<close> is what other requests do between releasing the lock and opening the file: if the file
  is gone by then, the index is asked once more.
\<close>

definition localGet :: "dcConfig \<Rightarrow> osFaults \<Rightarrow> (dcState \<Rightarrow> dcState) \<Rightarrow> ctx \<Rightarrow> EntryKind \<Rightarrow> string \<Rightarrow> int \<Rightarrow> int \<Rightarrow> bool \<Rightarrow>
    dcState \<Rightarrow> (dc_detail option + reader \<times> int) \<times> dcState" where
  "localGet cfg os env c kind hash sz offset z st =
     (let key = LookupKeyForContext c kind hash in
      case Get key (dLru st) of
        (None, l) \<Rightarrow> (Inl None, setLru cfg l st)
      | (Some item, l) \<Rightarrow>
          let st = env (setLru cfg l st)
          in if isSizeMismatch sz (itemSize item) then (Inl None, st)
             else
               let name = itemPath cfg c kind hash item
               in case openFile os st name of
                    Some f \<Rightarrow> (openItem cfg kind item sz offset z f, st)
                  | None \<Rightarrow>
                      if osOpen os name then (Inl None, st)
                      else
                        (case Get key (dLru st) of
                           (None, l) \<Rightarrow> (Inl None, setLru cfg l st)
                         | (Some item', l) \<Rightarrow>
                             let st = setLru cfg l st
                             in case openFile os st (itemPath cfg c kind hash item') of
                                  None \<Rightarrow> (Inl None, st)
                                | Some f \<Rightarrow> (openItem cfg kind item' sz offset z f, st)))"

datatype available = Available reader int | TryProxy bool | AvailError dc_detail

definition availableOrTryProxy :: "dcConfig \<Rightarrow> osFaults \<Rightarrow> (dcState \<Rightarrow> dcState) \<Rightarrow> ctx \<Rightarrow> EntryKind \<Rightarrow> string \<Rightarrow> int \<Rightarrow>
    int \<Rightarrow> bool \<Rightarrow> dcState \<Rightarrow> available \<times> dcState" where
  "availableOrTryProxy cfg os env c kind hash sz offset z st =
     (case localGet cfg os env c kind hash sz offset z st of
        (Inr (rd, n), st) \<Rightarrow> (Available rd n, st)
      | (Inl (Some e), st) \<Rightarrow> (AvailError e, st)
      | (Inl None, st) \<Rightarrow>
          if cProxy cfg \<noteq> None \<and> sz \<le> cMaxProxyBlobSize cfg then
            (if sz > 0 then
               (case Reserve sz (dLru st) of
                  (Inl e, l) \<Rightarrow> (AvailError (ReserveError e), setLru cfg l st)
                | (Inr b, l) \<Rightarrow> (TryProxy b, setLru cfg l st))
             else (TryProxy True, st))
          else (TryProxy False, st))"

text \<open>The result of a read: a stream with its size, nothing (not found), or an error.\<close>

datatype got = Found reader int | NotFound | GotError dc_error

definition gotErr :: "got \<Rightarrow> dc_error option" where
  "gotErr g = (case g of GotError e \<Rightarrow> Some e | _ \<Rightarrow> None)"

definition getFinish :: "dcConfig \<Rightarrow> osFaults \<Rightarrow> int \<Rightarrow> got \<Rightarrow> cleanup \<Rightarrow> dcState \<Rightarrow> got \<times> dcState" where
  "getFinish cfg os sz g cu st =
     (case cleanupReservation cfg sz cu (gotErr g) (cleanupFile os cu st) of
        (Some e, st) \<Rightarrow> (GotError e, st)
      | (None, st) \<Rightarrow> (g, st))"

text \<open>Open the downloaded file and make the reader that the caller gets.\<close>

definition openFetched :: "dcConfig \<Rightarrow> EntryKind \<Rightarrow> int \<Rightarrow> int \<Rightarrow> bool \<Rightarrow> osfile \<Rightarrow> dc_detail + reader" where
  "openFetched cfg kind foundSize offset z f =
     (if kind \<noteq> CAS \<or> cStorageMode cfg = Identity then
        (case (if offset > 0 then fseek offset f else Some f) of
           None \<Rightarrow> Inl SeekError
         | Some f \<Rightarrow>
             if z then map_sum ReadCloserError id (GetLegacyZstdReadCloser (cZstd cfg) f)
             else Inr (fileReader f))
      else
        map_sum ReadCloserError id
          (if z then GetZstdReadCloser (cZstd cfg) f foundSize offset
           else GetUncompressedReadCloser (cZstd cfg) f foundSize offset))"

text \<open>What \<open>get\<close> does with the answer of the proxy, up to the deferred cleanup.\<close>

definition getFetched :: "dcConfig \<Rightarrow> osFaults \<Rightarrow> ctx \<Rightarrow> EntryKind \<Rightarrow> string \<Rightarrow> int \<Rightarrow> int \<Rightarrow> bool \<Rightarrow> reader \<Rightarrow> int \<Rightarrow> cleanup \<Rightarrow>
    dcState \<Rightarrow> (got \<times> cleanup \<times> dcState) option" where
  "getFetched cfg os c kind hash sz offset z r foundSize cu st =
     (let leg = (kind = CAS \<and> cStorageMode cfg = Identity);
          base = path_join [cDir cfg, FileLocationBaseForContext c kind leg hash foundSize]
      in if osMkdir os base then Some (GotError (internalErr MkdirFailed), cu, st)
         else
           (case createTemp os base leg st of
              (None, st) \<Rightarrow> Some (GotError (internalErr TempfileError), cu, st)
            | (Some (blobFile, random), st) \<Rightarrow>
                let cu = cu\<lparr>cuBlobFile := Some blobFile, cuRemove := True\<rparr>;
                    st = setFile blobFile (rdata r) st
                in if rfails r \<or> osWrite os WCopy then Some (GotError (internalErr CopyError), cu, st)
                   else
                     (case openFile os st blobFile of
                        None \<Rightarrow> Some (GotError (internalErr OpenError'), cu, st)
                      | Some f \<Rightarrow>
                          (case openFetched cfg kind foundSize offset z f of
                             Inl e \<Rightarrow> Some (GotError (internalErr e), cu, st)
                           | Inr rc \<Rightarrow>
                               (case commit cfg (LookupKeyForContext c kind hash) leg sz foundSize
                                       (blen (rdata r)) random st of
                                  None \<Rightarrow> None
                                | Some (unres, rem, err, st) \<Rightarrow>
                                    let cu = \<lparr>cuBlobFile = Some blobFile, cuRemove = rem, cuUnreserve = unres\<rparr>
                                    in case err of
                                         Some e \<Rightarrow> Some (GotError (internalErr e), cu, st)
                                       | None \<Rightarrow> Some (Found rc foundSize, cu, st))))))"

definition get :: "dcConfig \<Rightarrow> osFaults \<Rightarrow> (dcState \<Rightarrow> dcState) \<Rightarrow> ctx \<Rightarrow> EntryKind \<Rightarrow> string \<Rightarrow> int \<Rightarrow> int \<Rightarrow> bool \<Rightarrow>
    dcState \<Rightarrow> (got \<times> dcState) option" where
  "get cfg os env c kind hash sz offset z st =
     (if length hash \<noteq> 64 then Some (GotError (badReqErr (InvalidHashSize (length hash))), st)
      else if kind = CAS \<and> sz \<le> 0 \<and> hash = emptySha256 then
        Some (Found (bytes_reader (if z then emptyZstdBlob else [])) 0, st)
      else if kind \<noteq> CAS \<and> z then Some (GotError (badReqErr OnlyCompressedCAS), st)
      else if offset < 0 then Some (GotError (badReqErr (InvalidOffset offset)), st)
      else if sz > 0 \<and> offset \<ge> sz then Some (GotError (badReqErr (InvalidOffsetForSize offset sz)), st)
      else
        (case availableOrTryProxy cfg os env c kind hash sz offset z st of
           (AvailError e, st) \<Rightarrow> Some (GotError (internalErr e), st)
         | (Available rd n, st) \<Rightarrow> Some (Found rd n, st)
         | (TryProxy False, st) \<Rightarrow> Some (NotFound, st)
         | (TryProxy True, st) \<Rightarrow>
             let cu = noCleanup\<lparr>cuUnreserve := sz > 0\<rparr> in
             map_option (\<lambda>(g, cu, st). getFinish cfg os sz g cu st)
               (case proxyGet (the (cProxy cfg)) c kind hash sz of
                  (_, _, Some e) \<Rightarrow> Some (GotError (internalErr (ProxyError e)), cu, st)
                | (None, _, None) \<Rightarrow> Some (NotFound, cu, st)
                | (Some r, foundSize, None) \<Rightarrow>
                    if foundSize > cMaxProxyBlobSize cfg \<or> isSizeMismatch sz foundSize \<or> foundSize < 0
                    then Some (NotFound, cu, st)
                    else getFetched cfg os c kind hash sz offset z r foundSize cu st)))"

definition dcGet :: "dcConfig \<Rightarrow> osFaults \<Rightarrow> (dcState \<Rightarrow> dcState) \<Rightarrow> ctx \<Rightarrow> EntryKind \<Rightarrow> string \<Rightarrow> int \<Rightarrow> int \<Rightarrow> dcState \<Rightarrow>
    (got \<times> dcState) option" where
  "dcGet cfg os env c kind hash sz offset st = get cfg os env c kind hash sz offset False st"

definition dcGetZstd :: "dcConfig \<Rightarrow> osFaults \<Rightarrow> (dcState \<Rightarrow> dcState) \<Rightarrow> ctx \<Rightarrow> string \<Rightarrow> int \<Rightarrow> int \<Rightarrow> dcState \<Rightarrow>
    (got \<times> dcState) option" where
  "dcGetZstd cfg os env c hash sz offset st = get cfg os env c CAS hash sz offset True st"

section \<open>Contains and statistics\<close>

definition Contains :: "dcConfig \<Rightarrow> ctx \<Rightarrow> EntryKind \<Rightarrow> string \<Rightarrow> int \<Rightarrow> dcState \<Rightarrow> (bool \<times> int) \<times> dcState" where
  "Contains cfg c kind hash sz st =
     (if length hash \<noteq> 64 then ((False, - 1), st)
      else if kind = CAS \<and> sz \<le> 0 \<and> hash = emptySha256 then ((True, 0), st)
      else
        let (item, l) = Get (LookupKeyForContext c kind hash) (dLru st);
            st = setLru cfg l st;
            foundSize = (case item of Some it \<Rightarrow> itemSize it | None \<Rightarrow> - 1)
        in if item \<noteq> None \<and> \<not> isSizeMismatch sz foundSize then ((True, foundSize), st)
           else
             (case cProxy cfg of
                Some p \<Rightarrow>
                  if sz \<le> cMaxProxyBlobSize cfg then
                    (let (ex, found) = proxyContains p c kind hash sz
                     in if ex \<and> found \<le> cMaxProxyBlobSize cfg \<and> \<not> isSizeMismatch sz found
                        then ((True, found), st) else ((False, - 1), st))
                  else ((False, - 1), st)
              | None \<Rightarrow> ((False, - 1), st)))"

definition dcMaxSize :: "dcState \<Rightarrow> int" where
  "dcMaxSize st = maxSize (dLru st)"

definition Stats :: "dcState \<Rightarrow> int \<times> int \<times> nat \<times> int" where
  "Stats st = (currentSize (dLru st), reservedSize (dLru st), Len (dLru st), uncompressedSize (dLru st))"

end
