(* ===== verification/Disk_Correct.thy ===== *)
theory Disk_Correct
  imports DiskOps LRU_Correct Casblob_Props Key_Props
begin

text \<open>
  Lemmas about the parts of the disk cache operations: which fields of the state each part
  leaves alone, how each acts on the abstract index, and what the sequential composition of
  \<open>Put\<close> does with reservations and temporary files.
\<close>

section \<open>The index inside the state\<close>

lemma clear_evict [simp]:
  "lru_ok (l\<lparr>evictCalls := x\<rparr>) = lru_ok l" "lruAbs (l\<lparr>evictCalls := x\<rparr>) = lruAbs l"
  "Peek k (l\<lparr>evictCalls := x\<rparr>) = Peek k l"
  by (simp_all add: lru_ok_def lru_wf_def absList_def lruAbs_def Peek_def split: option.splits)

lemma setLru_sel [simp]:
  "lru_ok (dLru (setLru cfg l st)) = lru_ok l" "lruAbs (dLru (setLru cfg l st)) = lruAbs l"
  "Peek k (dLru (setLru cfg l st)) = Peek k l"
  "reservedSize (dLru (setLru cfg l st)) = reservedSize l" "maxSize (dLru (setLru cfg l st)) = maxSize l"
  "dFs (setLru cfg l st) = dFs st" "dRand (setLru cfg l st) = dRand st"
  "dCaptureUsed (setLru cfg l st) = dCaptureUsed st" "dProxyPuts (setLru cfg l st) = dProxyPuts st"
  "dClosures (setLru cfg l st) = dClosures st" "dDropped (setLru cfg l st) = dDropped st"
  by (simp_all add: setLru_def startRemovals_def)

lemma file_ops_lru [simp]:
  "dLru (setFile n bs st) = dLru st" "dLru (removeFile os f st) = dLru st"
  "dLru (cleanupFile os cu st) = dLru st"
  by (simp_all add: setFile_def removeFile_def cleanupFile_def split: option.splits)

lemma putToProxy_frame [simp]:
  "dLru (putToProxy cfg os c k h sz m f st) = dLru st" "dFs (putToProxy cfg os c k h sz m f st) = dFs st"
  by (simp_all add: putToProxy_def split: option.splits)

lemma emit_frame [simp]:
  "dLru (emitACClosureFromWrite c h sz ar st) = dLru st" "dFs (emitACClosureFromWrite c h sz ar st) = dFs st"
  by (simp_all add: emitACClosureFromWrite_def dropObservation_def split: option.splits sum.splits)

lemma createTemp_lru: "createTemp os base leg st = (x, st') \<Longrightarrow> dLru st' = dLru st"
  by (auto simp: createTemp_def split: prod.splits create_result.splits)

lemma putWrite_lru: "putWrite cfg os c k h sz r st = (x, cu, st') \<Longrightarrow> dLru st' = dLru st"
  by (auto simp: putWrite_def Let_def split: option.splits prod.splits sum.splits if_splits dest!: createTemp_lru)

lemma reserved_view: "reservedSize l = reserved (lruAbs l)" "maxSize l = capacity (lruAbs l)"
  by simp_all

text \<open>\<open>putReserve\<close>: an error changes nothing, success reserves exactly the size.\<close>

lemma putReserve_cases:
  assumes "lru_ok (dLru st)" "in64 sz" "0 \<le> sz"
  obtains e st' where "putReserve cfg sz st = (Some e, st')" "lru_ok (dLru st')"
      "lruAbs (dLru st') = lruAbs (dLru st)" "dFs st' = dFs st"
  | st' where "putReserve cfg sz st = (None, st')" "lru_ok (dLru st')" "dFs st' = dFs st"
      "reservedSize (dLru st') = reservedSize (dLru st) + sz" "maxSize (dLru st') = maxSize (dLru st)"
      "sz = 0 \<or> sz \<le> maxSize (dLru st)"
proof (cases "sz = 0")
  case True
  then show ?thesis using assms(1) by (intro that(2) [of st]) (simp_all add: putReserve_def)
next
  case False
  obtain r l where r: "Reserve sz (dLru st) = (r, l)" "lru_ok l"
      "specReserve sz (lruAbs (dLru st)) = (r = Inr True, lruAbs l)"
      "r = Inr True \<or> l = dLru st \<and> (\<exists>e. r = Inl e \<and> e \<noteq> ErrReservation)"
    using Reserve_refines [OF assms(1,2)] by blast
  show ?thesis
  proof (cases "r = Inr True")
    case True
    then have "0 \<le> sz \<and> (sz = 0 \<or> reserved (lruAbs (dLru st)) + sz \<le> capacity (lruAbs (dLru st)))"
        "lruAbs l = (lruAbs (dLru st))\<lparr>entries := fit (capacity (lruAbs (dLru st)) - reserved (lruAbs (dLru st)) - sz)
           (entries (lruAbs (dLru st))), reserved := reserved (lruAbs (dLru st)) + sz\<rparr>"
      using r(3) specReserve_TrueD [of sz "lruAbs (dLru st)" "lruAbs l"] False by auto
    then show ?thesis
      using r True assms False reserved_view [of l] lru_okD(5) [OF assms(1)]
      by (intro that(2) [of "setLru cfg l st"]) (auto simp: putReserve_def)
  next
    case F: False
    then obtain e where "r = Inl e" "l = dLru st" using r(4) by blast
    then show ?thesis
      using r False assms by (intro that(1) [of "insufficientStorage (ReserveError e)" "setLru cfg l st"]) (auto simp: putReserve_def)
  qed
qed

text \<open>
  \<open>commit\<close> with a reservation that is there: it never fails to give it back, it always ends, and
  afterwards nothing is left to unreserve.
\<close>

lemma commit_cases:
  assumes "lru_ok (dLru st)" "in64 sz" "sz \<le> 0 \<or> sz \<le> reservedSize (dLru st)" "size_ok n"
  obtains st' where "commit cfg key leg sz lsz n random st = Some (False, False, None, st')" "lru_ok (dLru st')"
      "reservedSize (dLru st') = reservedSize (dLru st) - (if sz > 0 then sz else 0)"
      "maxSize (dLru st') = maxSize (dLru st)" "dFs st' = dFs st"
      "entries (lruAbs (dLru st')) =
        fit (maxSize (dLru st) - (reservedSize (dLru st) - (if sz > 0 then sz else 0)))
          ((key, \<lparr>itemSize = lsz, sizeOnDisk = n, randomStr = random, legacy = leg\<rparr>) # without key (absList (dLru st)))"
  | st' where "commit cfg key leg sz lsz n random st = Some (False, True, Some (FailedToAdd key lsz n), st')"
      "lru_ok (dLru st')" "reservedSize (dLru st') = reservedSize (dLru st) - (if sz > 0 then sz else 0)"
      "maxSize (dLru st') = maxSize (dLru st)" "dFs st' = dFs st"
proof -
  let ?v = "\<lparr>itemSize = lsz, sizeOnDisk = n, randomStr = random, legacy = leg\<rparr>"
  have "\<exists>l. (if sz > 0 then Unreserve sz (dLru st) else (None, dLru st)) = (None, l) \<and> lru_ok l \<and>
      lruAbs l = (lruAbs (dLru st))\<lparr>reserved := reserved (lruAbs (dLru st)) - (if sz > 0 then sz else 0)\<rparr>"
    using lq.unreserve_exact [OF assms(1,2)] assms(1,3) by auto
  then obtain l where l: "(if sz > 0 then Unreserve sz (dLru st) else (None, dLru st)) = (None, l)" "lru_ok l"
      "lruAbs l = (lruAbs (dLru st))\<lparr>reserved := reserved (lruAbs (dLru st)) - (if sz > 0 then sz else 0)\<rparr>"
    by blast
  have v: "size_ok (sizeOnDisk ?v)" using assms(4) by simp
  show ?thesis
  proof (rule lq.add_cases [OF l(2) v, of key])
    fix l' assume a: "Add key ?v l = Some (True, l')" "lru_ok l'"
        "reserved (lruAbs l') = reserved (lruAbs l)" "capacity (lruAbs l') = capacity (lruAbs l)"
        "entries (lruAbs l') = fit (capacity (lruAbs l) - reserved (lruAbs l)) ((key, ?v) # without key (entries (lruAbs l)))"
    show ?thesis
      using a l by (intro that(1) [of "setLru cfg l' st"]) (auto simp: commit_def)
  next
    fix l' assume a: "Add key ?v l = Some (False, l')" "lru_ok l'" "lruAbs l' = lruAbs l"
    show ?thesis
      using a l reserved_view [of l'] by (intro that(2) [of "setLru cfg l' st"]) (auto simp: commit_def)
  qed
qed

text \<open>The cleanup of a reservation that is there.\<close>

lemma cleanupReservation_ok:
  assumes "lru_ok (dLru st)" "in64 sz" "cuUnreserve cu \<longrightarrow> 0 \<le> sz \<and> sz \<le> reservedSize (dLru st)"
  shows "\<exists>st'. cleanupReservation cfg sz cu err st = (err, st') \<and> lru_ok (dLru st') \<and>
    reservedSize (dLru st') = reservedSize (dLru st) - (if cuUnreserve cu then sz else 0) \<and>
    maxSize (dLru st') = maxSize (dLru st) \<and> dFs st' = dFs st \<and>
    entries (lruAbs (dLru st')) = entries (lruAbs (dLru st))"
proof (cases "cuUnreserve cu")
  case True
  then obtain l where "Unreserve sz (dLru st) = (None, l)" "lru_ok l"
      "lruAbs l = (lruAbs (dLru st))\<lparr>reserved := reserved (lruAbs (dLru st)) - sz\<rparr>"
    using lq.unreserve_exact [OF assms(1,2)] assms(3) by auto
  then show ?thesis
    using True reserved_view [of l] by (intro exI [of _ "setLru cfg l st"]) (auto simp: cleanupReservation_def)
qed (use assms in \<open>simp add: cleanupReservation_def\<close>)

section \<open>Temporary files\<close>

lemma createTemp_Some:
  "createTemp os base leg st = (Some (name, random), st') \<Longrightarrow>
     dFs st name = None \<and> dFs st' = (dFs st)(name \<mapsto> \<lparr>cfData = [], cfComplete = False\<rparr>) \<and>
     name = tempName base random leg \<and> CHR ''/'' \<notin> set random \<and> dProxyPuts st' = dProxyPuts st"
  by (auto simp: createTemp_def Create_def openTemp_def split: prod.splits create_result.splits if_splits
      dest!: tempCreate_Created)

lemma createTemp_None: "createTemp os base leg st = (None, st') \<Longrightarrow> dFs st' = dFs st"
  by (auto simp: createTemp_def split: prod.splits create_result.splits)

lemma putWrite_Inl:
  assumes "putWrite cfg os c k h sz r st = (Inl e, cu, st')"
  shows "cuUnreserve cu = (sz > 0) \<and>
    (cuBlobFile cu = None \<and> dFs st' = dFs st \<or>
     (\<exists>b f. cuBlobFile cu = Some b \<and> cuRemove cu \<and> dFs st b = None \<and> dFs st' = (dFs st)(b \<mapsto> f)))"
  using assms
  by (auto simp: putWrite_def Let_def noCleanup_def setFile_def split: option.splits prod.splits sum.splits if_splits
      dest!: createTemp_Some createTemp_None)

lemma putWrite_Inr:
  assumes "putWrite cfg os c k h sz r st = (Inr (b, random, n), cu, st')"
  shows "dFs st b = None \<and> CHR ''/'' \<notin> set random \<and>
    b = tempName (path_join [cDir cfg, FileLocationBaseForContext c k (k = CAS \<and> cStorageMode cfg = Identity) h sz])
          random (k = CAS \<and> cStorageMode cfg = Identity) \<and>
    (\<exists>bs. writeAndCloseFile cfg os r k h sz = (Inr n, bs) \<and>
       dFs st' = (dFs st)(b \<mapsto> \<lparr>cfData = bs, cfComplete = False\<rparr>))"
  using assms
  by (auto simp: putWrite_def Let_def noCleanup_def setFile_def split: option.splits prod.splits sum.splits if_splits
      dest!: createTemp_Some createTemp_None)

lemma cleanupFile_removed:
  assumes "cuBlobFile cu = None \<and> dFs st' = dFs st \<or>
     (\<exists>b f. cuBlobFile cu = Some b \<and> cuRemove cu \<and> dFs st b = None \<and> dFs st' = (dFs st)(b \<mapsto> f))"
    and "osRemove os = (\<lambda>_. False)"
  shows "dFs (cleanupFile os cu st') = dFs st"
  using assms by (auto simp: cleanupFile_def removeFile_def fun_eq_iff)

section \<open>The sequential Put\<close>

text \<open>The size that a successful write reports is a size the index can round.\<close>

definition fileFits :: "dcConfig \<Rightarrow> osFaults \<Rightarrow> reader \<Rightarrow> EntryKind \<Rightarrow> string \<Rightarrow> int \<Rightarrow> bool" where
  "fileFits cfg os r k h sz \<longleftrightarrow>
     (case writeAndCloseFile cfg os r k h sz of (Inr n, _) \<Rightarrow> size_ok n | _ \<Rightarrow> True)"

lemma fileFitsD: "fileFits cfg os r k h sz \<Longrightarrow> writeAndCloseFile cfg os r k h sz = (Inr n, bs) \<Longrightarrow> size_ok n"
  by (simp add: fileFits_def)

text \<open>
  The effect of \<open>putBody\<close> on the index, whatever fails: the invariant holds, all reservations are
  given back, and a failed write leaves no file.
\<close>

lemma putBody_outcome:
  assumes ok: "lru_ok (dLru st)" and sz: "in64 sz" "0 \<le> sz"
    and fit: "sz \<le> maxSize (dLru st) \<Longrightarrow> fileFits cfg os r k h sz"
  shows "\<exists>err st'. putBody cfg os c k h sz r ar st = Some (err, st') \<and> lru_ok (dLru st') \<and>
    reservedSize (dLru st') = reservedSize (dLru st) \<and> maxSize (dLru st') = maxSize (dLru st) \<and>
    (err \<noteq> None \<longrightarrow> osRemove os = (\<lambda>_. False) \<longrightarrow> dFs st' = dFs st)"
proof (rule putReserve_cases [OF ok sz, of cfg])
  fix e st1 assume r: "putReserve cfg sz st = (Some e, st1)" "lru_ok (dLru st1)"
    "lruAbs (dLru st1) = lruAbs (dLru st)" "dFs st1 = dFs st"
  then have "reservedSize (dLru st1) = reservedSize (dLru st)" "maxSize (dLru st1) = maxSize (dLru st)"
    using reserved_view by metis+
  then show ?thesis
    using r by (simp add: putBody_def putFinish_def noCleanup_def cleanupFile_def cleanupReservation_def)
next
  fix st1 assume r: "putReserve cfg sz st = (None, st1)" "lru_ok (dLru st1)" "dFs st1 = dFs st"
    "reservedSize (dLru st1) = reservedSize (dLru st) + sz" "maxSize (dLru st1) = maxSize (dLru st)"
    "sz = 0 \<or> sz \<le> maxSize (dLru st)"
  have "sz \<le> maxSize (dLru st)" using r(6) lru_okD(3) [OF ok] by auto
  note fit = fit [OF this]
  note nn = lru_okD(5) [OF ok]
  obtain x cu st2 where w: "putWrite cfg os c k h sz r st1 = (x, cu, st2)" by (cases "putWrite cfg os c k h sz r st1")
  have l2: "dLru st2 = dLru st1" by (rule putWrite_lru [OF w])
  show ?thesis
  proof (cases x)
    case (Inl e)
    note i = putWrite_Inl [OF w [unfolded Inl]]
    have "\<exists>st'. putFinish cfg os sz (Some e) cu st2 = (Some e, st') \<and> lru_ok (dLru st') \<and>
        reservedSize (dLru st') = reservedSize (dLru st) \<and> maxSize (dLru st') = maxSize (dLru st) \<and>
        dFs st' = dFs (cleanupFile os cu st2)"
      using cleanupReservation_ok [of "cleanupFile os cu st2" sz cu cfg "Some e"] i r l2 sz nn
      unfolding putFinish_def by (auto split: if_splits)
    then show ?thesis
      using r w Inl cleanupFile_removed [of cu st2 st os] i by (auto simp: putBody_def)
  next
    case (Inr y)
    obtain b random n where y: "y = (b, random, n)" by (cases y)
    note i = putWrite_Inr [OF w [unfolded Inr y]]
    have n: "size_ok n" using i fileFitsD [OF fit] by blast
    let ?st3 = "putToProxy cfg os c k h sz n b st2"
    let ?leg = "k = CAS \<and> cStorageMode cfg = Identity" and ?key = "LookupKeyForContext c k h"
    have pre: "lru_ok (dLru ?st3)" "sz \<le> 0 \<or> sz \<le> reservedSize (dLru ?st3)"
      using r l2 nn sz by auto
    show ?thesis
    proof (rule commit_cases [OF pre(1) sz(1) pre(2) n, of cfg ?key ?leg sz random])
      fix st4 assume c: "commit cfg ?key ?leg sz sz n random ?st3 = Some (False, False, None, st4)" "lru_ok (dLru st4)"
        "reservedSize (dLru st4) = reservedSize (dLru ?st3) - (if sz > 0 then sz else 0)"
        "maxSize (dLru st4) = maxSize (dLru ?st3)"
      then show ?thesis
        using r w Inr y l2 sz
        by (auto simp: putBody_def Let_def putCommit_def putFinish_def cleanupReservation_def split: option.splits)
    next
      fix st4 assume c: "commit cfg ?key ?leg sz sz n random ?st3 = Some (False, True, Some (FailedToAdd ?key sz n), st4)"
        "lru_ok (dLru st4)" "reservedSize (dLru st4) = reservedSize (dLru ?st3) - (if sz > 0 then sz else 0)"
        "maxSize (dLru st4) = maxSize (dLru ?st3)" "dFs st4 = dFs ?st3"
      let ?cu = "\<lparr>cuBlobFile = Some b, cuRemove = True, cuUnreserve = False\<rparr>"
      have "osRemove os = (\<lambda>_. False) \<longrightarrow> dFs (cleanupFile os ?cu st4) = dFs st"
        using cleanupFile_removed [of ?cu st4 st os] c(5) i r(3) by auto
      then show ?thesis
        using r w Inr y l2 sz c
        by (auto simp: putBody_def Let_def putCommit_def putFinish_def cleanupReservation_def)
    qed
  qed
qed

text \<open>The part of the state that only the capture code touches.\<close>

lemma captureUsed_frame [simp]:
  "dCaptureUsed (setFile n bs st) = dCaptureUsed st" "dCaptureUsed (cleanupFile os cu st) = dCaptureUsed st"
  "dCaptureUsed (putToProxy cfg os c k h sz m f st) = dCaptureUsed st"
  "dCaptureUsed (emitACClosureFromWrite c h sz ar st) = dCaptureUsed st"
  by (simp_all add: setFile_def removeFile_def cleanupFile_def putToProxy_def emitACClosureFromWrite_def
      dropObservation_def split: option.splits sum.splits)

lemma putReserve_captureUsed: "putReserve cfg sz st = (x, st') \<Longrightarrow> dCaptureUsed st' = dCaptureUsed st"
  by (auto simp: putReserve_def split: if_splits prod.splits sum.splits)

lemma putWrite_captureUsed: "putWrite cfg os c k h sz r st = (x, cu, st') \<Longrightarrow> dCaptureUsed st' = dCaptureUsed st"
  by (auto simp: putWrite_def createTemp_def Let_def
      split: option.splits prod.splits sum.splits if_splits create_result.splits)

lemma commit_captureUsed: "commit cfg key leg sz lsz n random st = Some (x, y, e, st') \<Longrightarrow> dCaptureUsed st' = dCaptureUsed st"
  by (auto simp: commit_def split: option.splits prod.splits if_splits bool.splits)

lemma putFinish_captureUsed: "putFinish cfg os sz err cu st = (x, st') \<Longrightarrow> dCaptureUsed st' = dCaptureUsed st"
  by (auto simp: putFinish_def cleanupReservation_def split: option.splits prod.splits if_splits)

lemma putBody_captureUsed: "putBody cfg os c k h sz r ar st = Some (x, st') \<Longrightarrow> dCaptureUsed st' = dCaptureUsed st"
  by (auto simp: putBody_def putCommit_def Let_def split: option.splits prod.splits sum.splits
      dest!: putReserve_captureUsed putWrite_captureUsed commit_captureUsed putFinish_captureUsed)

lemma plain_write_fits:
  "\<not> (k = CAS \<and> cStorageMode cfg \<noteq> Identity) \<Longrightarrow> 0 \<le> sz \<Longrightarrow> sz \<le> maxInt64 - 4095 \<Longrightarrow> fileFits cfg os r k h sz"
  by (auto simp: fileFits_def writeAndCloseFile_def isSizeMismatch_def size_ok_def Let_def)

end
