(* ===== verification/Disk_Props.thy ===== *)
theory Disk_Props
  imports Disk_Correct
begin

text \<open>
  The properties of the sequential operations of the disk cache: no outcome of \<open>Put\<close> leaks a
  reservation, capture budget or a file; what \<open>Put\<close> stores, \<open>Get\<close> and \<open>GetZstd\<close> return; which
  storage mode verifies hashes.
\<close>

lemma captureAC_frame:
  assumes "captureAC cfg k sz r st = (x, held, st1)"
  shows "dLru st1 = dLru st \<and> dFs st1 = dFs st \<and>
    dCaptureUsed st1 = dCaptureUsed st + (if held \<and> cCaptureSem cfg \<noteq> None then sz else 0)"
  using assms
  by (auto simp: captureAC_def tryAcquireCaptureBudget_def dropObservation_def Let_def
      split: if_splits prod.splits option.splits)

lemma captureAC_reader:
  assumes "captureAC cfg k sz r st = (Inr (r', ar), held, st1)" "0 \<le> sz"
  shows "rdata r' = rdata r \<and> (rfails r' = rfails r \<or> \<not> rfails r') \<and> (rfails r \<longrightarrow> rfails r') \<and> (k \<noteq> AC \<longrightarrow> r' = r)"
  using assms
  by (auto simp: captureAC_def tryAcquireCaptureBudget_def dropObservation_def bytes_reader_def Let_def blen_def
      split: if_splits prod.splits option.splits)

lemma Put_outcome:
  assumes "lru_ok (dLru st)" "in64 sz" "0 \<le> sz \<Longrightarrow> sz \<le> maxSize (dLru st) \<Longrightarrow> fileFits cfg os r kind hash sz"
  shows "\<exists>err st'. Put cfg os c kind hash sz r st = Some (err, st') \<and> lru_ok (dLru st') \<and>
    reservedSize (dLru st') = reservedSize (dLru st) \<and> maxSize (dLru st') = maxSize (dLru st) \<and>
    dCaptureUsed st' = dCaptureUsed st \<and> (err \<noteq> None \<longrightarrow> osRemove os = (\<lambda>_. False) \<longrightarrow> dFs st' = dFs st)"
proof (cases "sz < 0 \<or> sz > cMaxBlobSize cfg \<or> length hash \<noteq> 64 \<or> kind = CAS \<and> sz = 0 \<and> hash = emptySha256")
  case True
  then show ?thesis using assms(1) by (auto simp: Put_def)
next
  case False
  obtain x held st1 where cap: "captureAC cfg kind sz r st = (x, held, st1)" by (cases "captureAC cfg kind sz r st")
  note fr = captureAC_frame [OF cap]
  have rel: "dCaptureUsed (if held then releaseCaptureBudget cfg sz st' else st') = dCaptureUsed st \<and>
      dLru (if held then releaseCaptureBudget cfg sz st' else st') = dLru st' \<and>
      dFs (if held then releaseCaptureBudget cfg sz st' else st') = dFs st'"
    if "dCaptureUsed st' = dCaptureUsed st1" for st'
    using that fr by (auto simp: releaseCaptureBudget_def split: option.splits)
  show ?thesis
  proof (cases x)
    case (Inl e)
    then show ?thesis using False cap fr rel [of st1] assms(1) by (auto simp: Put_def)
  next
    case (Inr y)
    obtain r' ar where y: "y = (r', ar)" by (cases y)
    have sz: "0 \<le> sz" using False by simp
    note rd = captureAC_reader [OF cap [unfolded Inr y] sz]
    have fit: "fileFits cfg os r' kind hash sz" if "sz \<le> maxSize (dLru st1)"
    proof (cases "kind = AC")
      case True
      then show ?thesis using that fr sz lru_okD(4) [OF assms(1)] by (intro plain_write_fits) auto
    next
      case False
      then show ?thesis using rd that fr assms(3) sz by simp
    qed
    have ok1: "lru_ok (dLru st1)" using assms(1) fr by simp
    obtain err st2 where b: "putBody cfg os c kind hash sz r' ar st1 = Some (err, st2)" "lru_ok (dLru st2)"
        "reservedSize (dLru st2) = reservedSize (dLru st1)" "maxSize (dLru st2) = maxSize (dLru st1)"
        "err \<noteq> None \<longrightarrow> osRemove os = (\<lambda>_. False) \<longrightarrow> dFs st2 = dFs st1"
      using putBody_outcome [OF ok1 assms(2) sz fit, of c ar] by blast
    show ?thesis
      using False cap Inr y b fr rel [OF putBody_captureUsed [OF b(1)]] by (auto simp: Put_def)
  qed
qed

text \<open>
  Property C10. Whatever the operating system and the reader do, \<open>Put\<close> returns, keeps the
  invariant of the index, and afterwards exactly the space that was reserved before is reserved
  and exactly the capture budget that was used before is used: no outcome leaks either.
\<close>

theorem put_leaks_nothing:
  assumes "lru_ok (dLru st)" "in64 sz" "0 \<le> sz \<Longrightarrow> sz \<le> maxSize (dLru st) \<Longrightarrow> fileFits cfg os r kind hash sz"
  shows "\<exists>err st'. Put cfg os c kind hash sz r st = Some (err, st') \<and> lru_ok (dLru st') \<and>
    reservedSize (dLru st') = reservedSize (dLru st) \<and> maxSize (dLru st') = maxSize (dLru st) \<and>
    dCaptureUsed st' = dCaptureUsed st"
  using Put_outcome [OF assms] by blast

definition demoState :: "int \<Rightarrow> dcState" where
  "demoState m = \<lparr>dLru = NewSizedLRU m True, dFs = (\<lambda>_. None), dPending = [], dRand = 0, dCaptureUsed = 0,
     dProxyPuts = [], dClosures = [], dDropped = []\<rparr>"

definition demoConfig :: "compressionType \<Rightarrow> dcConfig" where
  "demoConfig mode = \<lparr>cDir = ''/data'', cProxy = None, cObserver = False, cStorageMode = mode, cZstd = toyZstd,
     cMaxBlobSize = maxInt64, cMaxProxyBlobSize = maxInt64, cCaptureSem = Some lruCaptureBudgetBytes,
     cUnmarshalAR = (\<lambda>_. None)\<rparr>"

lemma demoState_ok: "0 < m \<Longrightarrow> m \<le> 4611686018427387903 \<Longrightarrow> lru_ok (dLru (demoState m))"
  by (simp add: demoState_def New_ok)

lemma demoState_sel [simp]:
  "reservedSize (dLru (demoState m)) = 0" "maxSize (dLru (demoState m)) = m" "dCaptureUsed (demoState m) = 0"
  by (simp_all add: demoState_def NewSizedLRU_def)

theorem put_leaks_nothing_witness:
  "\<exists>err st'. Put (demoConfig Identity) (noFaults\<lparr>osMkdir := \<lambda>_. True\<rparr>) emptyCtx AC emptySha256 5 (bytes_reader [])
     (demoState 100000) = Some (err, st') \<and> reservedSize (dLru st') = 0 \<and> dCaptureUsed st' = 0"
  using put_leaks_nothing [OF demoState_ok, of 100000 5 "demoConfig Identity" "noFaults\<lparr>osMkdir := \<lambda>_. True\<rparr>"
      "bytes_reader []" AC emptySha256 emptyCtx] plain_write_fits [of AC "demoConfig Identity" 5]
  by (auto simp: in64_def)

text \<open>
  A \<open>Put\<close> that fails leaves the cache directory as it was, whatever failed: the
  temporary file it created, if any, is gone (as long as the removal itself does not fail).
\<close>

theorem put_failure_leaves_no_file:
  assumes "lru_ok (dLru st)" "in64 sz" "0 \<le> sz \<Longrightarrow> sz \<le> maxSize (dLru st) \<Longrightarrow> fileFits cfg os r kind hash sz"
    and "Put cfg os c kind hash sz r st = Some (Some e, st')" "osRemove os = (\<lambda>_. False)"
  shows "dFs st' = dFs st"
  using Put_outcome [OF assms(1-3), of c] assms(4,5) by auto

theorem put_failure_leaves_no_file_witness:
  "\<exists>e st'. Put (demoConfig Identity) (noFaults\<lparr>osMkdir := \<lambda>_. True\<rparr>) emptyCtx AC emptySha256 0 (bytes_reader [])
     (demoState 100000) = Some (Some e, st') \<and> dFs st' = dFs (demoState 100000)"
proof -
  let ?os = "noFaults\<lparr>osMkdir := \<lambda>_. True\<rparr>"
  have "length emptySha256 = 64" by (simp add: emptySha256_def)
  then have p: "Put (demoConfig Identity) ?os emptyCtx AC emptySha256 0 (bytes_reader []) (demoState 100000)
      = Some (Some (internalErr MkdirFailed), demoState 100000)"
    by (simp add: Put_def demoConfig_def captureAC_def putBody_def putReserve_def putWrite_def Let_def putFinish_def
        cleanupFile_def cleanupReservation_def noCleanup_def)
  then show ?thesis
    using put_failure_leaves_no_file [OF demoState_ok _ _ p] plain_write_fits [of AC "demoConfig Identity" 0 ?os "bytes_reader []"]
    by (auto simp: in64_def noFaults_def)
qed

section \<open>What Put stores\<close>

text \<open>The content of the file that a successful write leaves.\<close>

definition storedBytes :: "dcConfig \<Rightarrow> EntryKind \<Rightarrow> bytes \<Rightarrow> bytes" where
  "storedBytes cfg kind data =
     (if kind = CAS \<and> cStorageMode cfg \<noteq> Identity then casFile (cZstd cfg) data else data)"

text \<open>What is known of the zstd library and of the sizes of the blob at hand.\<close>

definition goodUpload :: "dcConfig \<Rightarrow> EntryKind \<Rightarrow> reader \<Rightarrow> int \<Rightarrow> bool" where
  "goodUpload cfg kind r sz \<longleftrightarrow>
     (kind = CAS \<and> cStorageMode cfg \<noteq> Identity \<longrightarrow>
        cStorageMode cfg = Zstandard \<and> sz \<le> maxBlobSize \<and>
        blen (casFile (cZstd cfg) (take (nat sz) (rdata r))) \<le> maxInt64 - 4095)"

lemma writeAndCloseFile_Inr:
  assumes "writeAndCloseFile cfg os r kind hash sz = (Inr n, bs)" "goodUpload cfg kind r sz" "0 \<le> sz"
  shows "blen (rdata r) = sz \<and> \<not> rfails r \<and> bs = storedBytes cfg kind (rdata r) \<and> n = blen bs \<and>
    (kind = CAS \<and> cStorageMode cfg \<noteq> Identity \<longrightarrow> 0 < sz \<and> hash = hexEncode (sha256 (rdata r)) \<and>
       WriteAndClose (cZstd cfg) (osWrite os) r Zstandard hash sz = (Inr n, bs))"
proof (cases "kind = CAS \<and> cStorageMode cfg \<noteq> Identity")
  case True
  then have g: "cStorageMode cfg = Zstandard" "sz \<le> maxBlobSize"
      "blen (casFile (cZstd cfg) (take (nat sz) (rdata r))) \<le> maxInt64 - 4095"
    using assms(2) by (auto simp: goodUpload_def)
  have w: "WriteAndClose (cZstd cfg) (osWrite os) r Zstandard hash sz = (Inr n, bs)"
    using assms(1) True g(1) by (auto simp: writeAndCloseFile_def split: prod.splits sum.splits)
  have "sz \<le> maxInt64" "blen (casFile (cZstd cfg) (take (nat sz) (rdata r))) \<le> maxInt64"
    using g by (auto simp: maxBlobSize_def)
  from WriteAndClose_success [OF w this] show ?thesis using True w by (simp add: storedBytes_def)
next
  case False
  moreover have "- 1 < blen (rdata r)" by (simp add: blen_def)
  ultimately show ?thesis
    using assms(1,3) by (auto simp: writeAndCloseFile_def storedBytes_def isSizeMismatch_def Let_def
        split: if_splits)
qed

lemma goodUpload_fits:
  assumes "goodUpload cfg kind r sz" "0 \<le> sz" "sz \<le> maxInt64 - 4095"
  shows "fileFits cfg os r kind hash sz"
proof (cases "writeAndCloseFile cfg os r kind hash sz")
  case (Pair x bs)
  show ?thesis
  proof (cases x)
    case (Inr n)
    note w = writeAndCloseFile_Inr [OF Pair [unfolded Inr] assms(1,2)]
    then have "take (nat sz) (rdata r) = rdata r" by auto
    then have "n \<le> maxInt64 - 4095" "0 \<le> n"
      using w assms by (auto simp: storedBytes_def goodUpload_def split: if_splits)
    then show ?thesis by (simp add: fileFits_def Pair Inr size_ok_def)
  qed (simp add: fileFits_def Pair)
qed

definition uploadItem :: "dcConfig \<Rightarrow> EntryKind \<Rightarrow> int \<Rightarrow> bytes \<Rightarrow> string \<Rightarrow> lruItem" where
  "uploadItem cfg kind sz data random =
     \<lparr>itemSize = sz, sizeOnDisk = blen (storedBytes cfg kind data), randomStr = random,
      legacy = (kind = CAS \<and> cStorageMode cfg = Identity)\<rparr>"

lemma putBody_success:
  assumes ok: "lru_ok (dLru st)" and sz: "in64 sz" "0 \<le> sz" and g: "goodUpload cfg kind r sz"
    and h: "hex64 hash" and p: "putBody cfg os c kind hash sz r ar st = Some (None, st')"
  shows "\<exists>random cflag n bs. writeAndCloseFile cfg os r kind hash sz = (Inr n, bs) \<and>
    (let item = uploadItem cfg kind sz (rdata r) random
     in dFs st' (itemPath cfg c kind hash item) = Some \<lparr>cfData = bs, cfComplete = cflag\<rparr> \<and>
        (Peek (LookupKeyForContext c kind hash) (dLru st') =
           (if reservedSize (dLru st) + roundUp4k n \<le> maxSize (dLru st) then Some item else None)))"
proof (rule putReserve_cases [OF ok sz, of cfg])
  fix e st1 assume "putReserve cfg sz st = (Some e, st1)" "lru_ok (dLru st1)"
  then have False
    using p by (auto simp: putBody_def putFinish_def noCleanup_def cleanupReservation_def)
  then show ?thesis ..
next
  fix st1 assume r: "putReserve cfg sz st = (None, st1)" "lru_ok (dLru st1)" "dFs st1 = dFs st"
    "reservedSize (dLru st1) = reservedSize (dLru st) + sz" "maxSize (dLru st1) = maxSize (dLru st)"
    "sz = 0 \<or> sz \<le> maxSize (dLru st)"
  have szm: "sz \<le> maxInt64 - 4095" using r(6) lru_okD(3,4) [OF ok] by auto
  note nn = lru_okD(5) [OF ok]
  obtain x cu st2 where w: "putWrite cfg os c kind hash sz r st1 = (x, cu, st2)"
    by (cases "putWrite cfg os c kind hash sz r st1")
  have l2: "dLru st2 = dLru st1" by (rule putWrite_lru [OF w])
  show ?thesis
  proof (cases x)
    case (Inl e)
    note i = putWrite_Inl [OF w [unfolded Inl]]
    have "fst (putFinish cfg os sz (Some e) cu st2) = Some e"
      using cleanupReservation_ok [of "cleanupFile os cu st2" sz cu cfg "Some e"] i r l2 sz nn
      unfolding putFinish_def by (auto split: if_splits)
    then show ?thesis using p r w Inl by (auto simp: putBody_def)
  next
    case (Inr y)
    obtain b random n where y: "y = (b, random, n)" by (cases y)
    let ?leg = "kind = CAS \<and> cStorageMode cfg = Identity" and ?key = "LookupKeyForContext c kind hash"
    note i = putWrite_Inr [OF w [unfolded Inr y]]
    then obtain bs where bs: "writeAndCloseFile cfg os r kind hash sz = (Inr n, bs)"
        "dFs st2 = (dFs st1)(b \<mapsto> \<lparr>cfData = bs, cfComplete = False\<rparr>)" by blast
    note wf = writeAndCloseFile_Inr [OF bs(1) g sz(2)]
    have n: "size_ok n" using goodUpload_fits [OF g sz(2) szm] bs(1) by (rule fileFitsD)
    let ?item = "uploadItem cfg kind sz (rdata r) random"
    have it: "\<lparr>itemSize = sz, sizeOnDisk = n, randomStr = random, legacy = ?leg\<rparr> = ?item"
      using wf by (simp add: uploadItem_def)
    have path: "itemPath cfg c kind hash ?item = b"
      using i tempName_path [OF h, of random ?leg kind "cDir cfg" c sz] by (simp add: itemPath_def uploadItem_def)
    let ?st3 = "putToProxy cfg os c kind hash sz n b st2"
    have pre: "lru_ok (dLru ?st3)" "sz \<le> 0 \<or> sz \<le> reservedSize (dLru ?st3)"
      using r l2 nn sz by auto
    show ?thesis
    proof (rule commit_cases [OF pre(1) sz(1) pre(2) n, of cfg ?key ?leg sz random])
      fix st4 assume c: "commit cfg ?key ?leg sz sz n random ?st3 = Some (False, False, None, st4)" "lru_ok (dLru st4)"
        "dFs st4 = dFs ?st3"
        "entries (lruAbs (dLru st4)) = fit (maxSize (dLru ?st3) - (reservedSize (dLru ?st3) - (if sz > 0 then sz else 0)))
          ((?key, \<lparr>itemSize = sz, sizeOnDisk = n, randomStr = random, legacy = ?leg\<rparr>) # without ?key (absList (dLru ?st3)))"
      let ?cu = "\<lparr>cuBlobFile = Some b, cuRemove = False, cuUnreserve = False\<rparr>"
      define st5 where "st5 = (case ar of None \<Rightarrow> st4 | Some a \<Rightarrow> emitACClosureFromWrite c hash sz a st4)"
      have st5: "dLru st5 = dLru st4" "dFs st5 = dFs st4" "st' = cleanupFile os ?cu st5"
        using p r(1) w Inr y c(1)
        by (auto simp: st5_def putBody_def Let_def putCommit_def putFinish_def cleanupReservation_def split: option.splits)
      have cap: "maxSize (dLru ?st3) - (reservedSize (dLru ?st3) - (if sz > 0 then sz else 0)) =
          maxSize (dLru st) - reservedSize (dLru st)"
        using r l2 sz by auto
      have "Peek ?key (dLru st') = (if reservedSize (dLru st) + roundUp4k n \<le> maxSize (dLru st) then Some ?item else None)"
        using Peek_map_of [OF lru_okD(1) [OF c(2)], of ?key] c(4) unfolding cap it
        by (auto simp: st5 diskUse_def uploadItem_def wf)
      moreover have "\<exists>cflag. dFs st' b = Some \<lparr>cfData = bs, cfComplete = cflag\<rparr>"
        using c(3) bs(2) st5 by (auto simp: cleanupFile_def)
      ultimately show ?thesis using bs(1) path by (auto simp: Let_def)
    next
      fix st4 assume c: "commit cfg ?key ?leg sz sz n random ?st3 = Some (False, True, Some (FailedToAdd ?key sz n), st4)"
      then have False
        using p r w Inr y
        by (auto simp: putBody_def Let_def putCommit_def putFinish_def cleanupReservation_def)
      then show ?thesis ..
    qed
  qed
qed

lemma Put_success:
  assumes ok: "lru_ok (dLru st)" and sz: "in64 sz" and g: "goodUpload cfg kind r sz" and h: "hex64 hash"
    and p: "Put cfg os c kind hash sz r st = Some (None, st')"
    and ne: "\<not> (kind = CAS \<and> sz = 0 \<and> hash = emptySha256)"
  shows "0 \<le> sz \<and> blen (rdata r) = sz \<and> \<not> rfails r \<and>
    (kind = CAS \<and> cStorageMode cfg \<noteq> Identity \<longrightarrow> 0 < sz \<and> hash = hexEncode (sha256 (rdata r)) \<and>
       (\<exists>n. WriteAndClose (cZstd cfg) (osWrite os) r Zstandard hash sz = (Inr n, storedBytes cfg kind (rdata r)))) \<and>
    (\<exists>random cflag. let item = uploadItem cfg kind sz (rdata r) random; bs = storedBytes cfg kind (rdata r) in
       dFs st' (itemPath cfg c kind hash item) = Some \<lparr>cfData = bs, cfComplete = cflag\<rparr> \<and>
       Peek (LookupKeyForContext c kind hash) (dLru st') =
         (if reservedSize (dLru st) + roundUp4k (blen bs) \<le> maxSize (dLru st) then Some item else None))"
proof -
  obtain x held st1 where cap: "captureAC cfg kind sz r st = (x, held, st1)" by (cases "captureAC cfg kind sz r st")
  note fr = captureAC_frame [OF cap]
  have early: "0 \<le> sz" "length hash = 64" "\<not> (kind = CAS \<and> sz = 0 \<and> hash = emptySha256)"
    using p ne by (auto simp: Put_def split: if_splits)
  obtain r' ar where x: "x = Inr (r', ar)"
    using p early cap by (cases x) (auto simp: Put_def split: if_splits)
  note rd = captureAC_reader [OF cap [unfolded x] early(1)]
  obtain st2 where b: "putBody cfg os c kind hash sz r' ar st1 = Some (None, st2)" "dLru st' = dLru st2" "dFs st' = dFs st2"
    using p early cap x by (auto simp: Put_def releaseCaptureBudget_def split: if_splits option.splits)
  have g': "goodUpload cfg kind r' sz" using g rd by (simp add: goodUpload_def)
  have ok1: "lru_ok (dLru st1)" using ok fr by simp
  obtain random cflag n bs where w: "writeAndCloseFile cfg os r' kind hash sz = (Inr n, bs)"
    and f: "dFs st2 (itemPath cfg c kind hash (uploadItem cfg kind sz (rdata r') random)) = Some \<lparr>cfData = bs, cfComplete = cflag\<rparr>"
    and k: "Peek (LookupKeyForContext c kind hash) (dLru st2) =
           (if reservedSize (dLru st1) + roundUp4k n \<le> maxSize (dLru st1)
            then Some (uploadItem cfg kind sz (rdata r') random) else None)"
    using putBody_success [OF ok1 sz early(1) g' h b(1)] by (auto simp: Let_def)
  note wf = writeAndCloseFile_Inr [OF w g' early(1)]
  have "kind = CAS \<and> cStorageMode cfg \<noteq> Identity \<Longrightarrow> r' = r" using rd by simp
  then show ?thesis
    using wf f k fr b rd early(1) by (auto simp: Let_def intro!: exI [of _ random] exI [of _ cflag])
qed

section \<open>When Put succeeds\<close>

lemma createTemp_cong:
  "dFs st1 = dFs st \<Longrightarrow> dRand st1 = dRand st \<Longrightarrow> fst (createTemp os base leg st1) = fst (createTemp os base leg st)"
proof -
  assume a: "dFs st1 = dFs st" "dRand st1 = dRand st"
  then have "openTemp os st1 = openTemp os st" by (simp add: openTemp_def fun_eq_iff)
  with a show ?thesis by (simp add: createTemp_def split: prod.splits create_result.splits)
qed

lemma putReserve_rand: "putReserve cfg sz st = (x, st') \<Longrightarrow> dRand st' = dRand st"
  by (auto simp: putReserve_def split: if_splits prod.splits sum.splits)

lemma putReserve_room:
  assumes "lru_ok (dLru st)" "in64 sz" "0 \<le> sz" "reservedSize (dLru st) + sz \<le> maxSize (dLru st)"
  shows "fst (putReserve cfg sz st) = None"
proof (cases "sz = 0")
  case False
  obtain r l where r: "Reserve sz (dLru st) = (r, l)"
      "specReserve sz (lruAbs (dLru st)) = (r = Inr True, lruAbs l)"
    using Reserve_refines [OF assms(1,2)] by blast
  then have "r = Inr True" using False assms(3,4) by (simp add: specReserve_def)
  then show ?thesis using r by (simp add: putReserve_def)
qed (simp add: putReserve_def)

text \<open>A commit succeeds when the rounded size fits beside the space reserved by others.\<close>

lemma commit_succeeds:
  assumes ok: "lru_ok (dLru st)" and sz: "in64 sz" "0 \<le> sz" "sz \<le> reservedSize (dLru st)" and n: "size_ok n"
    and room: "reservedSize (dLru st) - sz + roundUp4k n \<le> maxSize (dLru st)"
  shows "\<exists>st'. commit cfg key leg sz lsz n random st = Some (False, False, None, st') \<and> dFs st' = dFs st \<and>
    Peek key (dLru st') = Some \<lparr>itemSize = lsz, sizeOnDisk = n, randomStr = random, legacy = leg\<rparr>"
proof -
  let ?v = "\<lparr>itemSize = lsz, sizeOnDisk = n, randomStr = random, legacy = leg\<rparr>"
  obtain l where l: "(if sz > 0 then Unreserve sz (dLru st) else (None, dLru st)) = (None, l)" "lru_ok l"
      "reservedSize l = reservedSize (dLru st) - sz" "maxSize l = maxSize (dLru st)"
  proof (cases "sz > 0")
    case True
    then show ?thesis
      using lq.unreserve_exact [OF ok sz(1,2)] sz(3) that by (auto simp: reserved_view simp del: lruAbs_sel)
  qed (use ok sz that in auto)
  have "diskUse (key, ?v) = roundUp4k n" by (simp add: diskUse_def)
  then obtain l' where "Add key ?v l = Some (True, l')" "Peek key l' = Some ?v"
    using lq.add_present [OF l(2), of ?v key] n l(3,4) room by auto
  then show ?thesis using l(1) by (auto simp: commit_def)
qed

lemma Put_succeeds:
  assumes ok: "lru_ok (dLru st)" and sz: "in64 sz" "0 \<le> sz" "sz \<le> cMaxBlobSize cfg"
    and obs: "\<not> cObserver cfg" and h: "hex64 hash" "\<not> (kind = CAS \<and> sz = 0 \<and> hash = emptySha256)"
    and g: "goodUpload cfg kind r sz" and w: "writeAndCloseFile cfg noFaults r kind hash sz = (Inr n, bs)"
    and room: "reservedSize (dLru st) + sz \<le> maxSize (dLru st)"
      "reservedSize (dLru st) + roundUp4k n \<le> maxSize (dLru st)"
    and name: "fst (createTemp noFaults
      (path_join [cDir cfg, FileLocationBaseForContext c kind (kind = CAS \<and> cStorageMode cfg = Identity) hash sz])
      (kind = CAS \<and> cStorageMode cfg = Identity) st) \<noteq> None"
  shows "\<exists>st' random. Put cfg noFaults c kind hash sz r st = Some (None, st') \<and>
    Peek (LookupKeyForContext c kind hash) (dLru st') = Some (uploadItem cfg kind sz (rdata r) random)"
proof -
  let ?leg = "kind = CAS \<and> cStorageMode cfg = Identity" and ?key = "LookupKeyForContext c kind hash"
  obtain st1 where r: "putReserve cfg sz st = (None, st1)" "lru_ok (dLru st1)" "dFs st1 = dFs st"
      "reservedSize (dLru st1) = reservedSize (dLru st) + sz" "maxSize (dLru st1) = maxSize (dLru st)"
    using putReserve_cases [OF ok sz(1,2), of cfg] putReserve_room [OF ok sz(1,2) room(1), of cfg]
    by (metis fst_conv option.distinct(1))
  note nn = lru_okD(5) [OF ok]
  obtain b random st2 where t: "createTemp noFaults (path_join [cDir cfg, FileLocationBaseForContext c kind ?leg hash sz])
      ?leg st1 = (Some (b, random), st2)"
    using name createTemp_cong [OF r(3) putReserve_rand [OF r(1)]] by (metis option.exhaust prod.collapse)
  let ?st3 = "setFile b bs st2"
  have pw: "\<exists>cu. putWrite cfg noFaults c kind hash sz r st1 = (Inr (b, random, n), cu, ?st3)"
    using t w by (simp add: putWrite_def noFaults_def Let_def)
  then obtain cu where pw: "putWrite cfg noFaults c kind hash sz r st1 = (Inr (b, random, n), cu, ?st3)" ..
  note l3 = putWrite_lru [OF pw]
  note wf = writeAndCloseFile_Inr [OF w g sz(2)]
  have szm: "sz \<le> maxInt64 - 4095" using room(1) nn lru_okD(4) [OF ok] by simp
  have n: "size_ok n" using goodUpload_fits [OF g sz(2) szm] w by (rule fileFitsD)
  let ?st4 = "putToProxy cfg noFaults c kind hash sz n b ?st3"
  have pre: "lru_ok (dLru ?st4)" using r l3 by simp
  obtain st5 where "commit cfg ?key ?leg sz sz n random ?st4 = Some (False, False, None, st5)"
    using commit_succeeds [OF pre sz(1,2) _ n] r l3 nn room(2) by force
  then have pb: "\<exists>st'. putBody cfg noFaults c kind hash sz r None st = Some (None, st')"
    using r(1) pw by (auto simp: putBody_def Let_def putCommit_def putFinish_def cleanupReservation_def)
  have hl: "length hash = 64" by (rule hex64_length [OF h(1)])
  have "\<exists>st'. Put cfg noFaults c kind hash sz r st = Some (None, st')"
    using pb sz obs h hl by (auto simp: Put_def captureAC_def)
  then obtain st' where P: "Put cfg noFaults c kind hash sz r st = Some (None, st')" ..
  have "n = blen (storedBytes cfg kind (rdata r))" using wf by simp
  then show ?thesis
    using Put_success [OF ok sz(1) g h(1) P h(2)] P room(2) by (auto simp: Let_def)
qed

lemma demo_free_name: "fst (createTemp noFaults base leg (demoState m)) \<noteq> None"
proof -
  obtain x r where x: "ranqd1 0 = (x, r)" by (cases "ranqd1 0")
  have n: "(10000 :: nat) = Suc 9999" by simp
  have "Create (openTemp noFaults (demoState m)) base leg 0 = (Created (tempName base r leg) r, x)"
    unfolding Create_def n tempCreate.simps x by (simp add: openTemp_def noFaults_def demoState_def)
  then show ?thesis by (simp add: createTemp_def) (simp add: demoState_def)
qed

definition demoHash :: string where
  "demoHash = replicate 64 CHR ''a''"

lemma demoHash_ok: "hex64 demoHash" "demoHash \<noteq> emptySha256"
  by (simp_all add: hex64_def demoHash_def is_hex_def Let_def emptySha256_def list_all_iff numeral_eq_Suc)

lemma demoConfig_sel [simp]:
  "\<not> cObserver (demoConfig m)" "cStorageMode (demoConfig m) = m" "cZstd (demoConfig m) = toyZstd"
  "cMaxBlobSize (demoConfig m) = maxInt64"
  by (simp_all add: demoConfig_def)

lemma demo_write_plain:
  "kind \<noteq> CAS \<or> m = Identity \<Longrightarrow>
     writeAndCloseFile (demoConfig m) noFaults (bytes_reader [1, 2, 3]) kind hash 3 = (Inr 3, [1, 2, 3])"
  by (auto simp: writeAndCloseFile_def bytes_reader_def noFaults_def isSizeMismatch_def Let_def)

lemma demo_good: "goodUpload (demoConfig Identity) kind r sz"
  by (simp add: goodUpload_def)

text \<open>
  \<open>Put\<close> refuses nothing that fits: without faults and without an observer, for an
  admissible size and hash, when the body is written successfully, a file name is free, and
  both the declared size and the rounded size on disk fit beside the space reserved by others,
  \<open>Put\<close> succeeds and the entry is in the index with the size and the flags of the upload.
\<close>

theorem put_succeeds_when_it_fits:
  assumes ok: "lru_ok (dLru st)" and sz: "in64 sz" "0 \<le> sz" "sz \<le> cMaxBlobSize cfg"
    and obs: "\<not> cObserver cfg" and h: "hex64 hash" "\<not> (kind = CAS \<and> sz = 0 \<and> hash = emptySha256)"
    and g: "goodUpload cfg kind r sz" and w: "writeAndCloseFile cfg noFaults r kind hash sz = (Inr n, bs)"
    and room: "reservedSize (dLru st) + sz \<le> maxSize (dLru st)"
      "reservedSize (dLru st) + roundUp4k n \<le> maxSize (dLru st)"
    and name: "fst (createTemp noFaults
      (path_join [cDir cfg, FileLocationBaseForContext c kind (kind = CAS \<and> cStorageMode cfg = Identity) hash sz])
      (kind = CAS \<and> cStorageMode cfg = Identity) st) \<noteq> None"
  shows "\<exists>st' random. Put cfg noFaults c kind hash sz r st = Some (None, st') \<and>
    Peek (LookupKeyForContext c kind hash) (dLru st') = Some (uploadItem cfg kind sz (rdata r) random)"
  using assms by (rule Put_succeeds)

theorem put_succeeds_when_it_fits_witness:
  "\<exists>st' random. Put (demoConfig Identity) noFaults emptyCtx CAS demoHash 3 (bytes_reader [1, 2, 3]) (demoState 100000)
      = Some (None, st') \<and>
    Peek (LookupKeyForContext emptyCtx CAS demoHash) (dLru st') =
      Some (uploadItem (demoConfig Identity) CAS 3 [1, 2, 3] random)"
  using put_succeeds_when_it_fits [OF demoState_ok _ _ _ _ demoHash_ok(1) _ demo_good demo_write_plain _ _ demo_free_name,
      of 100000 CAS emptyCtx]
  by (simp add: in64_def demoHash_ok bytes_reader_def roundUp4k_eq size_ok_def)

text \<open>Two stored blobs for the witnesses, one in each storage mode.\<close>

lemma hex64_toyHash: "hex64 toyHash"
  by (rule hex64_sha256)

lemma demo_write_zstd:
  "writeAndCloseFile (demoConfig Zstandard) noFaults (bytes_reader [1, 2, 3]) CAS toyHash 3 =
     (Inr (blen (casFile toyZstd [1, 2, 3])), casFile toyZstd [1, 2, 3])"
  using toy_written by (simp add: writeAndCloseFile_def noFaults_def Zstandard_def Identity_def)

lemma toy_casFile_small: "blen (casFile toyZstd [1, 2, 3]) = 52"
  by (simp add: length_casFile toy_chunks dataStart_def toyZstd_def toyEncode_def)

lemma demo_good_zstd: "goodUpload (demoConfig Zstandard) kind (bytes_reader [1, 2, 3]) 3"
  by (simp add: goodUpload_def bytes_reader_def maxBlobSize_def toy_casFile_small)

lemma demo_stored_zstd:
  "\<exists>st' random. Put (demoConfig Zstandard) noFaults emptyCtx CAS toyHash 3 (bytes_reader [1, 2, 3]) (demoState 100000)
      = Some (None, st') \<and>
    Peek (LookupKeyForContext emptyCtx CAS toyHash) (dLru st') =
      Some (uploadItem (demoConfig Zstandard) CAS 3 [1, 2, 3] random)"
  using Put_succeeds [OF demoState_ok _ _ _ _ hex64_toyHash _ demo_good_zstd demo_write_zstd _ _ demo_free_name,
      of 100000 emptyCtx]
  by (simp add: in64_def bytes_reader_def roundUp4k_eq size_ok_def toy_casFile_small)

section \<open>Round trips through the cache\<close>

lemma openFile_noFaults:
  "dFs st name = Some \<lparr>cfData = bs, cfComplete = cflag\<rparr> \<Longrightarrow> openFile noFaults st name = Some (openBytes bs)"
  by (simp add: openFile_def noFaults_def openBytes_def)

lemma Get_Peek: "fst (Get k l) = Peek k l"
  by (simp add: Get_def Peek_def split: option.splits)

lemma local_hit:
  assumes "length hash = 64" "\<not> (kind = CAS \<and> sz' \<le> 0 \<and> hash = emptySha256)" "kind \<noteq> CAS \<longrightarrow> \<not> z" "0 \<le> off" "sz' > 0 \<longrightarrow> off < sz'"
    and k: "Peek (LookupKeyForContext c kind hash) (dLru st) = Some item"
    and f: "dFs st (itemPath cfg c kind hash item) = Some \<lparr>cfData = bs, cfComplete = cflag\<rparr>"
    and s: "\<not> isSizeMismatch sz' (itemSize item)"
    and o': "openItem cfg kind item sz' off z (openBytes bs) = Inr (rd, n)"
  shows "\<exists>st2. get cfg noFaults id c kind hash sz' off z st = Some (Found rd n, st2)"
proof -
  obtain l where "Get (LookupKeyForContext c kind hash) (dLru st) = (Some item, l)"
    using k Get_Peek by (metis prod.collapse)
  then have "localGet cfg noFaults id c kind hash sz' off z st = (Inr (rd, n), setLru cfg l st)"
    using s o' f openFile_noFaults [of "setLru cfg l st"] by (simp add: localGet_def Let_def)
  then show ?thesis using assms(1-5) by (auto simp: get_def availableOrTryProxy_def)
qed

lemma Put_get:
  assumes "lru_ok (dLru st)" "in64 sz" "goodUpload cfg kind r sz" "hex64 hash" "zstd_laws (cZstd cfg)"
    and "Put cfg os c kind hash sz r st = Some (None, st')" "\<not> (kind = CAS \<and> expected \<le> 0 \<and> hash = emptySha256)"
    and present: "Peek (LookupKeyForContext c kind hash) (dLru st') \<noteq> None"
    and off: "0 \<le> off" "off \<le> sz" "expected = - 1 \<or> expected = sz" "expected > 0 \<longrightarrow> off < expected"
  shows "\<exists>st2. get cfg noFaults id c kind hash expected off False st' =
    Some (Found (bytes_reader (drop (nat off) (rdata r))) sz, st2)"
proof -
  have "\<not> (kind = CAS \<and> sz = 0 \<and> hash = emptySha256)" using assms(7) off(3) by auto
  note ps = Put_success [OF assms(1-4,6) this]
  have sz: "0 \<le> sz" and len: "blen (rdata r) = sz" using ps by simp_all
  obtain random cflag where
    f: "dFs st' (itemPath cfg c kind hash (uploadItem cfg kind sz (rdata r) random)) =
        Some \<lparr>cfData = storedBytes cfg kind (rdata r), cfComplete = cflag\<rparr>"
    and k: "Peek (LookupKeyForContext c kind hash) (dLru st') = Some (uploadItem cfg kind sz (rdata r) random)"
    using ps present by (auto simp: Let_def split: if_splits)
  let ?item = "uploadItem cfg kind sz (rdata r) random" and ?bs = "storedBytes cfg kind (rdata r)"
  have sm: "\<not> isSizeMismatch expected (itemSize ?item)"
    using off(3) by (auto simp: isSizeMismatch_def uploadItem_def)
  have o': "openItem cfg kind ?item expected off False (openBytes ?bs) =
      Inr (bytes_reader (drop (nat off) (rdata r)), sz)"
  proof (cases "kind = CAS \<and> cStorageMode cfg \<noteq> Identity")
    case True
    then obtain n where w: "WriteAndClose (cZstd cfg) (osWrite os) r Zstandard hash sz = (Inr n, ?bs)" using ps by auto
    have b: "sz \<le> maxBlobSize" "blen (casFile (cZstd cfg) (take (nat sz) (rdata r))) \<le> maxInt64"
      using True assms(3) by (auto simp: goodUpload_def)
    show ?thesis
      using read_back_uncompressed [OF w b assms(5) off(1,2,3)] True
      by (simp add: openItem_def uploadItem_def)
  next
    case False
    then have "?bs = rdata r" by (auto simp: storedBytes_def)
    moreover have "fseek off (openBytes (rdata r)) = Some ((openBytes (rdata r))\<lparr>fpos := nat off\<rparr>)"
      using off(1) by (simp add: fseek_def openBytes_def)
    ultimately show ?thesis
      using False off(3) len
      by (auto simp: openItem_def uploadItem_def openBytes_def fileReader_def frest_def isSizeMismatch_def Let_def)
  qed
  show ?thesis
    using local_hit [OF hex64_length [OF assms(4)] _ _ off(1) off(4) k f sm o'] assms(7) by simp
qed

text \<open>
  What \<open>Put\<close> has stored, \<open>Get\<close> returns: after a successful \<open>Put\<close> of an entry of any
  kind, in either storage mode, if the entry is in the index, \<open>Get\<close> with the true size or with
  -1 and any offset inside the blob delivers exactly the rest of the uploaded bytes from that
  offset and reports the uploaded size. (The hash of the empty blob is served without the disk.)
\<close>

theorem put_then_get:
  assumes "lru_ok (dLru st)" "in64 sz" "goodUpload cfg kind r sz" "hex64 hash" "zstd_laws (cZstd cfg)"
    and "Put cfg os c kind hash sz r st = Some (None, st')" "\<not> (kind = CAS \<and> expected \<le> 0 \<and> hash = emptySha256)"
    and present: "Peek (LookupKeyForContext c kind hash) (dLru st') \<noteq> None"
    and off: "0 \<le> off" "off \<le> sz" "expected = - 1 \<or> expected = sz" "expected > 0 \<longrightarrow> off < expected"
  shows "\<exists>st2. get cfg noFaults id c kind hash expected off False st' =
    Some (Found (bytes_reader (drop (nat off) (rdata r))) sz, st2)"
  using assms by (rule Put_get)

lemma Put_get_zstd:
  assumes "lru_ok (dLru st)" "in64 sz" "goodUpload cfg CAS r sz" "hex64 hash" "zstd_laws (cZstd cfg)"
    and "Put cfg os c CAS hash sz r st = Some (None, st')" "\<not> (expected \<le> 0 \<and> hash = emptySha256)"
    and present: "Peek (LookupKeyForContext c CAS hash) (dLru st') \<noteq> None"
    and off: "0 \<le> off" "off \<le> sz" "expected = - 1 \<or> expected = sz" "expected > 0 \<longrightarrow> off < expected"
  shows "\<exists>out st2. dcGetZstd cfg noFaults id c hash expected off st' = Some (Found out sz, st2) \<and>
    GetDecoder (cZstd cfg) out = Some (bytes_reader (drop (nat off) (rdata r)))"
proof -
  have "\<not> (CAS = CAS \<and> sz = 0 \<and> hash = emptySha256)" using assms(7) off(3) by auto
  note ps = Put_success [OF assms(1-4,6) this]
  have sz: "0 \<le> sz" and len: "blen (rdata r) = sz" using ps by simp_all
  obtain random cflag where
    f: "dFs st' (itemPath cfg c CAS hash (uploadItem cfg CAS sz (rdata r) random)) =
        Some \<lparr>cfData = storedBytes cfg CAS (rdata r), cfComplete = cflag\<rparr>"
    and k: "Peek (LookupKeyForContext c CAS hash) (dLru st') = Some (uploadItem cfg CAS sz (rdata r) random)"
    using ps present by (auto simp: Let_def split: if_splits)
  let ?item = "uploadItem cfg CAS sz (rdata r) random" and ?bs = "storedBytes cfg CAS (rdata r)"
  have sm: "\<not> isSizeMismatch expected (itemSize ?item)"
    using off(3) by (auto simp: isSizeMismatch_def uploadItem_def)
  have "\<exists>out. openItem cfg CAS ?item expected off True (openBytes ?bs) = Inr (out, sz) \<and>
      GetDecoder (cZstd cfg) out = Some (bytes_reader (drop (nat off) (rdata r)))"
  proof (cases "cStorageMode cfg \<noteq> Identity")
    case True
    then obtain n where w: "WriteAndClose (cZstd cfg) (osWrite os) r Zstandard hash sz = (Inr n, ?bs)" using ps by auto
    have b: "sz \<le> maxBlobSize" "blen (casFile (cZstd cfg) (take (nat sz) (rdata r))) \<le> maxInt64"
      using True assms(3) by (auto simp: goodUpload_def)
    from read_back_zstd [OF w b assms(5) off(1,2,3)] show ?thesis
      using True by (auto simp: openItem_def uploadItem_def)
  next
    case False
    then have bs: "?bs = rdata r" by (simp add: storedBytes_def)
    obtain out where out: "GetEncoder (cZstd cfg) (bytes_reader (drop (nat off) (rdata r))) = Some out"
        "GetDecoder (cZstd cfg) out = Some (bytes_reader (drop (nat off) (rdata r)))"
      using assms(5) unfolding zstd_laws_def by blast
    then show ?thesis
      using False off(1) unfolding bs
      by (auto simp: openItem_def uploadItem_def fseek_def openBytes_def GetLegacyZstdReadCloser_def fileReader_def frest_def)
  qed
  then obtain out where o': "openItem cfg CAS ?item expected off True (openBytes ?bs) = Inr (out, sz)"
      "GetDecoder (cZstd cfg) out = Some (bytes_reader (drop (nat off) (rdata r)))" by blast
  show ?thesis
    using local_hit [OF hex64_length [OF assms(4)] _ _ off(1) off(4) k f sm o'(1)] assms(7) o'(2)
    by (auto simp: dcGetZstd_def)
qed

text \<open>
  The same for \<open>GetZstd\<close>: after a successful \<open>Put\<close> of a CAS blob that is in the
  index, the stream that \<open>GetZstd\<close> returns decodes to exactly the rest of the blob, in both
  storage modes.
\<close>

theorem put_then_get_zstd:
  assumes "lru_ok (dLru st)" "in64 sz" "goodUpload cfg CAS r sz" "hex64 hash" "zstd_laws (cZstd cfg)"
    and "Put cfg os c CAS hash sz r st = Some (None, st')" "\<not> (expected \<le> 0 \<and> hash = emptySha256)"
    and present: "Peek (LookupKeyForContext c CAS hash) (dLru st') \<noteq> None"
    and off: "0 \<le> off" "off \<le> sz" "expected = - 1 \<or> expected = sz" "expected > 0 \<longrightarrow> off < expected"
  shows "\<exists>out st2. dcGetZstd cfg noFaults id c hash expected off st' = Some (Found out sz, st2) \<and>
    GetDecoder (cZstd cfg) out = Some (bytes_reader (drop (nat off) (rdata r)))"
  using assms by (rule Put_get_zstd)

theorem put_then_get_witness:
  "\<exists>st' st2. Put (demoConfig Zstandard) noFaults emptyCtx CAS toyHash 3 (bytes_reader [1, 2, 3]) (demoState 100000)
      = Some (None, st') \<and>
    get (demoConfig Zstandard) noFaults id emptyCtx CAS toyHash 3 1 False st' = Some (Found (bytes_reader [2, 3]) 3, st2)"
proof -
  obtain st' random where p: "Put (demoConfig Zstandard) noFaults emptyCtx CAS toyHash 3 (bytes_reader [1, 2, 3])
        (demoState 100000) = Some (None, st')"
      "Peek (LookupKeyForContext emptyCtx CAS toyHash) (dLru st') =
        Some (uploadItem (demoConfig Zstandard) CAS 3 [1, 2, 3] random)"
    using demo_stored_zstd by blast
  have "\<exists>st2. get (demoConfig Zstandard) noFaults id emptyCtx CAS toyHash 3 1 False st' =
      Some (Found (bytes_reader (drop (nat 1) (rdata (bytes_reader [1, 2, 3])))) 3, st2)"
    using p toyZstd_laws
    by (intro put_then_get [OF demoState_ok _ demo_good_zstd hex64_toyHash _ p(1)]) (simp_all add: in64_def)
  then show ?thesis using p(1) by (simp add: bytes_reader_def)
qed

theorem put_then_get_zstd_witness:
  "\<exists>st' out st2. Put (demoConfig Zstandard) noFaults emptyCtx CAS toyHash 3 (bytes_reader [1, 2, 3]) (demoState 100000)
      = Some (None, st') \<and>
    dcGetZstd (demoConfig Zstandard) noFaults id emptyCtx toyHash 3 2 st' = Some (Found out 3, st2) \<and>
    GetDecoder toyZstd out = Some (bytes_reader [3])"
proof -
  obtain st' random where p: "Put (demoConfig Zstandard) noFaults emptyCtx CAS toyHash 3 (bytes_reader [1, 2, 3])
        (demoState 100000) = Some (None, st')"
      "Peek (LookupKeyForContext emptyCtx CAS toyHash) (dLru st') =
        Some (uploadItem (demoConfig Zstandard) CAS 3 [1, 2, 3] random)"
    using demo_stored_zstd by blast
  have "\<exists>out st2. dcGetZstd (demoConfig Zstandard) noFaults id emptyCtx toyHash 3 2 st' = Some (Found out 3, st2) \<and>
      GetDecoder (cZstd (demoConfig Zstandard)) out = Some (bytes_reader (drop (nat 2) (rdata (bytes_reader [1, 2, 3]))))"
    using p toyZstd_laws
    by (intro put_then_get_zstd [OF demoState_ok _ demo_good_zstd hex64_toyHash _ p(1)]) (simp_all add: in64_def)
  then show ?thesis using p(1) by (simp add: bytes_reader_def)
qed

section \<open>Verification of hashes\<close>



text \<open>
  In the uncompressed storage mode hashes are not verified, against the comment on
  \<open>Put\<close>: any bytes (of up to a block here) are stored under any well-formed hash, and \<open>Get\<close>
  serves them under that hash.
\<close>

theorem uncompressed_cas_not_verified:
  assumes "hex64 hash" "d \<noteq> []" "blen d \<le> 4096"
  shows "\<exists>st' st2. Put (demoConfig Identity) noFaults c CAS hash (blen d) (bytes_reader d) (demoState 100000) = Some (None, st') \<and>
    get (demoConfig Identity) noFaults id c CAS hash (blen d) 0 False st' = Some (Found (bytes_reader d) (blen d), st2)"
proof -
  have pos: "0 < blen d" using assms(2) by (simp add: blen_def)
  have w: "writeAndCloseFile (demoConfig Identity) noFaults (bytes_reader d) CAS hash (blen d) = (Inr (blen d), d)"
    by (simp add: writeAndCloseFile_def bytes_reader_def noFaults_def isSizeMismatch_def Let_def)
  have rn: "roundUp4k (blen d) \<le> 8191" using roundUp4k_bounds [of "blen d"] assms(3) pos by (simp add: size_ok_def)
  have "\<exists>st' random. Put (demoConfig Identity) noFaults c CAS hash (blen d) (bytes_reader d) (demoState 100000) = Some (None, st') \<and>
      Peek (LookupKeyForContext c CAS hash) (dLru st') =
        Some (uploadItem (demoConfig Identity) CAS (blen d) (rdata (bytes_reader d)) random)"
    using assms(3) pos rn
    by (intro Put_succeeds [OF demoState_ok _ _ _ _ assms(1) _ demo_good w _ _ demo_free_name]) (auto simp: in64_def)
  then obtain st' random where p: "Put (demoConfig Identity) noFaults c CAS hash (blen d) (bytes_reader d) (demoState 100000) = Some (None, st')"
      "Peek (LookupKeyForContext c CAS hash) (dLru st') =
        Some (uploadItem (demoConfig Identity) CAS (blen d) (rdata (bytes_reader d)) random)" by blast
  obtain rnd flag where f: "dFs st' (itemPath (demoConfig Identity) c CAS hash (uploadItem (demoConfig Identity) CAS (blen d) d rnd)) =
        Some \<lparr>cfData = d, cfComplete = flag\<rparr>"
      "Peek (LookupKeyForContext c CAS hash) (dLru st') = Some (uploadItem (demoConfig Identity) CAS (blen d) d rnd)"
    using Put_success [OF demoState_ok _ demo_good assms(1) p(1)] p(2) pos assms(2,3) rn
    by (auto simp: Let_def storedBytes_def bytes_reader_def in64_def split: if_splits)
  have "openItem (demoConfig Identity) CAS (uploadItem (demoConfig Identity) CAS (blen d) d rnd) (blen d) 0 False (openBytes d) =
      Inr (bytes_reader d, blen d)"
    by (simp add: openItem_def uploadItem_def fseek_def openBytes_def fileReader_def frest_def)
  then show ?thesis
    using local_hit [OF hex64_length [OF assms(1)] _ _ _ _ f(2,1), of "blen d" False 0] p(1) pos
    by (auto simp: isSizeMismatch_def uploadItem_def)
qed

theorem uncompressed_cas_not_verified_witness:
  "\<exists>st' st2. Put (demoConfig Identity) noFaults emptyCtx CAS demoHash 1 (bytes_reader [7]) (demoState 100000) = Some (None, st') \<and>
    get (demoConfig Identity) noFaults id emptyCtx CAS demoHash 1 0 False st' = Some (Found (bytes_reader [7]) 1, st2)"
  using uncompressed_cas_not_verified [OF demoHash_ok(1), of "[7]" emptyCtx] by simp

end
