(* ===== verification/Disk_Concurrent.thy ===== *)
theory Disk_Concurrent
  imports Disk_Props
begin

text \<open>
  Concurrent requests to the disk cache. Every request runs the parts of \<open>DiskOps\<close> one after the
  other, and between two parts any other request may run one of its own: the step relation
  \<open>dstep\<close> acts on the shared state and the list of requests in flight, with faults of the
  operating system that may differ from step to step. The index lock makes each part atomic.
  (The download of a fetch and its commit are one step: the file it writes is not shared before
  the commit.)
\<close>

record upload =
  uCtx :: ctx
  uKind :: EntryKind
  uHash :: string
  uSize :: int
  uReader :: reader

record fetch =
  fCtx :: ctx
  fKind :: EntryKind
  fHash :: string
  fSize :: int
  fOffset :: int
  fZstd :: bool

datatype flight =
    Writing upload
  | Committing upload "string \<times> string \<times> int"
  | Fetching fetch
  | Finishing int "dc_error option" cleanup

text \<open>The reserved space that a request in flight has to give back.\<close>

fun held :: "flight \<Rightarrow> int" where
  "held (Writing u) = uSize u"
| "held (Committing u w) = uSize u"
| "held (Fetching f) = (if fSize f > 0 then fSize f else 0)"
| "held (Finishing sz err cu) = (if cuUnreserve cu then sz else 0)"

fun flight_ok :: "flight \<Rightarrow> bool" where
  "flight_ok (Writing u) \<longleftrightarrow> in64 (uSize u) \<and> 0 \<le> uSize u"
| "flight_ok (Committing u w) \<longleftrightarrow> in64 (uSize u) \<and> 0 \<le> uSize u \<and> size_ok (snd (snd w))"
| "flight_ok (Fetching f) \<longleftrightarrow> in64 (fSize f)"
| "flight_ok (Finishing sz err cu) \<longleftrightarrow> in64 sz \<and> (cuUnreserve cu \<longrightarrow> 0 \<le> sz)"

definition fetchCleanup :: "fetch \<Rightarrow> cleanup" where
  "fetchCleanup f = noCleanup\<lparr>cuUnreserve := fSize f > 0\<rparr>"

inductive dstep :: "dcConfig \<Rightarrow> dcState \<times> flight list \<Rightarrow> dcState \<times> flight list \<Rightarrow> bool" for cfg where
  put_begin: "in64 (uSize u) \<Longrightarrow> 0 \<le> uSize u \<Longrightarrow> putReserve cfg (uSize u) st = (None, st') \<Longrightarrow>
     dstep cfg (st, fl) (st', Writing u # fl)"
| put_refused: "in64 sz \<Longrightarrow> 0 \<le> sz \<Longrightarrow> putReserve cfg sz st = (Some e, st') \<Longrightarrow> dstep cfg (st, fl) (st', fl)"
| put_write: "putWrite cfg os (uCtx u) (uKind u) (uHash u) (uSize u) (uReader u) st = (Inr w, cu, st') \<Longrightarrow>
     size_ok (snd (snd w)) \<Longrightarrow>
     dstep cfg (st, xs @ Writing u # ys)
       (putToProxy cfg os (uCtx u) (uKind u) (uHash u) (uSize u) (snd (snd w)) (fst w) st', xs @ Committing u w # ys)"
| put_write_failed: "putWrite cfg os (uCtx u) (uKind u) (uHash u) (uSize u) (uReader u) st = (Inl e, cu, st') \<Longrightarrow>
     dstep cfg (st, xs @ Writing u # ys) (st', xs @ Finishing (uSize u) (Some e) cu # ys)"
| put_commit: "putCommit cfg (uCtx u) (uKind u) (uHash u) (uSize u) w st = Some (err, cu, st') \<Longrightarrow>
     dstep cfg (st, xs @ Committing u w # ys) (st', xs @ Finishing (uSize u) err cu # ys)"
| finish: "putFinish cfg os sz err cu st = (err', st') \<Longrightarrow>
     dstep cfg (st, xs @ Finishing sz err cu # ys) (st', xs @ ys)"
| get_fetch: "in64 (fSize f) \<Longrightarrow>
     availableOrTryProxy cfg os id (fCtx f) (fKind f) (fHash f) (fSize f) (fOffset f) (fZstd f) st = (TryProxy True, st') \<Longrightarrow>
     dstep cfg (st, fl) (st', Fetching f # fl)"
| get_local: "in64 sz \<Longrightarrow> availableOrTryProxy cfg os id c kind hash sz offset z st = (a, st') \<Longrightarrow>
     a \<noteq> TryProxy True \<Longrightarrow> dstep cfg (st, fl) (st', fl)"
| fetched: "size_ok (blen (rdata r)) \<Longrightarrow>
     getFetched cfg os (fCtx f) (fKind f) (fHash f) (fSize f) (fOffset f) (fZstd f) r foundSize (fetchCleanup f) st
       = Some (g, cu, st') \<Longrightarrow>
     dstep cfg (st, xs @ Fetching f # ys) (st', xs @ Finishing (fSize f) (gotErr g) cu # ys)"
| fetch_failed: "dstep cfg (st, xs @ Fetching f # ys) (st, xs @ Finishing (fSize f) err (fetchCleanup f) # ys)"
| contains: "Contains cfg c kind hash sz st = (b, st') \<Longrightarrow> dstep cfg (st, fl) (st', fl)"
| removal: "runRemoval os st = st' \<Longrightarrow> dstep cfg (st, fl) (st', fl)"

inductive dreach :: "dcConfig \<Rightarrow> int \<Rightarrow> dcState \<times> flight list \<Rightarrow> bool" for cfg m where
  init: "dLru st = NewSizedLRU m True \<Longrightarrow> dreach cfg m (st, [])"
| step: "dreach cfg m s \<Longrightarrow> dstep cfg s s' \<Longrightarrow> dreach cfg m s'"

definition reservedBy :: "flight list \<Rightarrow> int" where
  "reservedBy fl = sum_list (map held fl)"

definition dinv :: "int \<Rightarrow> dcState \<times> flight list \<Rightarrow> bool" where
  "dinv m s \<longleftrightarrow> lru_ok (dLru (fst s)) \<and> maxSize (dLru (fst s)) = m \<and> list_all flight_ok (snd s) \<and>
     reservedSize (dLru (fst s)) = reservedBy (snd s)"

lemma reservedBy_simps [simp]:
  "reservedBy [] = 0" "reservedBy (f # fl) = held f + reservedBy fl"
  "reservedBy (xs @ ys) = reservedBy xs + reservedBy ys"
  by (simp_all add: reservedBy_def)

lemma held_nonneg: "flight_ok f \<Longrightarrow> 0 \<le> held f"
  by (cases f) auto

lemma reservedBy_nonneg: "list_all flight_ok fl \<Longrightarrow> 0 \<le> reservedBy fl"
  by (induction fl) (auto dest: held_nonneg)

lemma held_le_reserved:
  "list_all flight_ok (xs @ f # ys) \<Longrightarrow> held f \<le> reservedBy (xs @ f # ys)"
  using reservedBy_nonneg [of xs] reservedBy_nonneg [of ys] by simp

section \<open>The parts keep the invariant\<close>

lemma specGet_frame: "reserved (snd (specGet k s)) = reserved s" "capacity (snd (specGet k s)) = capacity s"
  by (simp_all add: specGet_def split: option.splits)

lemma Get_state:
  assumes "lru_ok l" "Get k l = (x, l')"
  shows "lru_ok l' \<and> reservedSize l' = reservedSize l \<and> maxSize l' = maxSize l"
proof -
  have "specGet k (lruAbs l) = (x, lruAbs l')" "lru_ok l'"
    using Get_refines(1,2) [OF assms(1), of k] assms(2) by simp_all
  then show ?thesis
    using specGet_frame [of k "lruAbs l"] lruAbs_sel(2,3) [of l] lruAbs_sel(2,3) [of l'] by simp
qed

lemma localGet_state:
  assumes "lru_ok (dLru st)" "localGet cfg os id c kind hash sz offset z st = (x, st')"
  shows "lru_ok (dLru st') \<and> reservedSize (dLru st') = reservedSize (dLru st) \<and> maxSize (dLru st') = maxSize (dLru st)"
proof -
  let ?key = "LookupKeyForContext c kind hash"
  obtain i l where g: "Get ?key (dLru st) = (i, l)" by (cases "Get ?key (dLru st)")
  note s1 = Get_state [OF assms(1) g]
  obtain i2 l2 where g2: "Get ?key (dLru (setLru cfg l st)) = (i2, l2)" by (cases "Get ?key (dLru (setLru cfg l st))")
  have "lru_ok (dLru (setLru cfg l st))" using s1 by simp
  note s2 = Get_state [OF this g2]
  show ?thesis
    using assms(2) g g2 s1 s2
    by (auto simp: localGet_def Let_def split: option.splits if_splits)
qed

lemma availableOrTryProxy_state:
  assumes "lru_ok (dLru st)" "in64 sz" "availableOrTryProxy cfg os id c kind hash sz offset z st = (a, st')"
  shows "lru_ok (dLru st') \<and> maxSize (dLru st') = maxSize (dLru st) \<and>
    reservedSize (dLru st') = reservedSize (dLru st) + (if a = TryProxy True \<and> sz > 0 then sz else 0)"
proof -
  obtain x st1 where l: "localGet cfg os id c kind hash sz offset z st = (x, st1)"
    by (cases "localGet cfg os id c kind hash sz offset z st")
  note s1 = localGet_state [OF assms(1) l]
  show ?thesis
  proof (cases "x = Inl None \<and> cProxy cfg \<noteq> None \<and> sz \<le> cMaxProxyBlobSize cfg \<and> sz > 0")
    case True
    obtain r l2 where r: "Reserve sz (dLru st1) = (r, l2)" "lru_ok l2"
        "specReserve sz (lruAbs (dLru st1)) = (r = Inr True, lruAbs l2)"
        "r = Inr True \<or> l2 = dLru st1 \<and> (\<exists>e. r = Inl e \<and> e \<noteq> ErrReservation)"
      using Reserve_refines [of "dLru st1" sz] s1 assms(2) by blast
    show ?thesis
    proof (cases "r = Inr True")
      case T: True
      then have "lruAbs l2 = (lruAbs (dLru st1))\<lparr>entries := fit (capacity (lruAbs (dLru st1)) - reserved (lruAbs (dLru st1)) - sz)
           (entries (lruAbs (dLru st1))), reserved := reserved (lruAbs (dLru st1)) + sz\<rparr>"
        using r(3) specReserve_TrueD [of sz "lruAbs (dLru st1)" "lruAbs l2"] True by auto
      then have "reservedSize l2 = reservedSize (dLru st1) + sz" "maxSize l2 = maxSize (dLru st1)"
        using reserved_view [of l2] by auto
      then show ?thesis using assms(3) l True r T s1 by (auto simp: availableOrTryProxy_def)
    next
      case False
      then show ?thesis using assms(3) l True r s1 by (auto simp: availableOrTryProxy_def)
    qed
  next
    case False
    then show ?thesis
      using assms(3) l s1 by (auto simp: availableOrTryProxy_def split: sum.splits option.splits if_splits)
  qed
qed

lemma Contains_state:
  assumes "lru_ok (dLru st)" "Contains cfg c kind hash sz st = (b, st')"
  shows "lru_ok (dLru st') \<and> reservedSize (dLru st') = reservedSize (dLru st) \<and> maxSize (dLru st') = maxSize (dLru st)"
proof -
  obtain i l where g: "Get (LookupKeyForContext c kind hash) (dLru st) = (i, l)"
    by (cases "Get (LookupKeyForContext c kind hash) (dLru st)")
  have "dLru st' = dLru st \<or> dLru st' = dLru (setLru cfg l st)"
    using assms(2) g by (auto simp: Contains_def Let_def split: if_splits option.splits prod.splits)
  then show ?thesis using Get_state [OF assms(1) g] assms(1) by auto
qed

lemma runRemoval_state [simp]: "dLru (runRemoval os st) = dLru st"
  by (simp add: runRemoval_def split: list.splits)

lemma getFetched_state:
  assumes "lru_ok (dLru st)" "in64 sz" "sz \<le> 0 \<or> sz \<le> reservedSize (dLru st)" "size_ok (blen (rdata r))"
    and "cuUnreserve cu0 = (sz > 0)"
    and "getFetched cfg os c kind hash sz offset z r foundSize cu0 st = Some (g, cu, st')"
  shows "lru_ok (dLru st') \<and> maxSize (dLru st') = maxSize (dLru st) \<and> (cuUnreserve cu \<longrightarrow> 0 < sz) \<and>
    reservedSize (dLru st') = reservedSize (dLru st) - (if sz > 0 \<and> \<not> cuUnreserve cu then sz else 0)"
proof -
  let ?leg = "kind = CAS \<and> cStorageMode cfg = Identity"
  let ?base = "path_join [cDir cfg, FileLocationBaseForContext c kind ?leg hash foundSize]"
  obtain t st1 where t: "createTemp os ?base ?leg st = (t, st1)" by (cases "createTemp os ?base ?leg st")
  have l1: "dLru st1 = dLru st" by (rule createTemp_lru [OF t])
  have same: "dLru st' = dLru st \<Longrightarrow> cuUnreserve cu = cuUnreserve cu0 \<Longrightarrow> ?thesis"
    using assms(1,5) by simp
  show ?thesis
  proof (cases "osMkdir os ?base \<or> t = None")
    case True
    then have "dLru st' = dLru st \<and> cu = cu0"
      using assms(6) t l1 unfolding getFetched_def Let_def by (cases "osMkdir os ?base") simp_all
    then show ?thesis using same by simp
  next
    case False
    then obtain b random where b: "t = Some (b, random)" and mk: "\<not> osMkdir os ?base" by (cases t) auto
    let ?st2 = "setFile b (rdata r) st1"
    let ?cu = "cu0\<lparr>cuBlobFile := Some b, cuRemove := True\<rparr>"
    show ?thesis
    proof (cases "\<exists>f rc. \<not> (rfails r \<or> osWrite os WCopy) \<and> openFile os ?st2 b = Some f \<and>
        openFetched cfg kind foundSize offset z f = Inr rc")
      case False
      then have "st' = ?st2 \<and> cu = ?cu"
        using assms(6) t unfolding getFetched_def Let_def if_not_P [OF mk] b
        by (auto split: if_splits option.splits sum.splits)
      then show ?thesis using same l1 by simp
    next
      case True
      then obtain f rc where ok: "\<not> (rfails r \<or> osWrite os WCopy)" "openFile os ?st2 b = Some f"
          "openFetched cfg kind foundSize offset z f = Inr rc" by blast
      have pre: "lru_ok (dLru ?st2)" "sz \<le> 0 \<or> sz \<le> reservedSize (dLru ?st2)"
        using assms(1,3) l1 by simp_all
      note run = assms(6) [unfolded getFetched_def Let_def if_not_P [OF mk] t b]
      show ?thesis
        by (rule commit_cases [OF pre(1) assms(2) pre(2) assms(4), of cfg "LookupKeyForContext c kind hash" ?leg foundSize random])
          (use run ok l1 in auto)
    qed
  qed
qed

lemma putCommit_state:
  assumes "lru_ok (dLru st)" "in64 sz" "0 \<le> sz" "sz \<le> reservedSize (dLru st)" "size_ok (snd (snd w))"
    and "putCommit cfg c kind hash sz w st = Some (err, cu, st')"
  shows "lru_ok (dLru st') \<and> maxSize (dLru st') = maxSize (dLru st) \<and> \<not> cuUnreserve cu \<and>
    reservedSize (dLru st') = reservedSize (dLru st) - sz \<and>
    (err = None \<or> (\<exists>k s n. err = Some (internalErr (FailedToAdd k s n))))"
proof -
  obtain b random n where w: "w = (b, random, n)" by (cases w)
  have pre: "sz \<le> 0 \<or> sz \<le> reservedSize (dLru st)" using assms(4) by simp
  have n: "size_ok n" using assms(5) w by simp
  show ?thesis
    by (rule commit_cases [OF assms(1,2) pre n, of cfg "LookupKeyForContext c kind hash"
          "kind = CAS \<and> cStorageMode cfg = Identity" sz random])
      (use assms(3,6) w in \<open>auto simp: putCommit_def\<close>)
qed

lemma dstep_inv:
  "dstep cfg s s' \<Longrightarrow> dinv m s \<Longrightarrow> dinv m s'"
proof (induction rule: dstep.induct)
  case (put_begin u st st' fl)
  then have ok: "lru_ok (dLru st)" by (simp add: dinv_def)
  show ?case
    by (rule putReserve_cases [OF ok put_begin(1,2), of cfg]) (use put_begin in \<open>auto simp: dinv_def\<close>)
next
  case (put_refused sz st e st' fl)
  then have ok: "lru_ok (dLru st)" by (simp add: dinv_def)
  show ?case
    by (rule putReserve_cases [OF ok put_refused(1,2), of cfg])
      (use put_refused in \<open>auto simp: dinv_def reserved_view simp del: lruAbs_sel\<close>)
next
  case (put_write os u st w cu st' xs ys)
  then show ?case using putWrite_lru [OF put_write(1)] by (auto simp: dinv_def)
next
  case (put_write_failed os u st e cu st' xs ys)
  then show ?case using putWrite_lru [OF put_write_failed(1)] putWrite_Inl [OF put_write_failed(1)]
    by (auto simp: dinv_def)
next
  case (put_commit u w st err cu st' xs ys)
  then have i: "lru_ok (dLru st)" "in64 (uSize u)" "0 \<le> uSize u" "size_ok (snd (snd w))"
      "reservedSize (dLru st) = reservedBy (xs @ Committing u w # ys)" "list_all flight_ok (xs @ Committing u w # ys)"
    by (auto simp: dinv_def)
  have "uSize u \<le> reservedSize (dLru st)" using held_le_reserved [OF i(6)] i(5) by simp
  from putCommit_state [OF i(1-3) this i(4) put_commit(1)] show ?case
    using put_commit(2) by (auto simp: dinv_def)
next
  case (finish os sz err cu st err' st' xs ys)
  then have i: "lru_ok (dLru st)" "in64 sz" "cuUnreserve cu \<longrightarrow> 0 \<le> sz"
      "reservedSize (dLru st) = reservedBy (xs @ Finishing sz err cu # ys)" "list_all flight_ok (xs @ Finishing sz err cu # ys)"
    by (auto simp: dinv_def)
  have h: "cuUnreserve cu \<longrightarrow> 0 \<le> sz \<and> sz \<le> reservedSize (dLru st)"
    using held_le_reserved [OF i(5)] i(3,4) by auto
  show ?case
    using cleanupReservation_ok [of "cleanupFile os cu st" sz cu cfg err] h i finish
    by (auto simp: dinv_def putFinish_def)
next
  case (get_fetch f os st st' fl)
  then show ?case using availableOrTryProxy_state [OF _ get_fetch(1,2)] by (auto simp: dinv_def)
next
  case (get_local sz os c kind hash offset z st a st' fl)
  then show ?case using availableOrTryProxy_state [OF _ get_local(1,2)] by (auto simp: dinv_def)
next
  case (fetched r os f foundSize st g cu st' xs ys)
  then have i: "lru_ok (dLru st)" "in64 (fSize f)"
      "reservedSize (dLru st) = reservedBy (xs @ Fetching f # ys)" "list_all flight_ok (xs @ Fetching f # ys)"
    by (auto simp: dinv_def)
  have "fSize f \<le> 0 \<or> fSize f \<le> reservedSize (dLru st)"
    using held_le_reserved [OF i(4)] i(3) by (auto split: if_splits)
  from getFetched_state [OF i(1,2) this fetched(1) _ fetched(2)] show ?case
    using fetched(3) by (auto simp: dinv_def fetchCleanup_def noCleanup_def)
next
  case (fetch_failed st xs f ys err)
  then show ?case by (auto simp: dinv_def fetchCleanup_def noCleanup_def)
next
  case (contains c kind hash sz st b st' fl)
  then show ?case using Contains_state [OF _ contains(1)] by (auto simp: dinv_def)
next
  case (removal os st st' fl)
  then show ?case by (auto simp: dinv_def)
qed

lemma dreach_inv: "dreach cfg m s \<Longrightarrow> 0 < m \<Longrightarrow> m \<le> 4611686018427387903 \<Longrightarrow> dinv m s"
proof (induction rule: dreach.induct)
  case (init st)
  then show ?case using New_ok [of m True] by (simp add: dinv_def) (simp add: NewSizedLRU_def)
next
  case (step s s')
  then show ?case using dstep_inv by blast
qed

section \<open>Properties\<close>


text \<open>
  Under every interleaving, giving a reservation back never fails: no commit ends
  with an unreserve error, and the deferred cleanup never replaces the result of a request by
  one.
\<close>

theorem unreserve_never_fails:
  assumes "dreach cfg m (st, xs @ f # ys)" "0 < m" "m \<le> 4611686018427387903"
  shows "(f = Finishing sz err cu \<longrightarrow> fst (putFinish cfg os sz err cu st) = err) \<and>
    (f = Committing u w \<longrightarrow>
       (\<forall>e cu st'. putCommit cfg (uCtx u) (uKind u) (uHash u) (uSize u) w st = Some (Some e, cu, st') \<longrightarrow>
          (\<exists>k s n. e = internalErr (FailedToAdd k s n))))"
proof -
  have i: "lru_ok (dLru st)" "flight_ok f" "reservedSize (dLru st) = reservedBy (xs @ f # ys)"
      "list_all flight_ok (xs @ f # ys)"
    using dreach_inv [OF assms] by (auto simp: dinv_def)
  have h: "held f \<le> reservedSize (dLru st)" using held_le_reserved [OF i(4)] i(3) by simp
  have "fst (putFinish cfg os sz err cu st) = err" if f: "f = Finishing sz err cu"
    using cleanupReservation_ok [of "cleanupFile os cu st" sz cu cfg err] i(1,2) h
    unfolding f putFinish_def by (auto split: if_splits)
  moreover have "\<exists>k s n. e = internalErr (FailedToAdd k s n)"
    if f: "f = Committing u w" and p: "putCommit cfg (uCtx u) (uKind u) (uHash u) (uSize u) w st = Some (Some e, cu', st')"
    for e cu' st'
    using putCommit_state [OF i(1) _ _ _ _ p] i(2) h f by auto
  ultimately show ?thesis by blast
qed

definition demoUpload :: upload where
  "demoUpload = \<lparr>uCtx = emptyCtx, uKind = AC, uHash = emptySha256, uSize = 0, uReader = bytes_reader []\<rparr>"

lemma demo_reach_writing: "dreach cfg m (demoState m, [Writing demoUpload])"
proof -
  have "dstep cfg (demoState m, []) (demoState m, [Writing demoUpload])"
    by (rule dstep.put_begin) (simp_all add: demoUpload_def in64_def putReserve_def)
  moreover have "dreach cfg m (demoState m, [])"
    by (rule dreach.init) (simp add: demoState_def)
  ultimately show ?thesis by (rule dreach.step [rotated])
qed


theorem unreserve_never_fails_witness:
  "fst (putFinish (demoConfig Identity) noFaults (uSize demoUpload) (Some (internalErr MkdirFailed)) noCleanup
     (demoState 100000)) = Some (internalErr MkdirFailed)"
proof -
  let ?cfg = "demoConfig Identity"
  have "dstep ?cfg (demoState 100000, [] @ Writing demoUpload # [])
      (demoState 100000, [] @ Finishing (uSize demoUpload) (Some (internalErr MkdirFailed)) noCleanup # [])"
  proof (rule dstep.put_write_failed)
    show "putWrite ?cfg (noFaults\<lparr>osMkdir := \<lambda>_. True\<rparr>) (uCtx demoUpload) (uKind demoUpload) (uHash demoUpload)
        (uSize demoUpload) (uReader demoUpload) (demoState 100000) = (Inl (internalErr MkdirFailed), noCleanup, demoState 100000)"
      by (simp add: putWrite_def demoUpload_def noCleanup_def Let_def)
  qed
  with demo_reach_writing have "dreach ?cfg 100000
      (demoState 100000, [] @ Finishing (uSize demoUpload) (Some (internalErr MkdirFailed)) noCleanup # [])"
    by (auto intro: dreach.step)
  from unreserve_never_fails [OF this, of "uSize demoUpload" "Some (internalErr MkdirFailed)" noCleanup noFaults]
  show ?thesis by simp
qed

end
