(* ===== verification/FindMissing.thy ===== *)
theory FindMissing
  imports Disk_Concurrent
begin

text \<open>
  \<open>cache/disk/findmissing.go\<close>: which of a list of CAS digests are missing. The function works
  through the list in batches; each batch is looked up in the local index under the lock, and
  for every local miss a goroutine asks the proxy. With \<open>failFast\<close>, a miss on the proxy cancels
  the context of the whole search.

  The slice of digests is \<open>fmDone @ map Some fmRest\<close>: the entries of the batches handled so far
  (nil once found) and the untouched rest. The step relation interleaves the main goroutine with
  the goroutines of the proxy checks and with a cancellation of the request from outside.
\<close>

section \<open>The local lookup\<close>

text \<open>
  The digests of one batch, in order: the entries afterwards, the number missing, the leaf sizes
  recorded for an attached sink, and the state.
\<close>

fun findMissingLocalCAS :: "dcConfig \<Rightarrow> ctx \<Rightarrow> digest list \<Rightarrow> dcState \<Rightarrow>
    digest option list \<times> nat \<times> (string \<times> int) list \<times> dcState" where
  "findMissingLocalCAS cfg c [] st = ([], 0, [], st)"
| "findMissingLocalCAS cfg c (d # ds) st =
     (if dSizeBytes d = 0 \<and> dHash d = emptySha256 then
        (let (es, n, zs, st') = findMissingLocalCAS cfg c ds st in (None # es, n, zs, st'))
      else
        let (item, l) = Get (LookupKeyForContext c CAS (dHash d)) (dLru st);
            (es, n, zs, st') = findMissingLocalCAS cfg c ds (setLru cfg l st)
        in case item of
             Some it \<Rightarrow>
               if \<not> isSizeMismatch (dSizeBytes d) (itemSize it)
               then (None # es, n, (if ctxLeafSizeSink c then [(dHash d, sizeOnDisk it)] else []) @ zs, st')
               else (Some d # es, Suc n, zs, st')
           | None \<Rightarrow> (Some d # es, Suc n, zs, st'))"

definition filterNonNil :: "digest option list \<Rightarrow> digest list" where
  "filterNonNil es = map the (filter (\<lambda>e. e \<noteq> None) es)"

definition batchSize :: nat where "batchSize = 20"

section \<open>The goroutines\<close>

datatype fm_error = errMissingBlob | errRequestCancelled

text \<open>A proxy check: started but not yet past its look at the context, or asking the proxy.\<close>

datatype proxyCheck = Spawned nat | Asking nat

text \<open>
  Where the main goroutine is: at the head of the loop over the batches, at an index of the loop
  over the current batch, at the final \<open>select\<close>, or done.
\<close>

datatype fm_phase = AtBatch | AtItem nat | AtWait | Done "fm_error option"

record fmState =
  fmSt :: dcState
  fmDone :: "digest option list"
  fmRest :: "digest list"
  fmChecks :: "proxyCheck list"
  fmPhase :: fm_phase
  fmCtxDone :: bool
  fmFailFastCancelled :: bool
  fmSizes :: "(string \<times> int) list"

definition fmInit :: "dcState \<Rightarrow> digest list \<Rightarrow> fmState" where
  "fmInit st ds = \<lparr>fmSt = st, fmDone = [], fmRest = ds, fmChecks = [], fmPhase = AtBatch, fmCtxDone = False,
     fmFailFastCancelled = False, fmSizes = []\<rparr>"

definition cancelResult :: "fmState \<Rightarrow> fm_phase" where
  "cancelResult s = Done (Some (if fmFailFastCancelled s then errMissingBlob else errRequestCancelled))"

text \<open>One round of the loop over the batches, up to the loop over the items of the batch.\<close>

definition batchStep :: "dcConfig \<Rightarrow> ctx \<Rightarrow> bool \<Rightarrow> fmState \<Rightarrow> fmState" where
  "batchStep cfg c failFast s =
     (if fmRest s = [] then s\<lparr>fmPhase := (if cProxy cfg = None then Done None else AtWait)\<rparr>
      else if fmCtxDone s then s\<lparr>fmPhase := cancelResult s\<rparr>
      else
        let chunk = (if length (fmRest s) \<le> batchSize then fmRest s else take batchSize (fmRest s));
            remaining = (if length (fmRest s) \<le> batchSize then [] else drop batchSize (fmRest s));
            (es, numMissing, zs, st') = findMissingLocalCAS cfg c chunk (fmSt s);
            s' = s\<lparr>fmSt := st', fmDone := fmDone s @ es, fmRest := remaining, fmSizes := fmSizes s @ zs\<rparr>
        in if numMissing = 0 then s'
           else if cProxy cfg = None \<and> failFast then s'\<lparr>fmPhase := Done (Some errMissingBlob)\<rparr>
           else if cProxy cfg = None then s'
           else s'\<lparr>fmPhase := AtItem (length (fmDone s))\<rparr>)"

text \<open>
  One item of the loop over a batch. \<open>acquired\<close> says whether the semaphore was acquired: it
  can only fail when the context is done. (The limit of 512 concurrent checks only makes the
  goroutine wait here; it takes no interleaving away that matters below.)
\<close>

definition itemStep :: "dcConfig \<Rightarrow> bool \<Rightarrow> bool \<Rightarrow> nat \<Rightarrow> fmState \<Rightarrow> fmState" where
  "itemStep cfg failFast acquired i s =
     (if i \<ge> length (fmDone s) then s\<lparr>fmPhase := AtBatch\<rparr>
      else
        case fmDone s ! i of
          None \<Rightarrow> s\<lparr>fmPhase := AtItem (Suc i)\<rparr>
        | Some d \<Rightarrow>
            if dSizeBytes d > cMaxProxyBlobSize cfg then
              (if failFast then s\<lparr>fmPhase := Done (Some errMissingBlob)\<rparr> else s\<lparr>fmPhase := AtItem (Suc i)\<rparr>)
            else if \<not> acquired then s\<lparr>fmPhase := cancelResult s\<rparr>
            else s\<lparr>fmPhase := AtItem (Suc i), fmChecks := Spawned i # fmChecks s\<rparr>)"

text \<open>\<open>processContainsCheck\<close> after its look at the context: ask, then clear the entry or cancel.\<close>

definition answerStep :: "dcConfig \<Rightarrow> ctx \<Rightarrow> bool \<Rightarrow> nat \<Rightarrow> fmState \<Rightarrow> fmState" where
  "answerStep cfg c failFast i s =
     (case fmDone s ! i of
        None \<Rightarrow> s
      | Some d \<Rightarrow>
          if fst (proxyContains (the (cProxy cfg)) c CAS (dHash d) (dSizeBytes d))
          then s\<lparr>fmDone := (fmDone s)[i := None]\<rparr>
          else if failFast then s\<lparr>fmFailFastCancelled := True, fmCtxDone := True\<rparr> else s)"

inductive fmstep :: "dcConfig \<Rightarrow> ctx \<Rightarrow> bool \<Rightarrow> fmState \<Rightarrow> fmState \<Rightarrow> bool" for cfg c failFast where
  batch: "fmPhase s = AtBatch \<Longrightarrow> fmstep cfg c failFast s (batchStep cfg c failFast s)"
| item: "fmPhase s = AtItem i \<Longrightarrow> acquired \<or> fmCtxDone s \<Longrightarrow>
     fmstep cfg c failFast s (itemStep cfg failFast acquired i s)"
| wait_cancelled: "fmPhase s = AtWait \<Longrightarrow> fmCtxDone s \<Longrightarrow> fmstep cfg c failFast s (s\<lparr>fmPhase := cancelResult s\<rparr>)"
| wait_finished: "fmPhase s = AtWait \<Longrightarrow> fmChecks s = [] \<Longrightarrow> fmstep cfg c failFast s (s\<lparr>fmPhase := Done None\<rparr>)"
| check_skipped: "fmChecks s = xs @ Spawned i # ys \<Longrightarrow> fmCtxDone s \<Longrightarrow>
     fmstep cfg c failFast s (s\<lparr>fmChecks := xs @ ys\<rparr>)"
| check_asks: "fmChecks s = xs @ Spawned i # ys \<Longrightarrow> \<not> fmCtxDone s \<Longrightarrow>
     fmstep cfg c failFast s (s\<lparr>fmChecks := xs @ Asking i # ys\<rparr>)"
| check_answers: "fmChecks s = xs @ Asking i # ys \<Longrightarrow>
     fmstep cfg c failFast s (answerStep cfg c failFast i (s\<lparr>fmChecks := xs @ ys\<rparr>))"
| request_cancelled: "fmstep cfg c failFast s (s\<lparr>fmCtxDone := True\<rparr>)"

inductive fmreach :: "dcConfig \<Rightarrow> ctx \<Rightarrow> bool \<Rightarrow> fmState \<Rightarrow> fmState \<Rightarrow> bool" for cfg c failFast s0 where
  start: "fmreach cfg c failFast s0 s0"
| step: "fmreach cfg c failFast s0 s \<Longrightarrow> fmstep cfg c failFast s s' \<Longrightarrow> fmreach cfg c failFast s0 s'"

text \<open>\<open>FindMissingCasBlobs\<close> on a finished search: an error, or the digests that are left.\<close>

definition FindMissingCasBlobs :: "fmState \<Rightarrow> (fm_error + digest list) option" where
  "FindMissingCasBlobs s =
     (case fmPhase s of
        Done (Some e) \<Rightarrow> Some (Inl e)
      | Done None \<Rightarrow> Some (Inr (filterNonNil (fmDone s @ map Some (fmRest s))))
      | _ \<Rightarrow> None)"

section \<open>Availability\<close>

definition localHit :: "ctx \<Rightarrow> dcState \<Rightarrow> digest \<Rightarrow> bool" where
  "localHit c st d \<longleftrightarrow>
     dSizeBytes d = 0 \<and> dHash d = emptySha256 \<or>
     (case Peek (LookupKeyForContext c CAS (dHash d)) (dLru st) of
        Some it \<Rightarrow> \<not> isSizeMismatch (dSizeBytes d) (itemSize it) | None \<Rightarrow> False)"

definition proxyHit :: "dcConfig \<Rightarrow> ctx \<Rightarrow> digest \<Rightarrow> bool" where
  "proxyHit cfg c d \<longleftrightarrow>
     (case cProxy cfg of
        None \<Rightarrow> False
      | Some p \<Rightarrow> dSizeBytes d \<le> cMaxProxyBlobSize cfg \<and> fst (proxyContains p c CAS (dHash d) (dSizeBytes d)))"

definition remaining :: "bool \<Rightarrow> digest \<Rightarrow> digest option" where
  "remaining found d = (if found then None else Some d)"

lemma Peek_moveToFront: "Peek k (moveToFront e l) = Peek k l"
  by (simp add: Peek_def moveToFront_def split: option.splits)

lemma Get_keeps_Peek: "Get k l = (x, l') \<Longrightarrow> Peek k' l' = Peek k' l"
  by (auto simp: Get_def Peek_moveToFront split: option.splits)

lemma localHit_cong: "(\<And>k. Peek k (dLru st') = Peek k (dLru st)) \<Longrightarrow> localHit c st' = localHit c st"
  by (simp add: localHit_def fun_eq_iff)

lemma findMissingLocalCAS_spec:
  "findMissingLocalCAS cfg c ds st = (es, n, zs, st') \<Longrightarrow>
     es = map (\<lambda>d. remaining (localHit c st d) d) ds \<and> n = length (filter (\<lambda>d. \<not> localHit c st d) ds) \<and>
     localHit c st' = localHit c st"
proof (induction cfg c ds st arbitrary: es n zs st' rule: findMissingLocalCAS.induct)
  case (2 cfg c d ds st)
  show ?case
  proof (cases "dSizeBytes d = 0 \<and> dHash d = emptySha256")
    case True
    obtain es1 n1 zs1 st1 where r: "findMissingLocalCAS cfg c ds st = (es1, n1, zs1, st1)"
      by (cases "findMissingLocalCAS cfg c ds st")
    have "localHit c st d" using True by (simp add: localHit_def)
    then show ?thesis
      using 2(1) [OF True r] 2(3) True r by (auto simp: remaining_def)
  next
    case False
    obtain item l where g: "Get (LookupKeyForContext c CAS (dHash d)) (dLru st) = (item, l)"
      by (cases "Get (LookupKeyForContext c CAS (dHash d)) (dLru st)")
    obtain es1 n1 zs1 st1 where r: "findMissingLocalCAS cfg c ds (setLru cfg l st) = (es1, n1, zs1, st1)"
      by (cases "findMissingLocalCAS cfg c ds (setLru cfg l st)")
    have same: "localHit c (setLru cfg l st) = localHit c st"
      using Get_keeps_Peek [OF g] by (intro localHit_cong) simp
    note ih = 2(2) [OF False refl, unfolded g, OF refl r]
    have "item = Peek (LookupKeyForContext c CAS (dHash d)) (dLru st)"
      using Get_Peek [of "LookupKeyForContext c CAS (dHash d)" "dLru st"] g by simp
    then show ?thesis
      using 2(3) False g r ih same
      by (auto simp: remaining_def localHit_def [of c st d] split: option.splits if_splits)
  qed
qed simp

section \<open>The invariant of the search\<close>

fun checkIndex :: "proxyCheck \<Rightarrow> nat" where
  "checkIndex (Spawned i) = i"
| "checkIndex (Asking i) = i"

definition avail :: "dcConfig \<Rightarrow> ctx \<Rightarrow> dcState \<Rightarrow> digest \<Rightarrow> bool" where
  "avail cfg c st d \<longleftrightarrow> localHit c st d \<or> proxyHit cfg c d"

text \<open>What is known of an entry that is still there: nothing more will be done for it, or it is queued.\<close>

definition settled :: "dcConfig \<Rightarrow> ctx \<Rightarrow> bool \<Rightarrow> digest list \<Rightarrow> fmState \<Rightarrow> nat \<Rightarrow> bool" where
  "settled cfg c failFast ds s i \<longleftrightarrow>
     (\<not> failFast \<and> \<not> proxyHit cfg c (ds ! i)) \<or> i \<in> set (map checkIndex (fmChecks s)) \<or>
     (\<exists>j \<le> i. fmPhase s = AtItem j)"

definition entry_ok :: "dcConfig \<Rightarrow> ctx \<Rightarrow> dcState \<Rightarrow> digest list \<Rightarrow> fmState \<Rightarrow> nat \<Rightarrow> bool" where
  "entry_ok cfg c st0 ds s i \<longleftrightarrow>
     fmDone s ! i = None \<and> avail cfg c st0 (ds ! i) \<or> fmDone s ! i = Some (ds ! i) \<and> \<not> localHit c st0 (ds ! i)"

definition check_ok :: "dcConfig \<Rightarrow> digest list \<Rightarrow> fmState \<Rightarrow> nat \<Rightarrow> bool" where
  "check_ok cfg ds s i \<longleftrightarrow>
     i < length (fmDone s) \<and> cProxy cfg \<noteq> None \<and> dSizeBytes (ds ! i) \<le> cMaxProxyBlobSize cfg"

definition unavailable :: "dcConfig \<Rightarrow> ctx \<Rightarrow> dcState \<Rightarrow> digest list \<Rightarrow> bool" where
  "unavailable cfg c st0 ds \<longleftrightarrow> (\<exists>d \<in> set ds. \<not> avail cfg c st0 d)"

definition fm_inv :: "dcConfig \<Rightarrow> ctx \<Rightarrow> bool \<Rightarrow> dcState \<Rightarrow> digest list \<Rightarrow> fmState \<Rightarrow> bool" where
  "fm_inv cfg c failFast st0 ds s \<longleftrightarrow>
     fmRest s = drop (length (fmDone s)) ds \<and> length (fmDone s) \<le> length ds \<and>
     localHit c (fmSt s) = localHit c st0 \<and>
     (\<forall>i < length (fmDone s). entry_ok cfg c st0 ds s i) \<and>
     (\<forall>i \<in> set (map checkIndex (fmChecks s)). check_ok cfg ds s i) \<and>
     (\<forall>i < length (fmDone s). \<not> fmCtxDone s \<longrightarrow> (\<forall>e. fmPhase s \<noteq> Done (Some e)) \<longrightarrow> fmDone s ! i \<noteq> None \<longrightarrow>
        settled cfg c failFast ds s i) \<and>
     (fmFailFastCancelled s \<longrightarrow> unavailable cfg c st0 ds) \<and>
     (fmPhase s = Done (Some errMissingBlob) \<longrightarrow> unavailable cfg c st0 ds) \<and>
     (fmPhase s = AtWait \<longrightarrow> fmRest s = []) \<and>
     (fmPhase s = Done None \<longrightarrow> fmRest s = [] \<and> fmChecks s = [])"

lemma fm_invD:
  assumes "fm_inv cfg c failFast st0 ds s"
  shows "fmRest s = drop (length (fmDone s)) ds" "length (fmDone s) \<le> length ds" "localHit c (fmSt s) = localHit c st0"
    "i < length (fmDone s) \<Longrightarrow> entry_ok cfg c st0 ds s i"
    "i \<in> set (map checkIndex (fmChecks s)) \<Longrightarrow> check_ok cfg ds s i"
    "i < length (fmDone s) \<Longrightarrow> \<not> fmCtxDone s \<Longrightarrow> (\<And>e. fmPhase s \<noteq> Done (Some e)) \<Longrightarrow> fmDone s ! i \<noteq> None \<Longrightarrow>
       settled cfg c failFast ds s i"
    "fmFailFastCancelled s \<Longrightarrow> unavailable cfg c st0 ds"
    "fmPhase s = Done (Some errMissingBlob) \<Longrightarrow> unavailable cfg c st0 ds"
    "fmPhase s = AtWait \<Longrightarrow> fmRest s = []"
    "fmPhase s = Done None \<Longrightarrow> fmRest s = [] \<and> fmChecks s = []"
  using assms unfolding fm_inv_def by blast+

lemma fm_invI:
  assumes "fmRest s = drop (length (fmDone s)) ds" "length (fmDone s) \<le> length ds" "localHit c (fmSt s) = localHit c st0"
    "\<And>i. i < length (fmDone s) \<Longrightarrow> entry_ok cfg c st0 ds s i"
    "\<And>i. i \<in> set (map checkIndex (fmChecks s)) \<Longrightarrow> check_ok cfg ds s i"
    "\<And>i. i < length (fmDone s) \<Longrightarrow> \<not> fmCtxDone s \<Longrightarrow> (\<And>e. fmPhase s \<noteq> Done (Some e)) \<Longrightarrow> fmDone s ! i \<noteq> None \<Longrightarrow>
       settled cfg c failFast ds s i"
    "fmFailFastCancelled s \<Longrightarrow> unavailable cfg c st0 ds"
    "fmPhase s = Done (Some errMissingBlob) \<Longrightarrow> unavailable cfg c st0 ds"
    "fmPhase s = AtWait \<Longrightarrow> fmRest s = []"
    "fmPhase s = Done None \<Longrightarrow> fmRest s = [] \<and> fmChecks s = []"
  shows "fm_inv cfg c failFast st0 ds s"
  using assms unfolding fm_inv_def by blast

lemma fm_init_inv: "fm_inv cfg c failFast st ds (fmInit st ds)"
  by (rule fm_invI) (simp_all add: fmInit_def)

text \<open>Entries and checks do not depend on the other components of the state.\<close>

lemma entry_ok_cong: "fmDone s' = fmDone s \<Longrightarrow> entry_ok cfg c st0 ds s' = entry_ok cfg c st0 ds s"
  by (simp add: entry_ok_def fun_eq_iff)

lemma check_ok_cong: "length (fmDone s') = length (fmDone s) \<Longrightarrow> check_ok cfg ds s' = check_ok cfg ds s"
  by (simp add: check_ok_def fun_eq_iff)

lemma settled_cong:
  "set (map checkIndex (fmChecks s')) = set (map checkIndex (fmChecks s)) \<Longrightarrow> fmPhase s' = fmPhase s \<Longrightarrow>
     settled cfg c failFast ds s' = settled cfg c failFast ds s"
  by (simp add: settled_def fun_eq_iff)

text \<open>
  A change of the control part only: the entries stay, the checks may only be dropped when
  nothing has to be settled any more.
\<close>

lemma fm_inv_control:
  assumes i: "fm_inv cfg c failFast st0 ds s"
    and same: "fmRest s' = fmRest s" "fmDone s' = fmDone s" "fmSt s' = fmSt s" "fmFailFastCancelled s' = fmFailFastCancelled s"
    and checks: "set (map checkIndex (fmChecks s')) \<subseteq> set (map checkIndex (fmChecks s))"
    and settle: "\<And>i. i < length (fmDone s) \<Longrightarrow> \<not> fmCtxDone s' \<Longrightarrow> (\<And>e. fmPhase s' \<noteq> Done (Some e)) \<Longrightarrow> fmDone s ! i \<noteq> None \<Longrightarrow>
       settled cfg c failFast ds s' i"
    and missing: "fmPhase s' = Done (Some errMissingBlob) \<Longrightarrow> unavailable cfg c st0 ds"
    and wait: "fmPhase s' = AtWait \<Longrightarrow> fmRest s = []"
    and done': "fmPhase s' = Done None \<Longrightarrow> fmRest s = [] \<and> fmChecks s' = []"
  shows "fm_inv cfg c failFast st0 ds s'"
proof (rule fm_invI)
  show "check_ok cfg ds s' j" if "j \<in> set (map checkIndex (fmChecks s'))" for j
    using fm_invD(5) [OF i] that checks check_ok_cong [of s' s cfg ds] same(2) by auto
  show "entry_ok cfg c st0 ds s' j" if "j < length (fmDone s')" for j
    using fm_invD(4) [OF i] that same(2) entry_ok_cong [of s' s] by simp
qed (use fm_invD(1-3,7) [OF i] same settle missing wait done' in simp_all)

lemma fm_inv_return:
  assumes "fm_inv cfg c failFast st0 ds s" "e = errMissingBlob \<Longrightarrow> unavailable cfg c st0 ds"
  shows "fm_inv cfg c failFast st0 ds (s\<lparr>fmPhase := Done (Some e)\<rparr>)"
  by (rule fm_inv_control [OF assms(1)]) (use assms(2) in auto)

lemma fm_inv_cancelResult:
  assumes "fm_inv cfg c failFast st0 ds s"
  shows "fm_inv cfg c failFast st0 ds (s\<lparr>fmPhase := cancelResult s\<rparr>)"
  unfolding cancelResult_def using fm_invD(7) [OF assms] by (intro fm_inv_return [OF assms]) (simp split: if_splits)

section \<open>Every step keeps the invariant\<close>

lemma batchStep_inv:
  assumes i: "fm_inv cfg c failFast st0 ds s" and ph: "fmPhase s = AtBatch"
  shows "fm_inv cfg c failFast st0 ds (batchStep cfg c failFast s)"
proof (cases "fmRest s = []")
  case True
  have nop: "fmChecks s = []" if "cProxy cfg = None"
    using fm_invD(5) [OF i] that by (cases "fmChecks s") (auto simp: check_ok_def)
  have st: "settled cfg c failFast ds (s\<lparr>fmPhase := q\<rparr>) j"
    if "j < length (fmDone s)" "\<not> fmCtxDone s" "fmDone s ! j \<noteq> None" for j q
    using fm_invD(6) [OF i that(1,2) _ that(3)] ph by (auto simp: settled_def)
  show ?thesis
    unfolding batchStep_def if_P [OF True]
    by (rule fm_inv_control [OF i]) (use True st nop in \<open>auto split: if_splits\<close>)
next
  case False
  show ?thesis
  proof (cases "fmCtxDone s")
    case True
    then show ?thesis using False fm_inv_cancelResult [OF i] by (simp add: batchStep_def)
  next
    case ctx: False
    let ?n = "length (fmDone s)"
    define chunk where "chunk = (if length (fmRest s) \<le> batchSize then fmRest s else take batchSize (fmRest s))"
    define rest where "rest = (if length (fmRest s) \<le> batchSize then [] else drop batchSize (fmRest s))"
    have "chunk @ rest = fmRest s" by (simp add: chunk_def rest_def)
    then have cr: "drop ?n ds = chunk @ rest" using fm_invD(1) [OF i] by simp
    obtain es m zs st' where f: "findMissingLocalCAS cfg c chunk (fmSt s) = (es, m, zs, st')"
      by (cases "findMissingLocalCAS cfg c chunk (fmSt s)")
    note sp = findMissingLocalCAS_spec [OF f, unfolded fm_invD(3) [OF i]]
    have le: "length es = length chunk" using sp by simp
    have ds_nth: "ds ! (?n + k) = chunk ! k" if "k < length chunk" for k
      using that fm_invD(2) [OF i] nth_drop [of ?n ds k] by (simp add: cr nth_append)
    have len: "length (drop ?n ds) = length chunk + length rest" by (simp add: cr)
    let ?s' = "s\<lparr>fmSt := st', fmDone := fmDone s @ es, fmRest := rest, fmSizes := fmSizes s @ zs\<rparr>"
    have entry: "entry_ok cfg c st0 ds (?s'\<lparr>fmPhase := q\<rparr>) j" if "j < length (fmDone s @ es)" for j q
    proof (cases "j < ?n")
      case True
      then show ?thesis using fm_invD(4) [OF i True] by (simp add: entry_ok_def nth_append)
    next
      case False
      then have k: "j - ?n < length chunk" using that le by auto
      then have "es ! (j - ?n) = remaining (localHit c st0 (ds ! j)) (ds ! j)"
        using sp ds_nth [OF k] False by simp
      then show ?thesis using False by (auto simp: entry_ok_def nth_append remaining_def avail_def)
    qed
    have general: "fm_inv cfg c failFast st0 ds (?s'\<lparr>fmPhase := q\<rparr>)"
      if st: "\<And>j. j < length (fmDone s @ es) \<Longrightarrow> (\<And>e. q \<noteq> Done (Some e)) \<Longrightarrow> (fmDone s @ es) ! j \<noteq> None \<Longrightarrow>
          settled cfg c failFast ds (?s'\<lparr>fmPhase := q\<rparr>) j"
        and q: "q = Done (Some errMissingBlob) \<Longrightarrow> unavailable cfg c st0 ds" "q \<noteq> AtWait" "q \<noteq> Done None" for q
    proof (rule fm_invI)
      show "fmRest (?s'\<lparr>fmPhase := q\<rparr>) = drop (length (fmDone (?s'\<lparr>fmPhase := q\<rparr>))) ds"
        using le by (simp add: add.commute flip: drop_drop) (simp add: cr)
      show "length (fmDone (?s'\<lparr>fmPhase := q\<rparr>)) \<le> length ds"
        using le len fm_invD(2) [OF i] by simp
      show "check_ok cfg ds (?s'\<lparr>fmPhase := q\<rparr>) j" if "j \<in> set (map checkIndex (fmChecks (?s'\<lparr>fmPhase := q\<rparr>)))" for j
        using fm_invD(5) [OF i, of j] that by (auto simp: check_ok_def)
    qed (use sp fm_invD(7) [OF i] entry st q in \<open>simp_all\<close>)
    have old: "settled cfg c failFast ds (?s'\<lparr>fmPhase := q\<rparr>) j" if "j < ?n" "fmDone s ! j \<noteq> None" for j q
      using fm_invD(6) [OF i that(1) ctx _ that(2)] ph by (auto simp: settled_def)
    have eq: "batchStep cfg c failFast s =
        (if m = 0 then ?s'\<lparr>fmPhase := AtBatch\<rparr>
         else if cProxy cfg = None \<and> failFast then ?s'\<lparr>fmPhase := Done (Some errMissingBlob)\<rparr>
         else if cProxy cfg = None then ?s'\<lparr>fmPhase := AtBatch\<rparr>
         else ?s'\<lparr>fmPhase := AtItem ?n\<rparr>)"
      using False ctx f ph by (simp add: batchStep_def Let_def chunk_def [symmetric] rest_def [symmetric])
    have m0: "(fmDone s @ es) ! j \<noteq> None \<Longrightarrow> m \<noteq> 0" if "?n \<le> j" "j < length (fmDone s @ es)" for j
    proof -
      assume ne: "(fmDone s @ es) ! j \<noteq> None"
      have k: "j - ?n < length chunk" using that le by simp
      then have "\<not> localHit c st0 (chunk ! (j - ?n))"
        using ne sp that by (auto simp: nth_append remaining_def split: if_splits)
      then have "filter (\<lambda>d. \<not> localHit c st0 d) chunk \<noteq> []" using nth_mem [OF k] by (auto simp: filter_empty_conv)
      then show "m \<noteq> 0" using sp by simp
    qed
    have unav: "unavailable cfg c st0 ds" if "m \<noteq> 0" "cProxy cfg = None"
    proof -
      have "filter (\<lambda>d. \<not> localHit c st0 d) chunk \<noteq> []" using that(1) sp by auto
      then obtain d where d: "d \<in> set chunk" "\<not> localHit c st0 d" by (auto simp: filter_empty_conv)
      have "d \<in> set (chunk @ rest)" using d(1) by simp
      then have "d \<in> set ds" unfolding cr [symmetric] by (rule in_set_dropD)
      then show ?thesis using d(2) that(2) by (auto simp: unavailable_def avail_def proxyHit_def)
    qed
    show ?thesis
      unfolding eq
    proof (simp only: if_split, intro conjI impI)
      show "fm_inv cfg c failFast st0 ds (?s'\<lparr>fmPhase := AtBatch\<rparr>)" if "m = 0"
      proof (rule general)
        fix j assume j: "j < length (fmDone s @ es)" "(fmDone s @ es) ! j \<noteq> None"
        then have "j < ?n" using m0 [of j] that by (cases "j < ?n") auto
        then show "settled cfg c failFast ds (?s'\<lparr>fmPhase := AtBatch\<rparr>) j" using old j by (simp add: nth_append)
      qed simp_all
      show "fm_inv cfg c failFast st0 ds (?s'\<lparr>fmPhase := Done (Some errMissingBlob)\<rparr>)" if "m \<noteq> 0" "cProxy cfg = None \<and> failFast"
        by (rule general) (use unav that in auto)
      show "fm_inv cfg c failFast st0 ds (?s'\<lparr>fmPhase := AtBatch\<rparr>)"
        if "m \<noteq> 0" "\<not> (cProxy cfg = None \<and> failFast)" "cProxy cfg = None"
        by (rule general) (use that in \<open>auto simp: settled_def proxyHit_def\<close>)
      show "fm_inv cfg c failFast st0 ds (?s'\<lparr>fmPhase := AtItem ?n\<rparr>)"
        if "m \<noteq> 0" "\<not> (cProxy cfg = None \<and> failFast)" "cProxy cfg \<noteq> None"
      proof (rule general)
        fix j assume j: "j < length (fmDone s @ es)" "(fmDone s @ es) ! j \<noteq> None"
        show "settled cfg c failFast ds (?s'\<lparr>fmPhase := AtItem ?n\<rparr>) j"
        proof (cases "j < ?n")
          case True
          then show ?thesis using old j by (simp add: nth_append)
        qed (auto simp: settled_def)
      qed simp_all
    qed
  qed
qed

lemma itemStep_inv:
  assumes i: "fm_inv cfg c failFast st0 ds s" and ph: "fmPhase s = AtItem k"
    and px: "cProxy cfg \<noteq> None"
  shows "fm_inv cfg c failFast st0 ds (itemStep cfg failFast acquired k s)"
proof -
  have old: "settled cfg c failFast ds (s\<lparr>fmPhase := AtItem (Suc k)\<rparr>) j"
    if "j < length (fmDone s)" "\<not> fmCtxDone s" "fmDone s ! j \<noteq> None" "j \<noteq> k" for j
    using fm_invD(6) [OF i that(1,2) _ that(3)] ph that(4) by (auto simp: settled_def)
  show ?thesis
  proof (cases "k < length (fmDone s)")
    case False
    have "settled cfg c failFast ds (s\<lparr>fmPhase := AtBatch\<rparr>) j"
      if "j < length (fmDone s)" "\<not> fmCtxDone s" "fmDone s ! j \<noteq> None" for j
      using fm_invD(6) [OF i that(1,2) _ that(3)] ph that False by (auto simp: settled_def)
    then show ?thesis using False unfolding itemStep_def by (simp, intro fm_inv_control [OF i]) auto
  next
    case True
    note e = fm_invD(4) [OF i True]
    show ?thesis
    proof (cases "fmDone s ! k")
      case None
      have "settled cfg c failFast ds (s\<lparr>fmPhase := AtItem (Suc k)\<rparr>) j"
        if "j < length (fmDone s)" "\<not> fmCtxDone s" "fmDone s ! j \<noteq> None" for j
        using old [OF that] that(3) None by (cases "j = k") auto
      then show ?thesis using True None unfolding itemStep_def by (simp, intro fm_inv_control [OF i]) auto
    next
      case (Some d)
      then have d: "d = ds ! k" "\<not> localHit c st0 d" using e by (auto simp: entry_ok_def)
      have "k < length ds" using True fm_invD(2) [OF i] by simp
      then have mem: "d \<in> set ds" using d(1) by simp
      show ?thesis
      proof (cases "dSizeBytes d > cMaxProxyBlobSize cfg")
        case big: True
        then have np: "\<not> proxyHit cfg c d" by (simp add: proxyHit_def split: option.split)
        then have un: "unavailable cfg c st0 ds" using mem d(2) by (auto simp: unavailable_def avail_def)
        have "settled cfg c failFast ds (s\<lparr>fmPhase := AtItem (Suc k)\<rparr>) j"
          if "j < length (fmDone s)" "\<not> fmCtxDone s" "fmDone s ! j \<noteq> None" "\<not> failFast" for j
          using old [OF that(1-3)] that(4) np d(1) by (cases "j = k") (auto simp: settled_def)
        then have "fm_inv cfg c failFast st0 ds (s\<lparr>fmPhase := AtItem (Suc k)\<rparr>)" if "\<not> failFast"
          using that by (intro fm_inv_control [OF i]) auto
        then show ?thesis
          using True Some big fm_inv_return [OF i, of errMissingBlob] un
          by (cases failFast) (simp_all add: itemStep_def)
      next
        case small: False
        have "fm_inv cfg c failFast st0 ds (s\<lparr>fmPhase := AtItem (Suc k), fmChecks := Spawned k # fmChecks s\<rparr>)"
        proof (rule fm_invI)
          let ?t = "s\<lparr>fmPhase := AtItem (Suc k), fmChecks := Spawned k # fmChecks s\<rparr>"
          show "entry_ok cfg c st0 ds ?t j" if "j < length (fmDone ?t)" for j
            using fm_invD(4) [OF i, of j] that by (simp add: entry_ok_def)
          show "check_ok cfg ds ?t j" if "j \<in> set (map checkIndex (fmChecks ?t))" for j
            using fm_invD(5) [OF i, of j] that True px small d(1) by (auto simp: check_ok_def)
          show "settled cfg c failFast ds ?t j"
            if "j < length (fmDone ?t)" "\<not> fmCtxDone ?t" "fmDone ?t ! j \<noteq> None" for j
            using old [of j] that by (cases "j = k") (auto simp: settled_def)
        qed (use fm_invD(1-3,7) [OF i] in simp_all)
        then show ?thesis
          using True Some small fm_inv_cancelResult [OF i] by (simp add: itemStep_def)
      qed
    qed
  qed
qed

lemma answerStep_inv:
  assumes i: "fm_inv cfg c failFast st0 ds s" and ch: "fmChecks s = xs @ Asking k # ys"
  shows "fm_inv cfg c failFast st0 ds (answerStep cfg c failFast k (s\<lparr>fmChecks := xs @ ys\<rparr>))"
proof -
  let ?t = "s\<lparr>fmChecks := xs @ ys\<rparr>"
  have ck: "check_ok cfg ds s k" using fm_invD(5) [OF i, of k] ch by simp
  then have k: "k < length (fmDone s)" and px: "cProxy cfg \<noteq> None" and small: "dSizeBytes (ds ! k) \<le> cMaxProxyBlobSize cfg"
    by (simp_all add: check_ok_def)
  have fin: "fmPhase s \<noteq> Done None" using fm_invD(10) [OF i] ch by auto
  have mem: "ds ! k \<in> set ds" using k fm_invD(2) [OF i] by simp
  have old: "settled cfg c failFast ds (s\<lparr>fmChecks := xs @ ys, fmDone := es\<rparr>) j"
    if "j < length (fmDone s)" "\<not> fmCtxDone s" "fmDone s ! j \<noteq> None" "j \<noteq> k" "\<And>e. fmPhase s \<noteq> Done (Some e)" for j es
    using fm_invD(6) [OF i that(1,2,5,3)] ch that(4) by (auto simp: settled_def)
  have checks: "check_ok cfg ds u j"
    if "j \<in> set (map checkIndex (xs @ ys))" "length (fmDone u) = length (fmDone s)" for j u
    using fm_invD(5) [OF i, of j] that ch by (auto simp: check_ok_def)
  have keep: "fm_inv cfg c failFast st0 ds ?t"
    if "\<not> fmCtxDone s \<Longrightarrow> (\<And>e. fmPhase s \<noteq> Done (Some e)) \<Longrightarrow> fmDone s ! k \<noteq> None \<Longrightarrow> settled cfg c failFast ds ?t k"
  proof (rule fm_inv_control [OF i])
    fix j assume j: "j < length (fmDone s)" "\<not> fmCtxDone ?t" "\<And>e. fmPhase ?t \<noteq> Done (Some e)" "fmDone s ! j \<noteq> None"
    show "settled cfg c failFast ds ?t j"
      using old [of j "fmDone s"] that j by (cases "j = k") auto
  qed (use fm_invD(8-10) [OF i] ch in auto)
  show ?thesis
  proof (cases "fmDone s ! k")
    case None
    then show ?thesis using keep by (simp add: answerStep_def)
  next
    case (Some d)
    then have d: "d = ds ! k" "\<not> localHit c st0 d" using fm_invD(4) [OF i k] by (auto simp: entry_ok_def)
    show ?thesis
    proof (cases "fst (proxyContains (the (cProxy cfg)) c CAS (dHash d) (dSizeBytes d))")
      case found: True
      then have hit: "proxyHit cfg c d" using px small d(1) by (auto simp: proxyHit_def)
      have "fm_inv cfg c failFast st0 ds (s\<lparr>fmChecks := xs @ ys, fmDone := (fmDone s)[k := None]\<rparr>)"
      proof (rule fm_invI)
        let ?u = "s\<lparr>fmChecks := xs @ ys, fmDone := (fmDone s)[k := None]\<rparr>"
        show "entry_ok cfg c st0 ds ?u j" if "j < length (fmDone ?u)" for j
          using fm_invD(4) [OF i, of j] that hit d(1) k by (cases "j = k") (simp_all add: entry_ok_def avail_def)
        show "settled cfg c failFast ds ?u j"
          if "j < length (fmDone ?u)" "\<not> fmCtxDone ?u" "\<And>e. fmPhase ?u \<noteq> Done (Some e)" "fmDone ?u ! j \<noteq> None" for j
          using old [of j] that k by (cases "j = k") auto
        show "check_ok cfg ds ?u j" if "j \<in> set (map checkIndex (fmChecks ?u))" for j
          using checks that by simp
      qed (use fm_invD(1-3,7-10) [OF i] fin in simp_all)
      then show ?thesis using found Some by (simp add: answerStep_def)
    next
      case gone: False
      then have np: "\<not> proxyHit cfg c d" using px by (auto simp: proxyHit_def)
      then have un: "unavailable cfg c st0 ds" using mem d by (auto simp: unavailable_def avail_def)
      show ?thesis
      proof (cases failFast)
        case False
        then show ?thesis using gone Some keep np d(1) by (simp add: answerStep_def settled_def)
      next
        case True
        have "fm_inv cfg c failFast st0 ds (s\<lparr>fmChecks := xs @ ys, fmFailFastCancelled := True, fmCtxDone := True\<rparr>)"
        proof (rule fm_invI)
          let ?u = "s\<lparr>fmChecks := xs @ ys, fmFailFastCancelled := True, fmCtxDone := True\<rparr>"
          show "entry_ok cfg c st0 ds ?u j" if "j < length (fmDone ?u)" for j
            using fm_invD(4) [OF i, of j] that by (simp add: entry_ok_def)
          show "check_ok cfg ds ?u j" if "j \<in> set (map checkIndex (fmChecks ?u))" for j
            using checks that by simp
        qed (use fm_invD(1-3,8-10) [OF i] un fin in simp_all)
        then show ?thesis using True gone Some by (simp add: answerStep_def)
      qed
    qed
  qed
qed

lemma answerStep_phase [simp]: "fmPhase (answerStep cfg c failFast k s) = fmPhase s"
  by (simp add: answerStep_def split: option.split)

lemma batchStep_AtItem: "fmPhase s = AtBatch \<Longrightarrow> fmPhase (batchStep cfg c failFast s) = AtItem k \<Longrightarrow> cProxy cfg \<noteq> None"
  by (cases "cProxy cfg") (auto simp: batchStep_def cancelResult_def Let_def split: if_splits prod.splits)

lemma fmstep_proxy:
  assumes "fmstep cfg c failFast s s'" "fmPhase s' = AtItem k" "\<And>k. fmPhase s \<noteq> AtItem k"
  shows "cProxy cfg \<noteq> None"
  using assms by cases (auto simp: cancelResult_def dest: batchStep_AtItem)

text \<open>The loop over a batch is only entered when there is a proxy.\<close>

definition fm_proxy_ok :: "dcConfig \<Rightarrow> fmState \<Rightarrow> bool" where
  "fm_proxy_ok cfg s \<longleftrightarrow> ((\<exists>k. fmPhase s = AtItem k) \<longrightarrow> cProxy cfg \<noteq> None)"

lemma fmstep_inv:
  assumes st: "fmstep cfg c failFast s s'" and i: "fm_inv cfg c failFast st0 ds s" and p: "fm_proxy_ok cfg s"
  shows "fm_inv cfg c failFast st0 ds s' \<and> fm_proxy_ok cfg s'"
proof
  show "fm_proxy_ok cfg s'" using fmstep_proxy [OF st] p unfolding fm_proxy_ok_def by blast
  show "fm_inv cfg c failFast st0 ds s'"
    using st
  proof cases
    case batch
    then show ?thesis using batchStep_inv [OF i] by simp
  next
    case (item k acquired)
    then show ?thesis using itemStep_inv [OF i] p by (auto simp: fm_proxy_ok_def)
  next
    case wait_cancelled
    then show ?thesis using fm_inv_cancelResult [OF i] by simp
  next
    case wait_finished
    have "settled cfg c failFast ds s' j"
      if "j < length (fmDone s)" "\<not> fmCtxDone s" "fmDone s ! j \<noteq> None" for j
      using fm_invD(6) [OF i that(1,2) _ that(3)] wait_finished by (auto simp: settled_def)
    then show ?thesis
      using wait_finished fm_invD(9) [OF i] by (intro fm_inv_control [OF i]) auto
  next
    case (check_skipped xs k ys)
    then show ?thesis using fm_invD(8-10) [OF i] by (intro fm_inv_control [OF i]) auto
  next
    case (check_asks xs k ys)
    have "settled cfg c failFast ds s' j"
      if "j < length (fmDone s)" "\<not> fmCtxDone s" "fmDone s ! j \<noteq> None" "\<And>e. fmPhase s \<noteq> Done (Some e)" for j
      using fm_invD(6) [OF i that(1,2,4,3)] check_asks by (auto simp: settled_def)
    then show ?thesis
      using check_asks fm_invD(8-10) [OF i] by (intro fm_inv_control [OF i]) auto
  next
    case (check_answers xs k ys)
    then show ?thesis using answerStep_inv [OF i] by simp
  next
    case request_cancelled
    then show ?thesis using fm_invD(8-10) [OF i] by (intro fm_inv_control [OF i]) auto
  qed
qed

lemma fmreach_inv:
  assumes "fmreach cfg c failFast (fmInit st ds) s"
  shows "fm_inv cfg c failFast st ds s \<and> fm_proxy_ok cfg s"
  using assms
proof induction
  case start
  then show ?case using fm_init_inv by (simp add: fm_proxy_ok_def fmInit_def)
next
  case (step s s')
  then show ?case using fmstep_inv by blast
qed

section \<open>What a finished search says\<close>

lemma filterNonNil_Some [simp]: "filterNonNil (map Some ds) = ds"
  by (induction ds) (simp_all add: filterNonNil_def)

lemma filterNonNil_map: "filterNonNil (map (\<lambda>d. if P d then Some d else None) ds) = filter P ds"
  by (induction ds) (simp_all add: filterNonNil_def)

lemma filterNonNil_entries:
  assumes "length es = length ds" "\<And>i. i < length es \<Longrightarrow> es ! i = (if P (ds ! i) then Some (ds ! i) else None)"
  shows "filterNonNil es = filter P ds"
proof -
  have "es = map (\<lambda>d. if P d then Some d else None) ds"
    using assms by (intro nth_equalityI) simp_all
  then show ?thesis by (simp only: filterNonNil_map)
qed

lemma set_filterNonNil: "set (filterNonNil es) = {d. Some d \<in> set es}"
  by (force simp: filterNonNil_def image_iff)

lemma FindMissing_Inr:
  "FindMissingCasBlobs s = Some (Inr ms) \<longleftrightarrow> fmPhase s = Done None \<and> ms = filterNonNil (fmDone s @ map Some (fmRest s))"
  by (auto simp: FindMissingCasBlobs_def split: fm_phase.splits option.splits)

lemma FindMissing_Inl: "FindMissingCasBlobs s = Some (Inl e) \<longleftrightarrow> fmPhase s = Done (Some e)"
  by (auto simp: FindMissingCasBlobs_def split: fm_phase.splits option.splits)

lemma fm_inv_finished:
  assumes i: "fm_inv cfg c failFast st ds s" and f: "fmPhase s = Done None"
  shows "fmRest s = []" "length (fmDone s) = length ds"
  using fm_invD(1,2,10) [OF i] f by simp_all

text \<open>Without a cancellation nothing is left unasked.\<close>

lemma fm_inv_finished_entry:
  assumes i: "fm_inv cfg c failFast st ds s" and f: "fmPhase s = Done None" and nc: "\<not> fmCtxDone s"
    and k: "k < length ds"
  shows "fmDone s ! k = (if avail cfg c st (ds ! k) then None else Some (ds ! k))" "failFast \<Longrightarrow> avail cfg c st (ds ! k)"
proof -
  have k': "k < length (fmDone s)" using k fm_inv_finished [OF i f] by simp
  have set: "fmDone s ! k \<noteq> None \<Longrightarrow> settled cfg c failFast ds s k"
    using fm_invD(6) [OF i k' nc] f by simp
  have np: "fmDone s ! k \<noteq> None \<Longrightarrow> \<not> failFast \<and> \<not> proxyHit cfg c (ds ! k)"
    using set f fm_invD(10) [OF i] by (auto simp: settled_def)
  show "fmDone s ! k = (if avail cfg c st (ds ! k) then None else Some (ds ! k))" "failFast \<Longrightarrow> avail cfg c st (ds ! k)"
    using fm_invD(4) [OF i k'] np by (auto simp: entry_ok_def avail_def)
qed

lemma fm_finished_exact:
  assumes i: "fm_inv cfg c failFast st ds s" and r: "FindMissingCasBlobs s = Some (Inr ms)" and nc: "\<not> fmCtxDone s"
  shows "ms = filter (\<lambda>d. \<not> avail cfg c st d) ds"
proof -
  have f: "fmPhase s = Done None" and ms: "ms = filterNonNil (fmDone s)"
    using r fm_inv_finished [OF i] by (auto simp: FindMissing_Inr)
  show ?thesis
    unfolding ms using fm_inv_finished [OF i f] fm_inv_finished_entry(1) [OF i f nc]
    by (intro filterNonNil_entries) simp_all
qed

lemma fm_finished_sound:
  assumes i: "fm_inv cfg c failFast st ds s" and r: "FindMissingCasBlobs s = Some (Inr ms)"
  shows "{d \<in> set ds. \<not> avail cfg c st d} \<subseteq> set ms \<and> set ms \<subseteq> {d \<in> set ds. \<not> localHit c st d}"
proof -
  have f: "fmPhase s = Done None" and ms: "ms = filterNonNil (fmDone s)"
    using r fm_inv_finished [OF i] by (auto simp: FindMissing_Inr)
  note len = fm_inv_finished(2) [OF i f]
  have e: "k < length ds \<Longrightarrow> entry_ok cfg c st ds s k" for k using fm_invD(4) [OF i] len by simp
  show ?thesis
  proof (intro conjI subsetI; clarsimp simp: ms set_filterNonNil)
    fix d assume "d \<in> set ds" "\<not> avail cfg c st d"
    then obtain k where "k < length ds" "d = ds ! k" by (auto simp: in_set_conv_nth)
    then show "Some d \<in> set (fmDone s)"
      using e [of k] \<open>\<not> avail cfg c st d\<close> len by (auto simp: entry_ok_def in_set_conv_nth)
  next
    fix d assume "Some d \<in> set (fmDone s)"
    then obtain k where "k < length ds" "fmDone s ! k = Some d" by (auto simp: in_set_conv_nth len)
    then show "d \<in> set ds \<and> \<not> localHit c st d" using e [of k] by (auto simp: entry_ok_def)
  qed
qed

text \<open>A search that is not fail-fast ends with an error only when its context is done.\<close>

definition fm_err_ok :: "bool \<Rightarrow> fmState \<Rightarrow> bool" where
  "fm_err_ok failFast s \<longleftrightarrow> (\<not> failFast \<longrightarrow> (\<exists>e. fmPhase s = Done (Some e)) \<longrightarrow> fmCtxDone s)"

lemma batchStep_err_ok: "fmPhase s = AtBatch \<Longrightarrow> fm_err_ok failFast (batchStep cfg c failFast s)"
  by (auto simp: fm_err_ok_def batchStep_def Let_def split: if_splits prod.splits)

lemma itemStep_err_ok: "acquired \<or> fmCtxDone s \<Longrightarrow> fm_err_ok failFast (itemStep cfg failFast acquired k s)"
  by (auto simp: fm_err_ok_def itemStep_def split: if_splits option.splits)

lemma fmstep_err_ok:
  assumes "fmstep cfg c failFast s s'" "fm_err_ok failFast s"
  shows "fm_err_ok failFast s'"
  using assms(1)
proof cases
  case batch
  then show ?thesis using batchStep_err_ok by blast
next
  case (item k acquired)
  then show ?thesis using itemStep_err_ok by blast
qed (use assms(2) in \<open>auto simp: fm_err_ok_def answerStep_def split: option.splits\<close>)

lemma fmreach_err_ok: "fmreach cfg c failFast (fmInit st ds) s \<Longrightarrow> fm_err_ok failFast s"
proof (induction rule: fmreach.induct)
  case start
  then show ?case by (simp add: fm_err_ok_def fmInit_def)
next
  case (step s s')
  then show ?case using fmstep_err_ok by blast
qed

section \<open>Every search ends\<close>

fun checkWork :: "proxyCheck \<Rightarrow> nat" where
  "checkWork (Spawned i) = 2"
| "checkWork (Asking i) = 1"

fun phaseWork :: "nat \<Rightarrow> fm_phase \<Rightarrow> nat" where
  "phaseWork n AtBatch = 2"
| "phaseWork n (AtItem k) = 3 * (n - k) + 3"
| "phaseWork n AtWait = 1"
| "phaseWork n (Done r) = 0"

definition fmWork :: "fmState \<Rightarrow> nat" where
  "fmWork s = 5 * length (fmRest s) + phaseWork (length (fmDone s)) (fmPhase s) + sum_list (map checkWork (fmChecks s))"

lemma batchStep_work:
  assumes ph: "fmPhase s = AtBatch"
  shows "fmWork (batchStep cfg c failFast s) < fmWork s"
proof (cases "fmRest s = [] \<or> fmCtxDone s")
  case True
  then show ?thesis using ph by (auto simp: batchStep_def fmWork_def cancelResult_def)
next
  case False
  define chunk where "chunk = (if length (fmRest s) \<le> batchSize then fmRest s else take batchSize (fmRest s))"
  define rest where "rest = (if length (fmRest s) \<le> batchSize then [] else drop batchSize (fmRest s))"
  have len: "length (fmRest s) = length chunk + length rest" "0 < length chunk"
    using False by (simp_all add: chunk_def rest_def batchSize_def)
  obtain n where n: "length chunk = Suc n" using len(2) gr0_implies_Suc by blast
  obtain es m zs st' where f: "findMissingLocalCAS cfg c chunk (fmSt s) = (es, m, zs, st')"
    by (cases "findMissingLocalCAS cfg c chunk (fmSt s)")
  have le: "length es = length chunk" using findMissingLocalCAS_spec [OF f] by simp
  define t where "t = s\<lparr>fmSt := st', fmDone := fmDone s @ es, fmRest := rest, fmSizes := fmSizes s @ zs\<rparr>"
  have "batchStep cfg c failFast s \<in> {t, t\<lparr>fmPhase := Done (Some errMissingBlob)\<rparr>, t\<lparr>fmPhase := AtItem (length (fmDone s))\<rparr>}"
    using False f by (simp add: batchStep_def Let_def chunk_def [symmetric] rest_def [symmetric] t_def)
  then show ?thesis
    using ph len(1) n le by (elim insertE) (simp_all add: fmWork_def t_def)
qed

lemma itemStep_work: "fmPhase s = AtItem k \<Longrightarrow> fmWork (itemStep cfg failFast acquired k s) < fmWork s"
  by (auto simp: itemStep_def fmWork_def cancelResult_def split: option.splits)

lemma answerStep_work: "fmWork (answerStep cfg c failFast k s) = fmWork s"
  by (simp add: answerStep_def fmWork_def split: option.splits)

lemma fmstep_work:
  assumes "fmstep cfg c failFast s s'"
  shows "fmWork s' < fmWork s \<or> s' = s\<lparr>fmCtxDone := True\<rparr>"
  using assms
proof cases
  case (check_answers xs k ys)
  then show ?thesis by (simp add: answerStep_work) (simp add: fmWork_def)
qed (use batchStep_work itemStep_work in \<open>auto simp: fmWork_def cancelResult_def\<close>)

lemma fmstep_enabled:
  assumes "FindMissingCasBlobs s = None"
  shows "\<exists>s'. fmstep cfg c failFast s s' \<and> fmWork s' < fmWork s"
proof (cases "fmPhase s")
  case AtBatch
  then show ?thesis using fmstep.batch batchStep_work by blast
next
  case (AtItem k)
  then show ?thesis using fmstep.item [OF AtItem, of True] itemStep_work [OF AtItem] by blast
next
  case AtWait
  show ?thesis
  proof (cases "fmChecks s")
    case Nil
    then show ?thesis using fmstep.wait_finished [OF AtWait] AtWait by (fastforce simp: fmWork_def)
  next
    case (Cons q ys)
    show ?thesis
    proof (cases q)
      case (Spawned k)
      then show ?thesis
        using fmstep.check_skipped [of s "[]" k ys cfg c failFast] fmstep.check_asks [of s "[]" k ys cfg c failFast] Cons
        by (cases "fmCtxDone s") (fastforce simp: fmWork_def)+
    next
      case (Asking k)
      have "fmWork (s\<lparr>fmChecks := ys\<rparr>) < fmWork s" using Cons Asking by (simp add: fmWork_def)
      then show ?thesis
        using fmstep.check_answers [of s "[]" k ys cfg c failFast] Cons Asking answerStep_work by (metis append_Nil)
    qed
  qed
next
  case (Done r)
  then show ?thesis using assms by (simp add: FindMissingCasBlobs_def split: option.splits)
qed

lemma fmreach_trans: "fmreach cfg c ff t u \<Longrightarrow> fmreach cfg c ff s t \<Longrightarrow> fmreach cfg c ff s u"
  by (induction rule: fmreach.induct) (auto intro: fmreach.step)

lemma fm_completes: "\<exists>t. fmreach cfg c ff s t \<and> FindMissingCasBlobs t \<noteq> None"
proof (induction "fmWork s" arbitrary: s rule: less_induct)
  case less
  show ?case
  proof (cases "FindMissingCasBlobs s = None")
    case True
    then obtain s' where s': "fmstep cfg c ff s s'" "fmWork s' < fmWork s" using fmstep_enabled by blast
    then obtain t where "fmreach cfg c ff s' t" "FindMissingCasBlobs t \<noteq> None" using less by blast
    then show ?thesis using s'(1) fmreach_trans fmreach.step [OF fmreach.start] by blast
  qed (use fmreach.start in blast)
qed

lemma fm_run_bound:
  assumes "\<And>i. i < n \<Longrightarrow> fmstep cfg c ff (f i) (f (Suc i)) \<and> f (Suc i) \<noteq> (f i)\<lparr>fmCtxDone := True\<rparr>"
  shows "fmWork (f n) + n \<le> fmWork (f 0)"
  using assms
proof (induction n)
  case (Suc n)
  then have "fmWork (f n) + n \<le> fmWork (f 0)" by simp
  moreover have "fmWork (f (Suc n)) < fmWork (f n)" using fmstep_work Suc.prems [of n] by blast
  ultimately show ?case by simp
qed simp

end
