(* ===== verification/FindMissing_Props.thy ===== *)
theory FindMissing_Props
  imports FindMissing
begin

text \<open>
  What the search for missing blobs guarantees, under every interleaving of its goroutines and a
  cancellation of the request, and the one guarantee that its fail-fast mode does not give.
\<close>

section \<open>A search for one digest\<close>

lemma single_batch:
  assumes "\<not> localHit c st d"
  obtains st' zs where "findMissingLocalCAS cfg c [d] st = ([Some d], 1, zs, st')"
proof -
  obtain es n zs st' where f: "findMissingLocalCAS cfg c [d] st = (es, n, zs, st')"
    by (cases "findMissingLocalCAS cfg c [d] st")
  then have "es = [Some d]" "n = 1" using findMissingLocalCAS_spec [OF f] assms by (simp_all add: remaining_def)
  then show ?thesis using f that by simp
qed

text \<open>Without a proxy the search of one missing digest runs straight to its end.\<close>

lemma single_no_proxy:
  assumes "\<not> localHit c st d" "cProxy cfg = None" "\<not> failFast"
  shows "\<exists>s. fmreach cfg c failFast (fmInit st [d]) s \<and> FindMissingCasBlobs s = Some (Inr [d]) \<and> \<not> fmCtxDone s"
proof -
  obtain st' zs where f: "findMissingLocalCAS cfg c [d] st = ([Some d], 1, zs, st')" using single_batch [OF assms(1)] .
  let ?s1 = "batchStep cfg c failFast (fmInit st [d])"
  have s1: "?s1 = (fmInit st [d])\<lparr>fmSt := st', fmDone := [Some d], fmRest := [], fmSizes := zs\<rparr>"
    using f assms by (simp add: batchStep_def fmInit_def batchSize_def)
  have r1: "fmreach cfg c failFast (fmInit st [d]) ?s1"
    by (rule fmreach.step [OF fmreach.start fmstep.batch]) (simp add: fmInit_def)
  have "fmreach cfg c failFast (fmInit st [d]) (batchStep cfg c failFast ?s1)"
    by (rule fmreach.step [OF r1 fmstep.batch]) (simp add: s1, simp add: fmInit_def)
  moreover have "batchStep cfg c failFast ?s1 = ?s1\<lparr>fmPhase := Done None\<rparr>"
    by (subst batchStep_def) (use s1 assms in simp)
  ultimately show ?thesis
    using s1 by (intro exI [of _ "?s1\<lparr>fmPhase := Done None\<rparr>"]) (simp add: FindMissing_Inr filterNonNil_def fmInit_def)
qed

text \<open>
  With a proxy that does not have the digest, a fail-fast search comes to the point where the
  check has cancelled the context and the main goroutine is at the final \<open>select\<close>: both of its
  cases are ready.
\<close>

lemma single_at_select:
  assumes nl: "\<not> localHit c st d" and px: "cProxy cfg = Some p" and small: "dSizeBytes d \<le> cMaxProxyBlobSize cfg"
    and miss: "\<not> fst (proxyContains p c CAS (dHash d) (dSizeBytes d))"
  shows "\<exists>s. fmreach cfg c True (fmInit st [d]) s \<and> fmPhase s = AtWait \<and> fmChecks s = [] \<and> fmCtxDone s \<and>
    fmFailFastCancelled s \<and> fmDone s = [Some d] \<and> fmRest s = []"
proof -
  obtain st' zs where f: "findMissingLocalCAS cfg c [d] st = ([Some d], 1, zs, st')" using single_batch [OF nl] .
  define s1 where "s1 = (fmInit st [d])\<lparr>fmSt := st', fmDone := [Some d], fmRest := [], fmSizes := zs, fmPhase := AtItem 0\<rparr>"
  have sel: "fmDone s1 = [Some d]" "fmRest s1 = []" "fmPhase s1 = AtItem 0" "fmChecks s1 = []" "\<not> fmCtxDone s1"
    by (simp_all add: s1_def fmInit_def)
  have "batchStep cfg c True (fmInit st [d]) = s1"
    using f px by (simp add: batchStep_def fmInit_def batchSize_def s1_def)
  then have r1: "fmreach cfg c True (fmInit st [d]) s1"
    using fmreach.step [OF fmreach.start fmstep.batch] by (metis fmInit_def fmState.select_convs(5))
  define s2 where "s2 = s1\<lparr>fmPhase := AtItem 1, fmChecks := [Spawned 0]\<rparr>"
  have "itemStep cfg True True 0 s1 = s2" using sel small by (simp add: itemStep_def s2_def)
  then have r2: "fmreach cfg c True (fmInit st [d]) s2"
    using fmreach.step [OF r1 fmstep.item [of s1 0 True]] sel by simp
  define s3 where "s3 = s2\<lparr>fmPhase := AtBatch\<rparr>"
  have "itemStep cfg True True 1 s2 = s3" using sel by (simp add: itemStep_def s2_def s3_def)
  then have r3: "fmreach cfg c True (fmInit st [d]) s3"
    using fmreach.step [OF r2 fmstep.item [of s2 1 True]] by (simp add: s2_def)
  define s4 where "s4 = s3\<lparr>fmPhase := AtWait\<rparr>"
  have "batchStep cfg c True s3 = s4" using sel px by (simp add: batchStep_def s2_def s3_def s4_def)
  then have r4: "fmreach cfg c True (fmInit st [d]) s4"
    using fmreach.step [OF r3 fmstep.batch] by (simp add: s3_def)
  define s5 where "s5 = s4\<lparr>fmChecks := [Asking 0]\<rparr>"
  have r5: "fmreach cfg c True (fmInit st [d]) s5"
    using fmreach.step [OF r4 fmstep.check_asks [of s4 "[]" 0 "[]"]] sel by (simp add: s2_def s3_def s4_def s5_def)
  define s6 where "s6 = s5\<lparr>fmChecks := [], fmFailFastCancelled := True, fmCtxDone := True\<rparr>"
  have "answerStep cfg c True 0 (s5\<lparr>fmChecks := []\<rparr>) = s6"
    using sel px miss by (simp add: answerStep_def s2_def s3_def s4_def s5_def s6_def)
  then have "fmreach cfg c True (fmInit st [d]) s6"
    using fmreach.step [OF r5 fmstep.check_answers [of s5 "[]" 0 "[]"]] by (simp add: s5_def)
  then show ?thesis using sel by (intro exI [of _ s6]) (simp add: s2_def s3_def s4_def s5_def s6_def)
qed

section \<open>The properties\<close>

text \<open>
  Property C13. The search is exact. When it ends and its context was not cancelled, then its
  result is no error, and it lists, in the order of the request, exactly the digests that are
  neither in the local index (with the size asked for) nor found on the proxy (within the size
  limit for proxied blobs), whatever the order in which the proxy answers; a fail-fast search
  that ends this way has found every digest.
\<close>

theorem findMissing_exact:
  assumes "fmreach cfg c failFast (fmInit st ds) s" "FindMissingCasBlobs s = Some r" "\<not> fmCtxDone s" "failFast \<Longrightarrow> \<not> isl r"
  shows "r = Inr (filter (\<lambda>d. \<not> avail cfg c st d) ds) \<and> (failFast \<longrightarrow> r = Inr [])"
proof -
  have i: "fm_inv cfg c failFast st ds s" using fmreach_inv [OF assms(1)] by simp
  have "\<not> isl r"
    using fmreach_err_ok [OF assms(1)] assms(2-4)
    by (cases r) (auto simp: fm_err_ok_def FindMissing_Inl)
  then obtain ms where r: "r = Inr ms" by (cases r) auto
  then have "FindMissingCasBlobs s = Some (Inr ms)" using assms(2) by simp
  note f = fm_finished_exact [OF i this assms(3)]
  moreover have "filter (\<lambda>d. \<not> avail cfg c st d) ds = []" if failFast
  proof -
    have "fmPhase s = Done None" using assms(2) r by (simp add: FindMissing_Inr)
    then show ?thesis
      using fm_inv_finished_entry(2) [OF i _ assms(3) _ that] by (auto simp: filter_empty_conv in_set_conv_nth)
  qed
  ultimately show ?thesis using r by simp
qed

definition demoDigest :: digest where
  "demoDigest = \<lparr>dHash = demoHash, dSizeBytes = 5\<rparr>"

lemma Peek_NewSizedLRU [simp]: "Peek k (NewSizedLRU m b) = None"
  by (simp add: Peek_def NewSizedLRU_def)

lemma demoDigest_missing: "\<not> localHit c (demoState m) demoDigest"
  by (simp add: localHit_def demoDigest_def demoState_def)

text \<open>A proxy that has nothing.\<close>

definition emptyProxy :: proxy where
  "emptyProxy = \<lparr>proxyGet = (\<lambda>_ _ _ _. (None, - 1, None)), proxyContains = (\<lambda>_ _ _ _. (False, - 1))\<rparr>"

definition emptyProxyConfig :: dcConfig where
  "emptyProxyConfig = (demoConfig Identity)\<lparr>cProxy := Some emptyProxy\<rparr>"

theorem findMissing_exact_witness:
  "\<exists>s. fmreach (demoConfig Identity) emptyCtx False (fmInit (demoState 8192) [demoDigest]) s \<and>
     FindMissingCasBlobs s = Some (Inr [demoDigest]) \<and>
     Inr [demoDigest] = (Inr (filter (\<lambda>d. \<not> avail (demoConfig Identity) emptyCtx (demoState 8192) d) [demoDigest])
       :: fm_error + digest list)"
proof -
  have "cProxy (demoConfig Identity) = None" by (simp add: demoConfig_def)
  from single_no_proxy [OF demoDigest_missing this, of False emptyCtx 8192]
  obtain s where s: "fmreach (demoConfig Identity) emptyCtx False (fmInit (demoState 8192) [demoDigest]) s"
      "FindMissingCasBlobs s = Some (Inr [demoDigest])" "\<not> fmCtxDone s" by auto
  show ?thesis using findMissing_exact [OF s] s by blast
qed





text \<open>
  A fail-fast search may answer either way about a missing blob. For a digest that
  is neither in the local index nor on the proxy there is a run that returns the error for a
  missing blob, and there is a run that returns no error: the check cancels the context and
  then signs off, so that at the final \<open>select\<close> both cases are ready and the runtime picks one.
\<close>

theorem failFast_select_race:
  assumes "\<not> localHit c st d" "cProxy cfg = Some p" "dSizeBytes d \<le> cMaxProxyBlobSize cfg"
    and "\<not> fst (proxyContains p c CAS (dHash d) (dSizeBytes d))"
  shows "(\<exists>s. fmreach cfg c True (fmInit st [d]) s \<and> FindMissingCasBlobs s = Some (Inl errMissingBlob)) \<and>
    (\<exists>s. fmreach cfg c True (fmInit st [d]) s \<and> FindMissingCasBlobs s = Some (Inr [d]))"
proof -
  obtain s where s: "fmreach cfg c True (fmInit st [d]) s" "fmPhase s = AtWait" "fmChecks s = []" "fmCtxDone s"
      "fmFailFastCancelled s" "fmDone s = [Some d]" "fmRest s = []"
    using single_at_select [OF assms] by blast
  have "fmreach cfg c True (fmInit st [d]) (s\<lparr>fmPhase := cancelResult s\<rparr>)"
    by (rule fmreach.step [OF s(1) fmstep.wait_cancelled [OF s(2,4)]])
  moreover have "FindMissingCasBlobs (s\<lparr>fmPhase := cancelResult s\<rparr>) = Some (Inl errMissingBlob)"
    using s by (simp add: FindMissing_Inl cancelResult_def)
  moreover have "fmreach cfg c True (fmInit st [d]) (s\<lparr>fmPhase := Done None\<rparr>)"
    by (rule fmreach.step [OF s(1) fmstep.wait_finished [OF s(2,3)]])
  moreover have "FindMissingCasBlobs (s\<lparr>fmPhase := Done None\<rparr>) = Some (Inr [d])"
    using s by (simp add: FindMissing_Inr filterNonNil_def)
  ultimately show ?thesis by blast
qed

theorem failFast_select_race_witness:
  "\<exists>s. fmreach emptyProxyConfig emptyCtx True (fmInit (demoState 8192) [demoDigest]) s \<and>
     FindMissingCasBlobs s = Some (Inr [demoDigest])"
proof -
  have "cProxy emptyProxyConfig = Some emptyProxy" "dSizeBytes demoDigest \<le> cMaxProxyBlobSize emptyProxyConfig"
      "\<not> fst (proxyContains emptyProxy emptyCtx CAS (dHash demoDigest) (dSizeBytes demoDigest))"
    by (simp_all add: emptyProxyConfig_def demoConfig_def demoDigest_def emptyProxy_def)
  from failFast_select_race [OF demoDigest_missing this, of 8192] show ?thesis by blast
qed

end
