(* ===== verification/LoadCache.thy ===== *)
theory LoadCache
  imports DiskCache "HOL-Library.Multiset"
begin

text \<open>
  \<open>cache/disk/load.go\<close> and \<open>options.go\<close>: starting the disk cache. The options are applied to the
  default configuration, the directories are created, files of the two older directory layouts
  are migrated, and the files of the cache directory are scanned, sorted by access time and
  added to a new index.

  A directory is a tree, as \<open>os.ReadDir\<close> shows it: names with subdirectories and files, of a
  file whether it is regular, its size and its access time. \<open>loadFaults\<close> says which system calls
  fail, by path.
\<close>

section \<open>Directories\<close>

datatype dirent = DirEnt "(string \<times> dirent) list" | FileEnt bool int int

type_synonym listing = "(string \<times> dirent) list"

record loadFaults =
  lfReadDir :: "string \<Rightarrow> bool"
  lfInfo :: "string \<Rightarrow> bool"
  lfRemove :: "string \<Rightarrow> bool"
  lfMkdir :: "string \<Rightarrow> bool"
  lfRename :: "string \<Rightarrow> bool"

definition noLoadFaults :: loadFaults where
  "noLoadFaults = \<lparr>lfReadDir = (\<lambda>_. False), lfInfo = (\<lambda>_. False), lfRemove = (\<lambda>_. False),
     lfMkdir = (\<lambda>_. False), lfRename = (\<lambda>_. False)\<rparr>"

datatype load_error =
    ReadDirFailed string
  | UnexpectedFile string
  | UnexpectedDir string
  | UnrecognisedDirectory string
  | UnexpectedDirectory string
  | NoFileInfo string
  | UnrecognizedFile string
  | BadLogicalSize string string
  | NoRandomString string
  | RemoveError string

text \<open>\<open>strings.ToLower\<close>, on the letters that \<open>.ds_store\<close> has.\<close>

definition toLowerChar :: "char \<Rightarrow> char" where
  "toLowerChar c = (let n = (of_char c :: nat) in if 65 \<le> n \<and> n \<le> 90 then char_of (n + 32) else c)"

definition isDSStore :: "string \<Rightarrow> bool" where
  "isDSStore name \<longleftrightarrow> map toLowerChar name = ''.ds_store''"

definition lostAndFound :: string where "lostAndFound = ''lost+found''"

text \<open>The regular expression \<open>^[a-f0-9]{2}$\<close>.\<close>

definition hex2 :: "string \<Rightarrow> bool" where
  "hex2 s \<longleftrightarrow> length s = 2 \<and> list_all is_hex s"

section \<open>File names\<close>

text \<open>
  The regular expression \<open>^([a-f0-9]{64})(?:-([1-9][0-9]*))?-([0-9a-zA-Z]+)(\.v1)?$\<close>: its four
  groups, the empty string for one that takes no part. The random string has neither a dash nor a
  dot, so a suffix \<open>.v1\<close> can only be the fourth group, and the dashes decide the rest.
\<close>

definition is_alnum :: "char \<Rightarrow> bool" where
  "is_alnum c = (let n = (of_char c :: nat) in 48 \<le> n \<and> n \<le> 57 \<or> 65 \<le> n \<and> n \<le> 90 \<or> 97 \<le> n \<and> n \<le> 122)"

definition sizeGroup :: "string \<Rightarrow> bool" where
  "sizeGroup s \<longleftrightarrow> s \<noteq> [] \<and> hd s \<noteq> CHR ''0'' \<and> list_all (\<lambda>c. digit_val c \<noteq> None) s"

definition randomGroup :: "string \<Rightarrow> bool" where
  "randomGroup s \<longleftrightarrow> s \<noteq> [] \<and> list_all is_alnum s"

definition findSubmatch :: "string \<Rightarrow> (string \<times> string \<times> string \<times> string) option" where
  "findSubmatch s =
     (let h = take 64 s; t = drop 64 s; v1 = hasSuffix t ''.v1''; u = trimSuffix t ''.v1'';
          suffix = (if v1 then ''.v1'' else [])
      in if \<not> hex64 h then None
         else case split_on CHR ''-'' u of
             [a, r] \<Rightarrow> if a = [] \<and> randomGroup r then Some (h, [], r, suffix) else None
           | [a, n, r] \<Rightarrow> if a = [] \<and> sizeGroup n \<and> randomGroup r then Some (h, n, r, suffix) else None
           | _ \<Rightarrow> None)"

section \<open>Scanning\<close>

text \<open>One position of the two slices of \<open>scanResult\<close>.\<close>

record scanItem =
  siKey :: string
  siItem :: lruItem
  siTs :: int

definition scanDirKind :: "string \<Rightarrow> (string \<times> EntryKind) option" where
  "scanDirKind d =
     (let parts = splitN_on 3 CHR ''/'' d;
          scoped = length parts = 3 \<and> hex64 (parts ! 0);
          prefixID = (if scoped then parts ! 0 else []);
          cacheDir = (if scoped then path_join [parts ! 1, parts ! 2] else d)
      in if hasPrefix cacheDir ''cas.v2/'' then Some (prefixID, CAS)
         else if hasPrefix cacheDir ''ac.v2/'' then Some (prefixID, AC)
         else if hasPrefix cacheDir ''raw.v2/'' then Some (prefixID, RAW)
         else None)"

text \<open>The body of the loop over the entries of a directory; \<open>None\<close> is \<open>continue\<close>.\<close>

definition scanFile :: "loadFaults \<Rightarrow> string \<Rightarrow> string \<Rightarrow> EntryKind \<Rightarrow> string \<times> dirent \<Rightarrow> load_error + scanItem option" where
  "scanFile lf dirName prefixID kind de =
     (case snd de of
        DirEnt _ \<Rightarrow> if fst de = lostAndFound then Inr None else Inl (UnexpectedDirectory (path_join [dirName, fst de]))
      | FileEnt regular sz ts \<Rightarrow>
          if lfInfo lf (path_join [dirName, fst de]) then Inl (NoFileInfo (path_join [dirName, fst de]))
          else
            case findSubmatch (last (split_on CHR ''/'' (fst de))) of
              None \<Rightarrow> Inl (UnrecognizedFile (path_join [dirName, fst de]))
            | Some (hash, sm2, random, sm4) \<Rightarrow>
                case (if sm2 \<noteq> [] then parse_int64 sm2 else Some sz) of
                  None \<Rightarrow> Inl (BadLogicalSize sm2 (path_join [dirName, fst de]))
                | Some logical \<Rightarrow>
                    if random = [] then Inl (NoRandomString (path_join [dirName, fst de]))
                    else Inr (Some \<lparr>siKey = LookupKeyForStoragePrefixID prefixID kind hash,
                      siItem = \<lparr>itemSize = logical, sizeOnDisk = sz, randomStr = random, legacy = (sm4 = ''.v1'')\<rparr>,
                      siTs = ts\<rparr>))"

fun scanFiles :: "loadFaults \<Rightarrow> string \<Rightarrow> string \<Rightarrow> EntryKind \<Rightarrow> listing \<Rightarrow> load_error + scanItem list" where
  "scanFiles lf dirName prefixID kind [] = Inr []"
| "scanFiles lf dirName prefixID kind (de # des) =
     (case scanFile lf dirName prefixID kind de of
        Inl e \<Rightarrow> Inl e
      | Inr x \<Rightarrow>
          (case scanFiles lf dirName prefixID kind des of
             Inl e \<Rightarrow> Inl e
           | Inr xs \<Rightarrow> Inr (case x of None \<Rightarrow> xs | Some y \<Rightarrow> y # xs)))"

text \<open>What a worker does with one directory.\<close>

definition scanOneDir :: "loadFaults \<Rightarrow> string \<Rightarrow> string \<times> listing \<Rightarrow> load_error + scanItem list" where
  "scanOneDir lf dir d =
     (let dirName = path_join [dir, fst d]
      in case scanDirKind (fst d) of
           None \<Rightarrow> Inl (UnrecognisedDirectory dirName)
         | Some (prefixID, kind) \<Rightarrow>
             if lfReadDir lf dirName then Inl (ReadDirFailed dirName)
             else scanFiles lf dirName prefixID kind (snd d))"

text \<open>
  \<open>queueCacheDirs\<close>: the directories sent to the workers, each with its listing, up to the end or
  to the first error.
\<close>

fun queueSubdirs :: "string \<Rightarrow> string \<Rightarrow> listing \<Rightarrow> (string \<times> listing) list \<times> load_error option" where
  "queueSubdirs rootRel name [] = ([], None)"
| "queueSubdirs rootRel name ((name2, de2) # rest) =
     (let dirPath = path_join [rootRel, name, name2]
      in case de2 of
           FileEnt _ _ _ \<Rightarrow>
             if isDSStore name2 then queueSubdirs rootRel name rest else ([], Some (UnexpectedFile dirPath))
         | DirEnt sub \<Rightarrow>
             if name2 = lostAndFound then queueSubdirs rootRel name rest
             else if \<not> hex2 name2 then ([], Some (UnexpectedDir dirPath))
             else (let (ds, err) = queueSubdirs rootRel name rest in ((dirPath, sub) # ds, err)))"

fun queueEntries :: "loadFaults \<Rightarrow> string \<Rightarrow> string \<Rightarrow> listing \<Rightarrow> (string \<times> listing) list \<times> load_error option" where
  "queueEntries lf root rootRel [] = ([], None)"
| "queueEntries lf root rootRel ((name, de) # rest) =
     (case de of
        FileEnt _ _ _ \<Rightarrow>
          if isDSStore name then queueEntries lf root rootRel rest
          else ([], Some (UnexpectedFile (path_join [rootRel, name])))
      | DirEnt sub \<Rightarrow>
          if name = lostAndFound then queueEntries lf root rootRel rest
          else if rootRel = [] \<and> hex64 name then queueEntries lf root rootRel rest
          else if hex64 rootRel \<and> name \<noteq> ''ac.v2'' \<and> name \<noteq> ''cas.v2''
            then ([], Some (UnexpectedDir (path_join [rootRel, name])))
          else if name \<noteq> ''ac.v2'' \<and> name \<noteq> ''cas.v2'' \<and> name \<noteq> ''raw.v2''
            then ([], Some (UnexpectedDir (path_join [rootRel, name])))
          else if lfReadDir lf (path_join [root, name]) then ([], Some (ReadDirFailed (path_join [root, name])))
          else
            (case queueSubdirs rootRel name sub of
               (ds, Some e) \<Rightarrow> (ds, Some e)
             | (ds, None) \<Rightarrow> (let (ds', err) = queueEntries lf root rootRel rest in (ds @ ds', err))))"

definition queueCacheDirs :: "loadFaults \<Rightarrow> string \<Rightarrow> string \<Rightarrow> listing \<Rightarrow> (string \<times> listing) list \<times> load_error option" where
  "queueCacheDirs lf dir rootRel des =
     (let root = (if rootRel \<noteq> [] then path_join [dir, rootRel] else dir)
      in if lfReadDir lf root then ([], Some (ReadDirFailed root)) else queueEntries lf root rootRel des)"

text \<open>The loop over the entries of the cache directory itself; also whether it has unscoped ones.\<close>

fun queueScopes :: "loadFaults \<Rightarrow> string \<Rightarrow> listing \<Rightarrow> (string \<times> listing) list \<times> (load_error + bool)" where
  "queueScopes lf dir [] = ([], Inr False)"
| "queueScopes lf dir ((name, de) # rest) =
     (case de of
        DirEnt sub \<Rightarrow>
          if hex64 name then
            (case queueCacheDirs lf dir name sub of
               (ds, Some e) \<Rightarrow> (ds, Inl e)
             | (ds, None) \<Rightarrow> (let (ds', r) = queueScopes lf dir rest in (ds @ ds', r)))
          else if name = lostAndFound then queueScopes lf dir rest
          else if name \<noteq> ''ac.v2'' \<and> name \<noteq> ''cas.v2'' \<and> name \<noteq> ''raw.v2'' then ([], Inl (UnexpectedDir name))
          else (let (ds, r) = queueScopes lf dir rest in (ds, map_sum id (\<lambda>_. True) r))
      | FileEnt _ _ _ \<Rightarrow>
          if isDSStore name then queueScopes lf dir rest else ([], Inl (UnexpectedFile name)))"

definition queueAll :: "loadFaults \<Rightarrow> string \<Rightarrow> listing \<Rightarrow> (string \<times> listing) list \<times> load_error option" where
  "queueAll lf dir des =
     (if lfReadDir lf dir then ([], Some (ReadDirFailed dir))
      else case queueScopes lf dir des of
          (ds, Inl e) \<Rightarrow> (ds, Some e)
        | (ds, Inr False) \<Rightarrow> (ds, None)
        | (ds, Inr True) \<Rightarrow> (let (ds', err) = queueCacheDirs lf dir [] des in (ds @ ds', err)))"

text \<open>
  The workers take the directories in the order in which they were sent. A worker whose directory
  has an error returns, and takes no further one: when as many directories have failed as there
  are workers, the rest is not received. The channel buffers \<open>numWorkers\<close> names; a sender that
  has more left waits for ever.
\<close>

definition numWorkers :: "nat \<Rightarrow> nat" where
  "numWorkers numCPU = (if numCPU < 4 then 4 else if numCPU > 16 then 16 else numCPU)"

fun received :: "nat \<Rightarrow> (load_error + 'a) list \<Rightarrow> (load_error + 'a) list" where
  "received 0 rs = []"
| "received (Suc w) [] = []"
| "received (Suc w) (Inr x # rs) = Inr x # received (Suc w) rs"
| "received (Suc w) (Inl e # rs) = Inl e # received w rs"

definition errorsOf :: "(load_error + 'a) list \<Rightarrow> load_error list" where
  "errorsOf rs = map projl (filter isl rs)"

definition resultsOf :: "(load_error + 'a) list \<Rightarrow> 'a list" where
  "resultsOf rs = map projr (filter (\<lambda>r. \<not> isl r) rs)"

text \<open>
  \<open>scanDir\<close>: \<open>None\<close> when it never returns. An error is one of the errors listed: that of the
  queue, or of the worker that failed first. The results of the directories arrive in any order:
  \<open>arrive\<close> permutes them.
\<close>

definition scanDir :: "loadFaults \<Rightarrow> nat \<Rightarrow> (scanItem list list \<Rightarrow> scanItem list list) \<Rightarrow> string \<Rightarrow> listing \<Rightarrow>
    (load_error list + scanItem list) option" where
  "scanDir lf workers arrive dir des =
     (let (ds, err) = queueAll lf dir des;
          rs = map (scanOneDir lf dir) ds;
          taken = received workers rs
      in if length rs - length taken > workers then None
         else case err of
             Some e \<Rightarrow> Some (Inl [e])
           | None \<Rightarrow>
               if errorsOf taken \<noteq> [] then Some (Inl (errorsOf taken))
               else Some (Inr (concat (arrive (resultsOf taken)))))"

section \<open>Building the index\<close>

fun addLoaded :: "dcConfig \<Rightarrow> loadFaults \<Rightarrow> scanItem list \<Rightarrow> dcState \<Rightarrow> (load_error option \<times> dcState) option" where
  "addLoaded cfg lf [] st = Some (None, st)"
| "addLoaded cfg lf (x # xs) st =
     (case Add (siKey x) (siItem x) (dLru st) of
        None \<Rightarrow> None
      | Some (ok, l) \<Rightarrow>
          (let st1 = setLru cfg l st
           in if ok then addLoaded cfg lf xs st1
              else
                (let f = elementFile cfg (siKey x, siItem x)
                 in if lfRemove lf f \<or> dFs st1 f = None then Some (Some (RemoveError f), st1)
                    else addLoaded cfg lf xs (st1\<lparr>dFs := (dFs st1)(f := None)\<rparr>))))"

text \<open>
  \<open>sort.Sort\<close> is not stable: \<open>srt\<close> is any function that permutes the items and orders them by
  access time (\<open>sorts\<close>).
\<close>

definition sorts :: "(scanItem list \<Rightarrow> scanItem list) \<Rightarrow> bool" where
  "sorts srt \<longleftrightarrow> (\<forall>xs. mset (srt xs) = mset xs \<and> sorted (map siTs (srt xs)))"

definition arrives :: "(scanItem list list \<Rightarrow> scanItem list list) \<Rightarrow> bool" where
  "arrives arrive \<longleftrightarrow> (\<forall>xs. mset (arrive xs) = mset xs)"

definition loadExistingFiles :: "dcConfig \<Rightarrow> loadFaults \<Rightarrow> nat \<Rightarrow> (scanItem list list \<Rightarrow> scanItem list list) \<Rightarrow>
    (scanItem list \<Rightarrow> scanItem list) \<Rightarrow> int \<Rightarrow> listing \<Rightarrow> dcState \<Rightarrow> (load_error list + dcState) option" where
  "loadExistingFiles cfg lf workers arrive srt maxSizeBytes des st =
     (case scanDir lf workers arrive (cDir cfg) des of
        None \<Rightarrow> None
      | Some (Inl es) \<Rightarrow> Some (Inl es)
      | Some (Inr items) \<Rightarrow>
          (case addLoaded cfg lf (srt items) (st\<lparr>dLru := NewSizedLRU maxSizeBytes True\<rparr>) of
             None \<Rightarrow> None
           | Some (Some e, _) \<Rightarrow> Some (Inl [e])
           | Some (None, st') \<Rightarrow> Some (Inr st')))"

section \<open>Migration\<close>

datatype migrateOp = MvFile string string | RmFile string | RmTree string

text \<open>\<open>migrateV1Subdir\<close>: what it did, and whether it failed.\<close>

fun migrateV1Files :: "loadFaults \<Rightarrow> string \<Rightarrow> string \<Rightarrow> string \<Rightarrow> listing \<Rightarrow> migrateOp list \<times> bool" where
  "migrateV1Files lf oldDir destDir suffix [] = ([], False)"
| "migrateV1Files lf oldDir destDir suffix ((name, de) # rest) =
     (let oldPath = path_join [oldDir, name]
      in if \<not> hex64 name then
           (if isDSStore name then
              (let (ops, failed) = migrateV1Files lf oldDir destDir suffix rest
               in (if lfRemove lf oldPath then ops else RmFile oldPath # ops, failed))
            else ([], True))
         else if lfRename lf oldPath then ([], True)
         else
           (let (ops, failed) = migrateV1Files lf oldDir destDir suffix rest
            in (MvFile oldPath (path_join [destDir, name] @ suffix) # ops, failed)))"

definition migrateV1Subdir :: "loadFaults \<Rightarrow> string \<Rightarrow> string \<Rightarrow> EntryKind \<Rightarrow> listing \<Rightarrow> migrateOp list \<times> bool" where
  "migrateV1Subdir lf oldDir destDir kind des =
     (if lfReadDir lf oldDir then ([], True)
      else if kind = CAS then
        (case migrateV1Files lf oldDir destDir ''-556677.v1'' des of
           (ops, True) \<Rightarrow> (ops, True)
         | (ops, False) \<Rightarrow> if lfRemove lf oldDir then (ops, True) else (ops @ [RmFile oldDir], False))
      else migrateV1Files lf oldDir destDir ''-112233'' des)"

text \<open>
  The body of a worker's loop: what it did, a failed rename that it sends to \<open>errChan\<close>, or the
  panic of the slice \<open>oldName[:2]\<close> of a name that is too short.
\<close>

datatype migrateItem = ItemDone "migrateOp list" | ItemRenameFailed | ItemPanics

definition migrateOne :: "loadFaults \<Rightarrow> string \<Rightarrow> string \<Rightarrow> EntryKind \<Rightarrow> string \<times> dirent \<Rightarrow> migrateItem" where
  "migrateOne lf sourceDir targetDir kind item =
     (let oldName = fst item
      in case snd item of
           DirEnt sub \<Rightarrow>
             if length oldName < 2 then ItemPanics
             else ItemDone (fst (migrateV1Subdir lf (path_join [sourceDir, oldName])
                                   (path_join [targetDir, take 2 oldName]) kind sub))
         | FileEnt regular sz ts \<Rightarrow>
             if \<not> regular \<or> \<not> hex64 oldName then ItemDone []
             else
               (let src = path_join [sourceDir, oldName];
                    dest = path_join [targetDir, take 2 oldName, oldName @ ''-222444666''] @
                             (if kind = CAS then ''.v1'' else [])
                in if lfRename lf src then ItemRenameFailed else ItemDone [MvFile src dest]))"

text \<open>
  \<open>migrateDirectory\<close>. When a rename fails, the main goroutine receives the error in its loop and
  closes \<open>itemChan\<close>: its next send on it, or its second \<open>close\<close>, panics; or it has left the loop,
  and waits for ever for the worker, which waits for ever to send the error. A panic of a worker
  ends the process. In no case does the function return.
\<close>

datatype migrate_result = Migrated "migrateOp list" | MigrateFailed string | NeverReturns

definition itemOps :: "migrateItem \<Rightarrow> migrateOp list" where
  "itemOps r = (case r of ItemDone ops \<Rightarrow> ops | _ \<Rightarrow> [])"

definition migrateDirectory :: "loadFaults \<Rightarrow> string \<Rightarrow> EntryKind \<Rightarrow> listing option \<Rightarrow> migrate_result" where
  "migrateDirectory lf baseDir kind src =
     (let sourceDir = path_join [baseDir, kindString kind]; targetDir = path_join [baseDir, DirName kind]
      in case src of
           None \<Rightarrow> Migrated []
         | Some des \<Rightarrow>
             if lfReadDir lf sourceDir then MigrateFailed sourceDir
             else
               (let rs = map (migrateOne lf sourceDir targetDir kind) des
                in if \<exists>r \<in> set rs. r = ItemRenameFailed \<or> r = ItemPanics then NeverReturns
                   else if lfRemove lf sourceDir then MigrateFailed sourceDir
                   else Migrated (concat (map itemOps rs) @ [RmTree sourceDir])))"

definition migrateDirectories :: "loadFaults \<Rightarrow> string \<Rightarrow> (EntryKind \<Rightarrow> listing option) \<Rightarrow> migrate_result" where
  "migrateDirectories lf dir src =
     (case migrateDirectory lf dir AC (src AC) of
        Migrated ops1 \<Rightarrow>
          (case migrateDirectory lf dir CAS (src CAS) of
             Migrated ops2 \<Rightarrow>
               (case migrateDirectory lf dir RAW (src RAW) of
                  Migrated ops3 \<Rightarrow> Migrated (ops1 @ ops2 @ ops3)
                | r \<Rightarrow> r)
           | r \<Rightarrow> r)
      | r \<Rightarrow> r)"

section \<open>Options and \<open>New\<close>\<close>

datatype dc_option =
    WithStorageMode string
  | WithZstdImplementation string
  | WithMaxBlobSize int
  | WithProxyBackend "proxy option"
  | WithProxyMaxBlobSize int
  | WithAccessLogger
  | WithEndpointMetrics
  | WithOperationObserver bool
  | WithLRUObserver bool

text \<open>\<open>CacheConfig\<close>: the disk cache and, when there is one, the metrics decorator's two parts.\<close>

record cacheConfig =
  ccDisk :: dcConfig
  ccMetrics :: "(bool \<times> bool) option"

datatype new_error =
    UnsupportedStorageMode string
  | UnknownZstd string
  | InvalidMaxBlobSize int
  | ProxySetTwice
  | InvalidMaxProxyBlobSize int
  | MetricsSetTwice
  | MkdirError string
  | SymlinkError string
  | MigrationError string
  | LoadError "load_error list"

definition applyOption :: "(string \<Rightarrow> zstd option) \<Rightarrow> dc_option \<Rightarrow> cacheConfig \<Rightarrow> new_error + cacheConfig" where
  "applyOption registry opt c =
     (case opt of
        WithStorageMode mode \<Rightarrow>
          if mode = ''zstd'' then Inr (c\<lparr>ccDisk := (ccDisk c)\<lparr>cStorageMode := Zstandard\<rparr>\<rparr>)
          else if mode = ''uncompressed'' then Inr (c\<lparr>ccDisk := (ccDisk c)\<lparr>cStorageMode := Identity\<rparr>\<rparr>)
          else Inl (UnsupportedStorageMode mode)
      | WithZstdImplementation impl \<Rightarrow>
          (case registry impl of
             None \<Rightarrow> Inl (UnknownZstd impl)
           | Some z \<Rightarrow> Inr (c\<lparr>ccDisk := (ccDisk c)\<lparr>cZstd := z\<rparr>\<rparr>))
      | WithMaxBlobSize n \<Rightarrow>
          if n \<le> 0 then Inl (InvalidMaxBlobSize n) else Inr (c\<lparr>ccDisk := (ccDisk c)\<lparr>cMaxBlobSize := n\<rparr>\<rparr>)
      | WithProxyBackend p \<Rightarrow>
          if cProxy (ccDisk c) \<noteq> None \<and> p \<noteq> None then Inl ProxySetTwice
          else if p \<noteq> None then Inr (c\<lparr>ccDisk := (ccDisk c)\<lparr>cProxy := p\<rparr>\<rparr>)
          else Inr c
      | WithProxyMaxBlobSize n \<Rightarrow>
          if n \<le> 0 then Inl (InvalidMaxProxyBlobSize n)
          else Inr (c\<lparr>ccDisk := (ccDisk c)\<lparr>cMaxProxyBlobSize := n\<rparr>\<rparr>)
      | WithAccessLogger \<Rightarrow> Inr c
      | WithEndpointMetrics \<Rightarrow>
          (case ccMetrics c of
             None \<Rightarrow> Inr (c\<lparr>ccMetrics := Some (True, False)\<rparr>)
           | Some (counter, obs) \<Rightarrow>
               if counter then Inl MetricsSetTwice else Inr (c\<lparr>ccMetrics := Some (True, obs)\<rparr>))
      | WithOperationObserver present \<Rightarrow>
          if \<not> present then Inr c
          else Inr (c\<lparr>ccMetrics := Some (case ccMetrics c of None \<Rightarrow> False | Some m \<Rightarrow> fst m, True)\<rparr>)
      | WithLRUObserver present \<Rightarrow> Inr (c\<lparr>ccDisk := (ccDisk c)\<lparr>cObserver := present\<rparr>\<rparr>))"

fun applyOptions :: "(string \<Rightarrow> zstd option) \<Rightarrow> dc_option list \<Rightarrow> cacheConfig \<Rightarrow> new_error + cacheConfig" where
  "applyOptions registry [] c = Inr c"
| "applyOptions registry (opt # opts) c =
     (case applyOption registry opt c of Inl e \<Rightarrow> Inl e | Inr c' \<Rightarrow> applyOptions registry opts c')"

definition defaultConfig :: "string \<Rightarrow> zstd \<Rightarrow> (bytes \<Rightarrow> actionResult option) \<Rightarrow> cacheConfig" where
  "defaultConfig dir z unmarshal =
     \<lparr>ccDisk = \<lparr>cDir = dir, cProxy = None, cObserver = False, cStorageMode = Zstandard, cZstd = z,
        cMaxBlobSize = maxInt64, cMaxProxyBlobSize = maxInt64, cCaptureSem = Some lruCaptureBudgetBytes,
        cUnmarshalAR = unmarshal\<rparr>, ccMetrics = None\<rparr>"

definition cacheSubDirs :: "string \<Rightarrow> string list" where
  "cacheSubDirs dir =
     [path_join [dir, DirName kind, [c1, c2]].
        c1 \<leftarrow> ''0123456789abcdef'', c2 \<leftarrow> ''0123456789abcdef'', kind \<leftarrow> [CAS, AC, RAW]]"

text \<open>
  What \<open>New\<close> reads of the system: the real path of the directory, the directories of the old
  layouts, and, after the migration, the cache directory and the state before loading.
\<close>

record newEnv =
  neEvalSymlinks :: "string \<Rightarrow> string option"
  neOldDirs :: "string \<Rightarrow> EntryKind \<Rightarrow> listing option"
  neListing :: "migrateOp list \<Rightarrow> listing"
  neState :: "migrateOp list \<Rightarrow> dcState"
  neNumCPU :: nat

definition New :: "loadFaults \<Rightarrow> newEnv \<Rightarrow> (string \<Rightarrow> zstd option) \<Rightarrow> (bytes \<Rightarrow> actionResult option) \<Rightarrow>
    (scanItem list list \<Rightarrow> scanItem list list) \<Rightarrow> (scanItem list \<Rightarrow> scanItem list) \<Rightarrow>
    string \<Rightarrow> int \<Rightarrow> dc_option list \<Rightarrow> (new_error + cacheConfig \<times> dcState) option" where
  "New lf env registry unmarshal arrive srt dir0 maxSizeBytes opts =
     (if lfMkdir lf dir0 then Some (Inl (MkdirError dir0))
      else case neEvalSymlinks env dir0 of
        None \<Rightarrow> Some (Inl (SymlinkError dir0))
      | Some dir \<Rightarrow>
          case registry ''go'' of
            None \<Rightarrow> Some (Inl (UnknownZstd ''go''))
          | Some z \<Rightarrow>
              case applyOptions registry opts (defaultConfig dir z unmarshal) of
                Inl e \<Rightarrow> Some (Inl e)
              | Inr c \<Rightarrow>
                  case filter (lfMkdir lf) (cacheSubDirs dir) of
                    d # _ \<Rightarrow> Some (Inl (MkdirError d))
                  | [] \<Rightarrow>
                      case migrateDirectories lf dir (neOldDirs env dir) of
                        NeverReturns \<Rightarrow> None
                      | MigrateFailed d \<Rightarrow> Some (Inl (MigrationError d))
                      | Migrated ops \<Rightarrow>
                          case loadExistingFiles (ccDisk c) lf (numWorkers (neNumCPU env)) arrive srt maxSizeBytes
                                 (neListing env ops) (neState env ops) of
                            None \<Rightarrow> None
                          | Some (Inl es) \<Rightarrow> Some (Inl (LoadError es))
                          | Some (Inr st) \<Rightarrow> Some (Inr (c, st)))"

end
