(* ===== verification/Load_Props.thy ===== *)
theory Load_Props
  imports LoadCache Disk_Props
begin

text \<open>
  What a start of the cache guarantees: the directory scan finds every stored file under the
  lookup key and with the index entry it was stored with, migrated files get names that the scan
  and the index agree on, the index that is built keeps exactly the most recently used files that
  fit, and a scan of too many bad directories never returns.
\<close>

section \<open>File names\<close>

lemma randomGroup_free:
  assumes "randomGroup r"
  shows "CHR ''-'' \<notin> set r" "CHR ''.'' \<notin> set r" "CHR ''/'' \<notin> set r" "r \<noteq> []"
  using assms by (auto simp: randomGroup_def list_all_iff is_alnum_def Let_def)

lemma hasSuffix_v1_dot: "hasSuffix s ''.v1'' \<Longrightarrow> CHR ''.'' \<in> set s"
  unfolding hasSuffix_def by (metis in_set_dropD list.set_intros(1))

lemma trimSuffix_none: "\<not> hasSuffix s p \<Longrightarrow> trimSuffix s p = s"
  by (simp add: trimSuffix_def)

lemma digit_val_show_nat: "c \<in> set (show_nat n) \<Longrightarrow> digit_val c \<noteq> None"
  using show_nat_digits by fastforce

lemma show_nat_pos_hd: "0 < n \<Longrightarrow> hd (show_nat n) \<noteq> CHR ''0''"
proof (induction n rule: show_nat.induct)
  case (1 n)
  show ?case
  proof (cases "n < 10")
    case True
    then have "digit_char n \<noteq> CHR ''0''"
      using digit_val_digit_char [of n] 1(2) by (auto simp: digit_val_def)
    then show ?thesis using True by (subst show_nat.simps) simp
  next
    case False
    then have "hd (show_nat (n div 10)) \<noteq> CHR ''0''" by (intro 1(1)) simp_all
    then show ?thesis using False by (subst show_nat.simps) simp
  qed
qed

lemma sizeGroup_show_int: "0 < n \<Longrightarrow> sizeGroup (show_int n)"
  using show_nat_pos_hd [of "nat n"] digit_val_show_nat
  by (auto simp: sizeGroup_def show_int_def list_all_iff)

lemma show_int_free:
  assumes "0 < n"
  shows "CHR ''-'' \<notin> set (show_int n)" "CHR ''.'' \<notin> set (show_int n)" "show_int n \<noteq> []"
  using assms show_nat_free [of "CHR ''-''"] show_nat_free [of "CHR ''.''"] by (auto simp: show_int_def)

lemma findSubmatch_plain:
  assumes "hex64 h" "randomGroup r"
  shows "findSubmatch (h @ ''-'' @ r) = Some (h, [], r, [])"
    and "findSubmatch (h @ ''-'' @ r @ ''.v1'') = Some (h, [], r, ''.v1'')"
proof -
  note f = randomGroup_free [OF assms(2)]
  have s: "\<not> hasSuffix (CHR ''-'' # r) ''.v1''" using hasSuffix_v1_dot f by force
  have sp: "split_on CHR ''-'' (CHR ''-'' # r) = [[], r]" using f by (simp add: split_on_free)
  show "findSubmatch (h @ ''-'' @ r) = Some (h, [], r, [])"
    using assms s sp hex64_length [OF assms(1)] by (simp add: findSubmatch_def trimSuffix_none Let_def)
  have "hasSuffix ((CHR ''-'' # r) @ ''.v1'') ''.v1''" "trimSuffix ((CHR ''-'' # r) @ ''.v1'') ''.v1'' = CHR ''-'' # r"
    by (rule hasSuffix_append, rule trimSuffix_append)
  then show "findSubmatch (h @ ''-'' @ r @ ''.v1'') = Some (h, [], r, ''.v1'')"
    using assms sp hex64_length [OF assms(1)] by (simp add: findSubmatch_def Let_def)
qed

lemma findSubmatch_sized:
  assumes "hex64 h" "randomGroup r" "0 < sz"
  shows "findSubmatch (h @ ''-'' @ show_int sz @ ''-'' @ r) = Some (h, show_int sz, r, [])"
proof -
  note f = randomGroup_free [OF assms(2)] show_int_free [OF assms(3)]
  have s: "\<not> hasSuffix (CHR ''-'' # show_int sz @ CHR ''-'' # r) ''.v1''" using hasSuffix_v1_dot f by force
  have sp: "split_on CHR ''-'' (CHR ''-'' # show_int sz @ CHR ''-'' # r) = [[], show_int sz, r]"
    using f by (simp add: split_on_append split_on_free)
  show ?thesis
    using assms s sp hex64_length [OF assms(1)] sizeGroup_show_int [OF assms(3)]
    by (simp add: findSubmatch_def trimSuffix_none Let_def)
qed

section \<open>Directory names\<close>

lemma splitN_on_free: "CHR ''/'' \<notin> set s \<Longrightarrow> splitN_on (Suc n) CHR ''/'' s = [s]"
proof (cases n)
  case (Suc m)
  assume "CHR ''/'' \<notin> set s"
  then have "takeWhile (\<lambda>x. x \<noteq> CHR ''/'') s = s" "dropWhile (\<lambda>x. x \<noteq> CHR ''/'') s = []"
    by (auto simp: takeWhile_eq_all_conv)
  then show ?thesis by (simp add: Suc)
qed simp

lemma splitN_on_sep:
  assumes "CHR ''/'' \<notin> set a"
  shows "splitN_on (Suc (Suc n)) CHR ''/'' (a @ CHR ''/'' # b) = a # splitN_on (Suc n) CHR ''/'' b"
proof -
  have p: "\<And>x. x \<in> set a \<Longrightarrow> x \<noteq> CHR ''/''" using assms by auto
  have "takeWhile (\<lambda>x. x \<noteq> CHR ''/'') (a @ CHR ''/'' # b) = a"
    using takeWhile_append2 [of a "\<lambda>x. x \<noteq> CHR ''/''"] p by simp
  moreover have "dropWhile (\<lambda>x. x \<noteq> CHR ''/'') (a @ CHR ''/'' # b) = CHR ''/'' # b"
    using dropWhile_append2 [of a "\<lambda>x. x \<noteq> CHR ''/''"] p by simp
  ultimately show ?thesis by simp
qed

lemma hex_take2_free: "hex64 h \<Longrightarrow> CHR ''/'' \<notin> set (take 2 h)"
  using hex64_free [of h "CHR ''/''"] by (auto dest: in_set_takeD)

lemma DirName_free: "CHR ''/'' \<notin> set (DirName k)"
  by (cases k) simp_all

lemma scanDirKind_scope:
  assumes h: "hex64 h" and p: "p = [] \<or> hex64 p" and raw: "k = RAW \<Longrightarrow> p = []"
  shows "scanDirKind (join_with CHR ''/'' (scopeDirs p k h)) = Some (p, k)"
proof (cases "p = []")
  case True
  have "splitN_on 3 CHR ''/'' (DirName k @ CHR ''/'' # take 2 h) = [DirName k, take 2 h]"
    using splitN_on_sep [OF DirName_free, of 1] splitN_on_free [OF hex_take2_free [OF h], of 1]
    by (simp add: numeral_3_eq_3)
  then show ?thesis
    using True by (cases k) (simp_all add: scanDirKind_def scopeDirs_def Let_def hasPrefix_def)
next
  case False
  then have p64: "hex64 p" and k: "k \<noteq> RAW" using p raw by auto
  have "splitN_on 3 CHR ''/'' (p @ CHR ''/'' # DirName k @ CHR ''/'' # take 2 h) = [p, DirName k, take 2 h]"
    using splitN_on_sep [of p 1] splitN_on_sep [OF DirName_free, of 0] hex64_free [OF p64] by (simp add: numeral_3_eq_3)
  moreover have "path_join [DirName k, take 2 h] = DirName k @ CHR ''/'' # take 2 h"
    using path_join_good [of "[DirName k, take 2 h]"] DirName_good hex_take2_good [OF h] by simp
  ultimately show ?thesis
    using False k p64 by (cases k) (simp_all add: scanDirKind_def scopeDirs_def Let_def hasPrefix_def)
qed

section \<open>A cache directory with one file\<close>

fun nest :: "string list \<Rightarrow> listing \<Rightarrow> listing" where
  "nest [] des = des"
| "nest (d # ds) des = [(d, DirEnt (nest ds des))]"

lemma hex2_take: "hex64 h \<Longrightarrow> hex2 (take 2 h)"
  by (auto simp: hex2_def hex64_def list_all_iff dest: in_set_takeD)

lemma DirName_cases: "DirName k = ''ac.v2'' \<or> DirName k = ''cas.v2'' \<or> DirName k = ''raw.v2''"
  by (cases k) simp_all

lemma DirName_neq [simp]: "DirName k \<noteq> lostAndFound" "\<not> hex64 (DirName k)"
  by (cases k; simp add: lostAndFound_def hex64_def)+

lemma hex2_neq: "hex2 s \<Longrightarrow> s \<noteq> lostAndFound"
  by (auto simp: hex2_def lostAndFound_def)

lemma hex64_neq: "hex64 s \<Longrightarrow> s \<noteq> lostAndFound"
  by (auto simp: hex64_def lostAndFound_def)

lemma path_join_empty: "path_join ([] # ps) = path_join ps"
  by (simp add: path_join_def)

lemma queueAll_nest:
  assumes h: "hex64 h" and p: "p = [] \<or> hex64 p" and raw: "k = RAW \<Longrightarrow> p = []"
  shows "queueAll noLoadFaults dir (nest (scopeDirs p k h) des) = ([(join_with CHR ''/'' (scopeDirs p k h), des)], None)"
proof (cases "p = []")
  case True
  have j: "path_join [DirName k, take 2 h] = DirName k @ CHR ''/'' # take 2 h"
    using path_join_good [of "[DirName k, take 2 h]"] DirName_good hex_take2_good [OF h] by simp
  show ?thesis
    using True h j DirName_cases [of k]
    by (simp add: scopeDirs_def queueAll_def queueCacheDirs_def noLoadFaults_def hex2_take hex2_neq path_join_empty
        Let_def) (auto simp: hex64_def)
next
  case False
  then have p64: "hex64 p" and k: "k \<noteq> RAW" using p raw by auto
  have j: "path_join [p, DirName k, take 2 h] = p @ CHR ''/'' # DirName k @ CHR ''/'' # take 2 h"
    using path_join_good [of "[p, DirName k, take 2 h]"] DirName_good hex_take2_good [OF h] hex64_good [OF p64] by simp
  show ?thesis
    using False k h p64 j DirName_cases [of k]
    by (cases k) (simp_all add: scopeDirs_def queueAll_def queueCacheDirs_def noLoadFaults_def hex2_take hex2_neq
        hex64_neq Let_def, simp_all add: hex64_def lostAndFound_def)
qed

lemma received_ok: "0 < w \<Longrightarrow> list_all (\<lambda>r. \<not> isl r) rs \<Longrightarrow> received w rs = rs"
  by (induction rs rule: received.induct) simp_all

lemma arrives_single: "arrives arrive \<Longrightarrow> arrive [x] = [x]"
  unfolding arrives_def by (metis mset_eq_length length_Suc_conv mset.simps(1) add_mset_eq_single mset_single_iff_right
      mset_single_iff)

text \<open>The index entry that a file was stored under.\<close>

definition storedItem :: "bool \<Rightarrow> int \<Rightarrow> int \<Rightarrow> string \<Rightarrow> lruItem" where
  "storedItem leg logical onDisk r = \<lparr>itemSize = logical, sizeOnDisk = onDisk, randomStr = r, legacy = leg\<rparr>"

definition storedName :: "EntryKind \<Rightarrow> bool \<Rightarrow> string \<Rightarrow> int \<Rightarrow> string \<Rightarrow> string" where
  "storedName k leg h logical r = entryStem k leg h logical @ ''-'' @ r @ legacySuffix k leg"

lemma noLoadFaults_ReadDir [simp]: "\<not> lfReadDir noLoadFaults d"
  by (simp add: noLoadFaults_def)

lemma scanFile_stored:
  assumes h: "hex64 h" and r: "randomGroup r" and leg: "leg \<Longrightarrow> k = CAS"
    and sz: "k = CAS \<Longrightarrow> \<not> leg \<Longrightarrow> 0 < logical \<and> logical \<le> maxInt64"
    and other: "k \<noteq> CAS \<or> leg \<Longrightarrow> logical = onDisk"
  shows "scanFile noLoadFaults dirName p k (storedName k leg h logical r, FileEnt True onDisk ts) =
    Inr (Some \<lparr>siKey = LookupKeyForStoragePrefixID p k h, siItem = storedItem leg logical onDisk r, siTs = ts\<rparr>)"
proof -
  note f = randomGroup_free [OF r]
  have slash: "CHR ''/'' \<notin> set (storedName k leg h logical r)"
    using hex64_free [OF h] f show_int_free_slash by (auto simp: storedName_def entryStem_def legacySuffix_def)
  then have sp: "split_on CHR ''/'' (storedName k leg h logical r) = [storedName k leg h logical r]" by (rule split_on_free)
  show ?thesis
  proof (cases "k = CAS \<and> \<not> leg")
    case True
    then have z: "0 < logical" "in64 logical" using sz by (auto simp: in64_def)
    have "storedName k leg h logical r = h @ ''-'' @ show_int logical @ ''-'' @ r"
      using True by (simp add: storedName_def entryStem_def legacySuffix_def)
    then show ?thesis
      using sp True findSubmatch_sized [OF h r z(1)] parse_show_int [OF z(2)] show_int_free(3) [OF z(1)] f
      by (simp add: scanFile_def noLoadFaults_def storedItem_def)
  next
    case False
    then have eq: "logical = onDisk" using other by auto
    have nm: "storedName k leg h logical r = h @ ''-'' @ r @ (if leg then ''.v1'' else [])"
      using False leg by (auto simp: storedName_def entryStem_def legacySuffix_def)
    show ?thesis
      using sp nm eq findSubmatch_plain [OF h r] f
      by (cases leg) (simp_all add: scanFile_def noLoadFaults_def storedItem_def)
  qed
qed

lemma scanDir_stored:
  assumes h: "hex64 h" and p: "p = [] \<or> hex64 p" and raw: "k = RAW \<Longrightarrow> p = []" and r: "randomGroup r"
    and leg: "leg \<Longrightarrow> k = CAS" and sz: "k = CAS \<Longrightarrow> \<not> leg \<Longrightarrow> 0 < logical \<and> logical \<le> maxInt64"
    and other: "k \<noteq> CAS \<or> leg \<Longrightarrow> logical = onDisk" and w: "0 < w" and arr: "arrives arrive"
  shows "scanDir noLoadFaults w arrive dir
      (nest (scopeDirs p k h) [(storedName k leg h logical r, FileEnt True onDisk ts)]) =
    Some (Inr [\<lparr>siKey = LookupKeyForStoragePrefixID p k h, siItem = storedItem leg logical onDisk r, siTs = ts\<rparr>])"
proof -
  let ?d = "join_with CHR ''/'' (scopeDirs p k h)"
  let ?f = "(storedName k leg h logical r, FileEnt True onDisk ts)"
  let ?x = "\<lparr>siKey = LookupKeyForStoragePrefixID p k h, siItem = storedItem leg logical onDisk r, siTs = ts\<rparr>"
  have one: "scanOneDir noLoadFaults dir (?d, [?f]) = Inr [?x]"
    using scanDirKind_scope [OF h p] raw scanFile_stored [OF h r, of leg k logical onDisk "path_join [dir, ?d]" p ts] leg sz other
    by (simp add: scanOneDir_def Let_def)
  have "received w [Inr [?x]] = [Inr [?x]]" using w by (intro received_ok) simp_all
  then show ?thesis
    using queueAll_nest [OF h p, of k dir "[?f]"] raw one arrives_single [OF arr, of "[?x]"]
    by (simp add: scanDir_def errorsOf_def resultsOf_def Let_def)
qed

lemma key_of_scope:
  "LookupKeyForStoragePrefixID (if k = RAW then [] else scopeID c) k h = LookupKeyForContext c k h"
  by (cases k) (auto simp: LookupKeyForContext_def LookupKeyForStoragePrefixID_def scopeID_def split: option.splits)

lemma show_int_100: "show_int 100 = ''100''"
  by code_simp



section \<open>Building the index\<close>

definition siEntry :: "scanItem \<Rightarrow> string \<times> lruItem" where
  "siEntry x = (siKey x, siItem x)"

lemma fit_mono: "items_ok xs \<Longrightarrow> a \<le> b \<Longrightarrow> fit a (fit b xs) = fit a xs"
proof (induction xs arbitrary: a b)
  case (Cons x xs)
  show ?case
  proof (cases "diskUse x \<le> a")
    case True
    then show ?thesis using Cons by simp
  next
    case False
    then show ?thesis by simp
  qed
qed simp

lemma fit_fit_Cons:
  assumes "items_ok (x # xs)" "diskUse x \<le> m"
  shows "fit m (x # fit m xs) = fit m (x # xs)"
  using assms fit_mono [of xs "m - diskUse x" m] diskUse_nonneg [of x] by simp

lemma without_fresh: "k \<notin> fst ` set xs \<Longrightarrow> without k xs = xs"
  by (auto simp: without_def filter_id_conv)

lemma set_fit: "set (fit b xs) \<subseteq> set xs"
  by (induction xs arbitrary: b) auto

lemma absList_setLru [simp]: "absList (dLru (setLru cfg l st)) = absList l"
  by (simp add: setLru_def startRemovals_def absList_def)

lemma addLoaded_fit:
  assumes "lru_ok (dLru st)" "reservedSize (dLru st) = 0" "maxSize (dLru st) = m"
    and "absList (dLru st) = fit m ys" "items_ok ys"
    and "list_all (\<lambda>x. size_ok (sizeOnDisk (siItem x)) \<and> diskUse (siEntry x) \<le> m) xs"
    and "distinct (map fst ys @ map siKey xs)"
  shows "\<exists>st'. addLoaded cfg lf xs st = Some (None, st') \<and> lru_ok (dLru st') \<and> maxSize (dLru st') = m \<and>
    reservedSize (dLru st') = 0 \<and> absList (dLru st') = fit m (rev (map siEntry xs) @ ys) \<and> dFs st' = dFs st"
  using assms
proof (induction xs arbitrary: st ys)
  case (Cons x xs)
  let ?e = "siEntry x"
  have sz: "size_ok (sizeOnDisk (siItem x))" and le: "diskUse ?e \<le> m" using Cons.prems(6) by simp_all
  have fresh: "siKey x \<notin> fst ` set (absList (dLru st))"
    using Cons.prems(4,7) set_fit [of m ys] by (auto simp: image_iff)
  obtain b l where a: "Add (siKey x) (siItem x) (dLru st) = Some (b, l)" "lru_ok l"
      "specAdd (siKey x) (siItem x) (lruAbs (dLru st)) = (b, lruAbs l)"
    using Add_refines [OF Cons.prems(1) sz] by blast
  have none: "map_of (absList (dLru st)) (siKey x) = None" using fresh by (simp add: map_of_eq_None_iff)
  have r: "specAdd (siKey x) (siItem x) (lruAbs (dLru st)) =
      (True, (lruAbs (dLru st))\<lparr>entries := fit m (?e # absList (dLru st))\<rparr>)"
    using le none Cons.prems(2,3) fresh by (simp add: specAdd_def Let_def without_fresh siEntry_def)
  then have b: "b" and l: "lruAbs l = (lruAbs (dLru st))\<lparr>entries := fit m (?e # absList (dLru st))\<rparr>" using a(3) by auto
  have io: "items_ok (?e # ys)" using Cons.prems(5) sz by (simp add: siEntry_def)
  have abs: "absList l = fit m (?e # ys)" "maxSize l = m" "reservedSize l = 0"
    using arg_cong [OF l, of entries] arg_cong [OF l, of capacity] arg_cong [OF l, of reserved] Cons.prems(2-4)
      fit_fit_Cons [OF io le] by simp_all
  let ?st = "setLru cfg l st"
  have same: "lru_ok (dLru ?st)" "reservedSize (dLru ?st) = 0" "maxSize (dLru ?st) = m" "absList (dLru ?st) = fit m (?e # ys)"
      "dFs ?st = dFs st"
    using a(2) abs by simp_all
  have "distinct (map fst (?e # ys) @ map siKey xs)" using Cons.prems(7) by (auto simp: siEntry_def)
  from Cons.IH [OF same(1-4) io _ this] Cons.prems(6) same(5)
  show ?case using a(1) b by simp
qed simp

text \<open>
  The index that is built from the scanned files does not depend on the order in which
  they were found, nor on how the sort arranges files with the same access time, beyond their own
  order: when the files have different keys and none is larger than the cache, loading always
  returns, without an error, and the index is well formed and holds exactly the most recently
  accessed files that fit, in the order of access, most recent first; no file is removed by the
  loop itself, and when all of them fit the index has all of them.
\<close>

theorem load_keeps_most_recent:
  assumes "scanDir lf w arrive (cDir cfg) des = Some (Inr items)" "sorts srt"
    and "0 < m" "m \<le> 4611686018427387903"
    and "list_all (\<lambda>x. size_ok (sizeOnDisk (siItem x)) \<and> diskUse (siEntry x) \<le> m) items" "distinct (map siKey items)"
  shows "\<exists>st' newest. loadExistingFiles cfg lf w arrive srt m des st = Some (Inr st') \<and>
    mset newest = mset items \<and> sorted (map siTs (rev newest)) \<and>
    lru_ok (dLru st') \<and> absList (dLru st') = fit m (map siEntry newest) \<and>
    (totalDisk (map siEntry items) \<le> m \<longrightarrow> absList (dLru st') = map siEntry newest) \<and> dFs st' = dFs st"
proof -
  let ?xs = "srt items" and ?st = "st\<lparr>dLru := NewSizedLRU m True\<rparr>"
  have ms: "mset ?xs = mset items" and so: "sorted (map siTs ?xs)" using assms(2) by (simp_all add: sorts_def)
  have new: "reservedSize (NewSizedLRU m True) = 0" "maxSize (NewSizedLRU m True) = m" "absList (NewSizedLRU m True) = fit m []"
    by (simp_all add: NewSizedLRU_def absList_def)
  have la: "list_all (\<lambda>x. size_ok (sizeOnDisk (siItem x)) \<and> diskUse (siEntry x) \<le> m) ?xs"
    using assms(5) mset_eq_setD [OF ms] by (simp add: list_all_iff)
  have di: "distinct (map fst [] @ map siKey ?xs)"
    using assms(6) mset_eq_imp_distinct_iff [of "map siKey ?xs" "map siKey items"] ms by simp
  obtain st' where st': "addLoaded cfg lf ?xs ?st = Some (None, st')" "lru_ok (dLru st')"
      "absList (dLru st') = fit m (rev (map siEntry ?xs) @ [])" "dFs st' = dFs ?st"
    using addLoaded_fit [of ?st m "[]" ?xs cfg lf] New_ok [OF assms(3,4), of True] new la di by auto
  have all: "fit m (map siEntry (rev ?xs)) = map siEntry (rev ?xs)" if "totalDisk (map siEntry items) \<le> m"
  proof -
    have "totalDisk (map siEntry (rev ?xs)) = totalDisk (map siEntry items)"
      using ms unfolding totalDisk_def by (metis mset_map mset_rev sum_mset_sum_list)
    moreover have "items_ok (map siEntry (rev ?xs))" using la by (auto simp: items_ok_def list_all_iff siEntry_def)
    ultimately show ?thesis by (metis fit_all that)
  qed
  show ?thesis
    using st' ms so all assms(1)
    by (intro exI [of _ st'] exI [of _ "rev ?xs"]) (simp add: loadExistingFiles_def rev_map)
qed

lemma sorts_sort_key: "sorts (sort_key siTs)"
  by (simp add: sorts_def)

definition demoListing :: listing where
  "demoListing = nest [''cas.v2'', ''e3''] [(emptySha256 @ ''-100-9'', FileEnt True 77 5)]"

definition demoScanItem :: scanItem where
  "demoScanItem = \<lparr>siKey = LookupKey CAS emptySha256, siItem = storedItem False 100 77 ''9'', siTs = 5\<rparr>"

lemma demo_scan: "scanDir noLoadFaults 4 rev dir demoListing = Some (Inr [demoScanItem])"
proof -
  have "randomGroup ''9''" "arrives rev" by (simp_all add: randomGroup_def is_alnum_def arrives_def)
  then show ?thesis
    using scanDir_stored [OF hex64_emptySha256, of "[]" CAS "''9''" False 100 77 4 rev dir 5]
    by (simp add: demoListing_def demoScanItem_def scopeDirs_def storedName_def entryStem_def legacySuffix_def
        LookupKeyForStoragePrefixID_def show_int_100 emptySha256_def)
qed

theorem load_keeps_most_recent_witness:
  "\<exists>st'. loadExistingFiles (demoConfig Zstandard) noLoadFaults 4 rev (sort_key siTs) 8192 demoListing (demoState 1) =
     Some (Inr st') \<and> absList (dLru st') = [siEntry demoScanItem]"
proof -
  have u: "diskUse (siEntry demoScanItem) = 4096"
    by (simp add: diskUse_def siEntry_def demoScanItem_def storedItem_def roundUp4k_eq size_ok_def)
  have "size_ok (sizeOnDisk (siItem demoScanItem))" by (simp add: demoScanItem_def storedItem_def size_ok_def)
  then show ?thesis
    using load_keeps_most_recent [OF demo_scan [of "cDir (demoConfig Zstandard)"] sorts_sort_key, of 8192 "demoState 1"] u by auto
qed

text \<open>
  A start of the cache may hang on a damaged directory. When every directory that the
  scan sends to its workers has a file or directory that the scan refuses, then each worker stops
  at its first directory, and the scan reports an error only if there are at most twice as many
  directories as workers: with more, the sender waits for ever on the full channel.
\<close>

theorem scan_of_bad_directories:
  assumes "queueAll lf dir des = (ds, None)" "list_all (\<lambda>d. isl (scanOneDir lf dir d)) ds" "0 < w" "ds \<noteq> []"
  shows "(scanDir lf w arrive dir des = None \<longleftrightarrow> 2 * w < length ds) \<and>
    (length ds \<le> 2 * w \<longrightarrow> (\<exists>es. scanDir lf w arrive dir des = Some (Inl es) \<and> es \<noteq> []))"
proof -
  let ?rs = "map (scanOneDir lf dir) ds"
  have bad: "received v rs = take v rs" if "list_all isl rs" for v and rs :: "(load_error + 'x) list"
    using that
  proof (induction v rs rule: received.induct)
    case (3 w x rs)
    then show ?case by simp
  qed simp_all
  have isl: "list_all isl ?rs" using assms(2) by (simp add: list_all_iff)
  then have t: "received w ?rs = take w ?rs" by (rule bad)
  have "filter isl (take w ?rs) = take w ?rs" using isl by (metis filter_id_conv in_set_takeD list_all_iff)
  then have "errorsOf (take w ?rs) \<noteq> []" using assms(3,4) by (simp add: errorsOf_def)
  then show ?thesis using assms(1) t by (auto simp: scanDir_def Let_def)
qed

text \<open>Nine directories with an unrecognised file, four workers.\<close>

definition badListing :: listing where
  "badListing = [(''ac.v2'', DirEnt (map (\<lambda>d. (d, DirEnt [(''x'', FileEnt True 1 1)]))
     [''00'', ''01'', ''02'', ''03'', ''04'', ''05'', ''06'', ''07'', ''08'']))]"

theorem scan_of_bad_directories_witness:
  "scanDir noLoadFaults (numWorkers 1) rev ''/data'' badListing = None"
proof -
  have q: "queueAll noLoadFaults ''/data'' badListing = (map (\<lambda>d. (''ac.v2/'' @ d, [(''x'', FileEnt True 1 1)]))
     [''00'', ''01'', ''02'', ''03'', ''04'', ''05'', ''06'', ''07'', ''08''], None)" (is "_ = (?ds, None)")
    by code_simp
  have "list_all (\<lambda>d. isl (scanOneDir noLoadFaults ''/data'' d)) ?ds" by code_simp
  from scan_of_bad_directories [OF q this, of "numWorkers 1" rev] show ?thesis by (simp add: numWorkers_def)
qed

end
