(* ===== verification/Validate.thy ===== *)
theory Validate
  imports Messages
begin

text \<open>
  \<open>utils/validate/action_result.go\<close>: the checks that an \<open>ActionResult\<close> passes before it is
  stored or returned. The loops stop at the first offending message, so each is a recursion
  that returns the first error.
\<close>

section \<open>The checks\<close>

definition hashKeyRegexMatch :: "string \<Rightarrow> bool" where
  "hashKeyRegexMatch s = hex64 s"

datatype validate_error =
    errNilActionResult
  | errNilOutputFile
  | errEmptyPath
  | errAbsoluteFilePath string
  | errNilDigest string
  | errInvalidFileDigest string validate_error
  | errNilOutputDir
  | errAbsoluteDirPath string
  | errNilTreeDigest string
  | errInvalidTreeDigest string validate_error
  | errNilOuputFileSymlink
  | errEmptyOutputFileSymlinksPath
  | errEmptyOutputFileSymlinksTarget
  | errAbsoluteFileSymlink string
  | errNilOuputSymlink
  | errEmptyOutputSymlinksPath
  | errEmptyOutputSymlinksTarget
  | errAbsoluteSymlink string
  | errNilOuputDirSymlink
  | errEmptyOutputDirSymlinksPath
  | errEmptyOutputDirSymlinksTarget
  | errAbsoluteDirSymlink string
  | errInvalidStdoutDigest validate_error
  | errInvalidStderrDigest validate_error
  | errNegativeDigest
  | errInvalidHash string

definition maybeNilDigest :: "digest option \<Rightarrow> validate_error option" where
  "maybeNilDigest d =
     (case d of
        None \<Rightarrow> None
      | Some d \<Rightarrow>
          if dSizeBytes d < 0 then Some errNegativeDigest
          else if \<not> hashKeyRegexMatch (dHash d) then Some (errInvalidHash (dHash d))
          else None)"

definition checkOutputFile :: "outputFile option \<Rightarrow> validate_error option" where
  "checkOutputFile f =
     (case f of
        None \<Rightarrow> Some errNilOutputFile
      | Some f \<Rightarrow>
          if ofPath f = [] then Some errEmptyPath
          else if hasPrefix (ofPath f) ''/'' then Some (errAbsoluteFilePath (ofPath f))
          else if ofDigest f = None then Some (errNilDigest (ofPath f))
          else map_option (errInvalidFileDigest (ofPath f)) (maybeNilDigest (ofDigest f)))"

definition checkOutputDirectory :: "outputDirectory option \<Rightarrow> validate_error option" where
  "checkOutputDirectory d =
     (case d of
        None \<Rightarrow> Some errNilOutputDir
      | Some d \<Rightarrow>
          if hasPrefix (odPath d) ''/'' then Some (errAbsoluteDirPath (odPath d))
          else if odTreeDigest d = None then Some (errNilTreeDigest (odPath d))
          else map_option (errInvalidTreeDigest (odPath d)) (maybeNilDigest (odTreeDigest d)))"

definition checkOutputFileSymlink :: "outputSymlink option \<Rightarrow> validate_error option" where
  "checkOutputFileSymlink s =
     (case s of
        None \<Rightarrow> Some errNilOuputFileSymlink
      | Some s \<Rightarrow>
          if osPath s = [] then Some errEmptyOutputFileSymlinksPath
          else if osTarget s = [] then Some errEmptyOutputFileSymlinksTarget
          else if hasPrefix (osPath s) ''/'' then Some (errAbsoluteFileSymlink (osPath s))
          else None)"

definition checkOutputSymlink :: "outputSymlink option \<Rightarrow> validate_error option" where
  "checkOutputSymlink s =
     (case s of
        None \<Rightarrow> Some errNilOuputSymlink
      | Some s \<Rightarrow>
          if osPath s = [] then Some errEmptyOutputSymlinksPath
          else if osTarget s = [] then Some errEmptyOutputSymlinksTarget
          else if hasPrefix (osPath s) ''/'' then Some (errAbsoluteSymlink (osPath s))
          else None)"

definition checkOutputDirSymlink :: "outputSymlink option \<Rightarrow> validate_error option" where
  "checkOutputDirSymlink s =
     (case s of
        None \<Rightarrow> Some errNilOuputDirSymlink
      | Some s \<Rightarrow>
          if osPath s = [] then Some errEmptyOutputDirSymlinksPath
          else if osTarget s = [] then Some errEmptyOutputDirSymlinksTarget
          else if hasPrefix (osPath s) ''/'' then Some (errAbsoluteDirSymlink (osPath s))
          else None)"

text \<open>A loop over a repeated field that returns at the first error.\<close>

fun firstError :: "('a \<Rightarrow> 'e option) \<Rightarrow> 'a list \<Rightarrow> 'e option" where
  "firstError f [] = None"
| "firstError f (x # xs) = (case f x of Some e \<Rightarrow> Some e | None \<Rightarrow> firstError f xs)"

text \<open>Statements that run one after the other, each returning its error if it has one.\<close>

fun orElse :: "'e option \<Rightarrow> 'e option \<Rightarrow> 'e option" where
  "orElse (Some e) k = Some e"
| "orElse None k = k"

definition validateActionResult :: "actionResult option \<Rightarrow> validate_error option" where
  "validateActionResult arp =
     (case arp of
        None \<Rightarrow> Some errNilActionResult
      | Some ar \<Rightarrow>
          orElse (firstError checkOutputFile (arOutputFiles ar))
         (orElse (firstError checkOutputDirectory (arOutputDirectories ar))
         (orElse (firstError checkOutputFileSymlink (arOutputFileSymlinks ar))
         (orElse (firstError checkOutputSymlink (arOutputSymlinks ar))
         (orElse (firstError checkOutputDirSymlink (arOutputDirectorySymlinks ar))
         (orElse (map_option errInvalidStdoutDigest (maybeNilDigest (arStdoutDigest ar)))
                 (map_option errInvalidStderrDigest (maybeNilDigest (arStderrDigest ar)))))))))"

section \<open>What the checks accept\<close>

lemma firstError_None: "firstError f xs = None \<longleftrightarrow> (\<forall>x \<in> set xs. f x = None)"
  by (induction xs) (auto split: option.splits)

lemma orElse_None: "orElse a b = None \<longleftrightarrow> a = None \<and> b = None"
  by (cases a) auto

lemma firstError_Some:
  "firstError f xs = Some e \<Longrightarrow> \<exists>us x vs. xs = us @ x # vs \<and> (\<forall>u \<in> set us. f u = None) \<and> f x = Some e"
proof (induction xs)
  case (Cons y ys)
  show ?case
  proof (cases "f y")
    case None
    then obtain us x vs where "ys = us @ x # vs" "\<forall>u \<in> set us. f u = None" "f x = Some e"
      using Cons by auto
    then show ?thesis using None by (intro exI [of _ "y # us"] exI [of _ x] exI [of _ vs]) simp
  next
    case (Some e')
    then show ?thesis using Cons.prems by (intro exI [of _ "[]"] exI [of _ y] exI [of _ ys]) simp
  qed
qed simp

definition goodDigest :: "digest \<Rightarrow> bool" where
  "goodDigest d \<longleftrightarrow> 0 \<le> dSizeBytes d \<and> hex64 (dHash d)"

definition relative :: "string \<Rightarrow> bool" where
  "relative p \<longleftrightarrow> p = [] \<or> hd p \<noteq> CHR ''/''"

definition goodSymlink :: "outputSymlink option \<Rightarrow> bool" where
  "goodSymlink s \<longleftrightarrow>
     (case s of Some s \<Rightarrow> osPath s \<noteq> [] \<and> osTarget s \<noteq> [] \<and> relative (osPath s) | None \<Rightarrow> False)"

definition goodOutputFile :: "outputFile option \<Rightarrow> bool" where
  "goodOutputFile f \<longleftrightarrow>
     (case f of
        Some f \<Rightarrow> ofPath f \<noteq> [] \<and> relative (ofPath f) \<and>
                  (case ofDigest f of Some d \<Rightarrow> goodDigest d | None \<Rightarrow> False)
      | None \<Rightarrow> False)"

definition goodOutputDirectory :: "outputDirectory option \<Rightarrow> bool" where
  "goodOutputDirectory d \<longleftrightarrow>
     (case d of
        Some d \<Rightarrow> relative (odPath d) \<and> (case odTreeDigest d of Some t \<Rightarrow> goodDigest t | None \<Rightarrow> False)
      | None \<Rightarrow> False)"

definition goodActionResult :: "actionResult \<Rightarrow> bool" where
  "goodActionResult ar \<longleftrightarrow>
     (\<forall>f \<in> set (arOutputFiles ar). goodOutputFile f) \<and>
     (\<forall>d \<in> set (arOutputDirectories ar). goodOutputDirectory d) \<and>
     (\<forall>s \<in> set (arOutputFileSymlinks ar) \<union> set (arOutputSymlinks ar) \<union> set (arOutputDirectorySymlinks ar). goodSymlink s) \<and>
     (\<forall>d \<in> set_option (arStdoutDigest ar) \<union> set_option (arStderrDigest ar). goodDigest d)"

lemma hasPrefix_slash: "hasPrefix p ''/'' \<longleftrightarrow> \<not> relative p"
  by (cases p) (auto simp: hasPrefix_def relative_def)

lemma maybeNilDigest_None: "maybeNilDigest d = None \<longleftrightarrow> (\<forall>x. d = Some x \<longrightarrow> goodDigest x)"
  by (auto simp: maybeNilDigest_def goodDigest_def hashKeyRegexMatch_def split: option.splits)

lemma checkSymlink_None:
  "checkOutputFileSymlink s = None \<longleftrightarrow> goodSymlink s"
  "checkOutputSymlink s = None \<longleftrightarrow> goodSymlink s"
  "checkOutputDirSymlink s = None \<longleftrightarrow> goodSymlink s"
  by (auto simp: checkOutputFileSymlink_def checkOutputSymlink_def checkOutputDirSymlink_def goodSymlink_def
      hasPrefix_slash split: option.splits)

lemma checkOutputFile_None: "checkOutputFile f = None \<longleftrightarrow> goodOutputFile f"
  by (auto simp: checkOutputFile_def goodOutputFile_def hasPrefix_slash maybeNilDigest_None split: option.splits)

lemma checkOutputDirectory_None: "checkOutputDirectory d = None \<longleftrightarrow> goodOutputDirectory d"
  by (auto simp: checkOutputDirectory_def goodOutputDirectory_def hasPrefix_slash maybeNilDigest_None split: option.splits)

lemmas checks_None = checkOutputFile_None checkOutputDirectory_None checkSymlink_None maybeNilDigest_None

lemma validateActionResult_good: "validateActionResult (Some ar) = None \<longleftrightarrow> goodActionResult ar"
  by (simp add: validateActionResult_def goodActionResult_def orElse_None firstError_None checks_None
      ball_Un) blast

text \<open>
  Property C5. The validation accepts exactly the action results whose every output has a
  non-nil message, a relative path (non-empty outside directories), a non-empty target for
  symbolic links, and whose every digest, the optional stdout and stderr ones included, has a
  non-negative size and a hash of 64 lower-case hexadecimal digits.
\<close>

theorem validateActionResult_exact:
  "validateActionResult (Some ar) = None \<longleftrightarrow> goodActionResult ar"
  by (rule validateActionResult_good)

text \<open>
  The error returned for a bad output file is the error of the first bad one, and
  it takes precedence over every other defect of the action result.
\<close>

theorem validateActionResult_first_file_error:
  assumes "\<exists>f \<in> set (arOutputFiles ar). \<not> goodOutputFile f"
  shows "\<exists>us f vs e. arOutputFiles ar = us @ f # vs \<and> (\<forall>u \<in> set us. goodOutputFile u) \<and> \<not> goodOutputFile f \<and>
    checkOutputFile f = Some e \<and> validateActionResult (Some ar) = Some e"
proof -
  obtain e where e: "firstError checkOutputFile (arOutputFiles ar) = Some e"
    using assms by (cases "firstError checkOutputFile (arOutputFiles ar)") (auto simp: firstError_None checks_None)
  then have "validateActionResult (Some ar) = Some e" by (simp add: validateActionResult_def)
  moreover obtain us f vs where "arOutputFiles ar = us @ f # vs" "\<forall>u \<in> set us. checkOutputFile u = None"
      "checkOutputFile f = Some e"
    using firstError_Some [OF e] by blast
  moreover have "\<not> goodOutputFile f"
    using checkOutputFile_None [of f] \<open>checkOutputFile f = Some e\<close> by simp
  ultimately show ?thesis unfolding checkOutputFile_None by blast
qed

theorem validateActionResult_first_file_error_witness:
  "\<exists>e. validateActionResult (Some (emptyActionResult\<lparr>arOutputFiles := [None]\<rparr>)) = Some e"
  using validateActionResult_first_file_error [of "emptyActionResult\<lparr>arOutputFiles := [None]\<rparr>"]
  by (auto simp: goodOutputFile_def)

end
