(* ===== verification/ValidatedAC.thy ===== *)
theory ValidatedAC
  imports FindMissing Validate
begin

text \<open>
  \<open>GetValidatedActionResult\<close> of \<open>cache/disk/disk.go\<close>, which returns an action result only when the
  blobs it refers to are available, and the rest of \<open>cache/disk/lru_capture.go\<close>: the closure of
  a validated hit. The reads before the search for missing blobs are a function; the search is the
  step relation of \<open>FindMissing\<close>, so that the whole operation is a relation.

  Protobuf decoding is a parameter: \<open>cUnmarshalAR\<close> of the configuration for action results, an
  argument for trees.
\<close>

datatype vac_error =
    VacGet dc_error
  | VacRead
  | VacUnmarshal
  | VacInvalid validate_error
  | VacTreeSize int int
  | VacSearch fm_error

datatype vac_result = VacFound actionResult bytes | VacNotFound | VacError vac_error

definition readAll :: "reader \<Rightarrow> bytes option" where
  "readAll r = (if rfails r then None else Some (rdata r))"

definition filesPending :: "outputFile option list \<Rightarrow> digest list" where
  "filesPending fs = concat (map (\<lambda>f. case f of
       None \<Rightarrow> [] | Some f \<Rightarrow> if ofContents f = [] then (case ofDigest f of None \<Rightarrow> [] | Some d \<Rightarrow> [d]) else []) fs)"

definition nodeDigests :: "fileNode option list \<Rightarrow> digest list" where
  "nodeDigests ns = concat (map (\<lambda>n. case n of
       None \<Rightarrow> [] | Some n \<Rightarrow> (case fnDigest n of None \<Rightarrow> [] | Some d \<Rightarrow> [d])) ns)"

definition treePending :: "treeMsg \<Rightarrow> digest list" where
  "treePending t = nodeDigests (treeRootFiles t) @ concat (map (\<lambda>ch. nodeDigests (getDirFiles ch)) (treeChildren t))"

definition optDigest :: "digest option \<Rightarrow> digest list" where
  "optDigest d = (case d of None \<Rightarrow> [] | Some d \<Rightarrow> [d])"

text \<open>
  The reads so far: the digests to validate, the hashes of the trees and the sizes recorded for them.
\<close>

record vacTrees =
  vtPending :: "digest list"
  vtHashes :: "string list"
  vtSizes :: "(string \<times> int) list"

definition noTrees :: vacTrees where
  "noTrees = \<lparr>vtPending = [], vtHashes = [], vtSizes = []\<rparr>"

definition addTree :: "dcConfig \<Rightarrow> ctx \<Rightarrow> string \<Rightarrow> treeMsg \<Rightarrow> dcState \<Rightarrow> vacTrees \<Rightarrow> vacTrees" where
  "addTree cfg c hash t st v =
     (let v1 = (if cObserver cfg then
                  v\<lparr>vtSizes := vtSizes v @ (case lookupSizeOnDisk c CAS hash st of None \<Rightarrow> [] | Some n \<Rightarrow> [(hash, n)]),
                    vtHashes := vtHashes v @ [hash]\<rparr>
                else v)
      in v1\<lparr>vtPending := vtPending v1 @ treePending t\<rparr>)"

text \<open>
  The loop over the output directories. A nil directory or digest cannot get past the
  validation; the outer \<open>None\<close> is an eviction loop that does not end.
\<close>

fun readTrees :: "dcConfig \<Rightarrow> osFaults \<Rightarrow> (dcState \<Rightarrow> dcState) \<Rightarrow> ctx \<Rightarrow> (bytes \<Rightarrow> treeMsg option) \<Rightarrow>
    digest list \<Rightarrow> vacTrees \<Rightarrow> dcState \<Rightarrow> ((vac_result + vacTrees) \<times> dcState) option" where
  "readTrees cfg os env c unmarshalTree [] v st = Some (Inr v, st)"
| "readTrees cfg os env c unmarshalTree (d # ds) v st =
     (case dcGet cfg os env c CAS (dHash d) (dSizeBytes d) 0 st of
        None \<Rightarrow> None
      | Some (GotError e, st) \<Rightarrow> Some (Inl (VacError (VacGet e)), st)
      | Some (NotFound, st) \<Rightarrow> Some (Inl VacNotFound, st)
      | Some (Found r n, st) \<Rightarrow>
          if n \<noteq> dSizeBytes d then Some (Inl (VacError (VacTreeSize (dSizeBytes d) n)), st)
          else
            (case readAll r of
               None \<Rightarrow> Some (Inl (VacError VacRead), st)
             | Some oddata \<Rightarrow>
                 (case unmarshalTree oddata of
                    None \<Rightarrow> Some (Inl (VacError VacUnmarshal), st)
                  | Some t \<Rightarrow> readTrees cfg os env c unmarshalTree ds (addTree cfg c (dHash d) t st v) st)))"

definition directoryDigests :: "actionResult \<Rightarrow> digest list" where
  "directoryDigests ar = concat (map (\<lambda>d. case d of
       None \<Rightarrow> [] | Some d \<Rightarrow> optDigest (odTreeDigest d)) (arOutputDirectories ar))"

text \<open>What the reads lead to: an early result, or a search for the pending digests.\<close>

record vacPlan =
  vpResult :: actionResult
  vpData :: bytes
  vpSize :: int
  vpPending :: "digest list"
  vpLeafHashes :: "string list"
  vpSizes :: "(string \<times> int) list"

definition vacContext :: "dcConfig \<Rightarrow> ctx \<Rightarrow> ctx" where
  "vacContext cfg c = (if cObserver cfg then WithLeafSizeSink c else c)"

definition vacPending :: "actionResult \<Rightarrow> vacTrees \<Rightarrow> digest list" where
  "vacPending ar v =
     filesPending (arOutputFiles ar) @ vtPending v @ optDigest (arStdoutDigest ar) @ optDigest (arStderrDigest ar)"

definition vacRead :: "dcConfig \<Rightarrow> osFaults \<Rightarrow> (dcState \<Rightarrow> dcState) \<Rightarrow> ctx \<Rightarrow> (bytes \<Rightarrow> treeMsg option) \<Rightarrow> string \<Rightarrow>
    dcState \<Rightarrow> ((vac_result + vacPlan) \<times> dcState) option" where
  "vacRead cfg os env c unmarshalTree hash st =
     (let c = vacContext cfg c in
      case dcGet cfg os env c AC hash (- 1) 0 st of
        None \<Rightarrow> None
      | Some (GotError e, st) \<Rightarrow> Some (Inl (VacError (VacGet e)), st)
      | Some (NotFound, st) \<Rightarrow> Some (Inl VacNotFound, st)
      | Some (Found r n, st) \<Rightarrow>
          if n \<le> 0 then Some (Inl VacNotFound, st)
          else
            (case readAll r of
               None \<Rightarrow> Some (Inl (VacError VacRead), st)
             | Some acdata \<Rightarrow>
                 (case cUnmarshalAR cfg acdata of
                    None \<Rightarrow> Some (Inl (VacError VacUnmarshal), st)
                  | Some ar \<Rightarrow>
                      (case validateActionResult (Some ar) of
                         Some e \<Rightarrow> Some (Inl (VacError (VacInvalid e)), st)
                       | None \<Rightarrow>
                           (case readTrees cfg os env c unmarshalTree (directoryDigests ar) noTrees st of
                              None \<Rightarrow> None
                            | Some (Inl r, st) \<Rightarrow> Some (Inl r, st)
                            | Some (Inr v, st) \<Rightarrow>
                                Some (Inr \<lparr>vpResult = ar, vpData = acdata, vpSize = n, vpPending = vacPending ar v,
                                  vpLeafHashes = map dHash (vacPending ar v) @ vtHashes v, vpSizes = vtSizes v\<rparr>, st))))))"

section \<open>The closure of a hit\<close>

definition collectorSize :: "(string \<times> int) list \<Rightarrow> string \<Rightarrow> int option" where
  "collectorSize sizes h = map_of (rev sizes) h"

text \<open>The loop over the leaf hashes: the leaves so far are the hashes seen so far.\<close>

fun hitLeaves :: "(string \<times> int) list \<Rightarrow> string list \<Rightarrow> lruObject list \<Rightarrow> lruObject list option" where
  "hitLeaves sizes [] leaves = Some leaves"
| "hitLeaves sizes (h # hs) leaves =
     (if h \<in> set (map loHash leaves) then hitLeaves sizes hs leaves
      else if h = emptySha256 then hitLeaves sizes hs (leaves @ [\<lparr>loHash = h, loSizeOnDisk = 0\<rparr>])
      else (case collectorSize sizes h of
              None \<Rightarrow> None
            | Some n \<Rightarrow> hitLeaves sizes hs (leaves @ [\<lparr>loHash = h, loSizeOnDisk = n\<rparr>])))"

text \<open>
  \<open>ObserveACAccess\<close>: without an observer nothing happens; a panic of the observer is swallowed, so
  that the closure has been handed over in either case.
\<close>

definition ObserveACAccess :: "dcConfig \<Rightarrow> acClosure \<Rightarrow> dcState \<Rightarrow> dcState" where
  "ObserveACAccess cfg closure st = (if cObserver cfg then st\<lparr>dClosures := dClosures st @ [closure]\<rparr> else st)"

definition emitACClosureFromHit :: "dcConfig \<Rightarrow> string \<Rightarrow> int \<Rightarrow> string list \<Rightarrow> (string \<times> int) list \<Rightarrow> dcState \<Rightarrow> dcState" where
  "emitACClosureFromHit cfg acHash acSize leafHashes sizes st =
     (case hitLeaves sizes leafHashes [] of
        None \<Rightarrow> dropObservation ''incomplete_closure'' st
      | Some leaves \<Rightarrow> ObserveACAccess cfg \<lparr>acObject = \<lparr>loHash = acHash, loSizeOnDisk = acSize\<rparr>, acLeaves = leaves\<rparr> st)"

section \<open>The operation\<close>

text \<open>
  After the search: \<open>proxySizes\<close> are the sizes that the proxy recorded in the sink while it was
  asked (the backends under \<open>cache/s3proxy\<close> do; others record nothing).
\<close>

definition vacFinish :: "dcConfig \<Rightarrow> string \<Rightarrow> vacPlan \<Rightarrow> (string \<times> int) list \<Rightarrow> fmState \<Rightarrow> fm_error option \<Rightarrow> vac_result \<times> dcState" where
  "vacFinish cfg hash plan proxySizes s err =
     (case err of
        Some errMissingBlob \<Rightarrow> (VacNotFound, fmSt s)
      | Some e \<Rightarrow> (VacError (VacSearch e), fmSt s)
      | None \<Rightarrow>
          (VacFound (vpResult plan) (vpData plan),
           if cObserver cfg
           then emitACClosureFromHit cfg hash (vpSize plan) (vpLeafHashes plan)
                  (vpSizes plan @ fmSizes s @ proxySizes) (fmSt s)
           else fmSt s))"

inductive GetValidatedActionResult :: "dcConfig \<Rightarrow> osFaults \<Rightarrow> (dcState \<Rightarrow> dcState) \<Rightarrow> ctx \<Rightarrow> (bytes \<Rightarrow> treeMsg option) \<Rightarrow>
    string \<Rightarrow> dcState \<Rightarrow> vac_result \<Rightarrow> dcState \<Rightarrow> bool" for cfg os env c unmarshalTree hash st where
  early: "vacRead cfg os env c unmarshalTree hash st = Some (Inl r, st') \<Longrightarrow>
     GetValidatedActionResult cfg os env c unmarshalTree hash st r st'"
| searched: "vacRead cfg os env c unmarshalTree hash st = Some (Inr plan, st1) \<Longrightarrow>
     fmreach cfg (vacContext cfg c) True (fmInit st1 (vpPending plan)) s \<Longrightarrow> fmPhase s = Done err \<Longrightarrow>
     vacFinish cfg hash plan proxySizes s err = (r, st') \<Longrightarrow>
     GetValidatedActionResult cfg os env c unmarshalTree hash st r st'"

end
