(* ===== verification/ValidatedAC_Props.thy ===== *)
theory ValidatedAC_Props
  imports ValidatedAC FindMissing_Props
begin

text \<open>
  What a validated action result guarantees: a hit is a valid message whose blobs were all
  available, a miss that the search reports is a real one, and the closure that is handed to the
  observer is complete or not handed over at all.
\<close>

section \<open>The reads\<close>

text \<open>The digests that an action result itself names and that are not inlined.\<close>

definition namesDigest :: "outputFile option \<Rightarrow> digest \<Rightarrow> bool" where
  "namesDigest f d \<longleftrightarrow> (case f of None \<Rightarrow> False | Some g \<Rightarrow> ofContents g = [] \<and> ofDigest g = Some d)"

definition directDigests :: "actionResult \<Rightarrow> digest set" where
  "directDigests ar =
     {d. \<exists>f \<in> set (arOutputFiles ar). namesDigest f d} \<union>
     set_option (arStdoutDigest ar) \<union> set_option (arStderrDigest ar)"

lemma set_filesPending: "set (filesPending fs) = {d. \<exists>f \<in> set fs. namesDigest f d}"
proof (induction fs)
  case (Cons f fs)
  have "set (filesPending [f]) = {d. namesDigest f d}"
  proof (cases f)
    case (Some g)
    then show ?thesis
      by (cases "ofDigest g"; cases "ofContents g = []") (simp_all add: filesPending_def namesDigest_def)
  qed (simp add: filesPending_def namesDigest_def)
  moreover have "filesPending (f # fs) = filesPending [f] @ filesPending fs" by (simp add: filesPending_def)
  ultimately show ?case using Cons by auto
qed (simp add: filesPending_def)

lemma set_optDigest [simp]: "set (optDigest d) = set_option d"
  by (cases d) (simp_all add: optDigest_def)

lemma directDigests_pending: "directDigests ar \<subseteq> set (vacPending ar v)"
  by (auto simp: directDigests_def vacPending_def set_filesPending)

text \<open>What the loop over the trees adds: the files of every tree, for digests that were read.\<close>

definition treesRead :: "(bytes \<Rightarrow> treeMsg option) \<Rightarrow> digest list \<Rightarrow> treeMsg list \<Rightarrow> bool" where
  "treesRead unmarshalTree ds ts \<longleftrightarrow>
     length ts = length ds \<and> (\<forall>t \<in> set ts. \<exists>bs. unmarshalTree bs = Some t)"

lemma addTree_pending [simp]: "vtPending (addTree cfg c h t st v) = vtPending v @ treePending t"
  by (simp add: addTree_def Let_def)

lemma addTree_hashes: "vtHashes (addTree cfg c h t st v) = vtHashes v @ (if cObserver cfg then [h] else [])"
  by (simp add: addTree_def Let_def)

lemma readTrees_result:
  "readTrees cfg os env c u ds v st = Some (Inr v', st') \<Longrightarrow>
     \<exists>ts. treesRead u ds ts \<and> vtPending v' = vtPending v @ concat (map treePending ts) \<and>
       vtHashes v' = vtHashes v @ (if cObserver cfg then map dHash ds else [])"
proof (induction cfg os env c u ds v st arbitrary: v' st' rule: readTrees.induct)
  case (1 cfg os env c u v st)
  then show ?case by (intro exI [of _ "[]"]) (auto simp: treesRead_def)
next
  case (2 cfg os env c u d ds v st)
  from 2(2) obtain r n st1 bs t where g: "dcGet cfg os env c CAS (dHash d) (dSizeBytes d) 0 st = Some (Found r n, st1)"
      "n = dSizeBytes d" "readAll r = Some bs" "u bs = Some t"
      "readTrees cfg os env c u ds (addTree cfg c (dHash d) t st1 v) st1 = Some (Inr v', st')"
    by (auto split: option.splits got.splits if_splits prod.splits)
  obtain ts where ts: "treesRead u ds ts"
      "vtPending v' = vtPending (addTree cfg c (dHash d) t st1 v) @ concat (map treePending ts)"
      "vtHashes v' = vtHashes (addTree cfg c (dHash d) t st1 v) @ (if cObserver cfg then map dHash ds else [])"
    using 2(1) [OF g(1) refl refl _ g(3,4,5)] g(2) by auto
  then show ?case
    using g(4) by (intro exI [of _ "t # ts"]) (auto simp: treesRead_def addTree_hashes)
qed

lemma vacRead_plan:
  assumes "vacRead cfg os env c u hash st = Some (Inr plan, st1)"
  obtains v st0 where "cUnmarshalAR cfg (vpData plan) = Some (vpResult plan)" "0 < vpSize plan"
    "validateActionResult (Some (vpResult plan)) = None"
    "readTrees cfg os env (vacContext cfg c) u (directoryDigests (vpResult plan)) noTrees st0 = Some (Inr v, st1)"
    "vpPending plan = vacPending (vpResult plan) v" "vpLeafHashes plan = map dHash (vpPending plan) @ vtHashes v"
  using assms
  by (auto simp: vacRead_def Let_def split: option.splits got.splits if_splits prod.splits sum.splits)

section \<open>A hit is complete\<close>

lemma vac_searched:
  assumes "vacRead cfg os env c u hash st = Some (Inr plan, st1)"
    and "fmreach cfg (vacContext cfg c) True (fmInit st1 (vpPending plan)) s" "fmPhase s = Done err"
  shows "goodActionResult (vpResult plan) \<and> cUnmarshalAR cfg (vpData plan) = Some (vpResult plan)"
    and "err = None \<Longrightarrow> \<not> fmCtxDone s \<Longrightarrow> d \<in> set (vpPending plan) \<Longrightarrow> avail cfg (vacContext cfg c) st1 d"
    and "err = Some errMissingBlob \<Longrightarrow> \<exists>d \<in> set (vpPending plan). \<not> avail cfg (vacContext cfg c) st1 d"
proof -
  obtain v st0 where p: "cUnmarshalAR cfg (vpData plan) = Some (vpResult plan)" "0 < vpSize plan"
    "validateActionResult (Some (vpResult plan)) = None"
    using vacRead_plan [OF assms(1)] by metis
  show "goodActionResult (vpResult plan) \<and> cUnmarshalAR cfg (vpData plan) = Some (vpResult plan)"
    using p by (simp add: validateActionResult_good)
  have i: "fm_inv cfg (vacContext cfg c) True st1 (vpPending plan) s" using fmreach_inv [OF assms(2)] by simp
  show "avail cfg (vacContext cfg c) st1 d" if "err = None" "\<not> fmCtxDone s" "d \<in> set (vpPending plan)"
    using fm_inv_finished_entry(2) [OF i _ that(2)] assms(3) that(1,3) by (auto simp: in_set_conv_nth)
  show "\<exists>d \<in> set (vpPending plan). \<not> avail cfg (vacContext cfg c) st1 d" if "err = Some errMissingBlob"
    using fm_invD(8) [OF i] assms(3) that by (simp add: unavailable_def)
qed


section \<open>The closure is complete or dropped\<close>

lemma hitLeaves_Some:
  assumes "hitLeaves sizes hs ls = Some out" "distinct (map loHash ls)"
  shows "distinct (map loHash out) \<and> set (map loHash out) = set (map loHash ls) \<union> set hs \<and>
    (\<forall>l \<in> set out. l \<in> set ls \<or> loSizeOnDisk l = (if loHash l = emptySha256 then 0 else the (collectorSize sizes (loHash l))) \<and>
       (loHash l \<noteq> emptySha256 \<longrightarrow> collectorSize sizes (loHash l) \<noteq> None))"
  using assms
proof (induction sizes hs ls rule: hitLeaves.induct)
  case (2 sizes h hs ls)
  show ?case
  proof (cases "h \<in> set (map loHash ls)")
    case True
    then have "hitLeaves sizes hs ls = Some out" using 2(4) by simp
    then show ?thesis using 2(1) [OF True _ 2(5)] True by auto
  next
    case False
    show ?thesis
    proof (cases "h = emptySha256")
      case e: True
      let ?l = "\<lparr>loHash = h, loSizeOnDisk = 0\<rparr>"
      have "hitLeaves sizes hs (ls @ [?l]) = Some out" using 2(4) False e by simp
      then have "distinct (map loHash out) \<and> set (map loHash out) = set (map loHash (ls @ [?l])) \<union> set hs \<and>
        (\<forall>l \<in> set out. l \<in> set (ls @ [?l]) \<or> loSizeOnDisk l = (if loHash l = emptySha256 then 0 else the (collectorSize sizes (loHash l))) \<and>
          (loHash l \<noteq> emptySha256 \<longrightarrow> collectorSize sizes (loHash l) \<noteq> None))"
        using 2(2) [OF False e] 2(5) False by auto
      then show ?thesis using e by auto
    next
      case ne: False
      then obtain n where n: "collectorSize sizes h = Some n"
        using 2(4) False by (cases "collectorSize sizes h") auto
      let ?l = "\<lparr>loHash = h, loSizeOnDisk = n\<rparr>"
      have "hitLeaves sizes hs (ls @ [?l]) = Some out" using 2(4) False ne n by simp
      then have "distinct (map loHash out) \<and> set (map loHash out) = set (map loHash (ls @ [?l])) \<union> set hs \<and>
        (\<forall>l \<in> set out. l \<in> set (ls @ [?l]) \<or> loSizeOnDisk l = (if loHash l = emptySha256 then 0 else the (collectorSize sizes (loHash l))) \<and>
          (loHash l \<noteq> emptySha256 \<longrightarrow> collectorSize sizes (loHash l) \<noteq> None))"
        using 2(3) [OF False ne n] 2(5) False by auto
      then show ?thesis using n ne by auto
    qed
  qed
qed simp

lemma hitLeaves_None:
  "hitLeaves sizes hs ls = None \<Longrightarrow> \<exists>h \<in> set hs. h \<noteq> emptySha256 \<and> collectorSize sizes h = None"
  by (induction sizes hs ls rule: hitLeaves.induct) (auto split: if_splits option.splits)

text \<open>
  The closure of a hit is complete or dropped. With an observer, a hit either hands
  over exactly one closure, of the action result with its size, whose leaves are the distinct
  hashes of all the validated digests and of all the trees, each with the size on disk recorded
  for it (zero for the empty blob), or it hands over none and counts a dropped observation, which
  happens only when no size was recorded for some hash. The observation changes nothing else of the
  cache, and it does not change the answer.
\<close>

theorem hit_closure_complete_or_dropped:
  assumes "vacFinish cfg hash plan proxySizes s None = (r, st')" "cObserver cfg"
  defines "sizes \<equiv> vpSizes plan @ fmSizes s @ proxySizes"
  shows "r = VacFound (vpResult plan) (vpData plan) \<and> (dLru st', dFs st', dPending st') = (dLru (fmSt s), dFs (fmSt s), dPending (fmSt s)) \<and>
    ((\<exists>leaves. dClosures st' = dClosures (fmSt s) @ [\<lparr>acObject = \<lparr>loHash = hash, loSizeOnDisk = vpSize plan\<rparr>, acLeaves = leaves\<rparr>] \<and>
        distinct (map loHash leaves) \<and> set (map loHash leaves) = set (vpLeafHashes plan) \<and>
        (\<forall>l \<in> set leaves. loHash l = emptySha256 \<and> loSizeOnDisk l = 0 \<or> collectorSize sizes (loHash l) = Some (loSizeOnDisk l))) \<or>
     dClosures st' = dClosures (fmSt s) \<and> dDropped st' = dDropped (fmSt s) @ [''incomplete_closure''] \<and>
        (\<exists>h \<in> set (vpLeafHashes plan). h \<noteq> emptySha256 \<and> collectorSize sizes h = None))"
proof (cases "hitLeaves sizes (vpLeafHashes plan) []")
  case None
  then show ?thesis
    using assms(1,2) hitLeaves_None [OF None]
    by (auto simp: vacFinish_def emitACClosureFromHit_def dropObservation_def sizes_def)
next
  case (Some leaves)
  have "\<forall>l \<in> set leaves. loHash l = emptySha256 \<and> loSizeOnDisk l = 0 \<or> collectorSize sizes (loHash l) = Some (loSizeOnDisk l)"
    using hitLeaves_Some [OF Some] by (auto split: if_splits)
  then show ?thesis
    using assms(1,2) hitLeaves_Some [OF Some] Some
    by (auto simp: vacFinish_def emitACClosureFromHit_def ObserveACAccess_def sizes_def)
qed

section \<open>A cache with one action result\<close>

definition vacItem :: lruItem where
  "vacItem = \<lparr>itemSize = 1, sizeOnDisk = 1, randomStr = ''9'', legacy = False\<rparr>"

definition vacConfig :: dcConfig where
  "vacConfig = (demoConfig Identity)\<lparr>cObserver := True, cUnmarshalAR := (\<lambda>_. Some emptyActionResult)\<rparr>"

definition vacLru :: "string sizedLRU" where
  "vacLru = \<lparr>elems = (\<lambda>_. (LookupKeyForContext emptyCtx AC emptySha256, vacItem)), nextElem = 1, ll = [0],
     cacheMap = [LookupKeyForContext emptyCtx AC emptySha256 \<mapsto> 0], currentSize = 4096, uncompressedSize = 4096,
     reservedSize = 0, maxSize = 8192, onEvictSet = True, evictCalls = [], evictedBytes = 0, overwrittenBytes = 0\<rparr>"

definition vacState :: dcState where
  "vacState = (demoState 8192)\<lparr>dLru := vacLru,
     dFs := [itemPath vacConfig (WithLeafSizeSink emptyCtx) AC emptySha256 vacItem \<mapsto> \<lparr>cfData = [7], cfComplete = True\<rparr>]\<rparr>"

definition vacDemoPlan :: vacPlan where
  "vacDemoPlan = \<lparr>vpResult = emptyActionResult, vpData = [7], vpSize = 1, vpPending = [], vpLeafHashes = [], vpSizes = []\<rparr>"

lemma key_with_sink: "LookupKeyForContext (WithLeafSizeSink c) k h = LookupKeyForContext c k h"
  by (simp add: LookupKeyForContext_def StoragePrefixIDFromContext_def StoragePrefixFromContext_def WithLeafSizeSink_def)

lemma vac_get:
  "\<exists>st1. dcGet vacConfig noFaults id (WithLeafSizeSink emptyCtx) AC emptySha256 (- 1) 0 vacState = Some (Found (bytes_reader [7]) 1, st1)"
proof -
  let ?c = "WithLeafSizeSink emptyCtx"
  let ?key = "LookupKeyForContext emptyCtx AC emptySha256"
  have g: "Get (LookupKeyForContext ?c AC emptySha256) (dLru vacState) = (Some vacItem, vacLru)"
    by (simp add: key_with_sink Get_def vacState_def vacLru_def moveToFront_def)
  let ?st = "setLru vacConfig vacLru vacState"
  have o: "openFile noFaults ?st (itemPath vacConfig ?c AC emptySha256 vacItem) = Some (openBytes [7])"
    by (rule openFile_noFaults [where cflag = True]) (simp add: vacState_def)
  have oi: "openItem vacConfig AC vacItem (- 1) 0 False (openBytes [7]) = Inr (bytes_reader [7], 1)"
    by (simp add: openItem_def openBytes_def noFaults_def isSizeMismatch_def fseek_def fileReader_def frest_def bytes_reader_def)
  have "localGet vacConfig noFaults id ?c AC emptySha256 (- 1) 0 False vacState = (Inr (bytes_reader [7], 1), ?st)"
    using g o oi by (simp add: localGet_def Let_def isSizeMismatch_def)
  then show ?thesis
    using hex64_emptySha256 by (simp add: dcGet_def get_def availableOrTryProxy_def hex64_def)
qed

lemma vac_read:
  "\<exists>st1. vacRead vacConfig noFaults id emptyCtx (\<lambda>_. None) emptySha256 vacState = Some (Inr vacDemoPlan, st1)"
proof -
  obtain st1 where g: "dcGet vacConfig noFaults id (WithLeafSizeSink emptyCtx) AC emptySha256 (- 1) 0 vacState =
      Some (Found (bytes_reader [7]) 1, st1)" using vac_get by blast
  have "validateActionResult (Some emptyActionResult) = None"
    by (simp add: validateActionResult_good goodActionResult_def emptyActionResult_def)
  then have "vacRead vacConfig noFaults id emptyCtx (\<lambda>_. None) emptySha256 vacState = Some (Inr vacDemoPlan, st1)"
    using g by (simp add: vacRead_def vacContext_def vacConfig_def readAll_def bytes_reader_def vacDemoPlan_def
        vacPending_def directoryDigests_def filesPending_def optDigest_def emptyActionResult_def noTrees_def)
  then show ?thesis by blast
qed

lemma empty_search:
  assumes "cProxy cfg = None"
  shows "fmreach cfg c True (fmInit st []) ((fmInit st [])\<lparr>fmPhase := Done None\<rparr>)"
proof -
  have "batchStep cfg c True (fmInit st []) = (fmInit st [])\<lparr>fmPhase := Done None\<rparr>"
    using assms by (simp add: batchStep_def fmInit_def)
  then show ?thesis
    using fmreach.step [OF fmreach.start fmstep.batch, of "fmInit st []" cfg c True] by (simp add: fmInit_def)
qed


theorem hit_closure_complete_or_dropped_witness:
  "vpResult vacDemoPlan = emptyActionResult \<and>
   fst (vacFinish vacConfig emptySha256 vacDemoPlan [] (fmInit vacState []) None) = VacFound (vpResult vacDemoPlan) (vpData vacDemoPlan)"
proof -
  obtain r st' where v: "vacFinish vacConfig emptySha256 vacDemoPlan [] (fmInit vacState []) None = (r, st')"
    by (cases "vacFinish vacConfig emptySha256 vacDemoPlan [] (fmInit vacState []) None")
  have "cObserver vacConfig" by (simp add: vacConfig_def)
  from hit_closure_complete_or_dropped [OF v this] v show ?thesis by (simp add: vacDemoPlan_def)
qed

end
