(* ===== verification/CacheInterface.thy ===== *)
theory CacheInterface
  imports ValidatedAC Disk_Props
begin

text \<open>
  The interface \<open>disk.Cache\<close> that the servers use: its operations as a record, the disk cache as
  one of its implementations, the laws that the servers rely on as a locale, and the status codes
  with \<open>validateHash\<close> and \<open>gRPCErrCode\<close> of \<open>server/grpc.go\<close>, which all the handlers share.
\<close>

section \<open>The operations\<close>

record 's cacheOps =
  coGet :: "ctx \<Rightarrow> EntryKind \<Rightarrow> string \<Rightarrow> int \<Rightarrow> int \<Rightarrow> 's \<Rightarrow> (got \<times> 's) option"
  coGetValidated :: "ctx \<Rightarrow> string \<Rightarrow> 's \<Rightarrow> (vac_result \<times> 's) option"
  coGetZstd :: "ctx \<Rightarrow> string \<Rightarrow> int \<Rightarrow> int \<Rightarrow> 's \<Rightarrow> (got \<times> 's) option"
  coPut :: "ctx \<Rightarrow> EntryKind \<Rightarrow> string \<Rightarrow> int \<Rightarrow> reader \<Rightarrow> 's \<Rightarrow> (dc_error option \<times> 's) option"
  coContains :: "ctx \<Rightarrow> EntryKind \<Rightarrow> string \<Rightarrow> int \<Rightarrow> 's \<Rightarrow> (bool \<times> int) \<times> 's"
  coFindMissing :: "ctx \<Rightarrow> digest list \<Rightarrow> 's \<Rightarrow> (fm_error + digest list) \<times> 's"
  coMaxSize :: "'s \<Rightarrow> int"
  coStats :: "'s \<Rightarrow> int \<times> int \<times> nat \<times> int"

text \<open>
  The disk cache. Its two concurrent operations are relations; \<open>fm\<close> and \<open>vac\<close> stand for the run of
  each that takes place.
\<close>

definition diskOps :: "dcConfig \<Rightarrow> osFaults \<Rightarrow> (dcState \<Rightarrow> dcState) \<Rightarrow>
    (ctx \<Rightarrow> digest list \<Rightarrow> dcState \<Rightarrow> (fm_error + digest list) \<times> dcState) \<Rightarrow>
    (ctx \<Rightarrow> string \<Rightarrow> dcState \<Rightarrow> (vac_result \<times> dcState) option) \<Rightarrow> dcState cacheOps" where
  "diskOps cfg os env fm vac =
     \<lparr>coGet = dcGet cfg os env, coGetValidated = vac, coGetZstd = dcGetZstd cfg os env, coPut = Put cfg os,
      coContains = Contains cfg, coFindMissing = fm, coMaxSize = dcMaxSize, coStats = Stats\<rparr>"

lemma diskOps_sel [simp]:
  "coGet (diskOps cfg os env fm vac) = dcGet cfg os env" "coGetValidated (diskOps cfg os env fm vac) = vac"
  "coGetZstd (diskOps cfg os env fm vac) = dcGetZstd cfg os env" "coPut (diskOps cfg os env fm vac) = Put cfg os"
  "coContains (diskOps cfg os env fm vac) = Contains cfg" "coFindMissing (diskOps cfg os env fm vac) = fm"
  "coMaxSize (diskOps cfg os env fm vac) = dcMaxSize" "coStats (diskOps cfg os env fm vac) = Stats"
  by (simp_all add: diskOps_def)

section \<open>What the servers rely on\<close>

text \<open>
  \<open>holds c s h n r\<close>: a \<open>Put\<close> of the content of \<open>r\<close> has left the entry in the index. \<open>accepts\<close> is what the
  store asks of an upload. The laws speak of CAS blobs; \<open>dec\<close> decodes a compressed stream.
\<close>

locale blob_store =
  fixes ops :: "'s cacheOps"
    and dec :: "reader \<Rightarrow> reader option"
    and ok :: "'s \<Rightarrow> bool"
    and accepts :: "reader \<Rightarrow> int \<Rightarrow> bool"
    and indexed :: "ctx \<Rightarrow> string \<Rightarrow> 's \<Rightarrow> bool"
  assumes put_exact: "ok s \<Longrightarrow> in64 n \<Longrightarrow> accepts r n \<Longrightarrow> hex64 h \<Longrightarrow> \<not> (n = 0 \<and> h = emptySha256) \<Longrightarrow>
      coPut ops c CAS h n r s = Some (None, s') \<Longrightarrow> blen (rdata r) = n \<and> \<not> rfails r"
    and put_get: "ok s \<Longrightarrow> in64 n \<Longrightarrow> accepts r n \<Longrightarrow> hex64 h \<Longrightarrow> 0 < n \<Longrightarrow>
      coPut ops c CAS h n r s = Some (None, s') \<Longrightarrow> indexed c h s' \<Longrightarrow> 0 \<le> off \<Longrightarrow> off < n \<Longrightarrow>
      \<exists>s2. coGet ops c CAS h n off s' = Some (Found (bytes_reader (drop (nat off) (rdata r))) n, s2)"
    and put_get_zstd: "ok s \<Longrightarrow> in64 n \<Longrightarrow> accepts r n \<Longrightarrow> hex64 h \<Longrightarrow> 0 < n \<Longrightarrow>
      coPut ops c CAS h n r s = Some (None, s') \<Longrightarrow> indexed c h s' \<Longrightarrow> 0 \<le> off \<Longrightarrow> off < n \<Longrightarrow>
      \<exists>out s2. coGetZstd ops c h n off s' = Some (Found out n, s2) \<and>
        dec out = Some (bytes_reader (drop (nat off) (rdata r)))"
    and put_contains: "ok s \<Longrightarrow> in64 n \<Longrightarrow> accepts r n \<Longrightarrow> hex64 h \<Longrightarrow> 0 < n \<Longrightarrow>
      coPut ops c CAS h n r s = Some (None, s') \<Longrightarrow> indexed c h s' \<Longrightarrow> fst (coContains ops c CAS h n s') = (True, n)"

lemma Contains_indexed:
  assumes "Peek (LookupKeyForContext c k h) (dLru st) = Some it" "itemSize it = n" "hex64 h" "0 < n"
  shows "fst (Contains cfg c k h n st) = (True, n)"
proof -
  obtain l where "Get (LookupKeyForContext c k h) (dLru st) = (Some it, l)"
    using assms(1) Get_Peek by (metis prod.collapse)
  then show ?thesis
    using assms(2-4) hex64_length [OF assms(3)] by (simp add: Contains_def isSizeMismatch_def)
qed

interpretation disk: blob_store "diskOps cfg noFaults id fm vac" "GetDecoder (cZstd cfg)" "\<lambda>st. lru_ok (dLru st)"
    "\<lambda>r n. goodUpload cfg CAS r n \<and> zstd_laws (cZstd cfg)"
    "\<lambda>c h st. Peek (LookupKeyForContext c CAS h) (dLru st) \<noteq> None"
  for cfg fm vac
proof
  fix s s' :: dcState and n r h c off
  assume a: "lru_ok (dLru s)" "in64 n" "goodUpload cfg CAS r n \<and> zstd_laws (cZstd cfg)" "hex64 h"
  show "blen (rdata r) = n \<and> \<not> rfails r"
    if "\<not> (n = 0 \<and> h = emptySha256)" "coPut (diskOps cfg noFaults id fm vac) c CAS h n r s = Some (None, s')"
    using Put_success [OF a(1,2) _ a(4), of cfg CAS r noFaults c s'] a(3) that by simp
  assume n: "0 < n" and p: "coPut (diskOps cfg noFaults id fm vac) c CAS h n r s = Some (None, s')"
    and i: "Peek (LookupKeyForContext c CAS h) (dLru s') \<noteq> None"
  have p': "Put cfg noFaults c CAS h n r s = Some (None, s')" using p by simp
  show "fst (coContains (diskOps cfg noFaults id fm vac) c CAS h n s') = (True, n)"
  proof -
    have "\<exists>it. Peek (LookupKeyForContext c CAS h) (dLru s') = Some it \<and> itemSize it = n"
      using Put_success [OF a(1,2) _ a(4) p'] a(3) n i by (auto simp: Let_def uploadItem_def split: if_splits)
    then show ?thesis using Contains_indexed a(4) n by auto
  qed
  assume off: "0 \<le> off" "off < n"
  have e: "\<not> (CAS = CAS \<and> n \<le> 0 \<and> h = emptySha256)" using n by simp
  show "\<exists>s2. coGet (diskOps cfg noFaults id fm vac) c CAS h n off s' =
      Some (Found (bytes_reader (drop (nat off) (rdata r))) n, s2)"
    using Put_get [OF a(1,2) _ a(4) _ p' e i off(1)] a(3) off(2) by (simp add: dcGet_def)
  show "\<exists>out s2. coGetZstd (diskOps cfg noFaults id fm vac) c h n off s' = Some (Found out n, s2) \<and>
      GetDecoder (cZstd cfg) out = Some (bytes_reader (drop (nat off) (rdata r)))"
    using Put_get_zstd [OF a(1,2) _ a(4) _ p' _ i off(1)] a(3) off(2) e by simp
qed

text \<open>
  Entries read without knowing their size, of every kind: the contract for action results, which are
  stored under the hash of the action, and for HTTP.
\<close>

locale keyed_store =
  fixes ops :: "'s cacheOps"
    and ok :: "'s \<Rightarrow> bool"
    and accepts :: "reader \<Rightarrow> int \<Rightarrow> bool"
    and indexed :: "ctx \<Rightarrow> EntryKind \<Rightarrow> string \<Rightarrow> 's \<Rightarrow> bool"
  assumes keyed_put_get: "ok s \<Longrightarrow> in64 n \<Longrightarrow> hex64 h \<Longrightarrow> k = CAS \<longrightarrow> accepts r n \<and> h \<noteq> emptySha256 \<Longrightarrow>
      coPut ops c k h n r s = Some (None, s') \<Longrightarrow> indexed c k h s' \<Longrightarrow>
      blen (rdata r) = n \<and> (\<exists>s2. coGet ops c k h (- 1) 0 s' = Some (Found (bytes_reader (rdata r)) n, s2))"

interpretation disk_keyed: keyed_store "diskOps cfg noFaults id fm vac"
    "\<lambda>st. lru_ok (dLru st) \<and> zstd_laws (cZstd cfg)" "goodUpload cfg CAS"
    "\<lambda>c k h st. Peek (LookupKeyForContext c k h) (dLru st) \<noteq> None"
  for cfg fm vac
proof
  fix s s' :: dcState and n k h c r
  assume a: "lru_ok (dLru s) \<and> zstd_laws (cZstd cfg)" "in64 n" "hex64 h"
    and k: "k = CAS \<longrightarrow> goodUpload cfg CAS r n \<and> h \<noteq> emptySha256"
    and p: "coPut (diskOps cfg noFaults id fm vac) c k h n r s = Some (None, s')"
    and i: "Peek (LookupKeyForContext c k h) (dLru s') \<noteq> None"
  have g: "goodUpload cfg k r n" using k by (cases "k = CAS") (simp_all add: goodUpload_def)
  have n: "0 \<le> n" "blen (rdata r) = n"
    using Put_success [of s n cfg k r h noFaults c s'] a g p k by auto
  then show "blen (rdata r) = n \<and>
      (\<exists>s2. coGet (diskOps cfg noFaults id fm vac) c k h (- 1) 0 s' = Some (Found (bytes_reader (rdata r)) n, s2))"
    using Put_get [of s n cfg k r h noFaults c s' "- 1" 0] a g p i k by (simp add: dcGet_def)
qed

text \<open>A stored entry of any kind for the witnesses of the servers.\<close>

lemma demo_stored_plain:
  assumes "kind \<noteq> CAS \<or> m = Identity" "hex64 h"
  shows "\<exists>st' random. Put (demoConfig m) noFaults emptyCtx kind h 3 (bytes_reader [1, 2, 3]) (demoState 100000)
      = Some (None, st') \<and>
    Peek (LookupKeyForContext emptyCtx kind h) (dLru st') = Some (uploadItem (demoConfig m) kind 3 [1, 2, 3] random)"
proof -
  have g: "goodUpload (demoConfig m) kind (bytes_reader [1, 2, 3]) 3" using assms(1) by (auto simp: goodUpload_def)
  show ?thesis
    using Put_succeeds [OF demoState_ok _ _ _ _ assms(2) _ g demo_write_plain [OF assms(1)] _ _ demo_free_name, of 100000 emptyCtx]
    by (simp add: in64_def bytes_reader_def roundUp4k_eq size_ok_def)
qed

section \<open>Status codes\<close>

datatype grpc_code =
    codeOK | codeUnknown | codeInvalidArgument | codeNotFound | codeOutOfRange | codeInternal
  | codeDataLoss | codeUnauthenticated | codeUnimplemented

definition hashKeyLength :: nat where "hashKeyLength = 64"

definition validateHash :: "string \<Rightarrow> int \<Rightarrow> grpc_code option" where
  "validateHash hash sz =
     (if sz = 0 then (if hash = emptySha256 then None else Some codeInvalidArgument)
      else if length hash \<noteq> hashKeyLength then Some codeInvalidArgument
      else if \<not> hex64 hash then Some codeInvalidArgument
      else None)"

text \<open>A nil error has the code OK; errors that are no \<open>cache.Error\<close> have the default code.\<close>

definition gRPCErrCode :: "dc_error option \<Rightarrow> grpc_code \<Rightarrow> grpc_code" where
  "gRPCErrCode err dflt =
     (case err of
        None \<Rightarrow> codeOK
      | Some e \<Rightarrow> if errCode e = 400 then codeInvalidArgument else dflt)"

lemma validateHash_None: "validateHash h n = None \<longleftrightarrow> hex64 h \<and> (n = 0 \<longrightarrow> h = emptySha256)"
  using hex64_length [of h] hex64_emptySha256 by (auto simp: validateHash_def hashKeyLength_def)

end
