(* ===== verification/ByteStream.thy ===== *)
theory ByteStream
  imports CacheInterface
begin

text \<open>
  \<open>server/grpc_bytestream.go\<close>: the byte stream service. The resource names are parsed, a read sends
  the blob in chunks of at most 2 MiB, a write receives the messages of the client in one goroutine,
  which feeds a pipe that a second goroutine stores, and answers when one of them reports.

  The gRPC stream is the list of what \<open>Recv\<close> returns, and a predicate says which \<open>Send\<close> fails; how
  the cache's reader splits the data into reads is an argument, and so is the pooled zstd decoder.
\<close>

section \<open>Resource names\<close>

text \<open>The first field that is \<open>blobs\<close> or \<open>compressed-blobs\<close>, and the fields after it.\<close>

fun findBlobs :: "string list \<Rightarrow> (bool \<times> string list) option" where
  "findBlobs [] = None"
| "findBlobs (f # fs) =
     (if f = ''blobs'' then Some (False, fs) else if f = ''compressed-blobs'' then Some (True, fs) else findBlobs fs)"

text \<open>Size and hash, with the checks that both parsers make in this order.\<close>

definition parseDigest :: "string \<Rightarrow> string \<Rightarrow> compressionType \<Rightarrow> grpc_code + string \<times> int \<times> compressionType" where
  "parseDigest hash sizeStr cmp =
     (case parse_int64 sizeStr of
        None \<Rightarrow> Inl codeInvalidArgument
      | Some sz \<Rightarrow>
          if sz < 0 then Inl codeInvalidArgument
          else case validateHash hash sz of Some e \<Rightarrow> Inl e | None \<Rightarrow> Inr (hash, sz, cmp))"

definition parseReadResource :: "string \<Rightarrow> grpc_code + string \<times> int \<times> compressionType" where
  "parseReadResource name =
     (case findBlobs (split_on CHR ''/'' name) of
        None \<Rightarrow> Inl codeInvalidArgument
      | Some (False, rem) \<Rightarrow>
          (case rem of [hash, sizeStr] \<Rightarrow> parseDigest hash sizeStr Identity | _ \<Rightarrow> Inl codeInvalidArgument)
      | Some (True, rem) \<Rightarrow>
          (case rem of
             [cmp, hash, sizeStr] \<Rightarrow>
               if cmp \<noteq> ''zstd'' then Inl codeInvalidArgument else parseDigest hash sizeStr Zstandard
           | _ \<Rightarrow> Inl codeInvalidArgument))"

fun findUploads :: "string list \<Rightarrow> string list" where
  "findUploads [] = []"
| "findUploads (f # fs) = (if f = ''uploads'' then fs else findUploads fs)"

definition parseWriteResource :: "string \<Rightarrow> grpc_code + string \<times> int \<times> compressionType" where
  "parseWriteResource r =
     (let rem = findUploads (split_on CHR ''/'' r)
      in if length rem < 4 then Inl codeInvalidArgument
         else if rem ! 1 = ''blobs'' then parseDigest (rem ! 2) (rem ! 3) Identity
         else if rem ! 1 \<noteq> ''compressed-blobs'' \<or> length rem < 5 \<or> rem ! 2 \<noteq> ''zstd'' then Inl codeInvalidArgument
         else parseDigest (rem ! 3) (rem ! 4) Zstandard)"

section \<open>Read\<close>

definition maxChunkSize :: int where "maxChunkSize = 2097152"

record readRequest =
  rrResourceName :: string
  rrReadOffset :: int
  rrReadLimit :: int

text \<open>The loop over the reads: what was sent, and the status (\<open>None\<close> is OK).\<close>

fun sendLoop :: "bool \<Rightarrow> (nat \<Rightarrow> bool) \<Rightarrow> nat \<Rightarrow> int \<Rightarrow> bytes list \<Rightarrow> bool \<Rightarrow> bytes list \<times> grpc_code option" where
  "sendLoop limitedSend sendErr i lim [] readFails = ([], if readFails then Some codeUnknown else None)"
| "sendLoop limitedSend sendErr i lim (d # ds) readFails =
     (if limitedSend \<and> sub64 lim (blen d) < 0 then ([], Some codeOutOfRange)
      else if sendErr i then ([], Some codeUnknown)
      else
        (let (sent, r) = sendLoop limitedSend sendErr (Suc i)
                           (if limitedSend then sub64 lim (blen d) else lim) ds readFails
         in (d # sent, r)))"

text \<open>How a reader delivers its data to reads with a buffer of a given size: non-empty parts, in order.\<close>

definition splits :: "(int \<Rightarrow> bytes \<Rightarrow> bytes list) \<Rightarrow> bool" where
  "splits rd \<longleftrightarrow> (\<forall>n bs. 0 < n \<longrightarrow> concat (rd n bs) = bs \<and> (\<forall>d \<in> set (rd n bs). d \<noteq> [] \<and> blen d \<le> n))"

definition Read :: "'s cacheOps \<Rightarrow> (int \<Rightarrow> bytes \<Rightarrow> bytes list) \<Rightarrow> (nat \<Rightarrow> bool) \<Rightarrow> ctx \<Rightarrow> readRequest option \<Rightarrow> 's \<Rightarrow>
    ((bytes list \<times> grpc_code option) \<times> 's) option" where
  "Read ops rd sendErr c req st =
     (case req of
        None \<Rightarrow> Some (([], Some codeInvalidArgument), st)
      | Some req \<Rightarrow>
          case parseReadResource (rrResourceName req) of
            Inl e \<Rightarrow> Some (([], Some e), st)
          | Inr (hash, sz, cmp) \<Rightarrow>
              if sz = 0 then
                (if cmp = Identity then Some (([], None), st)
                 else if sendErr 0 then Some (([], Some codeUnknown), st)
                 else Some (([emptyZstdBlob], None), st))
              else if rrReadOffset req < 0 then Some (([], Some codeInvalidArgument), st)
              else if cmp \<noteq> Identity \<and> rrReadLimit req \<noteq> 0 then Some (([], Some codeInvalidArgument), st)
              else if rrReadLimit req < 0 then Some (([], Some codeOutOfRange), st)
              else if rrReadOffset req > sz then Some (([], Some codeOutOfRange), st)
              else
                (let limitedSend = (rrReadLimit req \<noteq> 0 \<and> cmp = Identity) in
                 case (if cmp = Zstandard then coGetZstd ops c hash sz (rrReadOffset req) st
                       else coGet ops c CAS hash sz (rrReadOffset req) st) of
                   None \<Rightarrow> None
                 | Some (GotError e, st) \<Rightarrow> Some (([], Some (gRPCErrCode (Some e) codeInternal)), st)
                 | Some (NotFound, st) \<Rightarrow> Some (([], Some codeNotFound), st)
                 | Some (Found r foundSize, st) \<Rightarrow>
                     if foundSize \<noteq> sz then Some (([], Some codeInternal), st)
                     else
                       (let bufSize = (if sz > maxChunkSize then maxChunkSize else sz)
                        in Some (sendLoop limitedSend sendErr 0 (rrReadLimit req) (rd bufSize (rdata r)) (rfails r), st))))"

section \<open>Write\<close>

record writeRequest =
  wrResourceName :: string
  wrWriteOffset :: int
  wrData :: bytes
  wrFinishWrite :: bool

text \<open>What \<open>Recv\<close> returns; after the end of the list it reports the end of the stream.\<close>

datatype recv = RecvReq writeRequest | RecvEOF | RecvError

text \<open>
  The errors that go through \<open>recvResult\<close>: a status, or one of the two plain errors, which gRPC
  reports as unknown.
\<close>

datatype recv_result = RecvDone | RecvStatus grpc_code | RecvPlain

definition recvCode :: "recv_result \<Rightarrow> grpc_code" where
  "recvCode r = (case r of RecvStatus e \<Rightarrow> e | _ \<Rightarrow> codeUnknown)"

text \<open>
  The rest of the receive loop once the upload is running: the data written to the pipe, the
  committed size and the result.
\<close>

text \<open>The end of the stream, or a message with \<open>finish_write\<close>.\<close>

definition finishRecv :: "compressionType \<Rightarrow> int \<Rightarrow> int \<Rightarrow> recv_result" where
  "finishRecv cmp sz committed =
     (if cmp = Identity \<and> committed \<noteq> sz then RecvStatus codeUnknown else RecvDone)"

fun recvLoop :: "string \<Rightarrow> compressionType \<Rightarrow> int \<Rightarrow> int \<Rightarrow> recv list \<Rightarrow> bytes \<times> int \<times> recv_result" where
  "recvLoop name cmp sz committed [] = ([], committed, finishRecv cmp sz committed)"
| "recvLoop name cmp sz committed (RecvEOF # rs) = ([], committed, finishRecv cmp sz committed)"
| "recvLoop name cmp sz committed (RecvError # rs) = ([], committed, RecvStatus codeInternal)"
| "recvLoop name cmp sz committed (RecvReq m # rs) =
     (if wrResourceName m \<noteq> [] \<and> wrResourceName m \<noteq> name then ([], committed, RecvStatus codeInvalidArgument)
      else
        (let committed' = add64 committed (blen (wrData m)) in
         if cmp = Identity \<and> committed' > sz then (wrData m, committed', RecvStatus codeOutOfRange)
         else if wrFinishWrite m then (wrData m, committed', finishRecv cmp sz committed')
         else
           (let (bs, n, r) = recvLoop name cmp sz committed' rs in (wrData m @ bs, n, r))))"

text \<open>
  The first message: it fails before an upload starts, finds the blob in the cache, or starts the
  upload. An end of the stream before it finds \<open>CommittedSize\<close> and \<open>size\<close> both zero, and then the
  main goroutine waits for a \<open>Put\<close> that never started.
\<close>

datatype write_start =
    StartFailed recv_result
  | StartNothing
  | StartSkipped int
  | StartUpload string string int compressionType

definition writeStart :: "'s cacheOps \<Rightarrow> ctx \<Rightarrow> recv list \<Rightarrow> 's \<Rightarrow> write_start \<times> 's" where
  "writeStart ops c rs st =
     (case rs of
        [] \<Rightarrow> (StartNothing, st)
      | RecvEOF # _ \<Rightarrow> (StartNothing, st)
      | RecvError # _ \<Rightarrow> (StartFailed (RecvStatus codeInternal), st)
      | RecvReq m # _ \<Rightarrow>
          if wrResourceName m = [] then (StartFailed (RecvStatus codeInvalidArgument), st)
          else
            case parseWriteResource (wrResourceName m) of
              Inl e \<Rightarrow> (StartFailed (RecvStatus e), st)
            | Inr (hash, sz, cmp) \<Rightarrow>
                (case coContains ops c CAS hash sz st of
                   ((True, _), st) \<Rightarrow> (StartSkipped (if cmp = Identity then sz else - 1), st)
                 | ((False, _), st) \<Rightarrow>
                     if wrWriteOffset m \<noteq> 0 then (StartFailed RecvPlain, st)
                     else (StartUpload (wrResourceName m) hash sz cmp, st)))"

text \<open>The answer: the committed size of the response that was sent, or a status.\<close>

datatype write_answer = Committed int | WriteFails grpc_code

text \<open>
  The main goroutine once an upload has run: it takes the first report of the two, an error of the
  receive loop ends the call, and otherwise the result of \<open>Put\<close> decides.
\<close>

definition answerWrite :: "bool \<Rightarrow> bool \<Rightarrow> int \<Rightarrow> recv_result \<Rightarrow> dc_error option \<Rightarrow> write_answer" where
  "answerWrite putFirst sendFails committed result err =
     (if putFirst \<and> err \<noteq> None then WriteFails codeInternal
      else if result \<noteq> RecvDone then WriteFails (recvCode result)
      else
        (case err of
           Some e \<Rightarrow> WriteFails (gRPCErrCode (Some e) codeInternal)
         | None \<Rightarrow> if sendFails then WriteFails codeUnknown else Committed committed))"

text \<open>
  \<open>putFirst\<close>: the result of \<open>Put\<close> is there before the receive loop has reported, which an early
  error of the decoder makes possible. \<open>sendFails\<close>: \<open>SendAndClose\<close> fails. The reader of the upload
  has what the receive loop wrote; it fails when the pipe was closed with an error. \<open>None\<close>: the
  handler never returns.
\<close>

definition Write :: "'s cacheOps \<Rightarrow> (reader \<Rightarrow> reader option) \<Rightarrow> bool \<Rightarrow> bool \<Rightarrow> ctx \<Rightarrow> recv list \<Rightarrow> 's \<Rightarrow>
    (write_answer \<times> 's) option" where
  "Write ops dec putFirst sendFails c rs st =
     (case writeStart ops c rs st of
        (StartNothing, st) \<Rightarrow> None
      | (StartFailed r, st) \<Rightarrow> Some (WriteFails (recvCode r), st)
      | (StartSkipped n, st) \<Rightarrow> Some (if sendFails then WriteFails codeInternal else Committed n, st)
      | (StartUpload name hash sz cmp, st) \<Rightarrow>
          (let (bs, committed, result) = recvLoop name cmp sz 0 rs;
               pipe = \<lparr>rdata = bs, rfails = (result \<noteq> RecvDone)\<rparr>
           in case (if cmp = Zstandard then dec pipe else Some pipe) of
                None \<Rightarrow> Some (WriteFails codeUnknown, st)
              | Some body \<Rightarrow>
                  (case coPut ops c CAS hash sz body st of
                     None \<Rightarrow> None
                   | Some (err, st) \<Rightarrow>
                       Some (answerWrite putFirst sendFails committed result err, st))))"

section \<open>QueryWriteStatus\<close>

definition QueryWriteStatus :: "'s cacheOps \<Rightarrow> ctx \<Rightarrow> string option \<Rightarrow> 's \<Rightarrow> (grpc_code + int \<times> bool) \<times> 's" where
  "QueryWriteStatus ops c req st =
     (case req of
        None \<Rightarrow> (Inl codeInvalidArgument, st)
      | Some name \<Rightarrow>
          case parseWriteResource name of
            Inl e \<Rightarrow> (Inl e, st)
          | Inr (hash, sz, _) \<Rightarrow>
              (let ((exists, _), st) = coContains ops c CAS hash sz st
               in (Inr (if exists then (sz, True) else (0, False)), st)))"

end
