(* ===== verification/ByteStream_Props.thy ===== *)
theory ByteStream_Props
  imports ByteStream
begin

text \<open>
  The byte stream service: the resource names that it understands, how a read limit is enforced,
  that an upload that is acknowledged is stored as it was sent and can be downloaded again, and
  when a write never returns.
\<close>

section \<open>Resource names\<close>

lemma parseDigest_Inr:
  "parseDigest h s m = Inr (h', n, m') \<longleftrightarrow>
     h' = h \<and> m' = m \<and> parse_int64 s = Some n \<and> 0 \<le> n \<and> hex64 h \<and> (n = 0 \<longrightarrow> h = emptySha256)"
  by (auto simp: parseDigest_def validateHash_None [symmetric] split: option.splits)

lemma parseDigest_show:
  assumes "in64 n" "0 \<le> n" "hex64 h" "n = 0 \<Longrightarrow> h = emptySha256"
  shows "parseDigest h (show_int n) m = Inr (h, n, m)"
  using assms by (simp add: parseDigest_Inr parse_show_int)

lemma findBlobs_skip: "list_all (\<lambda>f. f \<noteq> ''blobs'' \<and> f \<noteq> ''compressed-blobs'') fs \<Longrightarrow> findBlobs (fs @ gs) = findBlobs gs"
  by (induction fs) auto

lemma findUploads_skip: "list_all (\<lambda>f. f \<noteq> ''uploads'') fs \<Longrightarrow> findUploads (fs @ gs) = findUploads gs"
  by (induction fs) auto

lemma split_fields:
  "fs \<noteq> [] \<Longrightarrow> list_all (\<lambda>f. CHR ''/'' \<notin> set f) fs \<Longrightarrow> split_on CHR ''/'' (join_with CHR ''/'' fs) = fs"
  by (intro split_join) (auto simp: list_all_iff)

text \<open>The fields of the four forms of a resource name, after the instance name and the upload id.\<close>

definition blobFields :: "compressionType \<Rightarrow> string \<Rightarrow> int \<Rightarrow> string list" where
  "blobFields cmp h n =
     (if cmp = Identity then [''blobs'', h, show_int n] else [''compressed-blobs'', ''zstd'', h, show_int n])"

lemma blobFields_free: "hex64 h \<Longrightarrow> list_all (\<lambda>f. CHR ''/'' \<notin> set f) (blobFields cmp h n)"
  using hex64_free [of h "CHR ''/''"] show_int_free_slash by (simp add: blobFields_def)

lemma parseRead_fields:
  assumes "list_all (\<lambda>f. f \<noteq> ''blobs'' \<and> f \<noteq> ''compressed-blobs'' \<and> CHR ''/'' \<notin> set f) inst"
    and "cmp = Identity \<or> cmp = Zstandard" "in64 n" "0 \<le> n" "hex64 h" "n = 0 \<Longrightarrow> h = emptySha256"
  shows "parseReadResource (join_with CHR ''/'' (inst @ blobFields cmp h n)) = Inr (h, n, cmp)"
proof -
  have ne: "inst @ blobFields cmp h n \<noteq> []" by (simp add: blobFields_def)
  have fr: "list_all (\<lambda>f. CHR ''/'' \<notin> set f) (inst @ blobFields cmp h n)"
    using assms(1) blobFields_free [OF assms(5)] by (auto simp: list_all_iff)
  have sk: "findBlobs (inst @ blobFields cmp h n) = findBlobs (blobFields cmp h n)"
    using assms(1) by (intro findBlobs_skip) (auto simp: list_all_iff)
  have zi: "Zstandard \<noteq> Identity" by (simp add: Zstandard_def Identity_def)
  show ?thesis
    using assms(2) parseDigest_show [OF assms(3-6)] zi
    unfolding parseReadResource_def split_fields [OF ne fr] sk by (auto simp: blobFields_def)
qed

lemma parseWrite_fields:
  assumes "list_all (\<lambda>f. f \<noteq> ''uploads'' \<and> CHR ''/'' \<notin> set f) inst" "CHR ''/'' \<notin> set uuid"
    and "list_all (\<lambda>f. CHR ''/'' \<notin> set f) meta"
    and "cmp = Identity \<or> cmp = Zstandard" "in64 n" "0 \<le> n" "hex64 h" "n = 0 \<Longrightarrow> h = emptySha256"
  shows "parseWriteResource (join_with CHR ''/'' (inst @ [''uploads'', uuid] @ blobFields cmp h n @ meta)) = Inr (h, n, cmp)"
proof -
  let ?fs = "inst @ [''uploads'', uuid] @ blobFields cmp h n @ meta"
  have fr: "list_all (\<lambda>f. CHR ''/'' \<notin> set f) ?fs"
    using assms(1-3) blobFields_free [OF assms(7)] by (auto simp: list_all_iff)
  have "findUploads ?fs = findUploads ([''uploads'', uuid] @ blobFields cmp h n @ meta)"
    using assms(1) by (intro findUploads_skip) (auto simp: list_all_iff)
  then have sk: "findUploads ?fs = uuid # blobFields cmp h n @ meta" by simp
  have zi: "Zstandard \<noteq> Identity" by (simp add: Zstandard_def Identity_def)
  have sp: "split_on CHR ''/'' (join_with CHR ''/'' ?fs) = ?fs" by (rule split_fields [OF _ fr]) simp
  show ?thesis
    using assms(4) parseDigest_show [OF assms(5-8)] zi
    unfolding parseWriteResource_def sp sk by (auto simp: blobFields_def)
qed

text \<open>
  The resource names that the protocol defines are understood: for every instance name
  without the reserved words, every upload id, every optional trailing metadata and both
  compressors, reading the name gives back the hash, the size and the compressor; and whatever is
  accepted, by either parser, is a hash of 64 lower-case hexadecimal digits and a size in the range
  of non-negative \<open>int64\<close> that is zero only for the hash of the empty blob.
\<close>

theorem resource_names:
  assumes "cmp = Identity \<or> cmp = Zstandard" "in64 n" "0 \<le> n" "hex64 h" "n = 0 \<Longrightarrow> h = emptySha256"
    and "list_all (\<lambda>f. f \<notin> {''blobs'', ''compressed-blobs'', ''uploads''} \<and> CHR ''/'' \<notin> set f) inst"
    and "CHR ''/'' \<notin> set uuid" "list_all (\<lambda>f. CHR ''/'' \<notin> set f) meta"
  shows "parseReadResource (join_with CHR ''/'' (inst @ blobFields cmp h n)) = Inr (h, n, cmp) \<and>
    parseWriteResource (join_with CHR ''/'' (inst @ [''uploads'', uuid] @ blobFields cmp h n @ meta)) = Inr (h, n, cmp) \<and>
    (\<forall>name h' n' cmp'. parseReadResource name = Inr (h', n', cmp') \<or> parseWriteResource name = Inr (h', n', cmp') \<longrightarrow>
       hex64 h' \<and> 0 \<le> n' \<and> n' \<le> maxInt64 \<and> (n' = 0 \<longrightarrow> h' = emptySha256))"
proof (intro conjI)
  show "parseReadResource (join_with CHR ''/'' (inst @ blobFields cmp h n)) = Inr (h, n, cmp)"
    using assms by (intro parseRead_fields) (auto simp: list_all_iff)
  show "parseWriteResource (join_with CHR ''/'' (inst @ [''uploads'', uuid] @ blobFields cmp h n @ meta)) = Inr (h, n, cmp)"
    using assms by (intro parseWrite_fields) (auto simp: list_all_iff)
  have "parse_int64 s = Some n' \<Longrightarrow> n' \<le> maxInt64" for s n'
    by (auto simp: parse_int64_def Let_def in64_def split: if_splits option.splits)
  then show "\<forall>name h' n' cmp'. parseReadResource name = Inr (h', n', cmp') \<or> parseWriteResource name = Inr (h', n', cmp') \<longrightarrow>
       hex64 h' \<and> 0 \<le> n' \<and> n' \<le> maxInt64 \<and> (n' = 0 \<longrightarrow> h' = emptySha256)"
    by (auto simp: parseReadResource_def parseWriteResource_def parseDigest_Inr Let_def
        split: option.splits prod.splits bool.splits list.splits if_splits)
qed

theorem resource_names_witness:
  "parseWriteResource (join_with CHR ''/'' ([''main''] @ [''uploads'', ''u1''] @ blobFields Zstandard emptySha256 7 @ [''x''])) =
     Inr (emptySha256, 7, Zstandard)"
  using resource_names [of Zstandard 7 emptySha256 "[''main'']" "''u1''" "[''x'']"] hex64_emptySha256
  by (simp add: in64_def)

section \<open>Reading\<close>

definition bufferSize :: "int \<Rightarrow> int" where
  "bufferSize n = (if n > maxChunkSize then maxChunkSize else n)"

lemma splitsD:
  assumes "splits rd" "0 < n"
  shows "concat (rd (bufferSize n) bs) = bs"
    and "\<forall>d \<in> set (rd (bufferSize n) bs). d \<noteq> [] \<and> blen d \<le> maxChunkSize"
proof -
  have m: "0 < bufferSize n" "bufferSize n \<le> maxChunkSize" using assms(2) by (auto simp: bufferSize_def maxChunkSize_def)
  show "concat (rd (bufferSize n) bs) = bs" using assms(1) m(1) by (simp add: splits_def)
  show "\<forall>d \<in> set (rd (bufferSize n) bs). d \<noteq> [] \<and> blen d \<le> maxChunkSize"
  proof
    fix d assume "d \<in> set (rd (bufferSize n) bs)"
    then have "d \<noteq> [] \<and> blen d \<le> bufferSize n" using assms(1) m(1) unfolding splits_def by blast
    then show "d \<noteq> [] \<and> blen d \<le> maxChunkSize" using m(2) by linarith
  qed
qed

lemma sendLoop_all: "sendLoop False (\<lambda>_. False) i l ds False = (ds, None)"
  by (induction ds arbitrary: i) auto

lemma sendLoop_limit:
  assumes "0 \<le> l" "l \<le> maxInt64" "\<And>d. d \<in> set ds \<Longrightarrow> blen d \<le> maxChunkSize"
  shows "sendLoop True (\<lambda>_. False) i l ds False = (sent, r) \<Longrightarrow>
    (\<exists>rest. ds = sent @ rest \<and> blen (concat sent) \<le> l \<and> (r = None \<longleftrightarrow> rest = []) \<and> (r \<noteq> None \<longrightarrow> r = Some codeOutOfRange) \<and>
      (rest \<noteq> [] \<longrightarrow> l < blen (concat sent) + blen (hd rest)))"
  using assms
proof (induction ds arbitrary: i l sent r)
  case (Cons d ds)
  have small: "blen d \<le> maxChunkSize" "0 \<le> blen d" using Cons.prems(4) by (simp_all add: blen_def)
  then have s: "sub64 l (blen d) = l - blen d"
    using Cons.prems(2,3) unfolding sub64_def maxChunkSize_def by (intro wrap64_range) linarith+
  show ?case
  proof (cases "l - blen d < 0")
    case True
    then show ?thesis using Cons.prems(1,2) s by (intro exI [of _ "d # ds"]) (auto simp: blen_def)
  next
    case False
    have le: "l - blen d \<le> maxInt64" using small Cons.prems(3) by linarith
    obtain sent' where sent: "sendLoop True (\<lambda>_. False) (Suc i) (l - blen d) ds False = (sent', r)" "sent = d # sent'"
      using Cons.prems(1) False s by (auto split: prod.splits)
    have ih: "\<exists>rest. ds = sent' @ rest \<and> blen (concat sent') \<le> l - blen d \<and> (r = None \<longleftrightarrow> rest = []) \<and>
        (r \<noteq> None \<longrightarrow> r = Some codeOutOfRange) \<and> (rest \<noteq> [] \<longrightarrow> l - blen d < blen (concat sent') + blen (hd rest))"
      by (rule Cons.IH [OF sent(1)]) (use Cons.prems(4) le False in auto)
    then show ?thesis using sent(2) by auto
  qed
qed (auto simp: blen_def)

text \<open>
  Property C18. A read limit is never exceeded, and never silently truncates. For an uncompressed read
  with a limit, what is sent is a prefix of the data in whole chunks, of at most the limit's length;
  the answer is OK exactly when all of the data was sent, and otherwise it is out of range and the
  next chunk would have gone over the limit. (So a limit below the size of the first chunk, which
  for every blob up to 2 MiB may be the whole blob, gives an error and no data.)
\<close>

theorem read_limit_respected:
  assumes "parseReadResource (rrResourceName req) = Inr (h, n, Identity)" "0 < n"
    and "0 < rrReadLimit req" "rrReadLimit req \<le> maxInt64" "0 \<le> rrReadOffset req" "rrReadOffset req \<le> n"
    and "coGet ops c CAS h n (rrReadOffset req) st = Some (Found (bytes_reader bs) n, st1)" "splits rd"
    and "Read ops rd (\<lambda>_. False) c (Some req) st = Some ((sent, r), st2)"
  shows "\<exists>rest. bs = concat sent @ rest \<and> blen (concat sent) \<le> rrReadLimit req \<and> (r = None \<longleftrightarrow> rest = []) \<and>
    (rest \<noteq> [] \<longrightarrow> r = Some codeOutOfRange \<and> rrReadLimit req < blen (concat sent) + maxChunkSize)"
proof -
  let ?ds = "rd (bufferSize n) bs"
  have zi: "Zstandard \<noteq> Identity" by (simp add: Zstandard_def Identity_def)
  note ds = splitsD [OF assms(8,2), of bs]
  have "sendLoop True (\<lambda>_. False) 0 (rrReadLimit req) ?ds False = (sent, r)"
    using assms(1-7,9) zi by (simp add: Read_def Let_def bytes_reader_def flip: bufferSize_def)
  then obtain rest where r: "?ds = sent @ rest" "blen (concat sent) \<le> rrReadLimit req" "r = None \<longleftrightarrow> rest = []"
      "r \<noteq> None \<longrightarrow> r = Some codeOutOfRange" "rest \<noteq> [] \<longrightarrow> rrReadLimit req < blen (concat sent) + blen (hd rest)"
    using sendLoop_limit [of "rrReadLimit req" ?ds 0 sent r] assms(3,4) ds(2) by auto
  have ne: "concat rest = [] \<longleftrightarrow> rest = []" using ds(2) r(1) by (cases rest) auto
  have "rest \<noteq> [] \<longrightarrow> blen (hd rest) \<le> maxChunkSize" using ds(2) r(1) by (cases rest) auto
  then show ?thesis
    using r ds(1) ne by (intro exI [of _ "concat rest"]) (auto simp flip: concat_append)
qed

section \<open>Writing and reading back\<close>

text \<open>What the client sent: the data of its messages up to the one that finishes the write.\<close>

fun payload :: "recv list \<Rightarrow> bytes" where
  "payload (RecvReq m # rs) = wrData m @ (if wrFinishWrite m then [] else payload rs)"
| "payload _ = []"

lemma recvLoop_done:
  "recvLoop name cmp sz k rs = (bs, n, RecvDone) \<Longrightarrow> bs = payload rs \<and> (cmp = Identity \<longrightarrow> n = sz)"
proof (induction name cmp sz k rs arbitrary: bs n rule: recvLoop.induct)
  case (4 name cmp sz k m rs)
  then show ?case by (auto simp: Let_def finishRecv_def split: if_splits prod.splits)
qed (auto simp: finishRecv_def split: if_splits)

text \<open>An acknowledged upload that was not skipped ran a successful \<open>Put\<close> of what the client sent.\<close>

lemma Write_Committed:
  assumes "Write ops dec first sendFails c rs st = Some (Committed k, st')" "writeStart ops c rs st = (StartUpload name h n cmp, st1)"
  obtains body where "coPut ops c CAS h n body st1 = Some (None, st')" "cmp = Identity \<longrightarrow> k = n"
    "(if cmp = Zstandard then dec (bytes_reader (payload rs)) else Some (bytes_reader (payload rs))) = Some body"
proof -
  obtain bs committed result where l: "recvLoop name cmp n 0 rs = (bs, committed, result)"
    by (cases "recvLoop name cmp n 0 rs")
  from assms l obtain body err where b: "result = RecvDone" "err = None" "k = committed"
      "(if cmp = Zstandard then dec \<lparr>rdata = bs, rfails = False\<rparr> else Some \<lparr>rdata = bs, rfails = False\<rparr>) = Some body"
      "coPut ops c CAS h n body st1 = Some (err, st')"
    by (auto simp: Write_def answerWrite_def Let_def split: option.splits if_splits)
  have d: "bs = payload rs \<and> (cmp = Identity \<longrightarrow> committed = n)" by (rule recvLoop_done [OF l [unfolded b(1)]])
  show ?thesis
    by (rule that [of body]) (use b d in \<open>auto simp: bytes_reader_def\<close>)
qed

lemma writeStart_parsed:
  "writeStart ops c rs st = (StartUpload name h n cmp, st1) \<Longrightarrow>
     parseWriteResource name = Inr (h, n, cmp) \<and> coContains ops c CAS h n st = ((False, snd (fst (coContains ops c CAS h n st))), st1)"
  by (auto simp: writeStart_def split: list.splits recv.splits if_splits sum.splits prod.splits bool.splits)

context blob_store
begin

lemma write_then_read:
  assumes "Write ops wdec first sendFails c rs st = Some (Committed k, st')"
    and up: "writeStart ops c rs st = (StartUpload name h n Identity, st1)"
    and "ok st1" "accepts (bytes_reader (payload rs)) n" "0 < n" "hex64 h" "in64 n" "indexed c h st'" "splits rd"
    and req: "parseReadResource (rrResourceName req) = Inr (h, n, Identity)" "rrReadLimit req = 0"
      "0 \<le> rrReadOffset req" "rrReadOffset req < n"
  shows "k = n \<and> blen (payload rs) = n \<and>
    (\<exists>sent st2. Read ops rd (\<lambda>_. False) c (Some req) st' = Some ((sent, None), st2) \<and>
       concat sent = drop (nat (rrReadOffset req)) (payload rs) \<and> (\<forall>d \<in> set sent. d \<noteq> [] \<and> blen d \<le> maxChunkSize))"
proof -
  have zi: "Zstandard \<noteq> Identity" by (simp add: Zstandard_def Identity_def)
  obtain body where b: "coPut ops c CAS h n body st1 = Some (None, st')" "k = n" "body = bytes_reader (payload rs)"
    using Write_Committed [OF assms(1) up] zi by auto
  have ex: "blen (payload rs) = n"
    using put_exact [OF assms(3,7) _ assms(6) _ b(1)] assms(4,5) b(3) by (simp add: bytes_reader_def)
  obtain s2 where g: "coGet ops c CAS h n (rrReadOffset req) st' =
      Some (Found (bytes_reader (drop (nat (rrReadOffset req)) (payload rs))) n, s2)"
    using put_get [OF assms(3,7) _ assms(6,5) b(1) assms(8) req(3,4)] assms(4) b(3) by (auto simp: bytes_reader_def)
  let ?bs = "drop (nat (rrReadOffset req)) (payload rs)"
  note ds = splitsD [OF assms(9,5), of ?bs]
  have "Read ops rd (\<lambda>_. False) c (Some req) st' = Some ((rd (bufferSize n) ?bs, None), s2)"
    using req g assms(5) zi
    by (simp add: Read_def Let_def flip: bufferSize_def) (simp add: bytes_reader_def sendLoop_all)
  then show ?thesis using b(2) ex ds by blast
qed

end


lemma demo_not_found:
  "length h = 64 \<Longrightarrow> 0 < n \<Longrightarrow> Contains (demoConfig m) c CAS h n (demoState k) = ((False, - 1), demoState k)"
  by (simp add: Contains_def Get_def demoState_def NewSizedLRU_def setLru_def startRemovals_def demoConfig_def)

definition demoWrite :: writeRequest where
  "demoWrite = \<lparr>wrResourceName = join_with CHR ''/'' ([] @ [''uploads'', ''u''] @ blobFields Identity toyHash 3 @ []),
     wrWriteOffset = 0, wrData = [1, 2, 3], wrFinishWrite = True\<rparr>"

definition demoRead :: readRequest where
  "demoRead = \<lparr>rrResourceName = join_with CHR ''/'' ([] @ blobFields Identity toyHash 3), rrReadOffset = 1, rrReadLimit = 0\<rparr>"

lemma demo_parses:
  "parseWriteResource (wrResourceName demoWrite) = Inr (toyHash, 3, Identity)"
  "parseReadResource (rrResourceName demoRead) = Inr (toyHash, 3, Identity)"
  using parseWrite_fields [of "[]" "''u''" "[]" Identity 3 toyHash] parseRead_fields [of "[]" Identity 3 toyHash] hex64_toyHash
  by (simp_all add: demoWrite_def demoRead_def in64_def)


text \<open>
  A write answers every client but one. When storing returns, the handler of a write
  never returns exactly for a stream that ends before its first message: no upload has started, the
  receive loop reports success, and the handler waits for the result of an upload for ever.
\<close>

theorem write_hangs_without_messages:
  assumes "\<And>h n r s. coPut ops c CAS h n r s \<noteq> None"
  shows "Write ops dec first sendFails c rs st = None \<longleftrightarrow> rs = [] \<or> (\<exists>rs'. rs = RecvEOF # rs')"
proof -
  have w: "fst (writeStart ops c rs st) = StartNothing \<longleftrightarrow> rs = [] \<or> (\<exists>rs'. rs = RecvEOF # rs')"
    by (auto simp: writeStart_def split: list.splits recv.splits sum.splits prod.splits bool.splits)
  show ?thesis
    by (cases "writeStart ops c rs st")
      (auto simp: Write_def answerWrite_def w [symmetric] assms Let_def split: write_start.splits option.splits prod.splits)
qed

theorem write_hangs_without_messages_witness:
  "Write ((diskOps (demoConfig Zstandard) noFaults id undefined undefined)\<lparr>coPut := \<lambda>c k h n r st. Some (None, st)\<rparr>)
     (\<lambda>_. None) False False emptyCtx [RecvEOF] (demoState 1) = None"
  by (subst write_hangs_without_messages) simp_all

text \<open>A limit of two on a blob of three bytes.\<close>

definition stubOps :: "dcState cacheOps" where
  "stubOps = (diskOps (demoConfig Zstandard) noFaults id undefined undefined)
     \<lparr>coGet := \<lambda>c k h n off st. Some (Found (bytes_reader [1, 2, 3]) 3, st)\<rparr>"

theorem read_limit_respected_witness:
  "\<exists>sent r st2 rest. Read stubOps (\<lambda>n. chunks (nat n)) (\<lambda>_. False) emptyCtx (Some (demoRead\<lparr>rrReadLimit := 2\<rparr>)) (demoState 1) =
     Some ((sent, r), st2) \<and> [1, 2, 3] = concat sent @ rest \<and> blen (concat sent) \<le> 2"
proof -
  let ?req = "demoRead\<lparr>rrReadLimit := 2\<rparr>"
  have p: "parseReadResource (rrResourceName ?req) = Inr (toyHash, 3, Identity)" using demo_parses(2) by simp
  have req: "0 < rrReadLimit ?req" "rrReadLimit ?req \<le> maxInt64" "0 \<le> rrReadOffset ?req" "rrReadOffset ?req \<le> 3"
    by (simp_all add: demoRead_def)
  have zi: "Identity \<noteq> Zstandard" by (simp add: Zstandard_def Identity_def)
  have g: "coGet stubOps emptyCtx CAS toyHash 3 (rrReadOffset ?req) (demoState 1) =
      Some (Found (bytes_reader [1, 2, 3]) 3, demoState 1)" by (simp add: stubOps_def)
  have sp: "splits (\<lambda>n. chunks (nat n))"
    using chunks_nonempty_parts length_chunk_le by (fastforce simp: splits_def concat_chunks blen_def)
  have "\<exists>x st2. Read stubOps (\<lambda>n. chunks (nat n)) (\<lambda>_. False) emptyCtx (Some ?req) (demoState 1) = Some (x, st2)"
    using p g req zi by (simp add: Read_def Let_def)
  then obtain sent r st2 where
    rd: "Read stubOps (\<lambda>n. chunks (nat n)) (\<lambda>_. False) emptyCtx (Some ?req) (demoState 1) = Some ((sent, r), st2)" by auto
  show ?thesis
    using read_limit_respected [OF p _ req g sp rd] rd by auto
qed

end
