(* ===== verification/GrpcCas.thy ===== *)
theory GrpcCas
  imports CacheInterface
begin

text \<open>
  \<open>server/grpc_cas.go\<close>: the content addressable storage service. Every handler is a function of the
  cache's operations; protobuf decoding of directories and the zstd decoder are arguments. An
  outer \<open>None\<close> is a call that does not return.
\<close>

section \<open>FindMissingBlobs\<close>

text \<open>The loop over the digests of a request, which stops at the first one that is nil or invalid.\<close>

fun checkDigests :: "digest option list \<Rightarrow> grpc_code + digest list" where
  "checkDigests [] = Inr []"
| "checkDigests (None # ds) = Inl codeInvalidArgument"
| "checkDigests (Some d # ds) =
     (case validateHash (dHash d) (dSizeBytes d) of
        Some e \<Rightarrow> Inl e
      | None \<Rightarrow> (case checkDigests ds of Inl e \<Rightarrow> Inl e | Inr ds' \<Rightarrow> Inr (d # ds')))"

text \<open>The error of the cache is no status, which gRPC reports as unknown.\<close>

definition FindMissingBlobs :: "'s cacheOps \<Rightarrow> ctx \<Rightarrow> digest option list option \<Rightarrow> 's \<Rightarrow>
    (grpc_code + digest list) \<times> 's" where
  "FindMissingBlobs ops c req st =
     (case req of
        None \<Rightarrow> (Inl codeInvalidArgument, st)
      | Some blobDigests \<Rightarrow>
          (case checkDigests blobDigests of
            Inl e \<Rightarrow> (Inl e, st)
          | Inr ds \<Rightarrow>
              (case coFindMissing ops c ds st of
                 (Inl e, st) \<Rightarrow> (Inl codeUnknown, st)
               | (Inr missing, st) \<Rightarrow> (Inr missing, st))))"

section \<open>BatchUpdateBlobs\<close>

text \<open>The compressors of the protocol; the field is an open enumeration.\<close>

definition Compressor_IDENTITY :: int where "Compressor_IDENTITY = 0"
definition Compressor_ZSTD :: int where "Compressor_ZSTD = 1"

record batchUpdateRequest =
  buDigest :: "digest option"
  buData :: bytes
  buCompressor :: int

record batchUpdateResponse =
  brDigest :: digest
  brCode :: grpc_code

text \<open>
  One valid request: the code of its response. \<open>decodeAll\<close> is the decoder's \<open>DecodeAll\<close>. For an
  unsupported compressor \<open>gRPCErrCode\<close> is asked with the error of \<open>validateHash\<close>, which is nil here.
\<close>

definition updateBlob :: "'s cacheOps \<Rightarrow> (bytes \<Rightarrow> bytes option) \<Rightarrow> ctx \<Rightarrow> digest \<Rightarrow> bytes \<Rightarrow> int \<Rightarrow> 's \<Rightarrow>
    (grpc_code \<times> 's) option" where
  "updateBlob ops decodeAll c d dat compressor st =
     (if compressor \<noteq> Compressor_IDENTITY \<and> compressor \<noteq> Compressor_ZSTD then
        Some (gRPCErrCode None codeInvalidArgument, st)
      else
        (case (if compressor = Compressor_ZSTD then decodeAll dat else Some dat) of
           None \<Rightarrow> Some (codeInternal, st)
         | Some bs \<Rightarrow>
             (case coPut ops c CAS (dHash d) (blen bs) (bytes_reader bs) st of
                None \<Rightarrow> None
              | Some (Some e, st) \<Rightarrow> Some (gRPCErrCode (Some e) codeInternal, st)
              | Some (None, st) \<Rightarrow> Some (codeOK, st))))"

text \<open>An invalid request ends the call with an error; what the earlier ones stored stays.\<close>

fun updateBlobs :: "'s cacheOps \<Rightarrow> (bytes \<Rightarrow> bytes option) \<Rightarrow> ctx \<Rightarrow> batchUpdateRequest option list \<Rightarrow> 's \<Rightarrow>
    ((grpc_code + batchUpdateResponse list) \<times> 's) option" where
  "updateBlobs ops decodeAll c [] st = Some (Inr [], st)"
| "updateBlobs ops decodeAll c (None # rs) st = Some (Inl codeInvalidArgument, st)"
| "updateBlobs ops decodeAll c (Some r # rs) st =
     (case buDigest r of
        None \<Rightarrow> Some (Inl codeInvalidArgument, st)
      | Some d \<Rightarrow>
          (case validateHash (dHash d) (dSizeBytes d) of
             Some e \<Rightarrow> Some (Inl e, st)
           | None \<Rightarrow>
               (case updateBlob ops decodeAll c d (buData r) (buCompressor r) st of
                  None \<Rightarrow> None
                | Some (cd, st) \<Rightarrow>
                    (case updateBlobs ops decodeAll c rs st of
                       None \<Rightarrow> None
                     | Some (Inl e, st) \<Rightarrow> Some (Inl e, st)
                     | Some (Inr resps, st) \<Rightarrow> Some (Inr (\<lparr>brDigest = d, brCode = cd\<rparr> # resps), st)))))"

definition BatchUpdateBlobs :: "'s cacheOps \<Rightarrow> (bytes \<Rightarrow> bytes option) \<Rightarrow> ctx \<Rightarrow>
    batchUpdateRequest option list option \<Rightarrow> 's \<Rightarrow> ((grpc_code + batchUpdateResponse list) \<times> 's) option" where
  "BatchUpdateBlobs ops decodeAll c req st =
     (case req of None \<Rightarrow> Some (Inl codeInvalidArgument, st) | Some rs \<Rightarrow> updateBlobs ops decodeAll c rs st)"

section \<open>BatchReadBlobs\<close>

datatype blob_error = errBadSize | errBlobNotFound | BlobGet dc_error | BlobRead

definition getBlobData :: "'s cacheOps \<Rightarrow> ctx \<Rightarrow> string \<Rightarrow> int \<Rightarrow> 's \<Rightarrow> ((blob_error + bytes) \<times> 's) option" where
  "getBlobData ops c hash sz st =
     (if sz < 0 then Some (Inl errBadSize, st)
      else if sz = 0 then Some (Inr [], st)
      else
        (case coGet ops c CAS hash sz 0 st of
           None \<Rightarrow> None
         | Some (GotError e, st) \<Rightarrow> Some (Inl (BlobGet e), st)
         | Some (NotFound, st) \<Rightarrow> Some (Inl errBlobNotFound, st)
         | Some (Found r n, st) \<Rightarrow>
             if n \<noteq> sz then Some (Inl errBadSize, st)
             else (case readAll r of None \<Rightarrow> Some (Inl BlobRead, st) | Some bs \<Rightarrow> Some (Inr bs, st))))"

text \<open>The status of a response is a pointer; a successful zstd response leaves it nil.\<close>

record batchReadResponse =
  rdDigest :: digest
  rdData :: bytes
  rdCompressor :: int
  rdStatus :: "grpc_code option"

definition failedRead :: "digest \<Rightarrow> grpc_code \<Rightarrow> batchReadResponse" where
  "failedRead d cd = \<lparr>rdDigest = d, rdData = [], rdCompressor = Compressor_IDENTITY, rdStatus = Some cd\<rparr>"

text \<open>
  With zstd, a nil reader is tested before the error, so that an error of the cache, which comes
  without a reader, is reported as not found.
\<close>

definition getBlobResponse :: "'s cacheOps \<Rightarrow> ctx \<Rightarrow> digest \<Rightarrow> bool \<Rightarrow> 's \<Rightarrow> (batchReadResponse \<times> 's) option" where
  "getBlobResponse ops c d allowZstd st =
     (if allowZstd then
        (case coGetZstd ops c (dHash d) (dSizeBytes d) 0 st of
           None \<Rightarrow> None
         | Some (GotError e, st) \<Rightarrow> Some (failedRead d codeNotFound, st)
         | Some (NotFound, st) \<Rightarrow> Some (failedRead d codeNotFound, st)
         | Some (Found r n, st) \<Rightarrow>
             if n \<noteq> dSizeBytes d then Some (failedRead d codeNotFound, st)
             else
               (case readAll r of
                  None \<Rightarrow> Some (failedRead d codeInternal, st)
                | Some bs \<Rightarrow>
                    Some (\<lparr>rdDigest = d, rdData = bs, rdCompressor = Compressor_ZSTD, rdStatus = None\<rparr>, st)))
      else
        (case getBlobData ops c (dHash d) (dSizeBytes d) st of
           None \<Rightarrow> None
         | Some (Inl e, st) \<Rightarrow> Some (failedRead d (if e = errBlobNotFound then codeNotFound else codeInternal), st)
         | Some (Inr bs, st) \<Rightarrow>
             Some (\<lparr>rdDigest = d, rdData = bs, rdCompressor = Compressor_IDENTITY, rdStatus = Some codeOK\<rparr>, st)))"

fun readBlobs :: "'s cacheOps \<Rightarrow> ctx \<Rightarrow> bool \<Rightarrow> digest option list \<Rightarrow> 's \<Rightarrow>
    ((grpc_code + batchReadResponse list) \<times> 's) option" where
  "readBlobs ops c allowZstd [] st = Some (Inr [], st)"
| "readBlobs ops c allowZstd (None # ds) st = Some (Inl codeInvalidArgument, st)"
| "readBlobs ops c allowZstd (Some d # ds) st =
     (case validateHash (dHash d) (dSizeBytes d) of
        Some e \<Rightarrow> Some (Inl e, st)
      | None \<Rightarrow>
          (case getBlobResponse ops c d allowZstd st of
             None \<Rightarrow> None
           | Some (r, st) \<Rightarrow>
               (case readBlobs ops c allowZstd ds st of
                  None \<Rightarrow> None
                | Some (Inl e, st) \<Rightarrow> Some (Inl e, st)
                | Some (Inr rs, st) \<Rightarrow> Some (Inr (r # rs), st))))"

record batchReadRequest =
  bqDigests :: "digest option list"
  bqAcceptable :: "int list"

definition BatchReadBlobs :: "'s cacheOps \<Rightarrow> ctx \<Rightarrow> batchReadRequest option \<Rightarrow> 's \<Rightarrow>
    ((grpc_code + batchReadResponse list) \<times> 's) option" where
  "BatchReadBlobs ops c req st =
     (case req of
        None \<Rightarrow> Some (Inl codeInvalidArgument, st)
      | Some req \<Rightarrow>
          readBlobs ops c (\<exists>x \<in> set (bqAcceptable req). x = Compressor_ZSTD) (bqDigests req) st)"

section \<open>GetTree\<close>

text \<open>A status, or the panic of the field access on a nil message.\<close>

datatype tree_error = TreeStatus grpc_code | TreePanic

text \<open>
  The loop of \<open>fillDirectories\<close> over the child nodes of a directory, with the recursive call inlined:
  nothing bounds the depth, so this is a partial function and \<open>None\<close> is a traversal without end.
\<close>

partial_function (option) fillNodes :: "'s cacheOps \<Rightarrow> (bytes \<Rightarrow> directory option) \<Rightarrow> ctx \<Rightarrow>
    directoryNode option list \<Rightarrow> directory list \<Rightarrow> 's \<Rightarrow> ((tree_error + directory list) \<times> 's) option" where
  [code]: "fillNodes ops unmarshalDir c ns resp st =
     (case ns of
        [] \<Rightarrow> Some (Inr resp, st)
      | n # ns \<Rightarrow>
          (case Option.bind n dnDigest of
             None \<Rightarrow> Some (Inl TreePanic, st)
           | Some d \<Rightarrow>
               (case validateHash (dHash d) (dSizeBytes d) of
                  Some e \<Rightarrow> Some (Inl (TreeStatus e), st)
                | None \<Rightarrow>
                    (case getBlobData ops c (dHash d) (dSizeBytes d) st of
                       None \<Rightarrow> None
                     | Some (r, st') \<Rightarrow>
                         (case r of
                            Inl e \<Rightarrow> fillNodes ops unmarshalDir c ns resp st'
                          | Inr bs \<Rightarrow>
                              (case unmarshalDir bs of
                                 None \<Rightarrow> fillNodes ops unmarshalDir c ns resp st'
                               | Some dirMsg \<Rightarrow>
                                   Option.bind (fillNodes ops unmarshalDir c (dirDirectories dirMsg) (resp @ [dirMsg]) st')
                                     (\<lambda>(r', st''). case r' of
                                        Inl e \<Rightarrow> Some (Inl e, st'')
                                      | Inr resp' \<Rightarrow> fillNodes ops unmarshalDir c ns resp' st'')))))))"

definition fillDirectories :: "'s cacheOps \<Rightarrow> (bytes \<Rightarrow> directory option) \<Rightarrow> ctx \<Rightarrow> directory list \<Rightarrow> directory \<Rightarrow> 's \<Rightarrow>
    ((tree_error + directory list) \<times> 's) option" where
  "fillDirectories ops unmarshalDir c resp d st =
     fillNodes ops unmarshalDir c (dirDirectories d) (resp @ [d]) st"

text \<open>The directories that are sent, or the error. \<open>sendFails\<close>: \<open>stream.Send\<close> fails.\<close>

definition GetTree :: "'s cacheOps \<Rightarrow> (bytes \<Rightarrow> directory option) \<Rightarrow> bool \<Rightarrow> ctx \<Rightarrow> digest option option \<Rightarrow> 's \<Rightarrow>
    ((tree_error + directory list) \<times> 's) option" where
  "GetTree ops unmarshalDir sendFails c req st =
     (case req of
        None \<Rightarrow> Some (Inl (TreeStatus codeInvalidArgument), st)
      | Some None \<Rightarrow> Some (Inl (TreeStatus codeInvalidArgument), st)
      | Some (Some root) \<Rightarrow>
          (case validateHash (dHash root) (dSizeBytes root) of
             Some e \<Rightarrow> Some (Inl (TreeStatus e), st)
           | None \<Rightarrow>
               (case getBlobData ops c (dHash root) (dSizeBytes root) st of
                  None \<Rightarrow> None
                | Some (Inl e, st) \<Rightarrow>
                    Some (Inl (TreeStatus (if e = errBlobNotFound then codeNotFound else codeUnknown)), st)
                | Some (Inr bs, st) \<Rightarrow>
                    (case unmarshalDir bs of
                       None \<Rightarrow> Some (Inl (TreeStatus codeDataLoss), st)
                     | Some d \<Rightarrow>
                         (case fillDirectories ops unmarshalDir c [] d st of
                            None \<Rightarrow> None
                          | Some (Inl e, st) \<Rightarrow> Some (Inl e, st)
                          | Some (Inr resp, st) \<Rightarrow>
                              Some (if sendFails then Inl (TreeStatus codeUnknown) else Inr resp, st))))))"

end
