(* ===== verification/GrpcCas_Props.thy ===== *)
theory GrpcCas_Props
  imports GrpcCas
begin

text \<open>
  The content addressable storage service: \<open>GetTree\<close> against the inductive specification of a
  listing in pre-order, its divergence on a directory that contains itself, and the round trip
  of a batch update and a batch read through the interface of the cache.
\<close>

section \<open>GetTree\<close>

text \<open>
  The specification: \<open>dirAt\<close> is what the store has under a digest, decoded; a child that is missing
  or no directory is skipped.
\<close>

inductive listing :: "(digest \<Rightarrow> directory option) \<Rightarrow> directoryNode option list \<Rightarrow> directory list \<Rightarrow> bool"
  for dirAt where
  leaf: "listing dirAt [] []"
| skip: "dnDigest n = Some d \<Longrightarrow> dirAt d = None \<Longrightarrow> listing dirAt ns out \<Longrightarrow> listing dirAt (Some n # ns) out"
| enter: "dnDigest n = Some d \<Longrightarrow> dirAt d = Some dir \<Longrightarrow> listing dirAt (dirDirectories dir) sub \<Longrightarrow>
    listing dirAt ns out \<Longrightarrow> listing dirAt (Some n # ns) (dir # sub @ out)"

inductive_cases listing_NilE: "listing dirAt [] out"
inductive_cases listing_ConsE: "listing dirAt (n # ns) out"

lemma listing_det: "listing dirAt ns out \<Longrightarrow> listing dirAt ns out' \<Longrightarrow> out' = out"
proof (induction arbitrary: out' rule: listing.induct)
  case leaf
  then show ?case by (auto elim: listing_NilE)
next
  case (skip n d ns out)
  show ?case using skip.prems by (rule listing_ConsE) (use skip.hyps(1,2) skip.IH in auto)
next
  case (enter n d dir sub ns out)
  obtain sub' out1 where "out' = dir # sub' @ out1" "listing dirAt (dirDirectories dir) sub'" "listing dirAt ns out1"
    using enter.prems by (rule listing_ConsE) (use enter.hyps(1,2) in auto)
  then show ?case using enter.IH by blast
qed

definition contains :: "(digest \<Rightarrow> directory option) \<Rightarrow> digest \<Rightarrow> digest \<Rightarrow> bool" where
  "contains dirAt d d' \<longleftrightarrow> (\<exists>dir n. dirAt d = Some dir \<and> Some n \<in> set (dirDirectories dir) \<and> dnDigest n = Some d')"

lemma listing_child:
  "listing dirAt ns out \<Longrightarrow> Some n \<in> set ns \<Longrightarrow> dnDigest n = Some d \<Longrightarrow> dirAt d = Some dir \<Longrightarrow>
   \<exists>sub. listing dirAt (dirDirectories dir) sub \<and> length sub < length out"
proof (induction rule: listing.induct)
  case (enter m d' dir' sub ns out)
  show ?case
  proof (cases "m = n")
    case True
    then show ?thesis using enter by auto
  next
    case False
    then show ?thesis using enter by fastforce
  qed
qed auto

lemma listing_descendant:
  assumes "(contains dirAt)\<^sup>+\<^sup>+ d d'" "dirAt d = Some dir" "listing dirAt (dirDirectories dir) out" "dirAt d' = Some dir'"
  shows "\<exists>sub. listing dirAt (dirDirectories dir') sub \<and> length sub < length out"
  using assms(1,4)
proof (induction arbitrary: dir' rule: tranclp_induct)
  case (base d')
  then show ?case using listing_child assms(2,3) by (fastforce simp: contains_def)
next
  case (step d1 d2)
  obtain dir1 n where d1: "dirAt d1 = Some dir1" "Some n \<in> set (dirDirectories dir1)" "dnDigest n = Some d2"
    using step.hyps(2) by (auto simp: contains_def)
  obtain sub1 where "listing dirAt (dirDirectories dir1) sub1" "length sub1 < length out" using step.IH d1(1) by blast
  then show ?case using listing_child d1(2,3) step.prems by (meson less_trans)
qed

lemma no_listing_of_cycle:
  assumes "(contains dirAt)\<^sup>+\<^sup>+ d d" "dirAt d = Some dir"
  shows "\<not> listing dirAt (dirDirectories dir) out"
  using listing_descendant [OF assms _ assms(2)] listing_det by blast

text \<open>
  What \<open>GetTree\<close> relies on: reads return, and what they return does not change meanwhile, as far as
  the state satisfies \<open>ok\<close>. Every child node has a valid digest.
\<close>

definition serves :: "'s cacheOps \<Rightarrow> (bytes \<Rightarrow> directory option) \<Rightarrow> ctx \<Rightarrow> ('s \<Rightarrow> bool) \<Rightarrow> (digest \<Rightarrow> directory option) \<Rightarrow> bool" where
  "serves ops unm c ok dirAt \<longleftrightarrow>
     (\<forall>st d. ok st \<longrightarrow> (\<exists>r st'. getBlobData ops c (dHash d) (dSizeBytes d) st = Some (r, st') \<and> ok st' \<and>
        dirAt d = (case r of Inl e \<Rightarrow> None | Inr bs \<Rightarrow> unm bs)))"

definition goodNode :: "directoryNode option \<Rightarrow> bool" where
  "goodNode n \<longleftrightarrow> (\<exists>nd d. n = Some nd \<and> dnDigest nd = Some d \<and> validateHash (dHash d) (dSizeBytes d) = None)"

lemma goodNode_Cons:
  "list_all goodNode (Some n # ns) \<Longrightarrow> dnDigest n = Some d \<Longrightarrow>
   validateHash (dHash d) (dSizeBytes d) = None \<and> list_all goodNode ns"
  by (simp add: goodNode_def)

definition goodDirs :: "(digest \<Rightarrow> directory option) \<Rightarrow> bool" where
  "goodDirs dirAt \<longleftrightarrow> (\<forall>d dir. dirAt d = Some dir \<longrightarrow> list_all goodNode (dirDirectories dir))"

lemma servesE:
  assumes "serves ops unm c ok dirAt" "ok st"
  obtains r st' where "getBlobData ops c (dHash d) (dSizeBytes d) st = Some (r, st')" "ok st'"
    "dirAt d = (case r of Inl e \<Rightarrow> None | Inr bs \<Rightarrow> unm bs)"
  using assms unfolding serves_def by blast

lemma fillNodes_listing:
  assumes s: "serves ops unm c ok dirAt" and g: "goodDirs dirAt"
  shows "listing dirAt ns out \<Longrightarrow> list_all goodNode ns \<Longrightarrow> ok st \<Longrightarrow>
    \<exists>st'. fillNodes ops unm c ns resp st = Some (Inr (resp @ out), st') \<and> ok st'"
proof (induction arbitrary: resp st rule: listing.induct)
  case leaf
  then show ?case by (subst fillNodes.simps) simp
next
  case (skip n d ns out)
  obtain r st1 where r: "getBlobData ops c (dHash d) (dSizeBytes d) st = Some (r, st1)" "ok st1"
      "dirAt d = (case r of Inl e \<Rightarrow> None | Inr bs \<Rightarrow> unm bs)"
    using servesE [OF s skip.prems(2)] .
  have v: "validateHash (dHash d) (dSizeBytes d) = None" "list_all goodNode ns"
    using goodNode_Cons [OF skip.prems(1) skip.hyps(1)] by simp_all
  obtain st2 where "fillNodes ops unm c ns resp st1 = Some (Inr (resp @ out), st2)" "ok st2"
    using skip.IH v(2) r(2) by blast
  then show ?case
    using r skip.hyps(1,2) v(1) by (subst fillNodes.simps) (auto split: sum.splits)
next
  case (enter n d dir sub ns out)
  obtain r st1 where r: "getBlobData ops c (dHash d) (dSizeBytes d) st = Some (r, st1)" "ok st1"
      "dirAt d = (case r of Inl e \<Rightarrow> None | Inr bs \<Rightarrow> unm bs)"
    using servesE [OF s enter.prems(2)] .
  have v: "validateHash (dHash d) (dSizeBytes d) = None" "list_all goodNode ns"
    using goodNode_Cons [OF enter.prems(1) enter.hyps(1)] by simp_all
  have gd: "list_all goodNode (dirDirectories dir)" using g enter.hyps(2) by (auto simp: goodDirs_def)
  obtain st2 where 2: "fillNodes ops unm c (dirDirectories dir) (resp @ [dir]) st1 = Some (Inr ((resp @ [dir]) @ sub), st2)" "ok st2"
    using enter.IH(1) gd r(2) by blast
  obtain st3 where "fillNodes ops unm c ns ((resp @ [dir]) @ sub) st2 = Some (Inr (((resp @ [dir]) @ sub) @ out), st3)" "ok st3"
    using enter.IH(2) v(2) 2(2) by blast
  moreover obtain bs where "r = Inr bs" "unm bs = Some dir" using r(3) enter.hyps(2) by (cases r) auto
  ultimately show ?case
    using r(1) enter.hyps(1) v(1) 2(1) by (subst fillNodes.simps) simp
qed

text \<open>Conversely, a result is never an error and comes from a listing.\<close>

lemma fillNodes_returns:
  assumes s: "serves ops unm c ok dirAt" and g: "goodDirs dirAt"
    and "fillNodes ops unm c ns resp st = Some y" "list_all goodNode ns" "ok st"
  shows "\<exists>out st'. y = (Inr (resp @ out), st') \<and> ok st' \<and> listing dirAt ns out"
proof -
  have "serves ops unm c ok dirAt \<longrightarrow> list_all goodNode ns \<longrightarrow> ok st \<longrightarrow>
      (\<exists>out st'. y = (Inr (resp @ out), st') \<and> ok st' \<and> listing dirAt ns out)"
    using assms(3)
  proof (induction ops unm c ns resp st y rule: fillNodes.raw_induct [rotated, consumes 1, case_names step])
    case (step fN ops unm c ns resp st y)
    show ?case
    proof (intro impI)
      assume s: "serves ops unm c ok dirAt" and w: "list_all goodNode ns" and st: "ok st"
      show "\<exists>out st'. y = (Inr (resp @ out), st') \<and> ok st' \<and> listing dirAt ns out"
      proof (cases ns)
        case Nil
        then show ?thesis using step(2) st by (auto intro: listing.intros)
      next
        case (Cons n ns')
        obtain nd d where n: "n = Some nd" "dnDigest nd = Some d" "validateHash (dHash d) (dSizeBytes d) = None"
            "list_all goodNode ns'"
          using w Cons by (auto simp: goodNode_def)
        obtain r st1 where r: "getBlobData ops c (dHash d) (dSizeBytes d) st = Some (r, st1)" "ok st1"
            "dirAt d = (case r of Inl e \<Rightarrow> None | Inr bs \<Rightarrow> unm bs)"
          using servesE [OF s st] .
        show ?thesis
        proof (cases "dirAt d")
          case None
          then have "fN ops unm c ns' resp st1 = Some y"
            using step(2) Cons n r by (auto split: sum.splits)
          then obtain out st' where "y = (Inr (resp @ out), st')" "ok st'" "listing dirAt ns' out"
            using step(1) s n(4) r(2) by blast
          then show ?thesis using None Cons n(1,2) by (auto intro: listing.skip)
        next
          case (Some dir)
          obtain bs where "r = Inr bs" "unm bs = Some dir" using r(3) Some by (cases r) auto
          then have "Option.bind (fN ops unm c (dirDirectories dir) (resp @ [dir]) st1)
              (\<lambda>(r', st''). case r' of Inl e \<Rightarrow> Some (Inl e, st'') | Inr resp' \<Rightarrow> fN ops unm c ns' resp' st'') = Some y"
            using step(2) Cons n r(1) by simp
          then obtain r' st2' where z: "fN ops unm c (dirDirectories dir) (resp @ [dir]) st1 = Some (r', st2')"
              "(case r' of Inl e \<Rightarrow> Some (Inl e, st2') | Inr resp' \<Rightarrow> fN ops unm c ns' resp' st2') = Some y"
            by (auto simp: bind_eq_Some_conv)
          have "list_all goodNode (dirDirectories dir)" using g Some by (auto simp: goodDirs_def)
          then obtain sub st2 where 2: "(r', st2') = (Inr ((resp @ [dir]) @ sub), st2)" "ok st2" "listing dirAt (dirDirectories dir) sub"
            using step(1) z(1) s r(2) by blast
          then obtain out st3 where "y = (Inr (((resp @ [dir]) @ sub) @ out), st3)" "ok st3" "listing dirAt ns' out"
            using step(1) z(2) s n(4) by fastforce
          then show ?thesis using 2(3) Some Cons n(1,2) by (auto intro!: listing.enter)
        qed
      qed
    qed
  qed
  then show ?thesis using s assms(4,5) by blast
qed

lemma getBlobData_dirAt:
  assumes "serves ops unm c ok dirAt" "ok st" "dirAt d = Some dir"
  obtains bs st' where "getBlobData ops c (dHash d) (dSizeBytes d) st = Some (Inr bs, st')" "ok st'" "unm bs = Some dir"
proof -
  obtain r st' where r: "getBlobData ops c (dHash d) (dSizeBytes d) st = Some (r, st')" "ok st'"
      "dirAt d = (case r of Inl e \<Rightarrow> None | Inr bs \<Rightarrow> unm bs)"
    using servesE [OF assms(1,2)] .
  then show ?thesis using that assms(3) by (cases r) auto
qed

lemma GetTree_fill:
  assumes "serves ops unm c ok dirAt" "ok st" "validateHash (dHash root) (dSizeBytes root) = None" "dirAt root = Some d"
  obtains st1 where "ok st1" "GetTree ops unm False c (Some (Some root)) st = fillNodes ops unm c (dirDirectories d) [d] st1"
proof -
  obtain bs st1 where "getBlobData ops c (dHash root) (dSizeBytes root) st = Some (Inr bs, st1)" "ok st1" "unm bs = Some d"
    using getBlobData_dirAt [OF assms(1,2,4)] .
  then show ?thesis
    using that assms(3) by (simp add: GetTree_def fillDirectories_def split: option.splits sum.splits)
qed

text \<open>
  Property C20. \<open>GetTree\<close> answers with the directories of the tree in pre-order, the root first, leaving
  out what is missing or cannot be decoded: it returns a list exactly when that list is the root
  followed by the listing of its children, and it returns whenever there is such a listing. This
  supposes that reads of the store return, do not change what it serves, and that every
  stored directory has a valid digest in each child node.
\<close>

theorem get_tree_lists_preorder:
  assumes "serves ops unm c ok dirAt" "goodDirs dirAt" "ok st"
    and "validateHash (dHash root) (dSizeBytes root) = None" "dirAt root = Some d"
  shows "(\<exists>st'. GetTree ops unm False c (Some (Some root)) st = Some (Inr resp, st')) \<longleftrightarrow>
    (\<exists>out. resp = d # out \<and> listing dirAt (dirDirectories d) out)"
proof -
  obtain st1 where st1: "ok st1" "GetTree ops unm False c (Some (Some root)) st = fillNodes ops unm c (dirDirectories d) [d] st1"
    using GetTree_fill [OF assms(1,3-5)] .
  have "list_all goodNode (dirDirectories d)" using assms(2,5) by (auto simp: goodDirs_def)
  then show ?thesis
    unfolding st1(2) using fillNodes_returns [OF assms(1,2) _ _ st1(1)] fillNodes_listing [OF assms(1,2) _ _ st1(1), of _ _ "[d]"]
    by fastforce
qed

text \<open>
  \<open>GetTree\<close> does not look for cycles: when a directory contains itself, directly or
  through others, then the request for it never returns. The compressing storage mode excludes this
  as far as SHA-256 has no cycles; the uncompressed mode stores any bytes under any hash.
\<close>

theorem get_tree_cycle_hangs:
  assumes "serves ops unm c ok dirAt" "goodDirs dirAt" "ok st"
    and "validateHash (dHash root) (dSizeBytes root) = None" "(contains dirAt)\<^sup>+\<^sup>+ root root"
  shows "GetTree ops unm sendFails c (Some (Some root)) st = None"
proof -
  obtain d where d: "dirAt root = Some d" using assms(5) by (auto simp: contains_def dest!: tranclpD)
  obtain bs st1 where b: "getBlobData ops c (dHash root) (dSizeBytes root) st = Some (Inr bs, st1)" "ok st1" "unm bs = Some d"
    using getBlobData_dirAt [OF assms(1,3) d] .
  have "list_all goodNode (dirDirectories d)" using assms(2) d by (auto simp: goodDirs_def)
  then have "fillNodes ops unm c (dirDirectories d) [d] st1 = None"
    using fillNodes_returns [OF assms(1,2) _ _ b(2)] no_listing_of_cycle [OF assms(5) d]
    by (cases "fillNodes ops unm c (dirDirectories d) [d] st1") blast+
  then show ?thesis using b assms(4) by (simp add: GetTree_def fillDirectories_def)
qed

text \<open>A store that serves one directory with one child under every digest of size three and a leaf under the others.\<close>

definition leafDir :: directory where
  "leafDir = \<lparr>dirFiles = [], dirDirectories = []\<rparr>"

definition dirWith :: "int \<Rightarrow> directory" where
  "dirWith n = \<lparr>dirFiles = [], dirDirectories = [Some \<lparr>dnName = ''d'', dnDigest = Some \<lparr>dHash = toyHash, dSizeBytes = n\<rparr>\<rparr>]\<rparr>"

definition dirOps :: "dcState cacheOps" where
  "dirOps = (diskOps (demoConfig Zstandard) noFaults id undefined undefined)
     \<lparr>coGet := \<lambda>c k h n off st. Some (Found (bytes_reader [if n = 3 then 3 else 1]) n, st)\<rparr>"

definition dirAtDemo :: "int \<Rightarrow> digest \<Rightarrow> directory option" where
  "dirAtDemo n d = (if dSizeBytes d < 0 then None else if dSizeBytes d = 3 then Some (dirWith n) else Some leafDir)"

lemma demo_serves:
  "serves dirOps (\<lambda>bs. if bs = [3] then Some (dirWith n) else Some leafDir) c (\<lambda>_. True) (dirAtDemo n)"
  by (auto simp: serves_def getBlobData_def dirOps_def dirAtDemo_def readAll_def bytes_reader_def)

lemma demo_goodDirs: "n \<noteq> 0 \<Longrightarrow> goodDirs (dirAtDemo n)"
  using hex64_toyHash
  by (auto simp: goodDirs_def dirAtDemo_def goodNode_def validateHash_None dirWith_def leafDir_def split: if_splits)

theorem get_tree_lists_preorder_witness:
  "\<exists>st'. GetTree dirOps (\<lambda>bs. if bs = [3] then Some (dirWith 1) else Some leafDir) False emptyCtx
     (Some (Some \<lparr>dHash = toyHash, dSizeBytes = 3\<rparr>)) (demoState 1) = Some (Inr [dirWith 1, leafDir], st')"
proof -
  let ?root = "\<lparr>dHash = toyHash, dSizeBytes = 3\<rparr>"
  have v: "validateHash (dHash ?root) (dSizeBytes ?root) = None" using hex64_toyHash by (simp add: validateHash_None)
  have "listing (dirAtDemo 1) (dirDirectories (dirWith 1)) (leafDir # [] @ [])"
    unfolding dirWith_def directory.simps
    by (rule listing.enter [where d = "\<lparr>dHash = toyHash, dSizeBytes = 1\<rparr>"])
      (auto simp: dirAtDemo_def leafDir_def intro: listing.leaf)
  then show ?thesis
    using get_tree_lists_preorder [OF demo_serves [of 1 emptyCtx] demo_goodDirs TrueI v, where st = "demoState 1"]
    by (force simp: dirAtDemo_def)
qed

theorem get_tree_cycle_hangs_witness:
  "GetTree dirOps (\<lambda>bs. if bs = [3] then Some (dirWith 3) else Some leafDir) False emptyCtx
     (Some (Some \<lparr>dHash = toyHash, dSizeBytes = 3\<rparr>)) (demoState 1) = None"
proof -
  let ?root = "\<lparr>dHash = toyHash, dSizeBytes = 3\<rparr>"
  have v: "validateHash (dHash ?root) (dSizeBytes ?root) = None" using hex64_toyHash by (simp add: validateHash_None)
  have "contains (dirAtDemo 3) ?root ?root" by (simp add: contains_def dirAtDemo_def dirWith_def)
  then show ?thesis
    using get_tree_cycle_hangs [OF demo_serves [of 3 emptyCtx] demo_goodDirs TrueI v tranclp.r_into_trancl] by simp
qed

section \<open>A batch update, then a batch read\<close>

context blob_store
begin

lemma updateBlob_OK:
  assumes "updateBlob ops decodeAll c d dat cmp st = Some (codeOK, st')" "cmp = Compressor_IDENTITY \<or> cmp = Compressor_ZSTD"
  obtains bs where "(if cmp = Compressor_ZSTD then decodeAll dat else Some dat) = Some bs"
    "coPut ops c CAS (dHash d) (blen bs) (bytes_reader bs) st = Some (None, st')"
proof -
  obtain bs where b: "(if cmp = Compressor_ZSTD then decodeAll dat else Some dat) = Some bs"
    using assms by (cases "if cmp = Compressor_ZSTD then decodeAll dat else Some dat") (auto simp: updateBlob_def)
  obtain e s where p: "coPut ops c CAS (dHash d) (blen bs) (bytes_reader bs) st = Some (e, s)"
    using assms b by (cases "coPut ops c CAS (dHash d) (blen bs) (bytes_reader bs) st") (auto simp: updateBlob_def)
  show ?thesis
    using that assms b p by (cases e) (auto simp: updateBlob_def gRPCErrCode_def split: if_splits)
qed

lemma update_then_read:
  assumes "BatchUpdateBlobs ops decodeAll c (Some [Some \<lparr>buDigest = Some d, buData = dat, buCompressor = cmp\<rparr>]) st =
      Some (Inr [\<lparr>brDigest = d, brCode = codeOK\<rparr>], st')"
    and "cmp = Compressor_IDENTITY \<and> bs = dat \<or> cmp = Compressor_ZSTD \<and> decodeAll dat = Some bs"
    and "ok st" "accepts (bytes_reader bs) (blen bs)" "in64 (blen bs)" "0 < dSizeBytes d" "dSizeBytes d = blen bs"
    and "indexed c (dHash d) st'"
  shows "\<exists>st2. BatchReadBlobs ops c (Some \<lparr>bqDigests = [Some d], bqAcceptable = []\<rparr>) st' =
    Some (Inr [\<lparr>rdDigest = d, rdData = bs, rdCompressor = Compressor_IDENTITY, rdStatus = Some codeOK\<rparr>], st2)"
proof -
  have zi: "Compressor_ZSTD \<noteq> Compressor_IDENTITY" by (simp add: Compressor_ZSTD_def Compressor_IDENTITY_def)
  have u: "updateBlob ops decodeAll c d dat cmp st = Some (codeOK, st')"
    using assms(1) by (auto simp: BatchUpdateBlobs_def split: option.splits)
  have v: "validateHash (dHash d) (dSizeBytes d) = None"
    using assms(1) by (auto simp: BatchUpdateBlobs_def split: option.splits)
  have p: "coPut ops c CAS (dHash d) (blen bs) (bytes_reader bs) st = Some (None, st')"
    using updateBlob_OK [OF u] assms(2) zi by (metis option.inject)
  have h: "hex64 (dHash d)" using v by (simp add: validateHash_None)
  obtain s2 where "coGet ops c CAS (dHash d) (blen bs) 0 st' = Some (Found (bytes_reader bs) (blen bs), s2)"
    using put_get [OF assms(3,5,4) h _ p assms(8)] assms(6,7) by (force simp: bytes_reader_def)
  then show ?thesis
    using v assms(6,7) by (simp add: BatchReadBlobs_def getBlobResponse_def getBlobData_def readAll_def bytes_reader_def)
qed

end

text \<open>
  A blob that \<open>BatchUpdateBlobs\<close> acknowledges with status OK, sent as it is or zstd
  compressed, is what \<open>BatchReadBlobs\<close> answers for its digest afterwards, with status OK, as long as
  the entry is still in the index: on the disk cache, in either storage mode.
\<close>

theorem batch_update_then_read:
  fixes cfg :: dcConfig and fm vac
  defines "ops \<equiv> diskOps cfg noFaults id fm vac"
  assumes "BatchUpdateBlobs ops decodeAll c (Some [Some \<lparr>buDigest = Some d, buData = dat, buCompressor = cmp\<rparr>]) st =
      Some (Inr [\<lparr>brDigest = d, brCode = codeOK\<rparr>], st')"
    and "cmp = Compressor_IDENTITY \<and> bs = dat \<or> cmp = Compressor_ZSTD \<and> decodeAll dat = Some bs"
    and "lru_ok (dLru st)" "goodUpload cfg CAS (bytes_reader bs) (blen bs)" "zstd_laws (cZstd cfg)"
    and "in64 (blen bs)" "0 < dSizeBytes d" "dSizeBytes d = blen bs"
    and "Peek (LookupKeyForContext c CAS (dHash d)) (dLru st') \<noteq> None"
  shows "\<exists>st2. BatchReadBlobs ops c (Some \<lparr>bqDigests = [Some d], bqAcceptable = []\<rparr>) st' =
    Some (Inr [\<lparr>rdDigest = d, rdData = bs, rdCompressor = Compressor_IDENTITY, rdStatus = Some codeOK\<rparr>], st2)"
  using assms(2-) unfolding ops_def by (intro disk.update_then_read) simp_all

theorem batch_update_then_read_witness:
  "\<exists>st' st2. BatchUpdateBlobs (diskOps (demoConfig Zstandard) noFaults id undefined undefined) (\<lambda>_. None) emptyCtx
       (Some [Some \<lparr>buDigest = Some \<lparr>dHash = toyHash, dSizeBytes = 3\<rparr>, buData = [1, 2, 3], buCompressor = 0\<rparr>]) (demoState 100000) =
       Some (Inr [\<lparr>brDigest = \<lparr>dHash = toyHash, dSizeBytes = 3\<rparr>, brCode = codeOK\<rparr>], st') \<and>
     BatchReadBlobs (diskOps (demoConfig Zstandard) noFaults id undefined undefined) emptyCtx
       (Some \<lparr>bqDigests = [Some \<lparr>dHash = toyHash, dSizeBytes = 3\<rparr>], bqAcceptable = []\<rparr>) st' =
       Some (Inr [\<lparr>rdDigest = \<lparr>dHash = toyHash, dSizeBytes = 3\<rparr>, rdData = [1, 2, 3], rdCompressor = 0, rdStatus = Some codeOK\<rparr>], st2)"
proof -
  let ?ops = "diskOps (demoConfig Zstandard) noFaults id undefined undefined" and ?d = "\<lparr>dHash = toyHash, dSizeBytes = 3\<rparr>"
  obtain st' random where p: "Put (demoConfig Zstandard) noFaults emptyCtx CAS toyHash 3 (bytes_reader [1, 2, 3])
        (demoState 100000) = Some (None, st')"
      "Peek (LookupKeyForContext emptyCtx CAS toyHash) (dLru st') =
        Some (uploadItem (demoConfig Zstandard) CAS 3 [1, 2, 3] random)"
    using demo_stored_zstd by blast
  have v: "validateHash toyHash 3 = None" using hex64_toyHash by (simp add: validateHash_None)
  have b: "blen [1, 2, 3] = 3" by (simp add: blen_def)
  have u: "BatchUpdateBlobs ?ops (\<lambda>_. None) emptyCtx
      (Some [Some \<lparr>buDigest = Some ?d, buData = [1, 2, 3], buCompressor = 0\<rparr>]) (demoState 100000) =
      Some (Inr [\<lparr>brDigest = ?d, brCode = codeOK\<rparr>], st')"
    using p(1) v by (simp add: BatchUpdateBlobs_def updateBlob_def Compressor_IDENTITY_def Compressor_ZSTD_def b)
  show ?thesis
    using batch_update_then_read [OF u, of "[1, 2, 3]"] u p(2) demo_good_zstd [of CAS] toyZstd_laws demoState_ok [of 100000]
    by (auto simp: Compressor_IDENTITY_def b in64_def)
qed

end
