(* ===== verification/GrpcAC.thy ===== *)
theory GrpcAC
  imports GrpcCas
begin

text \<open>
  \<open>server/grpc_ac.go\<close>: the action cache service. Protobuf encoding is an argument; the address of the
  peer is what \<open>peer.FromContext\<close> gives.
\<close>

record grpcServer =
  gsDepsCheck :: bool
  gsMangleACKeys :: bool

definition maxInlineSize :: int where "maxInlineSize = 3145728"

text \<open>A status, or the panic of a field access through a nil pointer.\<close>

datatype ac_error = AcStatus grpc_code | AcPanic

text \<open>The digest that the code computes for data.\<close>

definition digestOf :: "bytes \<Rightarrow> digest" where
  "digestOf bs = \<lparr>dHash = hexEncode (sha256 bs), dSizeBytes = blen bs\<rparr>"

section \<open>Inlining\<close>

text \<open>
  \<open>maybeInline\<close> on the content of a field, its digest and the number of bytes inlined so far. The
  result is an error or the three of them updated. The sums of sizes wrap.
\<close>

definition maybeInline :: "'s cacheOps \<Rightarrow> ctx \<Rightarrow> bool \<Rightarrow> bytes \<Rightarrow> digest option \<Rightarrow> int \<Rightarrow> 's \<Rightarrow>
    ((unit + bytes \<times> digest option \<times> int) \<times> 's) option" where
  "maybeInline ops c inl content dgst inlinedSoFar st =
     (let inl = (if add64 inlinedSoFar (blen content) > maxInlineSize then False
                 else (case dgst of
                         None \<Rightarrow> inl
                       | Some d \<Rightarrow> if add64 inlinedSoFar (dSizeBytes d) > maxInlineSize then False else inl))
      in if \<not> inl then
           (if content = [] then Some (Inr (content, dgst, inlinedSoFar), st)
            else
              (let d = (case dgst of None \<Rightarrow> digestOf content | Some d \<Rightarrow> d) in
               case coContains ops c CAS (dHash d) (dSizeBytes d) st of
                 ((True, _), st) \<Rightarrow> Some (Inr ([], Some d, inlinedSoFar), st)
               | ((False, _), st) \<Rightarrow>
                   (case coPut ops c CAS (dHash d) (dSizeBytes d) (bytes_reader content) st of
                      None \<Rightarrow> None
                    | Some (Some e, st) \<Rightarrow> Some (Inl (), st)
                    | Some (None, st) \<Rightarrow> Some (Inr ([], Some d, inlinedSoFar), st))))
         else if content \<noteq> [] then Some (Inr (content, dgst, add64 inlinedSoFar (blen content)), st)
         else
           (case dgst of
              None \<Rightarrow> Some (Inr (content, dgst, inlinedSoFar), st)
            | Some d \<Rightarrow>
                if dSizeBytes d > 0 then
                  (case getBlobData ops c (dHash d) (dSizeBytes d) st of
                     None \<Rightarrow> None
                   | Some (Inl e, st) \<Rightarrow> Some (Inl (), st)
                   | Some (Inr bs, st) \<Rightarrow> Some (Inr (bs, dgst, add64 inlinedSoFar (dSizeBytes d)), st))
                else Some (Inr (content, dgst, inlinedSoFar), st)))"

text \<open>The loop over the output files.\<close>

fun inlineFiles :: "'s cacheOps \<Rightarrow> ctx \<Rightarrow> string list \<Rightarrow> outputFile option list \<Rightarrow> int \<Rightarrow> 's \<Rightarrow>
    ((ac_error + outputFile option list) \<times> 's) option" where
  "inlineFiles ops c wanted [] inlined st = Some (Inr [], st)"
| "inlineFiles ops c wanted (None # fs) inlined st = Some (Inl AcPanic, st)"
| "inlineFiles ops c wanted (Some f # fs) inlined st =
     (case maybeInline ops c (ofPath f \<in> set wanted) (ofContents f) (ofDigest f) inlined st of
        None \<Rightarrow> None
      | Some (Inl e, st) \<Rightarrow> Some (Inl (AcStatus codeUnknown), st)
      | Some (Inr (contents, dgst, inlined), st) \<Rightarrow>
          (case inlineFiles ops c wanted fs inlined st of
             None \<Rightarrow> None
           | Some (Inl e, st) \<Rightarrow> Some (Inl e, st)
           | Some (Inr fs', st) \<Rightarrow> Some (Inr (Some (f\<lparr>ofContents := contents, ofDigest := dgst\<rparr>) # fs'), st)))"

section \<open>GetActionResult\<close>

record getARRequest =
  gaActionDigest :: "digest option"
  gaInstanceName :: string
  gaInlineStdout :: bool
  gaInlineStderr :: bool
  gaInlineOutputFiles :: "string list"

definition actionKey :: "grpcServer \<Rightarrow> string \<Rightarrow> digest \<Rightarrow> string" where
  "actionKey s inst d = (if gsMangleACKeys s then TransformActionCacheKey (dHash d) inst else dHash d)"

text \<open>Without the check of dependencies: what is stored, decoded and validated.\<close>

definition getUnchecked :: "'s cacheOps \<Rightarrow> (bytes \<Rightarrow> actionResult option) \<Rightarrow> ctx \<Rightarrow> string \<Rightarrow> 's \<Rightarrow>
    ((ac_error + actionResult) \<times> 's) option" where
  "getUnchecked ops unmarshalAR c hash st =
     (case coGet ops c AC hash (- 1) 0 st of
        None \<Rightarrow> None
      | Some (GotError e, st) \<Rightarrow> Some (Inl (AcStatus codeUnknown), st)
      | Some (NotFound, st) \<Rightarrow> Some (Inl (AcStatus codeNotFound), st)
      | Some (Found r n, st) \<Rightarrow>
          if n \<le> 0 then Some (Inl (AcStatus codeNotFound), st)
          else
            (case readAll r of
               None \<Rightarrow> Some (Inl (AcStatus codeUnknown), st)
             | Some acdata \<Rightarrow>
                 (case unmarshalAR acdata of
                    None \<Rightarrow> Some (Inl (AcStatus codeUnknown), st)
                  | Some ar \<Rightarrow>
                      (case validateActionResult (Some ar) of
                         Some e \<Rightarrow> Some (Inl (AcStatus codeInternal), st)
                       | None \<Rightarrow> Some (Inr ar, st)))))"

text \<open>Inlining in a validated result: stdout, stderr, then the files in order.\<close>

definition inlineResult :: "'s cacheOps \<Rightarrow> ctx \<Rightarrow> getARRequest \<Rightarrow> actionResult \<Rightarrow> 's \<Rightarrow>
    ((ac_error + actionResult) \<times> 's) option" where
  "inlineResult ops c req ar st =
     (case maybeInline ops c (gaInlineStdout req) (arStdoutRaw ar) (arStdoutDigest ar) 0 st of
        None \<Rightarrow> None
      | Some (Inl e, st) \<Rightarrow> Some (Inl (AcStatus codeUnknown), st)
      | Some (Inr (out, outd, inlined), st) \<Rightarrow>
          (case maybeInline ops c (gaInlineStderr req) (arStderrRaw ar) (arStderrDigest ar) inlined st of
             None \<Rightarrow> None
           | Some (Inl e, st) \<Rightarrow> Some (Inl (AcStatus codeUnknown), st)
           | Some (Inr (err, errd, inlined), st) \<Rightarrow>
               (case inlineFiles ops c (gaInlineOutputFiles req) (arOutputFiles ar) inlined st of
                  None \<Rightarrow> None
                | Some (Inl e, st) \<Rightarrow> Some (Inl e, st)
                | Some (Inr fs, st) \<Rightarrow>
                    Some (Inr (ar\<lparr>arStdoutRaw := out, arStdoutDigest := outd, arStderrRaw := err,
                                 arStderrDigest := errd, arOutputFiles := fs\<rparr>), st))))"

definition GetActionResult :: "grpcServer \<Rightarrow> 's cacheOps \<Rightarrow> (bytes \<Rightarrow> actionResult option) \<Rightarrow> ctx \<Rightarrow>
    getARRequest option \<Rightarrow> 's \<Rightarrow> ((ac_error + actionResult) \<times> 's) option" where
  "GetActionResult s ops unmarshalAR c req st =
     (case req of
        None \<Rightarrow> Some (Inl (AcStatus codeInvalidArgument), st)
      | Some req \<Rightarrow>
          (case gaActionDigest req of
             None \<Rightarrow> Some (Inl (AcStatus codeInvalidArgument), st)
           | Some d \<Rightarrow>
               (let hash = actionKey s (gaInstanceName req) d in
                case validateHash hash (dSizeBytes d) of
                  Some e \<Rightarrow> Some (Inl (AcStatus e), st)
                | None \<Rightarrow>
                    if \<not> gsDepsCheck s then getUnchecked ops unmarshalAR c hash st
                    else
                      (case coGetValidated ops c hash st of
                         None \<Rightarrow> None
                       | Some (VacError e, st) \<Rightarrow> Some (Inl (AcStatus codeUnknown), st)
                       | Some (VacNotFound, st) \<Rightarrow> Some (Inl (AcStatus codeNotFound), st)
                       | Some (VacFound ar dat, st) \<Rightarrow> inlineResult ops c req ar st))))"

section \<open>UpdateActionResult\<close>

definition unknownWorker :: string where "unknownWorker = ''unknown''"

text \<open>\<open>addr\<close>: the address of the peer, if the context has one.\<close>

definition workerOf :: "string option \<Rightarrow> string" where
  "workerOf addr =
     (case addr of
        None \<Rightarrow> unknownWorker
      | Some a \<Rightarrow>
          if a = [] then unknownWorker
          else if CHR '':'' \<notin> set a then a
          else (case SplitHostPort a of None \<Rightarrow> a | Some (host, _) \<Rightarrow> host))"

definition addWorkerMetadataGRPC :: "string option \<Rightarrow> actionResult \<Rightarrow> actionResult" where
  "addWorkerMetadataGRPC addr ar =
     (case arExecutionMetadata ar of
        Some m \<Rightarrow> if emWorker m \<noteq> [] then ar else ar\<lparr>arExecutionMetadata := Some (m\<lparr>emWorker := workerOf addr\<rparr>)\<rparr>
      | None \<Rightarrow> ar\<lparr>arExecutionMetadata := Some \<lparr>emWorker = workerOf addr\<rparr>\<rparr>)"

text \<open>A \<open>Put\<close> of an inlined blob: \<open>Some (Inl e)\<close> ends the handler.\<close>

definition putInlined :: "'s cacheOps \<Rightarrow> ctx \<Rightarrow> digest \<Rightarrow> bytes \<Rightarrow> 's \<Rightarrow> ((grpc_code + unit) \<times> 's) option" where
  "putInlined ops c d bs st =
     (case coPut ops c CAS (dHash d) (dSizeBytes d) (bytes_reader bs) st of
        None \<Rightarrow> None
      | Some (Some e, st) \<Rightarrow> Some (Inl (gRPCErrCode (Some e) codeInternal), st)
      | Some (None, st) \<Rightarrow> Some (Inr (), st))"

text \<open>The inlined files, which get a digest if they have none.\<close>

fun putFiles :: "'s cacheOps \<Rightarrow> ctx \<Rightarrow> outputFile option list \<Rightarrow> 's \<Rightarrow>
    ((grpc_code + outputFile option list) \<times> 's) option" where
  "putFiles ops c [] st = Some (Inr [], st)"
| "putFiles ops c (f # fs) st =
     (let put = (case f of
          None \<Rightarrow> Some (Inr None, st)
        | Some g \<Rightarrow>
            if ofContents g = [] then Some (Inr (Some g), st)
            else
              (let d = (case ofDigest g of None \<Rightarrow> digestOf (ofContents g) | Some d \<Rightarrow> d) in
               case putInlined ops c d (ofContents g) st of
                 None \<Rightarrow> None
               | Some (Inl e, st) \<Rightarrow> Some (Inl e, st)
               | Some (Inr _, st) \<Rightarrow> Some (Inr (Some (g\<lparr>ofDigest := Some d\<rparr>)), st)))
      in case put of
           None \<Rightarrow> None
         | Some (Inl e, st) \<Rightarrow> Some (Inl e, st)
         | Some (Inr f', st) \<Rightarrow>
             (case putFiles ops c fs st of
                None \<Rightarrow> None
              | Some (Inl e, st) \<Rightarrow> Some (Inl e, st)
              | Some (Inr fs', st) \<Rightarrow> Some (Inr (f' # fs'), st)))"

text \<open>stdout or stderr.\<close>

definition putRaw :: "'s cacheOps \<Rightarrow> ctx \<Rightarrow> bytes \<Rightarrow> digest option \<Rightarrow> 's \<Rightarrow> ((grpc_code + unit) \<times> 's) option" where
  "putRaw ops c raw dgst st =
     (if raw = [] then Some (Inr (), st)
      else putInlined ops c (case dgst of Some d \<Rightarrow> d | None \<Rightarrow> digestOf raw) raw st)"

record updateARRequest =
  uaActionDigest :: "digest option"
  uaInstanceName :: string
  uaActionResult :: "actionResult option"

text \<open>After the action result is stored: the blobs inlined in it.\<close>

definition putAllInlined :: "'s cacheOps \<Rightarrow> ctx \<Rightarrow> actionResult \<Rightarrow> 's \<Rightarrow> ((ac_error + actionResult) \<times> 's) option" where
  "putAllInlined ops c ar st =
     (case putFiles ops c (arOutputFiles ar) st of
        None \<Rightarrow> None
      | Some (Inl e, st) \<Rightarrow> Some (Inl (AcStatus e), st)
      | Some (Inr fs, st) \<Rightarrow>
          (case putRaw ops c (arStdoutRaw ar) (arStdoutDigest ar) st of
             None \<Rightarrow> None
           | Some (Inl e, st) \<Rightarrow> Some (Inl (AcStatus e), st)
           | Some (Inr _, st) \<Rightarrow>
               (case putRaw ops c (arStderrRaw ar) (arStderrDigest ar) st of
                  None \<Rightarrow> None
                | Some (Inl e, st) \<Rightarrow> Some (Inl (AcStatus e), st)
                | Some (Inr _, st) \<Rightarrow> Some (Inr (ar\<lparr>arOutputFiles := fs\<rparr>), st))))"

definition UpdateActionResult :: "grpcServer \<Rightarrow> 's cacheOps \<Rightarrow> (actionResult \<Rightarrow> bytes option) \<Rightarrow> ctx \<Rightarrow> string option \<Rightarrow>
    updateARRequest option \<Rightarrow> 's \<Rightarrow> ((ac_error + actionResult) \<times> 's) option" where
  "UpdateActionResult s ops marshalAR c peerAddr req st =
     (case req of
        None \<Rightarrow> Some (Inl (AcStatus codeInvalidArgument), st)
      | Some req \<Rightarrow>
          (case uaActionDigest req of
             None \<Rightarrow> Some (Inl (AcStatus codeInvalidArgument), st)
           | Some d \<Rightarrow>
               (let hash = actionKey s (uaInstanceName req) d in
                case validateHash hash (dSizeBytes d) of
                  Some e \<Rightarrow> Some (Inl (AcStatus e), st)
                | None \<Rightarrow>
                    (case (validateActionResult (uaActionResult req), uaActionResult req) of
                       (None, Some ar0) \<Rightarrow>
                         (let ar = addWorkerMetadataGRPC peerAddr ar0 in
                          case marshalAR ar of
                            None \<Rightarrow> Some (Inl (AcStatus codeInternal), st)
                          | Some dat \<Rightarrow>
                              if dat = [] then Some (Inl (AcStatus codeInternal), st)
                              else
                                (case coPut ops c AC hash (blen dat) (bytes_reader dat) st of
                                   None \<Rightarrow> None
                                 | Some (Some e, st) \<Rightarrow> Some (Inl (AcStatus (gRPCErrCode (Some e) codeInternal)), st)
                                 | Some (None, st) \<Rightarrow> putAllInlined ops c ar st))
                     | _ \<Rightarrow> Some (Inl (AcStatus codeUnknown), st)))))"

end
