(* ===== verification/GrpcAC_Props.thy ===== *)
theory GrpcAC_Props
  imports GrpcAC
begin

text \<open>
  The action cache service: how much it inlines, that its results are well-formed, and the round
  trip of an update and a lookup.
\<close>

section \<open>Inlining\<close>

definition inlinedBytes :: "actionResult \<Rightarrow> int" where
  "inlinedBytes ar = blen (arStdoutRaw ar) + blen (arStderrRaw ar) +
     sum_list (map (\<lambda>f. case f of None \<Rightarrow> 0 | Some f \<Rightarrow> blen (ofContents f)) (arOutputFiles ar))"

definition maxSmall :: int where "maxSmall = maxInt64 - maxInlineSize"

text \<open>A message whose fields are far below the range of \<open>int64\<close>, as every message in memory is.\<close>

definition smallContents :: "actionResult \<Rightarrow> bool" where
  "smallContents ar \<longleftrightarrow> blen (arStdoutRaw ar) \<le> maxSmall \<and> blen (arStderrRaw ar) \<le> maxSmall \<and>
     (\<forall>f. Some f \<in> set (arOutputFiles ar) \<longrightarrow> blen (ofContents f) \<le> maxSmall)"

definition honestReads :: "'s cacheOps \<Rightarrow> ctx \<Rightarrow> bool" where
  "honestReads ops c \<longleftrightarrow> (\<forall>h n st r m st'. coGet ops c CAS h n 0 st = Some (Found r m, st') \<longrightarrow>
     blen (rdata r) = m \<and> m \<le> maxSmall)"

lemma getBlobData_honest:
  assumes "honestReads ops c" "0 < n" "getBlobData ops c h n st = Some (Inr bs, st')"
  shows "blen bs = n \<and> n \<le> maxSmall"
proof -
  obtain r where "coGet ops c CAS h n 0 st = Some (Found r n, st')" "bs = rdata r"
    using assms(2,3) by (auto simp: getBlobData_def readAll_def split: option.splits got.splits prod.splits if_splits)
  then show ?thesis using assms(1) unfolding honestReads_def by blast
qed

lemma blen_nonneg [simp]: "0 \<le> blen bs"
  by (simp add: blen_def)

lemma blen_Nil [simp]: "blen [] = 0"
  by (simp add: blen_def)

lemma add64_small: "0 \<le> k \<Longrightarrow> k \<le> maxInlineSize \<Longrightarrow> 0 \<le> n \<Longrightarrow> n \<le> maxSmall \<Longrightarrow> add64 k n = k + n"
  by (simp add: maxSmall_def maxInlineSize_def add64_def wrap64_def)

text \<open>The account that \<open>maybeInline\<close> keeps is exact and stays within the limit.\<close>

lemma maybeInline_account:
  assumes "maybeInline ops c inl bs d k st = Some (Inr (bs', d', k'), st')" "honestReads ops c"
    and "0 \<le> k" "k \<le> maxInlineSize" "blen bs \<le> maxSmall"
  shows "k' = k + blen bs' \<and> k' \<le> maxInlineSize"
proof (cases "bs = []")
  case False
  then show ?thesis
    using assms add64_small [OF assms(3,4) blen_nonneg assms(5)]
    by (auto simp: maybeInline_def Let_def split: if_splits option.splits prod.splits bool.splits)
next
  case True
  show ?thesis
  proof (cases d)
    case None
    then show ?thesis using assms True by (auto simp: maybeInline_def Let_def split: if_splits)
  next
    case (Some dg)
    show ?thesis
    proof (cases "inl \<and> \<not> add64 k (dSizeBytes dg) > maxInlineSize \<and> dSizeBytes dg > 0")
      case False
      then show ?thesis
        using assms(1,3,4) True Some add64_small [of k 0]
        by (auto simp: maybeInline_def Let_def maxSmall_def maxInlineSize_def split: if_splits)
    next
      case True': True
      then obtain r st2 where g: "getBlobData ops c (dHash dg) (dSizeBytes dg) st = Some (r, st2)" "r = Inr bs'"
          "k' = add64 k (dSizeBytes dg)"
        using assms(1,3,4) True Some add64_small [of k 0]
        by (auto simp: maybeInline_def Let_def maxSmall_def maxInlineSize_def split: option.splits sum.splits)
      have h: "blen bs' = dSizeBytes dg" "dSizeBytes dg \<le> maxSmall"
        using getBlobData_honest [OF assms(2)] True' g(1,2) by auto
      then show ?thesis
        using g(3) True' add64_small [OF assms(3,4) _ h(2)] by simp
    qed
  qed
qed

text \<open>A digest that \<open>maybeInline\<close> returns is the one it was given or one it computed.\<close>

lemma maybeInline_digest:
  assumes "maybeInline ops c inl bs d k st = Some (Inr (bs', d', k'), st')"
  shows "d' = d \<or> d = None \<and> d' = Some (digestOf bs)"
  using assms
  by (auto simp: maybeInline_def Let_def split: if_splits option.splits prod.splits bool.splits sum.splits)

lemma goodDigest_digestOf: "goodDigest (digestOf bs)"
  by (simp add: goodDigest_def digestOf_def hex64_sha256)

lemma inlineFiles_props:
  assumes "inlineFiles ops c wanted fs k st = Some (Inr fs', st')"
  shows "honestReads ops c \<Longrightarrow> 0 \<le> k \<Longrightarrow> k \<le> maxInlineSize \<Longrightarrow>
      (\<forall>f. Some f \<in> set fs \<longrightarrow> blen (ofContents f) \<le> maxSmall) \<Longrightarrow>
      k + sum_list (map (\<lambda>f. case f of None \<Rightarrow> 0 | Some f \<Rightarrow> blen (ofContents f)) fs') \<le> maxInlineSize"
    and "(\<forall>f \<in> set fs. goodOutputFile f) \<Longrightarrow> (\<forall>f \<in> set fs'. goodOutputFile f)"
proof -
  have "(honestReads ops c \<longrightarrow> 0 \<le> k \<longrightarrow> k \<le> maxInlineSize \<longrightarrow>
      (\<forall>f. Some f \<in> set fs \<longrightarrow> blen (ofContents f) \<le> maxSmall) \<longrightarrow>
      k + sum_list (map (\<lambda>f. case f of None \<Rightarrow> 0 | Some f \<Rightarrow> blen (ofContents f)) fs') \<le> maxInlineSize) \<and>
    ((\<forall>f \<in> set fs. goodOutputFile f) \<longrightarrow> (\<forall>f \<in> set fs'. goodOutputFile f))"
    using assms
  proof (induction ops c wanted fs k st arbitrary: fs' st' rule: inlineFiles.induct)
    case (3 ops c wanted f fs k st)
    obtain bs d k1 st1 where m: "maybeInline ops c (ofPath f \<in> set wanted) (ofContents f) (ofDigest f) k st =
        Some (Inr (bs, d, k1), st1)"
      using 3(2) by (auto split: option.splits sum.splits prod.splits)
    obtain fs1 where r: "inlineFiles ops c wanted fs k1 st1 = Some (Inr fs1, st')"
        "fs' = Some (f\<lparr>ofContents := bs, ofDigest := d\<rparr>) # fs1"
      using 3(2) m by (auto split: option.splits sum.splits prod.splits)
    note IH = 3(1) [OF m refl refl refl refl r(1)]
    show ?case
    proof (intro conjI impI)
      assume a: "honestReads ops c" "0 \<le> k" "k \<le> maxInlineSize" "\<forall>g. Some g \<in> set (Some f # fs) \<longrightarrow> blen (ofContents g) \<le> maxSmall"
      have "k1 = k + blen bs \<and> k1 \<le> maxInlineSize" using maybeInline_account [OF m a(1-3)] a(4) by simp
      moreover have "0 \<le> k1" using calculation a(2) by simp
      ultimately show "k + sum_list (map (\<lambda>f. case f of None \<Rightarrow> 0 | Some f \<Rightarrow> blen (ofContents f)) fs') \<le> maxInlineSize"
        using IH a(1,4) r(2) by (simp add: add.assoc)
    next
      assume g: "\<forall>f \<in> set (Some f # fs). goodOutputFile f"
      then have "goodOutputFile (Some (f\<lparr>ofContents := bs, ofDigest := d\<rparr>))"
        using maybeInline_digest [OF m] by (auto simp: goodOutputFile_def split: option.splits)
      then show "\<forall>f \<in> set fs'. goodOutputFile f" using IH g r(2) by simp
    qed
  qed auto
  then show "honestReads ops c \<Longrightarrow> 0 \<le> k \<Longrightarrow> k \<le> maxInlineSize \<Longrightarrow>
      (\<forall>f. Some f \<in> set fs \<longrightarrow> blen (ofContents f) \<le> maxSmall) \<Longrightarrow>
      k + sum_list (map (\<lambda>f. case f of None \<Rightarrow> 0 | Some f \<Rightarrow> blen (ofContents f)) fs') \<le> maxInlineSize"
    "(\<forall>f \<in> set fs. goodOutputFile f) \<Longrightarrow> (\<forall>f \<in> set fs'. goodOutputFile f)" by blast+
qed

lemma inlineResult_parts:
  assumes "inlineResult ops c req ar st = Some (Inr ar', st')"
  obtains out outd k1 st1 err errd k2 st2 fs where
    "maybeInline ops c (gaInlineStdout req) (arStdoutRaw ar) (arStdoutDigest ar) 0 st = Some (Inr (out, outd, k1), st1)"
    "maybeInline ops c (gaInlineStderr req) (arStderrRaw ar) (arStderrDigest ar) k1 st1 = Some (Inr (err, errd, k2), st2)"
    "inlineFiles ops c (gaInlineOutputFiles req) (arOutputFiles ar) k2 st2 = Some (Inr fs, st')"
    "ar' = ar\<lparr>arStdoutRaw := out, arStdoutDigest := outd, arStderrRaw := err, arStderrDigest := errd, arOutputFiles := fs\<rparr>"
proof -
  obtain out outd k1 st1 where 1: "maybeInline ops c (gaInlineStdout req) (arStdoutRaw ar) (arStdoutDigest ar) 0 st =
      Some (Inr (out, outd, k1), st1)"
    using assms by (auto simp: inlineResult_def split: option.splits sum.splits prod.splits)
  obtain err errd k2 st2 where 2: "maybeInline ops c (gaInlineStderr req) (arStderrRaw ar) (arStderrDigest ar) k1 st1 =
      Some (Inr (err, errd, k2), st2)"
    using assms 1 by (auto simp: inlineResult_def split: option.splits sum.splits prod.splits)
  obtain fs where 3: "inlineFiles ops c (gaInlineOutputFiles req) (arOutputFiles ar) k2 st2 = Some (Inr fs, st')"
    using assms 1 2 by (auto simp: inlineResult_def split: option.splits sum.splits prod.splits)
  then show ?thesis using that 1 2 assms by (auto simp: inlineResult_def)
qed

lemma inlineResult_bound:
  assumes "inlineResult ops c req ar st = Some (Inr ar', st')" "honestReads ops c" "smallContents ar"
  shows "inlinedBytes ar' \<le> maxInlineSize"
proof -
  obtain out outd k1 st1 err errd k2 st2 fs where
    1: "maybeInline ops c (gaInlineStdout req) (arStdoutRaw ar) (arStdoutDigest ar) 0 st = Some (Inr (out, outd, k1), st1)" and
    2: "maybeInline ops c (gaInlineStderr req) (arStderrRaw ar) (arStderrDigest ar) k1 st1 = Some (Inr (err, errd, k2), st2)" and
    3: "inlineFiles ops c (gaInlineOutputFiles req) (arOutputFiles ar) k2 st2 = Some (Inr fs, st')" and
    r: "ar' = ar\<lparr>arStdoutRaw := out, arStdoutDigest := outd, arStderrRaw := err, arStderrDigest := errd, arOutputFiles := fs\<rparr>"
    using inlineResult_parts [OF assms(1)] .
  note small = assms(3) [unfolded smallContents_def]
  have k1: "k1 = blen out" "k1 \<le> maxInlineSize"
    using maybeInline_account [OF 1 assms(2)] small by (simp_all add: maxInlineSize_def)
  have k2: "k2 = blen out + blen err" "k2 \<le> maxInlineSize"
    using maybeInline_account [OF 2 assms(2)] k1 small by simp_all
  have "0 \<le> k2" using k2(1) by simp
  then show ?thesis using inlineFiles_props(1) [OF 3 assms(2)] k2 small r by (simp add: inlinedBytes_def)
qed

lemma inlineResult_good:
  assumes "inlineResult ops c req ar st = Some (Inr ar', st')" "goodActionResult ar"
  shows "goodActionResult ar'"
proof -
  obtain out outd k1 st1 err errd k2 st2 fs where
    1: "maybeInline ops c (gaInlineStdout req) (arStdoutRaw ar) (arStdoutDigest ar) 0 st = Some (Inr (out, outd, k1), st1)" and
    2: "maybeInline ops c (gaInlineStderr req) (arStderrRaw ar) (arStderrDigest ar) k1 st1 = Some (Inr (err, errd, k2), st2)" and
    3: "inlineFiles ops c (gaInlineOutputFiles req) (arOutputFiles ar) k2 st2 = Some (Inr fs, st')" and
    r: "ar' = ar\<lparr>arStdoutRaw := out, arStdoutDigest := outd, arStderrRaw := err, arStderrDigest := errd, arOutputFiles := fs\<rparr>"
    using inlineResult_parts [OF assms(1)] .
  have "\<forall>f \<in> set fs. goodOutputFile f" using inlineFiles_props(2) [OF 3] assms(2) by (simp add: goodActionResult_def)
  moreover have "\<forall>d \<in> set_option outd \<union> set_option errd. goodDigest d"
    using maybeInline_digest [OF 1] maybeInline_digest [OF 2] assms(2) goodDigest_digestOf
    by (auto simp: goodActionResult_def)
  ultimately show ?thesis using assms(2) r by (simp add: goodActionResult_def)
qed

lemma GetActionResult_checked:
  assumes "GetActionResult s ops unmarshalAR c (Some req) st = Some (Inr ar, st')" "gsDepsCheck s"
  obtains h st1 dat ar0 st2 where "coGetValidated ops c h st1 = Some (VacFound ar0 dat, st2)"
    "inlineResult ops c req ar0 st2 = Some (Inr ar, st')"
proof -
  obtain d where d: "gaActionDigest req = Some d" using assms by (cases "gaActionDigest req") (simp_all add: GetActionResult_def)
  define h where "h = actionKey s (gaInstanceName req) d"
  have v: "validateHash h (dSizeBytes d) = None"
    using assms d by (cases "validateHash h (dSizeBytes d)") (simp_all add: GetActionResult_def h_def)
  obtain r st1 where g: "coGetValidated ops c h st = Some (r, st1)"
    using assms d v by (cases "coGetValidated ops c h st") (auto simp: GetActionResult_def h_def)
  have "GetActionResult s ops unmarshalAR c (Some req) st =
      (case r of VacError e \<Rightarrow> Some (Inl (AcStatus codeUnknown), st1)
       | VacNotFound \<Rightarrow> Some (Inl (AcStatus codeNotFound), st1)
       | VacFound ar dat \<Rightarrow> inlineResult ops c req ar st1)"
    using assms(2) d v g by (simp add: GetActionResult_def h_def [symmetric] split: vac_result.split)
  then obtain ar0 dat where "r = VacFound ar0 dat" "inlineResult ops c req ar0 st1 = Some (Inr ar, st')"
    using assms(1) by (cases r) simp_all
  with g show ?thesis by (blast intro: that)
qed

lemma GetActionResult_unchecked:
  assumes "GetActionResult s ops unmarshalAR c (Some req) st = Some (Inr ar, st')" "\<not> gsDepsCheck s"
  shows "goodActionResult ar"
proof -
  obtain h where "getUnchecked ops unmarshalAR c h st = Some (Inr ar, st')"
    using assms by (auto simp: GetActionResult_def Let_def split: option.splits)
  then show ?thesis
    by (auto simp: getUnchecked_def validateActionResult_good split: option.splits prod.splits got.splits if_splits)
qed



text \<open>A cache with one validated result, whose stdout of three bytes is stored apart.\<close>

definition acOps :: "dcState cacheOps" where
  "acOps = (diskOps (demoConfig Zstandard) noFaults id undefined undefined)
     \<lparr>coGet := \<lambda>c k h n off st.
        if 0 < n \<and> n \<le> 100 then Some (Found (bytes_reader (replicate (nat n) 7)) n, st) else Some (NotFound, st),
      coGetValidated := \<lambda>c h st.
        Some (VacFound (emptyActionResult\<lparr>arStdoutDigest := Some \<lparr>dHash = toyHash, dSizeBytes = 3\<rparr>\<rparr>) [1], st)\<rparr>"

definition acRequest :: getARRequest where
  "acRequest = \<lparr>gaActionDigest = Some \<lparr>dHash = toyHash, dSizeBytes = 5\<rparr>, gaInstanceName = [],
     gaInlineStdout = True, gaInlineStderr = False, gaInlineOutputFiles = []\<rparr>"

lemma demo_inlined:
  "\<exists>ar. GetActionResult \<lparr>gsDepsCheck = True, gsMangleACKeys = False\<rparr> acOps unm emptyCtx (Some acRequest) st = Some (Inr ar, st) \<and>
     arStdoutRaw ar = [7, 7, 7] \<and> arStdoutDigest ar = Some \<lparr>dHash = toyHash, dSizeBytes = 3\<rparr>"
proof -
  have v: "validateHash toyHash 5 = None" using hex64_toyHash by (simp add: validateHash_None)
  have "add64 0 0 = 0" "add64 0 3 = 3" "add64 3 0 = 3" by (simp_all add: add64_def wrap64_def)
  then show ?thesis
    using v
    by (simp add: GetActionResult_def acRequest_def acOps_def actionKey_def inlineResult_def maybeInline_def
        emptyActionResult_def maxInlineSize_def getBlobData_def readAll_def bytes_reader_def numeral_3_eq_3)
qed



section \<open>Update, then lookup\<close>

lemma goodActionResult_worker: "goodActionResult (addWorkerMetadataGRPC addr ar) = goodActionResult ar"
  by (simp add: addWorkerMetadataGRPC_def goodActionResult_def split: option.splits)

definition noInlined :: "actionResult \<Rightarrow> bool" where
  "noInlined ar \<longleftrightarrow> arStdoutRaw ar = [] \<and> arStderrRaw ar = [] \<and> (\<forall>f. Some f \<in> set (arOutputFiles ar) \<longrightarrow> ofContents f = [])"

lemma putFiles_none: "\<forall>f. Some f \<in> set fs \<longrightarrow> ofContents f = [] \<Longrightarrow> putFiles ops c fs st = Some (Inr fs, st)"
  by (induction fs) (auto split: option.splits)

lemma putAllInlined_none: "noInlined ar \<Longrightarrow> putAllInlined ops c ar st = Some (Inr ar, st)"
  by (simp add: putAllInlined_def noInlined_def putFiles_none putRaw_def)

lemma UpdateActionResult_stored:
  assumes "UpdateActionResult s ops marshalAR c addr
      (Some \<lparr>uaActionDigest = Some d, uaInstanceName = inst, uaActionResult = Some ar0\<rparr>) st = Some (Inr ar, st')"
    and "noInlined ar0"
  obtains dat where "ar = addWorkerMetadataGRPC addr ar0" "marshalAR ar = Some dat" "dat \<noteq> []" "goodActionResult ar"
    "validateHash (actionKey s inst d) (dSizeBytes d) = None"
    "coPut ops c AC (actionKey s inst d) (blen dat) (bytes_reader dat) st = Some (None, st')"
proof -
  let ?ar = "addWorkerMetadataGRPC addr ar0"
  have n: "noInlined ?ar" using assms(2) by (simp add: noInlined_def addWorkerMetadataGRPC_def split: option.splits)
  have v: "validateHash (actionKey s inst d) (dSizeBytes d) = None" "validateActionResult (Some ar0) = None"
    using assms(1) by (auto simp: UpdateActionResult_def Let_def split: option.splits)
  then obtain dat where dat: "marshalAR ?ar = Some dat" "dat \<noteq> []"
    using assms(1) by (auto simp: UpdateActionResult_def Let_def split: option.splits if_splits)
  then have "coPut ops c AC (actionKey s inst d) (blen dat) (bytes_reader dat) st = Some (None, st') \<and> ar = ?ar"
    using assms(1) v n
    by (auto simp: UpdateActionResult_def Let_def putAllInlined_none split: option.splits prod.splits)
  then show ?thesis using that v dat validateActionResult_good goodActionResult_worker by metis
qed

context keyed_store
begin

lemma update_then_get:
  assumes "UpdateActionResult s ops marshalAR c addr
      (Some \<lparr>uaActionDigest = Some d, uaInstanceName = inst, uaActionResult = Some ar0\<rparr>) st = Some (Inr ar, st')"
    and "noInlined ar0" "ok st" "\<And>x dat. marshalAR x = Some dat \<Longrightarrow> unmarshalAR dat = Some x \<and> in64 (blen dat)"
    and "indexed c AC (actionKey s inst d) st'" "\<not> gsDepsCheck s"
    and "gaActionDigest req = Some d" "gaInstanceName req = inst"
  shows "\<exists>st2. GetActionResult s ops unmarshalAR c (Some req) st' = Some (Inr ar, st2)"
proof -
  let ?h = "actionKey s inst d"
  obtain dat where dat: "ar = addWorkerMetadataGRPC addr ar0" "marshalAR ar = Some dat" "dat \<noteq> []" "goodActionResult ar"
      "validateHash ?h (dSizeBytes d) = None" "coPut ops c AC ?h (blen dat) (bytes_reader dat) st = Some (None, st')"
    using UpdateActionResult_stored [OF assms(1,2)] .
  have h: "hex64 ?h" using dat(5) by (simp add: validateHash_None)
  obtain st2 where "coGet ops c AC ?h (- 1) 0 st' = Some (Found (bytes_reader dat) (blen dat), st2)"
    using keyed_put_get [OF assms(3) _ h _ dat(6) assms(5)] assms(4) [OF dat(2)] by (auto simp: bytes_reader_def)
  moreover have "0 < blen dat" using dat(3) by (simp add: blen_def)
  moreover have "validateActionResult (Some ar) = None" using dat(4) by (simp add: validateActionResult_good)
  ultimately show ?thesis
    using assms(4,6-8) dat(2,5)
    by (simp add: GetActionResult_def getUnchecked_def readAll_def bytes_reader_def)
qed

end

text \<open>
  On the disk cache, without the check of dependencies: an action result that was updated
  successfully, and carries no inlined data, is answered by a later lookup of the same action and
  instance exactly as the update returned it, worker name included, as long as its entry is
  in the index, with or without the mangling of keys.
\<close>

theorem update_then_get_action_result:
  fixes cfg :: dcConfig and fm vac
  defines "ops \<equiv> diskOps cfg noFaults id fm vac"
  assumes "UpdateActionResult s ops marshalAR c addr
      (Some \<lparr>uaActionDigest = Some d, uaInstanceName = inst, uaActionResult = Some ar0\<rparr>) st = Some (Inr ar, st')"
    and "noInlined ar0" "lru_ok (dLru st)" "zstd_laws (cZstd cfg)"
    and "\<And>x dat. marshalAR x = Some dat \<Longrightarrow> unmarshalAR dat = Some x \<and> in64 (blen dat)"
    and "Peek (LookupKeyForContext c AC (actionKey s inst d)) (dLru st') \<noteq> None" "\<not> gsDepsCheck s"
    and "gaActionDigest req = Some d" "gaInstanceName req = inst"
  shows "\<exists>st2. GetActionResult s ops unmarshalAR c (Some req) st' = Some (Inr ar, st2)"
  using assms(2-) unfolding ops_def by (intro disk_keyed.update_then_get [where addr = addr]) simp_all

definition demoAR :: actionResult where
  "demoAR = emptyActionResult\<lparr>arExitCode := 1\<rparr>"

definition demoUpdate :: updateARRequest where
  "demoUpdate = \<lparr>uaActionDigest = Some \<lparr>dHash = toyHash, dSizeBytes = 5\<rparr>, uaInstanceName = [], uaActionResult = Some demoAR\<rparr>"

theorem update_then_get_action_result_witness:
  "\<exists>ar st' st2. UpdateActionResult \<lparr>gsDepsCheck = False, gsMangleACKeys = False\<rparr>
       (diskOps (demoConfig Zstandard) noFaults id undefined undefined)
       (\<lambda>x. if x = addWorkerMetadataGRPC (Some ''10.0.0.1:80'') demoAR then Some [1, 2, 3] else None) emptyCtx (Some ''10.0.0.1:80'')
       (Some demoUpdate) (demoState 100000) = Some (Inr ar, st') \<and>
     arExecutionMetadata ar = Some \<lparr>emWorker = ''10.0.0.1''\<rparr> \<and>
     GetActionResult \<lparr>gsDepsCheck = False, gsMangleACKeys = False\<rparr> (diskOps (demoConfig Zstandard) noFaults id undefined undefined)
       (\<lambda>_. Some (addWorkerMetadataGRPC (Some ''10.0.0.1:80'') demoAR)) emptyCtx (Some acRequest) st' = Some (Inr ar, st2)"
proof -
  let ?s = "\<lparr>gsDepsCheck = False, gsMangleACKeys = False\<rparr>" and ?addr = "Some ''10.0.0.1:80''"
  let ?ar = "addWorkerMetadataGRPC ?addr demoAR"
  let ?ops = "diskOps (demoConfig Zstandard) noFaults id undefined undefined"
  let ?marshal = "\<lambda>x. if x = ?ar then Some [1, 2, 3] else None"
  obtain st' random where p: "Put (demoConfig Zstandard) noFaults emptyCtx AC toyHash 3 (bytes_reader [1, 2, 3])
        (demoState 100000) = Some (None, st')"
      "Peek (LookupKeyForContext emptyCtx AC toyHash) (dLru st') = Some (uploadItem (demoConfig Zstandard) AC 3 [1, 2, 3] random)"
    using demo_stored_plain [of AC Zstandard toyHash] hex64_toyHash by blast
  have w: "arExecutionMetadata ?ar = Some \<lparr>emWorker = ''10.0.0.1''\<rparr>"
    by (simp add: addWorkerMetadataGRPC_def demoAR_def emptyActionResult_def workerOf_def SplitHostPort_def cutAtLast_def)
  have v: "validateHash toyHash 5 = None" using hex64_toyHash by (simp add: validateHash_None)
  have n: "noInlined demoAR" by (simp add: noInlined_def demoAR_def emptyActionResult_def)
  then have n': "noInlined ?ar" by (simp add: noInlined_def addWorkerMetadataGRPC_def split: option.splits)
  have g: "validateActionResult (Some demoAR) = None"
    by (simp add: validateActionResult_good goodActionResult_def demoAR_def emptyActionResult_def)
  have u: "UpdateActionResult ?s ?ops ?marshal emptyCtx ?addr (Some demoUpdate) (demoState 100000) = Some (Inr ?ar, st')"
    using p(1) v g putAllInlined_none [OF n', of ?ops emptyCtx st']
    by (simp add: UpdateActionResult_def demoUpdate_def actionKey_def blen_def)
  have "\<exists>st2. GetActionResult ?s ?ops (\<lambda>_. Some ?ar) emptyCtx (Some acRequest) st' = Some (Inr ?ar, st2)"
    by (rule update_then_get_action_result [OF u [unfolded demoUpdate_def] n demoState_ok])
      (use p(2) toyZstd_laws in \<open>auto simp: in64_def blen_def actionKey_def acRequest_def split: if_splits\<close>)
  then show ?thesis using u w by blast
qed

end
