(* ===== verification/HttpServer.thy ===== *)
theory HttpServer
  imports GrpcAC "HOL-Library.Sublist"
begin

text \<open>
  \<open>server/http.go\<close>: the HTTP interface of the cache. A request has the headers that the handler reads
  and a body; the response is a status with its headers and body. Writing the response to the
  network cannot change it, so a failing write is not distinguished.
\<close>

section \<open>Requests and responses\<close>

record httpCache =
  hcValidateAC :: bool
  hcMangleACKeys :: bool
  hcCheckReads :: bool
  hcCheckWrites :: bool

text \<open>\<open>hrTLS\<close>: the verified certificate chains of the connection, nil without TLS.\<close>

record httpRequest =
  hrMethod :: string
  hrPath :: string
  hrContentLength :: int
  hrBody :: reader
  hrAccept :: string
  hrAcceptEncoding :: string
  hrContentEncoding :: string
  hrContentType :: string
  hrDigestSizeBytes :: string
  hrRemoteAddr :: string
  hrTLS :: "string list list option"

text \<open>
  An error status with an explanation, or status 200 with a \<open>Content-Type\<close>, \<open>Content-Encoding\<close> and
  \<open>Content-Length\<close> where the handler sets them, the body, and whether the body was cut off.
\<close>

record httpOK =
  okType :: string
  okEncoding :: string
  okLength :: "int option"
  okBody :: bytes
  okCutOff :: bool

datatype httpResponse = HttpError int | HttpOK httpOK

definition emptyOK :: httpOK where
  "emptyOK = \<lparr>okType = [], okEncoding = [], okLength = None, okBody = [], okCutOff = False\<rparr>"

text \<open>The codecs of action results that the handlers use: protobuf and its JSON form.\<close>

record arCodec =
  arUnmarshal :: "bytes \<Rightarrow> actionResult option"
  arMarshal :: "actionResult \<Rightarrow> bytes option"
  arFromJson :: "bytes \<Rightarrow> actionResult option"
  arToJson :: "actionResult \<Rightarrow> bytes option"

definition octetStream :: string where "octetStream = ''application/octet-stream''"
definition jsonType :: string where "jsonType = ''application/json''"

section \<open>Request URLs\<close>

text \<open>
  What the regular expression \<open>^/?(.*/)?(ac/|cas/)([a-f0-9]{64})$\<close> allows before the kind, with its
  first group: an optional slash, then nothing or a text in one line that ends in a slash.
\<close>

definition urlPrefix :: "string \<Rightarrow> string option" where
  "urlPrefix pre =
     (let g = (if hasPrefix pre ''/'' then tl pre else pre)
      in if g = [] \<or> (hasSuffix g ''/'' \<and> CHR 0x0A \<notin> set g) then Some g else None)"

text \<open>The second group and what is before it.\<close>

definition urlKind :: "string \<Rightarrow> (bool \<times> string) option" where
  "urlKind p =
     (if hasSuffix p ''cas/'' then Some (True, trimSuffix p ''cas/'')
      else if hasSuffix p ''ac/'' then Some (False, trimSuffix p ''ac/'')
      else None)"

definition parseRequestURL :: "string \<Rightarrow> bool \<Rightarrow> (EntryKind \<times> string \<times> string) option" where
  "parseRequestURL url validateAC =
     (let hash = drop (length url - 64) url in
      if length url < 64 \<or> \<not> hex64 hash then None
      else
        (case urlKind (take (length url - 64) url) of
           None \<Rightarrow> None
         | Some (isCas, pre) \<Rightarrow>
             (case urlPrefix pre of
                None \<Rightarrow> None
              | Some g \<Rightarrow>
                  Some (if isCas then CAS else if validateAC then AC else RAW, hash, trimSuffix g ''/''))))"

section \<open>Client certificates\<close>

definition hasValidClientCert :: "httpRequest \<Rightarrow> bool" where
  "hasValidClientCert r =
     (case hrTLS r of None \<Rightarrow> False | Some verified \<Rightarrow> \<not> (verified = [] \<or> hd verified = []))"

definition VerifyClientCertHandler :: "(httpRequest \<Rightarrow> 's \<Rightarrow> (httpResponse \<times> 's) option) \<Rightarrow> httpRequest \<Rightarrow> 's \<Rightarrow>
    (httpResponse \<times> 's) option" where
  "VerifyClientCertHandler wrapMe r st =
     (if \<not> hasValidClientCert r then Some (HttpError 401, st) else wrapMe r st)"

section \<open>Validated action results\<close>

definition handleContainsValidAC :: "'s cacheOps \<Rightarrow> ctx \<Rightarrow> string \<Rightarrow> 's \<Rightarrow> (httpResponse \<times> 's) option" where
  "handleContainsValidAC ops c hash st =
     (case coGetValidated ops c hash st of
        None \<Rightarrow> None
      | Some (VacError e, st) \<Rightarrow> Some (HttpError 404, st)
      | Some (VacNotFound, st) \<Rightarrow> Some (HttpError 404, st)
      | Some (VacFound ar dat, st) \<Rightarrow> Some (HttpOK (emptyOK\<lparr>okLength := Some (blen dat)\<rparr>), st))"

text \<open>When the conversion to JSON fails nothing is written, which is an empty response with status 200.\<close>

definition jsonResponse :: "arCodec \<Rightarrow> bytes \<Rightarrow> httpOK" where
  "jsonResponse cd dat =
     (case arUnmarshal cd dat of
        None \<Rightarrow> emptyOK
      | Some ar \<Rightarrow>
          (case arToJson cd ar of
             None \<Rightarrow> emptyOK\<lparr>okType := jsonType\<rparr>
           | Some md \<Rightarrow> emptyOK\<lparr>okType := jsonType, okBody := md\<rparr>))"

definition handleGetValidAC :: "'s cacheOps \<Rightarrow> arCodec \<Rightarrow> ctx \<Rightarrow> httpRequest \<Rightarrow> string \<Rightarrow> 's \<Rightarrow> (httpResponse \<times> 's) option" where
  "handleGetValidAC ops cd c r hash st =
     (case coGetValidated ops c hash st of
        None \<Rightarrow> None
      | Some (VacError e, st) \<Rightarrow> Some (HttpError 404, st)
      | Some (VacNotFound, st) \<Rightarrow> Some (HttpError 404, st)
      | Some (VacFound ar dat, st) \<Rightarrow>
          Some (HttpOK (if hrAccept r = jsonType then jsonResponse cd dat
                        else emptyOK\<lparr>okType := octetStream, okLength := Some (blen dat), okBody := dat\<rparr>), st))"

section \<open>GET\<close>

definition handleGet :: "httpCache \<Rightarrow> 's cacheOps \<Rightarrow> arCodec \<Rightarrow> ctx \<Rightarrow> httpRequest \<Rightarrow> EntryKind \<Rightarrow> string \<Rightarrow> 's \<Rightarrow>
    (httpResponse \<times> 's) option" where
  "handleGet h ops cd c r kind hash st =
     (if hcCheckReads h \<and> \<not> hasValidClientCert r then Some (HttpError 401, st)
      else if hcValidateAC h \<and> kind = AC then handleGetValidAC ops cd c r hash st
      else
        (let zstdCompressed = (kind = CAS \<and> sublist ''zstd'' (hrAcceptEncoding r)) in
         case (if zstdCompressed then coGetZstd ops c hash (- 1) 0 st else coGet ops c kind hash (- 1) 0 st) of
           None \<Rightarrow> None
         | Some (GotError e, st) \<Rightarrow> Some (HttpError (errCode e), st)
         | Some (NotFound, st) \<Rightarrow> Some (HttpError 404, st)
         | Some (Found rd n, st) \<Rightarrow>
             Some (HttpOK \<lparr>okType = octetStream, okEncoding = (if zstdCompressed then ''zstd'' else []),
                           okLength = (if zstdCompressed then None else Some n),
                           okBody = rdata rd, okCutOff = rfails rd\<rparr>, st)))"

section \<open>PUT\<close>

text \<open>
  The name of the worker, which is set to the whole remote address: the host is only split off when
  that address is empty, and then there is none.
\<close>

definition addWorkerMetadataHTTP :: "arCodec \<Rightarrow> string \<Rightarrow> string \<Rightarrow> bytes \<Rightarrow> actionResult option" where
  "addWorkerMetadataHTTP cd addr ct orig =
     (case (if ct = jsonType then arFromJson cd orig else arUnmarshal cd orig) of
        None \<Rightarrow> None
      | Some ar \<Rightarrow>
          (let worker = (if addr = [] then
                           (case SplitHostPort addr of
                              None \<Rightarrow> unknownWorker
                            | Some (w, _) \<Rightarrow> if w = [] then unknownWorker else w)
                         else addr)
           in case arExecutionMetadata ar of
                Some m \<Rightarrow> if emWorker m \<noteq> [] then Some ar
                           else Some (ar\<lparr>arExecutionMetadata := Some (m\<lparr>emWorker := worker\<rparr>)\<rparr>)
              | None \<Rightarrow> Some (ar\<lparr>arExecutionMetadata := Some \<lparr>emWorker = worker\<rparr>\<rparr>)))"

text \<open>The checks on an action result in the body: a status, or the message to store.\<close>

definition checkedAC :: "arCodec \<Rightarrow> (bytes \<Rightarrow> bytes option) \<Rightarrow> httpRequest \<Rightarrow> bool \<Rightarrow> int \<Rightarrow> int + bytes" where
  "checkedAC cd decodeAll r zstdCompressed contentLength =
     (case readAll (hrBody r) of
        None \<Rightarrow> Inl 500
      | Some body \<Rightarrow>
          (case (if zstdCompressed then decodeAll body else Some body) of
             None \<Rightarrow> Inl 400
           | Some dat \<Rightarrow>
               if blen dat \<noteq> contentLength then Inl 400
               else
                 (case addWorkerMetadataHTTP cd (hrRemoteAddr r) (hrContentType r) dat of
                    None \<Rightarrow> Inl 400
                  | Some ar \<Rightarrow>
                      if validateActionResult (Some ar) \<noteq> None then Inl 400
                      else (case arMarshal cd ar of None \<Rightarrow> Inl 500 | Some bs \<Rightarrow> Inr bs))))"

text \<open>
  The length and the stream that are stored. \<open>dec\<close>: the pooled zstd decoder over a stream, which can
  fail.
\<close>

definition putSource :: "httpCache \<Rightarrow> arCodec \<Rightarrow> (bytes \<Rightarrow> bytes option) \<Rightarrow> (reader \<Rightarrow> reader option) \<Rightarrow> httpRequest \<Rightarrow>
    EntryKind \<Rightarrow> string \<Rightarrow> int + int \<times> reader" where
  "putSource h cd decodeAll dec r kind hash =
     (case (if hrDigestSizeBytes r = [] then Some (hrContentLength r) else parse_int64 (hrDigestSizeBytes r)) of
        None \<Rightarrow> Inl 400
      | Some contentLength \<Rightarrow>
          if contentLength = - 1 then Inl 400
          else if contentLength = 0 \<and> kind = CAS \<and> hash \<noteq> emptySha256 then Inl 400
          else
            (let ce = hrContentEncoding r; zstdCompressed = (ce = ''zstd'') in
             if \<not> zstdCompressed \<and> ce \<noteq> [] \<and> ce \<noteq> ''identity'' then Inl 400
             else if hcValidateAC h \<and> kind = AC then
               (case checkedAC cd decodeAll r zstdCompressed contentLength of
                  Inl e \<Rightarrow> Inl e
                | Inr bs \<Rightarrow> Inr (blen bs, bytes_reader bs))
             else if zstdCompressed then
               (case dec (hrBody r) of None \<Rightarrow> Inl 500 | Some rd \<Rightarrow> Inr (contentLength, rd))
             else Inr (contentLength, hrBody r)))"

definition handlePut :: "httpCache \<Rightarrow> 's cacheOps \<Rightarrow> arCodec \<Rightarrow> (bytes \<Rightarrow> bytes option) \<Rightarrow> (reader \<Rightarrow> reader option) \<Rightarrow>
    ctx \<Rightarrow> httpRequest \<Rightarrow> EntryKind \<Rightarrow> string \<Rightarrow> 's \<Rightarrow> (httpResponse \<times> 's) option" where
  "handlePut h ops cd decodeAll dec c r kind hash st =
     (if hcCheckWrites h \<and> \<not> hasValidClientCert r then Some (HttpError 401, st)
      else
        (case putSource h cd decodeAll dec r kind hash of
           Inl e \<Rightarrow> Some (HttpError e, st)
         | Inr (n, rd) \<Rightarrow>
             (case coPut ops c kind hash n rd st of
                None \<Rightarrow> None
              | Some (Some e, st) \<Rightarrow> Some (HttpError (errCode e), st)
              | Some (None, st) \<Rightarrow> Some (HttpOK emptyOK, st))))"

section \<open>HEAD and the dispatch\<close>

definition handleHead :: "httpCache \<Rightarrow> 's cacheOps \<Rightarrow> ctx \<Rightarrow> httpRequest \<Rightarrow> EntryKind \<Rightarrow> string \<Rightarrow> 's \<Rightarrow>
    (httpResponse \<times> 's) option" where
  "handleHead h ops c r kind hash st =
     (if hcCheckReads h \<and> \<not> hasValidClientCert r then Some (HttpError 401, st)
      else if hcValidateAC h \<and> kind = AC then handleContainsValidAC ops c hash st
      else
        (case coContains ops c kind hash (- 1) st of
           ((False, _), st) \<Rightarrow> Some (HttpError 404, st)
         | ((True, n), st) \<Rightarrow> Some (HttpOK (emptyOK\<lparr>okLength := Some n\<rparr>), st)))"

definition CacheHandler :: "httpCache \<Rightarrow> 's cacheOps \<Rightarrow> arCodec \<Rightarrow> (bytes \<Rightarrow> bytes option) \<Rightarrow> (reader \<Rightarrow> reader option) \<Rightarrow>
    ctx \<Rightarrow> httpRequest \<Rightarrow> 's \<Rightarrow> (httpResponse \<times> 's) option" where
  "CacheHandler h ops cd decodeAll dec c r st =
     (case parseRequestURL (hrPath r) (hcValidateAC h) of
        None \<Rightarrow> Some (HttpError 400, st)
      | Some (kind, hash, inst) \<Rightarrow>
          (let hash = (if hcMangleACKeys h \<and> kind = AC then TransformActionCacheKey hash inst else hash) in
           if hrMethod r = ''GET'' then handleGet h ops cd c r kind hash st
           else if hrMethod r = ''PUT'' then handlePut h ops cd decodeAll dec c r kind hash st
           else if hrMethod r = ''HEAD'' then handleHead h ops c r kind hash st
           else Some (HttpError 405, st)))"

section \<open>The status page\<close>

record statusPageData =
  spCurrSize :: int
  spUncompressedSize :: int
  spReservedSize :: int
  spMaxSize :: int
  spNumFiles :: nat
  spServerTime :: int
  spGitCommit :: string
  spNumGoroutines :: int

definition httpGitCommit :: "string \<Rightarrow> string" where
  "httpGitCommit cmt = (if cmt \<noteq> ''{STABLE_GIT_COMMIT}'' then cmt else [])"

definition StatusPageHandler :: "'s cacheOps \<Rightarrow> string \<Rightarrow> int \<Rightarrow> int \<Rightarrow> 's \<Rightarrow> statusPageData" where
  "StatusPageHandler ops gitCommit now goroutines st =
     (case coStats ops st of
        (cur, rsv, items, unc) \<Rightarrow>
          \<lparr>spCurrSize = cur, spUncompressedSize = unc, spReservedSize = rsv,
           spMaxSize = coMaxSize ops st, spNumFiles = items, spServerTime = now, spGitCommit = gitCommit,
           spNumGoroutines = goroutines\<rparr>)"

end
