(* ===== verification/HttpServer_Props.thy ===== *)
theory HttpServer_Props
  imports HttpServer
begin

text \<open>
  The HTTP interface: which URLs it understands, what a client without a certificate cannot do,
  what it stores as an action result, and round trips, also between HTTP and gRPC.
\<close>

section \<open>URLs\<close>

lemma parseRequestURL_hash: "parseRequestURL url v = Some (k, h, inst) \<Longrightarrow> hex64 h"
  by (auto simp: parseRequestURL_def Let_def split: option.splits if_splits prod.splits)

lemma parseRequestURL_AC: "parseRequestURL url v = Some (AC, h, inst) \<Longrightarrow> v"
  by (auto simp: parseRequestURL_def Let_def split: option.splits if_splits prod.splits)

definition urlOf :: "string \<Rightarrow> bool \<Rightarrow> string \<Rightarrow> string" where
  "urlOf inst isCas h = ''/'' @ (if inst = [] then [] else inst @ ''/'') @ (if isCas then ''cas/'' else ''ac/'') @ h"

lemma urlPrefix_instance:
  "CHR 0x0A \<notin> set inst \<Longrightarrow> urlPrefix (''/'' @ (if inst = [] then [] else inst @ ''/'')) = Some (if inst = [] then [] else inst @ ''/'')"
  by (simp add: urlPrefix_def hasPrefix_def)

lemma parse_urlOf:
  assumes "hex64 h" "CHR 0x0A \<notin> set inst" "inst = [] \<or> last inst \<noteq> CHR ''/''"
  shows "parseRequestURL (urlOf inst isCas h) v = Some (if isCas then CAS else if v then AC else RAW, h, inst)"
proof -
  let ?p = "''/'' @ (if inst = [] then [] else inst @ ''/'')" and ?k = "if isCas then ''cas/'' else ''ac/''"
  have h: "length h = 64" using hex64_length [OF assms(1)] .
  have u: "urlOf inst isCas h = (?p @ ?k) @ h" by (simp add: urlOf_def)
  have "urlKind (?p @ ?k) = Some (isCas, ?p)"
    by (cases isCas) (simp_all add: urlKind_def hasSuffix_def trimSuffix_def)
  moreover have "drop (length (urlOf inst isCas h) - 64) (urlOf inst isCas h) = h"
      "take (length (urlOf inst isCas h) - 64) (urlOf inst isCas h) = ?p @ ?k"
    unfolding u using h by simp_all
  moreover have "\<not> length (urlOf inst isCas h) < 64" unfolding u using h by simp
  ultimately show ?thesis
    using assms(1) urlPrefix_instance [OF assms(2)]
    by (simp add: parseRequestURL_def trimSuffix_def hasSuffix_def del: append_assoc)
qed

section \<open>Authentication\<close>

text \<open>
  Without a valid client certificate, when certificates are asked for writes, a PUT is
  refused and leaves the cache as it was; when they are asked for reads too, so is every request,
  whatever its method and path.
\<close>

theorem http_without_certificate:
  assumes "\<not> hasValidClientCert r" "hcCheckWrites h" "hrMethod r = ''PUT'' \<or> hcCheckReads h"
  shows "\<exists>e \<in> {400, 401, 405}. CacheHandler h ops cd decodeAll dec c r st = Some (HttpError e, st)"
  using assms by (auto simp: CacheHandler_def handleGet_def handlePut_def handleHead_def Let_def split: option.split prod.split)

section \<open>Action results\<close>

text \<open>The action result that a request with the given body brings.\<close>

definition broughtAR :: "arCodec \<Rightarrow> (bytes \<Rightarrow> bytes option) \<Rightarrow> httpRequest \<Rightarrow> actionResult \<Rightarrow> bool" where
  "broughtAR cd decodeAll r ar \<longleftrightarrow>
     (\<exists>dat. (if hrContentEncoding r = ''zstd'' then decodeAll (rdata (hrBody r)) else Some (rdata (hrBody r))) = Some dat \<and>
        addWorkerMetadataHTTP cd (hrRemoteAddr r) (hrContentType r) dat = Some ar)"

definition workerName :: "actionResult \<Rightarrow> string" where
  "workerName ar = (case arExecutionMetadata ar of None \<Rightarrow> [] | Some m \<Rightarrow> emWorker m)"

lemma addWorkerMetadataHTTP_worker: "addWorkerMetadataHTTP cd addr ct dat = Some ar \<Longrightarrow> workerName ar \<noteq> []"
  by (auto simp: addWorkerMetadataHTTP_def workerName_def unknownWorker_def Let_def
      split: option.splits if_splits prod.splits)

lemma checkedAC_Inr:
  assumes "checkedAC cd decodeAll r (hrContentEncoding r = ''zstd'') n = Inr bs"
  shows "\<exists>ar. broughtAR cd decodeAll r ar \<and> goodActionResult ar \<and> workerName ar \<noteq> [] \<and> arMarshal cd ar = Some bs"
proof -
  obtain dat where d: "(if hrContentEncoding r = ''zstd'' then decodeAll (rdata (hrBody r)) else Some (rdata (hrBody r))) = Some dat"
    using assms by (cases "if hrContentEncoding r = ''zstd'' then decodeAll (rdata (hrBody r)) else Some (rdata (hrBody r))")
      (auto simp: checkedAC_def readAll_def split: if_splits)
  obtain ar where ar: "addWorkerMetadataHTTP cd (hrRemoteAddr r) (hrContentType r) dat = Some ar"
      "validateActionResult (Some ar) = None" "arMarshal cd ar = Some bs"
    using assms d by (auto simp: checkedAC_def readAll_def split: if_splits option.splits)
  then show ?thesis
    using d addWorkerMetadataHTTP_worker validateActionResult_good unfolding broughtAR_def by blast
qed

lemma http_put_ac:
  assumes "CacheHandler h ops cd decodeAll dec c r st = Some (resp, st')" "hrMethod r = ''PUT''"
    and "parseRequestURL (hrPath r) (hcValidateAC h) = Some (AC, hash, inst)"
  shows "(\<exists>e. resp = HttpError e \<and> st' = st) \<or>
    (\<exists>ar dat err. broughtAR cd decodeAll r ar \<and> goodActionResult ar \<and> workerName ar \<noteq> [] \<and> arMarshal cd ar = Some dat \<and>
       coPut ops c AC (if hcMangleACKeys h then TransformActionCacheKey hash inst else hash) (blen dat) (bytes_reader dat) st =
         Some (err, st') \<and>
       resp = (case err of None \<Rightarrow> HttpOK emptyOK | Some e \<Rightarrow> HttpError (errCode e)))"
proof -
  define k where "k = (if hcMangleACKeys h then TransformActionCacheKey hash inst else hash)"
  have v: "hcValidateAC h" using parseRequestURL_AC [OF assms(3)] .
  have p: "handlePut h ops cd decodeAll dec c r AC k st = Some (resp, st')"
    using assms by (simp add: CacheHandler_def k_def)
  have "(\<exists>e. resp = HttpError e \<and> st' = st) \<or>
    (\<exists>ar dat err. broughtAR cd decodeAll r ar \<and> goodActionResult ar \<and> workerName ar \<noteq> [] \<and> arMarshal cd ar = Some dat \<and>
       coPut ops c AC k (blen dat) (bytes_reader dat) st = Some (err, st') \<and>
       resp = (case err of None \<Rightarrow> HttpOK emptyOK | Some e \<Rightarrow> HttpError (errCode e)))"
  proof (cases "hcCheckWrites h \<and> \<not> hasValidClientCert r")
    case True
    then show ?thesis using p by (auto simp: handlePut_def)
  next
    case cert: False
    show ?thesis
    proof (cases "putSource h cd decodeAll dec r AC k")
      case (Inl e)
      then show ?thesis using p cert by (auto simp: handlePut_def)
    next
      case (Inr x)
      then obtain n bs where x: "x = (blen bs, bytes_reader bs)" "checkedAC cd decodeAll r (hrContentEncoding r = ''zstd'') n = Inr bs"
        using v by (auto simp: putSource_def Let_def split: option.splits if_splits sum.splits)
      obtain err where e: "coPut ops c AC k (blen bs) (bytes_reader bs) st = Some (err, st')"
          "resp = (case err of None \<Rightarrow> HttpOK emptyOK | Some e \<Rightarrow> HttpError (errCode e))"
        using p cert Inr x(1) by (auto simp: handlePut_def split: option.splits)
      then show ?thesis using checkedAC_Inr [OF x(2)] by blast
    qed
  qed
  then show ?thesis unfolding k_def .
qed

text \<open>
  Property C23. With validation, a PUT to the action cache that does not leave the cache as it was has
  stored, under the key of the path and the instance, the encoding of the action result in the
  body, completed with a worker name: it is well-formed and its worker name is not empty.
\<close>

theorem http_ac_put_validated:
  assumes "CacheHandler h ops cd decodeAll dec c r st = Some (resp, st')" "hrMethod r = ''PUT''"
    and "parseRequestURL (hrPath r) (hcValidateAC h) = Some (AC, hash, inst)" "st' \<noteq> st"
  shows "\<exists>ar dat err. broughtAR cd decodeAll r ar \<and> goodActionResult ar \<and> workerName ar \<noteq> [] \<and> arMarshal cd ar = Some dat \<and>
    coPut ops c AC (if hcMangleACKeys h then TransformActionCacheKey hash inst else hash) (blen dat) (bytes_reader dat) st =
      Some (err, st')"
  using http_put_ac [OF assms(1-3)] assms(4) by blast

context keyed_store
begin

lemma grpc_get_after_http_put:
  assumes "CacheHandler h ops cd decodeAll dec c r st = Some (HttpOK resp, st')" "hrMethod r = ''PUT''"
    and url: "parseRequestURL (hrPath r) (hcValidateAC h) = Some (AC, hash, inst)"
    and "ok st" "\<And>x dat. arMarshal cd x = Some dat \<Longrightarrow> arUnmarshal cd dat = Some x \<and> dat \<noteq> [] \<and> in64 (blen dat)"
    and s: "\<not> gsDepsCheck s" "gsMangleACKeys s = hcMangleACKeys h"
    and req: "gaActionDigest req = Some d" "dHash d = hash" "dSizeBytes d \<noteq> 0" "gaInstanceName req = inst"
    and "indexed c AC (actionKey s inst d) st'"
  shows "\<exists>ar st2. GetActionResult s ops (arUnmarshal cd) c (Some req) st' = Some (Inr ar, st2) \<and>
    broughtAR cd decodeAll r ar \<and> goodActionResult ar \<and> workerName ar \<noteq> []"
proof -
  let ?h = "actionKey s inst d"
  have h: "hex64 ?h"
    using parseRequestURL_hash [OF url] req(2) hex64_sha256 by (simp add: actionKey_def TransformActionCacheKey_def)
  have "?h = (if hcMangleACKeys h then TransformActionCacheKey hash inst else hash)" using s(2) req(2) by (simp add: actionKey_def)
  then obtain ar dat err where ar: "broughtAR cd decodeAll r ar" "goodActionResult ar" "workerName ar \<noteq> []"
      "arMarshal cd ar = Some dat" "coPut ops c AC ?h (blen dat) (bytes_reader dat) st = Some (err, st')"
      "HttpOK resp = (case err of None \<Rightarrow> HttpOK emptyOK | Some e \<Rightarrow> HttpError (errCode e))"
    using http_put_ac [OF assms(1-3)] by auto
  then have p: "coPut ops c AC ?h (blen dat) (bytes_reader dat) st = Some (None, st')" by (cases err) simp_all
  note m = assms(5) [OF ar(4)]
  obtain s2 where g: "coGet ops c AC ?h (- 1) 0 st' = Some (Found (bytes_reader dat) (blen dat), s2)"
    using keyed_put_get [OF assms(4) _ h _ p assms(12)] m by (auto simp: bytes_reader_def)
  have "validateHash ?h (dSizeBytes d) = None" using h req(3) by (simp add: validateHash_None)
  moreover have "validateActionResult (Some ar) = None" using ar(2) by (simp add: validateActionResult_good)
  moreover have "0 < blen dat" using m by (simp add: blen_def)
  ultimately have "GetActionResult s ops (arUnmarshal cd) c (Some req) st' = Some (Inr ar, s2)"
    using s(1) req(1,4) g m by (simp add: GetActionResult_def getUnchecked_def readAll_def bytes_reader_def)
  then show ?thesis using ar(1-3) by blast
qed

lemma http_get_after_put:
  assumes "CacheHandler h ops cd decodeAll dec c r st = Some (HttpOK resp, st')" "hrMethod r = ''PUT''"
    and url: "parseRequestURL (hrPath r) (hcValidateAC h) = Some (kind, hash, inst)" "kind \<noteq> AC"
    and "hrContentEncoding r \<noteq> ''zstd''" "hrDigestSizeBytes r = []" "in64 (hrContentLength r)"
    and "ok st" "kind = CAS \<longrightarrow> accepts (hrBody r) (hrContentLength r) \<and> hash \<noteq> emptySha256"
    and "indexed c kind hash st'"
    and "hrMethod q = ''GET''" "hrPath q = hrPath r" "hrAcceptEncoding q = []" "\<not> hcCheckReads h \<or> hasValidClientCert q"
  shows "hrContentLength r = blen (rdata (hrBody r)) \<and>
    (\<exists>st2. CacheHandler h ops cd decodeAll dec c q st' =
      Some (HttpOK \<lparr>okType = octetStream, okEncoding = [], okLength = Some (hrContentLength r),
                    okBody = rdata (hrBody r), okCutOff = False\<rparr>, st2))"
proof -
  have "handlePut h ops cd decodeAll dec c r kind hash st = Some (HttpOK resp, st')"
    using assms(1,2) url by (simp add: CacheHandler_def)
  then have p: "coPut ops c kind hash (hrContentLength r) (hrBody r) st = Some (None, st')"
    using url(2) assms(5,6)
    by (auto simp: handlePut_def putSource_def Let_def split: if_splits option.splits prod.splits sum.splits)
  obtain s2 where "blen (rdata (hrBody r)) = hrContentLength r"
      "coGet ops c kind hash (- 1) 0 st' = Some (Found (bytes_reader (rdata (hrBody r))) (hrContentLength r), s2)"
    using keyed_put_get [OF assms(8,7) parseRequestURL_hash [OF url(1)] assms(9) p assms(10)] by blast
  moreover have "\<not> sublist ''zstd'' (hrAcceptEncoding q)" using assms(13) by simp
  ultimately show ?thesis
    using assms(11,12,14) url by (simp add: CacheHandler_def handleGet_def bytes_reader_def)
qed

end

text \<open>
  What is PUT over HTTP comes back over HTTP. On the disk cache, when an uncompressed PUT of
  a blob, or of an action result that is not validated, is answered with status 200, then the declared
  length is the length of the body, and while the entry is in the index a GET of the same path is
  answered with exactly that body and length.
\<close>

theorem http_put_then_get:
  fixes cfg :: dcConfig and fm vac
  defines "ops \<equiv> diskOps cfg noFaults id fm vac"
  assumes "CacheHandler h ops cd decodeAll dec c r st = Some (HttpOK resp, st')" "hrMethod r = ''PUT''"
    and "parseRequestURL (hrPath r) (hcValidateAC h) = Some (kind, hash, inst)" "kind \<noteq> AC"
    and "hrContentEncoding r \<noteq> ''zstd''" "hrDigestSizeBytes r = []" "in64 (hrContentLength r)"
    and "lru_ok (dLru st) \<and> zstd_laws (cZstd cfg)"
    and "kind = CAS \<longrightarrow> goodUpload cfg CAS (hrBody r) (hrContentLength r) \<and> hash \<noteq> emptySha256"
    and "Peek (LookupKeyForContext c kind hash) (dLru st') \<noteq> None"
    and "hrMethod q = ''GET''" "hrPath q = hrPath r" "hrAcceptEncoding q = []" "\<not> hcCheckReads h \<or> hasValidClientCert q"
  shows "hrContentLength r = blen (rdata (hrBody r)) \<and>
    (\<exists>st2. CacheHandler h ops cd decodeAll dec c q st' =
      Some (HttpOK \<lparr>okType = octetStream, okEncoding = [], okLength = Some (hrContentLength r),
                    okBody = rdata (hrBody r), okCutOff = False\<rparr>, st2))"
  by (rule disk_keyed.http_get_after_put [OF assms(2-) [unfolded ops_def], folded ops_def])


text \<open>Requests for the witnesses.\<close>

definition demoHttp :: "string \<Rightarrow> string \<Rightarrow> httpRequest" where
  "demoHttp mthd url =
     \<lparr>hrMethod = mthd, hrPath = url, hrContentLength = 3, hrBody = bytes_reader [1, 2, 3],
      hrAccept = [], hrAcceptEncoding = [], hrContentEncoding = [], hrContentType = [], hrDigestSizeBytes = [],
      hrRemoteAddr = ''10.0.0.1:80'', hrTLS = None\<rparr>"

definition demoHttpCache :: httpCache where
  "demoHttpCache = \<lparr>hcValidateAC = True, hcMangleACKeys = False, hcCheckReads = False, hcCheckWrites = False\<rparr>"

definition demoCodec :: arCodec where
  "demoCodec =
     \<lparr>arUnmarshal = (\<lambda>_. Some (emptyActionResult\<lparr>arExecutionMetadata := Some \<lparr>emWorker = ''10.0.0.1:80''\<rparr>\<rparr>)),
      arMarshal = (\<lambda>ar. if ar = emptyActionResult\<lparr>arExecutionMetadata := Some \<lparr>emWorker = ''10.0.0.1:80''\<rparr>\<rparr>
                        then Some [1, 2, 3] else None),
      arFromJson = (\<lambda>_. None), arToJson = (\<lambda>_. None)\<rparr>"

lemma demoHttp_sel [simp]:
  "hrMethod (demoHttp m u) = m" "hrPath (demoHttp m u) = u" "hrContentLength (demoHttp m u) = 3"
  "hrBody (demoHttp m u) = bytes_reader [1, 2, 3]" "hrAcceptEncoding (demoHttp m u) = []" "hrContentEncoding (demoHttp m u) = []"
  "hrContentType (demoHttp m u) = []" "hrDigestSizeBytes (demoHttp m u) = []" "hrRemoteAddr (demoHttp m u) = ''10.0.0.1:80''"
  by (simp_all add: demoHttp_def)

lemma demoHttpCache_sel [simp]:
  "hcValidateAC demoHttpCache" "\<not> hcMangleACKeys demoHttpCache" "\<not> hcCheckReads demoHttpCache" "\<not> hcCheckWrites demoHttpCache"
  by (simp_all add: demoHttpCache_def)

lemma demo_checkedAC: "checkedAC demoCodec decodeAll (demoHttp m u) False 3 = Inr [1, 2, 3]"
proof -
  have "validateActionResult (Some (emptyActionResult\<lparr>arExecutionMetadata := Some \<lparr>emWorker = ''10.0.0.1:80''\<rparr>\<rparr>)) = None"
    by (simp add: validateActionResult_good goodActionResult_def emptyActionResult_def)
  then show ?thesis
    by (simp add: checkedAC_def readAll_def addWorkerMetadataHTTP_def demoCodec_def jsonType_def bytes_reader_def blen_def)
qed

lemma demo_http_put_ac:
  obtains st' where "CacheHandler demoHttpCache (diskOps (demoConfig Identity) noFaults id undefined undefined) demoCodec decodeAll dec
      emptyCtx (demoHttp ''PUT'' (urlOf [] False demoHash)) (demoState 100000) = Some (HttpOK emptyOK, st')"
    "Peek (LookupKeyForContext emptyCtx AC demoHash) (dLru st') \<noteq> None" "Peek (LookupKeyForContext emptyCtx AC demoHash) (dLru (demoState 100000)) = None"
proof -
  obtain st' random where p: "Put (demoConfig Identity) noFaults emptyCtx AC demoHash 3 (bytes_reader [1, 2, 3])
        (demoState 100000) = Some (None, st')"
      "Peek (LookupKeyForContext emptyCtx AC demoHash) (dLru st') = Some (uploadItem (demoConfig Identity) AC 3 [1, 2, 3] random)"
    using demo_stored_plain [of AC Identity demoHash] demoHash_ok(1) by blast
  have "CacheHandler demoHttpCache (diskOps (demoConfig Identity) noFaults id undefined undefined) demoCodec decodeAll dec
      emptyCtx (demoHttp ''PUT'' (urlOf [] False demoHash)) (demoState 100000) = Some (HttpOK emptyOK, st')"
    using p(1) demo_checkedAC
    by (simp add: CacheHandler_def parse_urlOf [OF demoHash_ok(1)] handlePut_def putSource_def blen_def)
  moreover have "Peek (LookupKeyForContext emptyCtx AC demoHash) (dLru (demoState 100000)) = None"
    by (simp add: demoState_def NewSizedLRU_def Peek_def)
  ultimately show ?thesis using that p(2) by simp
qed

theorem http_without_certificate_witness:
  "\<exists>e \<in> {400, 401, 405}. CacheHandler (demoHttpCache\<lparr>hcCheckWrites := True\<rparr>)
     (diskOps (demoConfig Zstandard) noFaults id undefined undefined) demoCodec (\<lambda>_. None) (\<lambda>_. None) emptyCtx
     (demoHttp ''PUT'' (urlOf [] True demoHash)\<lparr>hrTLS := Some [[]]\<rparr>) (demoState 1) = Some (HttpError e, demoState 1)"
  by (rule http_without_certificate) (simp_all add: hasValidClientCert_def demoHttp_def)

theorem http_ac_put_validated_witness:
  "\<exists>resp st' ar. CacheHandler demoHttpCache (diskOps (demoConfig Identity) noFaults id undefined undefined) demoCodec (\<lambda>_. None)
       (\<lambda>_. None) emptyCtx (demoHttp ''PUT'' (urlOf [] False demoHash)) (demoState 100000) = Some (resp, st') \<and>
     broughtAR demoCodec (\<lambda>_. None) (demoHttp ''PUT'' (urlOf [] False demoHash)) ar \<and> goodActionResult ar"
proof -
  let ?r = "demoHttp ''PUT'' (urlOf [] False demoHash)"
  obtain st' where p: "CacheHandler demoHttpCache (diskOps (demoConfig Identity) noFaults id undefined undefined) demoCodec (\<lambda>_. None)
       (\<lambda>_. None) emptyCtx ?r (demoState 100000) = Some (HttpOK emptyOK, st')" "st' \<noteq> demoState 100000"
    using demo_http_put_ac by metis
  have "parseRequestURL (hrPath ?r) (hcValidateAC demoHttpCache) = Some (AC, demoHash, [])"
    by (simp add: parse_urlOf [OF demoHash_ok(1)])
  then show ?thesis using http_ac_put_validated [OF p(1) _ _ p(2)] p(1) by fastforce
qed

theorem http_put_then_get_witness:
  "\<exists>st' st2. CacheHandler demoHttpCache (diskOps (demoConfig Identity) noFaults id undefined undefined) demoCodec (\<lambda>_. None)
       (\<lambda>_. None) emptyCtx (demoHttp ''PUT'' (urlOf [] True demoHash)) (demoState 100000) = Some (HttpOK emptyOK, st') \<and>
     CacheHandler demoHttpCache (diskOps (demoConfig Identity) noFaults id undefined undefined) demoCodec (\<lambda>_. None)
       (\<lambda>_. None) emptyCtx (demoHttp ''GET'' (urlOf [] True demoHash)) st' =
       Some (HttpOK \<lparr>okType = octetStream, okEncoding = [], okLength = Some 3, okBody = [1, 2, 3], okCutOff = False\<rparr>, st2)"
proof -
  let ?r = "demoHttp ''PUT'' (urlOf [] True demoHash)" and ?q = "demoHttp ''GET'' (urlOf [] True demoHash)"
  obtain st' random where p: "Put (demoConfig Identity) noFaults emptyCtx CAS demoHash 3 (bytes_reader [1, 2, 3])
        (demoState 100000) = Some (None, st')"
      "Peek (LookupKeyForContext emptyCtx CAS demoHash) (dLru st') = Some (uploadItem (demoConfig Identity) CAS 3 [1, 2, 3] random)"
    using demo_stored_plain [of CAS Identity demoHash] demoHash_ok(1) by blast
  have u: "parseRequestURL (hrPath ?r) (hcValidateAC demoHttpCache) = Some (CAS, demoHash, [])"
    by (simp add: parse_urlOf [OF demoHash_ok(1)])
  have w: "CacheHandler demoHttpCache (diskOps (demoConfig Identity) noFaults id undefined undefined) demoCodec (\<lambda>_. None)
       (\<lambda>_. None) emptyCtx ?r (demoState 100000) = Some (HttpOK emptyOK, st')"
    using p(1) u by (simp add: CacheHandler_def handlePut_def putSource_def)
  show ?thesis
    using http_put_then_get [OF w _ u, of ?q] w p(2) demoState_ok [of 100000] toyZstd_laws demo_good demoHash_ok(2)
    by (fastforce simp: in64_def bytes_reader_def)
qed


end
