(* ===== verification/Config.thy ===== *)
theory Config
  imports Prelude Complex_Main
begin

text \<open>
  \<open>config/config.go\<close>: the configuration of the server, from the command line or a YAML file, and its
  validation. The YAML library and the flags library are arguments: what unmarshalling gives, and what
  the flags hold. So is \<open>url.Parse\<close>.
\<close>

section \<open>The configuration\<close>

text \<open>A parsed URL: its text, scheme, host, and user with the password if there is one.\<close>

record url =
  urlString :: string
  urlScheme :: string
  urlHost :: string
  urlUser :: "(string \<times> string option) option"

record urlBackendConfig =
  ubBaseURL :: "url option"
  ubCertFile :: string
  ubKeyFile :: string
  ubCaFile :: string

record gcsConfig =
  gcBucket :: string
  gcUseDefaultCredentials :: bool
  gcJSONCredentialsFile :: string

record s3Config =
  scEndpoint :: string
  scBucket :: string
  scPrefix :: string
  scAuthMethod :: string
  scAccessKeyID :: string
  scSecretAccessKey :: string
  scSignatureType :: string
  scDisableSSL :: bool
  scUpdateTimestamps :: bool
  scIAMRoleEndpoint :: string
  scRegion :: string
  scKeyVersion :: "int option"
  scAWSProfile :: string
  scAWSSharedCredentialsFile :: string
  scBucketLookupType :: string

record azBlobConfig =
  acStorageAccount :: string
  acContainerName :: string
  acPrefix :: string
  acAuthMethod :: string
  acTenantID :: string
  acClientID :: string
  acClientSecret :: string
  acCertPath :: string
  acSharedKey :: string
  acUpdateTimestamps :: bool

text \<open>Durations are in nanoseconds; the histogram buckets are rational numbers (a float is one, if not NaN or infinite).\<close>

record config =
  cnHTTPAddress :: string
  cnGRPCAddress :: string
  cnProfileAddress :: string
  cnDir :: string
  cnMaxSize :: int
  cnStorageMode :: string
  cnZstdImplementation :: string
  cnHtpasswdFile :: string
  cnMinTLSVersion :: string
  cnTLSCaFile :: string
  cnTLSCertFile :: string
  cnTLSKeyFile :: string
  cnAllowUnauthenticatedReads :: bool
  cnS3 :: "s3Config option"
  cnAzBlob :: "azBlobConfig option"
  cnGCS :: "gcsConfig option"
  cnHTTPBackend :: "urlBackendConfig option"
  cnGRPCBackend :: "urlBackendConfig option"
  cnNumUploaders :: int
  cnMaxQueuedUploads :: int
  cnIdleTimeout :: int
  cnDisableHTTPACValidation :: bool
  cnDisableGRPCACDepsCheck :: bool
  cnEnableACKeyInstanceMangling :: bool
  cnEnableEndpointMetrics :: bool
  cnMetricsDurationBuckets :: "rat list option"
  cnExperimentalRemoteAssetAPI :: bool
  cnHTTPReadTimeout :: int
  cnHTTPWriteTimeout :: int
  cnAccessLogLevel :: string
  cnLogTimezone :: string
  cnMaxBlobSize :: int
  cnMaxProxyBlobSize :: int

record yamlConfig =
  ycConfig :: config
  ycHost :: string
  ycPort :: int
  ycGRPCPort :: int
  ycProfileHost :: string
  ycProfilePort :: int

definition disabledGRPCListener :: string where "disabledGRPCListener = ''none''"

definition defaultDurationBuckets :: "rat list" where
  "defaultDurationBuckets = [1 / 2, 1, 5 / 2, 5, 10, 20, 40, 80, 160, 320]"

section \<open>Validation\<close>

datatype config_error =
    DirRequired
  | MaxSizeNotPositive
  | BadStorageMode
  | BadZstdImplementation string
  | SeveralProxies
  | HttpSocketPathMissing
  | HttpAddressMalformed
  | GrpcSocketPathMissing
  | GrpcAddressMalformed
  | PortConflict string
  | ProfileSocketPathMissing
  | AssetNeedsGRPC
  | CertWithoutKey
  | MTLSNeedsCert
  | UnauthenticatedReadsNeedAuth
  | MaxBlobSizeNotPositive
  | MaxProxyBlobSizeNotPositive
  | GcsBucketRequired
  | UrlRequired string
  | UrlScheme string
  | MTLSKeyOrCertMissing string
  | MTLSScheme string
  | TLSScheme string
  | S3AuthMethod string
  | S3KeyVersion int
  | S3BucketLookup string
  | S3SignatureType string
  | AzStorageAccountRequired
  | AzContainerNameRequired
  | AzAuthMethod string
  | DuplicateBuckets
  | BadAccessLogLevel
  | BadLogTimezone
  | ConfigFileError string
  | UrlParseError string

text \<open>A check that returns an error, and a sequence of checks that stops at the first one that does.\<close>

definition rejectIf :: "bool \<Rightarrow> 'e \<Rightarrow> 'e option" where
  "rejectIf b e = (if b then Some e else None)"

fun firstOf :: "'e option list \<Rightarrow> 'e option" where
  "firstOf [] = None"
| "firstOf (Some e # xs) = Some e"
| "firstOf (None # xs) = firstOf xs"

lemma firstOf_None [simp]: "firstOf xs = None \<longleftrightarrow> (\<forall>x \<in> set xs. x = None)"
  by (induction xs rule: firstOf.induct) auto

lemma rejectIf_None [simp]: "rejectIf b e = None \<longleftrightarrow> \<not> b"
  by (simp add: rejectIf_def)

definition urlBackendValidate :: "string \<Rightarrow> urlBackendConfig \<Rightarrow> config_error option" where
  "urlBackendValidate protocol c =
     (case ubBaseURL c of
        None \<Rightarrow> Some (UrlRequired protocol)
      | Some u \<Rightarrow>
          firstOf
            [rejectIf (urlScheme u \<noteq> protocol \<and> urlScheme u \<noteq> protocol @ ''s'') (UrlScheme protocol),
             (if ubKeyFile c \<noteq> [] \<or> ubCertFile c \<noteq> [] then
                firstOf
                  [rejectIf (ubKeyFile c = [] \<or> ubCertFile c = []) (MTLSKeyOrCertMissing protocol),
                   rejectIf (urlScheme u \<noteq> protocol @ ''s'') (MTLSScheme protocol)]
              else None),
             rejectIf (ubCaFile c \<noteq> [] \<and> urlScheme u \<noteq> protocol @ ''s'') (TLSScheme protocol)])"

definition s3AuthMethods :: "string list" where
  "s3AuthMethods = [''iam_role'', ''access_key'', ''aws_credentials_file'']"

definition azAuthMethods :: "string list" where
  "azAuthMethods = [''client_certificate'', ''client_secret'', ''environment_credential'', ''shared_key'', ''default'']"

text \<open>\<open>IsValidAuthMethod\<close> of both packages: the loop over the methods.\<close>

fun IsValidAuthMethod :: "string list \<Rightarrow> string \<Rightarrow> bool" where
  "IsValidAuthMethod [] m = False"
| "IsValidAuthMethod (b # bs) m = (if m = b then True else IsValidAuthMethod bs m)"

text \<open>The port of the HTTP address, empty for a socket, or an error.\<close>

definition httpPortOf :: "string \<Rightarrow> config_error + string" where
  "httpPortOf addr =
     (if hasPrefix addr ''unix://'' then
        (if drop (length ''unix://'') addr = [] then Inl HttpSocketPathMissing else Inr [])
      else (case SplitHostPort addr of None \<Rightarrow> Inl HttpAddressMalformed | Some (_, port) \<Rightarrow> Inr port))"

definition checkGRPCAddress :: "string \<Rightarrow> string \<Rightarrow> config_error option" where
  "checkGRPCAddress addr httpPort =
     (if addr \<noteq> [] \<and> addr \<noteq> disabledGRPCListener then
        (if hasPrefix addr ''unix://'' then rejectIf (drop (length ''unix://'') addr = []) GrpcSocketPathMissing
         else
           (case SplitHostPort addr of
              None \<Rightarrow> Some GrpcAddressMalformed
            | Some (_, grpcPort) \<Rightarrow>
                rejectIf (httpPort \<noteq> [] \<and> grpcPort \<noteq> [] \<and> httpPort = grpcPort) (PortConflict httpPort)))
      else None)"

definition proxyCount :: "config \<Rightarrow> nat" where
  "proxyCount c =
     (if cnS3 c \<noteq> None then 1 else 0) + (if cnHTTPBackend c \<noteq> None then 1 else 0) +
     (if cnGCS c \<noteq> None then 1 else 0) + (if cnAzBlob c \<noteq> None then 1 else 0) +
     (if cnGRPCBackend c \<noteq> None then 1 else 0)"

definition checkS3 :: "s3Config \<Rightarrow> config_error option" where
  "checkS3 s =
     firstOf
       [rejectIf (\<not> IsValidAuthMethod s3AuthMethods (scAuthMethod s)) (S3AuthMethod (scAuthMethod s)),
        (case scKeyVersion s of None \<Rightarrow> None | Some v \<Rightarrow> rejectIf (v \<noteq> 2) (S3KeyVersion v)),
        rejectIf (scBucketLookupType s \<noteq> [] \<and> scBucketLookupType s \<noteq> ''auto'' \<and> scBucketLookupType s \<noteq> ''dns'' \<and>
          scBucketLookupType s \<noteq> ''path'') (S3BucketLookup (scBucketLookupType s)),
        rejectIf (scSignatureType s \<noteq> [] \<and> scSignatureType s \<noteq> ''v2'' \<and> scSignatureType s \<noteq> ''v4'' \<and>
          scSignatureType s \<noteq> ''v4streaming'' \<and> scSignatureType s \<noteq> ''anonymous'') (S3SignatureType (scSignatureType s))]"

definition checkAzBlob :: "azBlobConfig \<Rightarrow> config_error option" where
  "checkAzBlob a =
     firstOf
       [rejectIf (acStorageAccount a = []) AzStorageAccountRequired,
        rejectIf (acContainerName a = []) AzContainerNameRequired,
        rejectIf (\<not> IsValidAuthMethod azAuthMethods (acAuthMethod a)) (AzAuthMethod (acAuthMethod a))]"

text \<open>The loop over the buckets with the set of those seen.\<close>

fun checkBuckets :: "rat set \<Rightarrow> rat list \<Rightarrow> config_error option" where
  "checkBuckets duplicates [] = None"
| "checkBuckets duplicates (b # bs) =
     (if b \<in> duplicates then Some DuplicateBuckets else checkBuckets (insert b duplicates) bs)"

definition optCheck :: "('a \<Rightarrow> 'e option) \<Rightarrow> 'a option \<Rightarrow> 'e option" where
  "optCheck f x = (case x of None \<Rightarrow> None | Some y \<Rightarrow> f y)"

definition validateConfig :: "config \<Rightarrow> config_error option" where
  "validateConfig c =
     firstOf
       [rejectIf (cnDir c = []) DirRequired,
        rejectIf (cnMaxSize c \<le> 0) MaxSizeNotPositive,
        rejectIf (cnStorageMode c \<noteq> ''zstd'' \<and> cnStorageMode c \<noteq> ''uncompressed'') BadStorageMode,
        rejectIf (cnZstdImplementation c \<noteq> ''go'' \<and> cnZstdImplementation c \<noteq> ''cgo'')
          (BadZstdImplementation (cnZstdImplementation c)),
        rejectIf (proxyCount c > 1) SeveralProxies,
        (case httpPortOf (cnHTTPAddress c) of
           Inl e \<Rightarrow> Some e
         | Inr httpPort \<Rightarrow> checkGRPCAddress (cnGRPCAddress c) httpPort),
        rejectIf (cnProfileAddress c \<noteq> [] \<and> cnProfileAddress c \<noteq> disabledGRPCListener \<and>
          hasPrefix (cnProfileAddress c) ''unix://'' \<and> drop (length ''unix://'') (cnProfileAddress c) = [])
          ProfileSocketPathMissing,
        rejectIf (cnGRPCAddress c = disabledGRPCListener \<and> cnExperimentalRemoteAssetAPI c) AssetNeedsGRPC,
        rejectIf (cnTLSCertFile c \<noteq> [] \<and> cnTLSKeyFile c = [] \<or> cnTLSCertFile c = [] \<and> cnTLSKeyFile c \<noteq> [])
          CertWithoutKey,
        rejectIf (cnTLSCaFile c \<noteq> [] \<and> (cnTLSCertFile c = [] \<or> cnTLSKeyFile c = [])) MTLSNeedsCert,
        rejectIf (cnAllowUnauthenticatedReads c \<and> cnTLSCaFile c = [] \<and> cnHtpasswdFile c = []) UnauthenticatedReadsNeedAuth,
        rejectIf (cnMaxBlobSize c \<le> 0) MaxBlobSizeNotPositive,
        rejectIf (cnMaxProxyBlobSize c \<le> 0) MaxProxyBlobSizeNotPositive,
        rejectIf (cnGCS c \<noteq> None \<and> cnHTTPBackend c \<noteq> None \<and> cnS3 c \<noteq> None) SeveralProxies,
        optCheck (\<lambda>g. rejectIf (gcBucket g = []) GcsBucketRequired) (cnGCS c),
        optCheck (urlBackendValidate ''http'') (cnHTTPBackend c),
        optCheck (urlBackendValidate ''grpc'') (cnGRPCBackend c),
        optCheck checkS3 (cnS3 c),
        optCheck checkAzBlob (cnAzBlob c),
        optCheck (checkBuckets {}) (cnMetricsDurationBuckets c),
        rejectIf (cnAccessLogLevel c \<notin> {''none'', ''all''}) BadAccessLogLevel,
        rejectIf (cnLogTimezone c \<notin> {''UTC'', ''local'', ''none''}) BadLogTimezone]"

section \<open>Sources of the configuration\<close>

text \<open>The arguments are the fields of the record; the buckets are always the default ones.\<close>

definition newFromArgs :: "config \<Rightarrow> config_error + config" where
  "newFromArgs args =
     (let c = args\<lparr>cnMetricsDurationBuckets := Some defaultDurationBuckets\<rparr>
      in case validateConfig c of Some e \<Rightarrow> Inl e | None \<Rightarrow> Inr c)"

definition emptyConfig :: config where
  "emptyConfig =
     \<lparr>cnHTTPAddress = [], cnGRPCAddress = [], cnProfileAddress = [], cnDir = [], cnMaxSize = 0, cnStorageMode = [],
      cnZstdImplementation = [], cnHtpasswdFile = [], cnMinTLSVersion = [], cnTLSCaFile = [], cnTLSCertFile = [],
      cnTLSKeyFile = [], cnAllowUnauthenticatedReads = False, cnS3 = None, cnAzBlob = None, cnGCS = None,
      cnHTTPBackend = None, cnGRPCBackend = None, cnNumUploaders = 0, cnMaxQueuedUploads = 0, cnIdleTimeout = 0,
      cnDisableHTTPACValidation = False, cnDisableGRPCACDepsCheck = False, cnEnableACKeyInstanceMangling = False,
      cnEnableEndpointMetrics = False, cnMetricsDurationBuckets = None, cnExperimentalRemoteAssetAPI = False,
      cnHTTPReadTimeout = 0, cnHTTPWriteTimeout = 0, cnAccessLogLevel = [], cnLogTimezone = [], cnMaxBlobSize = 0,
      cnMaxProxyBlobSize = 0\<rparr>"

text \<open>What a YAML file is unmarshalled onto.\<close>

definition yamlDefaults :: yamlConfig where
  "yamlDefaults =
     \<lparr>ycConfig = emptyConfig\<lparr>cnStorageMode := ''zstd'', cnZstdImplementation := ''go'', cnNumUploaders := 100,
        cnMinTLSVersion := ''1.0'', cnMaxQueuedUploads := 1000000, cnMaxBlobSize := maxInt64,
        cnMaxProxyBlobSize := maxInt64, cnMetricsDurationBuckets := Some defaultDurationBuckets,
        cnAccessLogLevel := ''all'', cnLogTimezone := ''UTC''\<rparr>,
      ycHost = [], ycPort = 0, ycGRPCPort = 0, ycProfileHost = [], ycProfilePort = 0\<rparr>"

text \<open>The URL of a backend, which a YAML file gives as text.\<close>

definition UnmarshalYAML :: "(string \<Rightarrow> url option) \<Rightarrow> string \<Rightarrow> urlBackendConfig \<Rightarrow> urlBackendConfig option" where
  "UnmarshalYAML parseUrl urlStr c =
     (case parseUrl urlStr of None \<Rightarrow> None | Some u \<Rightarrow> Some (c\<lparr>ubBaseURL := Some u\<rparr>))"

text \<open>The deprecated host and port settings stand in for missing addresses.\<close>

definition yamlAddresses :: "yamlConfig \<Rightarrow> config" where
  "yamlAddresses yc =
     (let c = ycConfig yc;
          c = (if cnHTTPAddress c = [] then c\<lparr>cnHTTPAddress := JoinHostPort (ycHost yc) (show_int (ycPort yc))\<rparr> else c);
          c = (if cnGRPCAddress c = [] \<and> ycGRPCPort yc > 0
               then c\<lparr>cnGRPCAddress := JoinHostPort (ycHost yc) (show_int (ycGRPCPort yc))\<rparr> else c)
      in if cnProfileAddress c = [] \<and> ycProfilePort yc > 0
         then c\<lparr>cnProfileAddress := JoinHostPort (ycProfileHost yc) (show_int (ycProfilePort yc))\<rparr> else c)"

definition newFromYaml :: "('d \<Rightarrow> yamlConfig \<Rightarrow> yamlConfig option) \<Rightarrow> 'd \<Rightarrow> config_error + config" where
  "newFromYaml unmarshal dat =
     (case unmarshal dat yamlDefaults of
        None \<Rightarrow> Inl (ConfigFileError ''Failed to parse YAML config'')
      | Some yc \<Rightarrow>
          (let c = yamlAddresses yc;
               c = c\<lparr>cnMetricsDurationBuckets := map_option sort (cnMetricsDurationBuckets c)\<rparr>
           in case validateConfig c of Some e \<Rightarrow> Inl e | None \<Rightarrow> Inr c))"

text \<open>\<open>readFile\<close>: opening and reading the file.\<close>

definition newFromYamlFile :: "(string \<Rightarrow> 'd option) \<Rightarrow> ('d \<Rightarrow> yamlConfig \<Rightarrow> yamlConfig option) \<Rightarrow> string \<Rightarrow>
    config_error + config" where
  "newFromYamlFile readFile unmarshal path =
     (case readFile path of None \<Rightarrow> Inl (ConfigFileError path) | Some dat \<Rightarrow> newFromYaml unmarshal dat)"

text \<open>The values of the command line flags, by name.\<close>

record cliCtx =
  clString :: "string \<Rightarrow> string"
  clInt :: "string \<Rightarrow> int"
  clBool :: "string \<Rightarrow> bool"

definition cliUrlBackend :: "(string \<Rightarrow> url option) \<Rightarrow> cliCtx \<Rightarrow> string \<Rightarrow> config_error + urlBackendConfig option" where
  "cliUrlBackend parseUrl x name =
     (let s = clString x (name @ ''.url'') in
      if s = [] then Inr None
      else
        (case parseUrl s of
           None \<Rightarrow> Inl (UrlParseError s)
         | Some u \<Rightarrow>
             Inr (Some \<lparr>ubBaseURL = Some u, ubCertFile = clString x (name @ ''.cert_file''),
                        ubKeyFile = clString x (name @ ''.key_file''), ubCaFile = clString x (name @ ''.ca_file'')\<rparr>)))"

definition cliS3 :: "cliCtx \<Rightarrow> s3Config option" where
  "cliS3 x =
     (if clString x ''s3.bucket'' \<noteq> [] then
        Some \<lparr>scEndpoint = clString x ''s3.endpoint'', scBucket = clString x ''s3.bucket'', scPrefix = clString x ''s3.prefix'',
          scAuthMethod = clString x ''s3.auth_method'', scAccessKeyID = clString x ''s3.access_key_id'',
          scSecretAccessKey = clString x ''s3.secret_access_key'', scSignatureType = clString x ''s3.signature_type'',
          scDisableSSL = clBool x ''s3.disable_ssl'', scUpdateTimestamps = clBool x ''s3.update_timestamps'',
          scIAMRoleEndpoint = clString x ''s3.iam_role_endpoint'', scRegion = clString x ''s3.region'', scKeyVersion = None,
          scAWSProfile = clString x ''s3.aws_profile'',
          scAWSSharedCredentialsFile = clString x ''s3.aws_shared_credentials_file'',
          scBucketLookupType = clString x ''s3.bucket_lookup_type''\<rparr>
      else None)"

definition cliGcs :: "cliCtx \<Rightarrow> gcsConfig option" where
  "cliGcs x =
     (if clString x ''gcs_proxy.bucket'' \<noteq> [] then
        Some \<lparr>gcBucket = clString x ''gcs_proxy.bucket'',
          gcUseDefaultCredentials = clBool x ''gcs_proxy.use_default_credentials'',
          gcJSONCredentialsFile = clString x ''gcs_proxy.json_credentials_file''\<rparr>
      else None)"

definition cliAzBlob :: "cliCtx \<Rightarrow> azBlobConfig option" where
  "cliAzBlob x =
     (if clString x ''azblob.tenant_id'' \<noteq> [] then
        Some \<lparr>acStorageAccount = clString x ''azblob.storage_account'', acContainerName = clString x ''azblob.container_name'',
          acPrefix = clString x ''azblob.prefix'', acAuthMethod = clString x ''azblob.auth_method'',
          acTenantID = clString x ''azblob.tenant_id'', acClientID = clString x ''azblob.client_id'',
          acClientSecret = clString x ''azblob.client_secret'', acCertPath = clString x ''azblob.cert_path'',
          acSharedKey = clString x ''azblob.shared_key'', acUpdateTimestamps = clBool x ''azblob.update_timestamps''\<rparr>
      else None)"

definition cliAddress :: "cliCtx \<Rightarrow> string \<Rightarrow> string \<Rightarrow> string \<Rightarrow> string" where
  "cliAddress x addr host port =
     (if clString x addr = [] \<and> clInt x port > 0 then JoinHostPort (clString x host) (show_int (clInt x port))
      else clString x addr)"

definition getConfig :: "(string \<Rightarrow> 'd option) \<Rightarrow> ('d \<Rightarrow> yamlConfig \<Rightarrow> yamlConfig option) \<Rightarrow> (string \<Rightarrow> url option) \<Rightarrow> cliCtx \<Rightarrow>
    config_error + config" where
  "getConfig readFile unmarshal parseUrl x =
     (if clString x ''config_file'' \<noteq> [] then newFromYamlFile readFile unmarshal (clString x ''config_file'')
      else
        (case cliUrlBackend parseUrl x ''http_proxy'' of
           Inl e \<Rightarrow> Inl e
         | Inr hc \<Rightarrow>
             (case cliUrlBackend parseUrl x ''grpc_proxy'' of
                Inl e \<Rightarrow> Inl e
              | Inr grpcb \<Rightarrow>
                  newFromArgs
                    \<lparr>cnHTTPAddress =
                       (if clString x ''http_address'' = []
                        then JoinHostPort (clString x ''host'') (show_int (clInt x ''port'')) else clString x ''http_address''),
                     cnGRPCAddress = cliAddress x ''grpc_address'' ''host'' ''grpc_port'',
                     cnProfileAddress =
                       (if clString x ''profile_address'' = ''none'' then []
                        else cliAddress x ''profile_address'' ''profile_host'' ''profile_port''),
                     cnDir = clString x ''dir'', cnMaxSize = clInt x ''max_size'', cnStorageMode = clString x ''storage_mode'',
                     cnZstdImplementation = clString x ''zstd_implementation'', cnHtpasswdFile = clString x ''htpasswd_file'',
                     cnMinTLSVersion = clString x ''min_tls_version'', cnTLSCaFile = clString x ''tls_ca_file'',
                     cnTLSCertFile = clString x ''tls_cert_file'', cnTLSKeyFile = clString x ''tls_key_file'',
                     cnAllowUnauthenticatedReads = clBool x ''allow_unauthenticated_reads'',
                     cnS3 = cliS3 x, cnAzBlob = cliAzBlob x, cnGCS = cliGcs x, cnHTTPBackend = hc, cnGRPCBackend = grpcb,
                     cnNumUploaders = clInt x ''num_uploaders'', cnMaxQueuedUploads = clInt x ''max_queued_uploads'',
                     cnIdleTimeout = clInt x ''idle_timeout'',
                     cnDisableHTTPACValidation = clBool x ''disable_http_ac_validation'',
                     cnDisableGRPCACDepsCheck = clBool x ''disable_grpc_ac_deps_check'',
                     cnEnableACKeyInstanceMangling = clBool x ''enable_ac_key_instance_mangling'',
                     cnEnableEndpointMetrics = clBool x ''enable_endpoint_metrics'', cnMetricsDurationBuckets = None,
                     cnExperimentalRemoteAssetAPI = clBool x ''experimental_remote_asset_api'',
                     cnHTTPReadTimeout = clInt x ''http_read_timeout'', cnHTTPWriteTimeout = clInt x ''http_write_timeout'',
                     cnAccessLogLevel = clString x ''access_log_level'', cnLogTimezone = clString x ''log_timezone'',
                     cnMaxBlobSize = clInt x ''max_blob_size'', cnMaxProxyBlobSize = clInt x ''max_proxy_blob_size''\<rparr>)))"

end
