(* ===== verification/Auth.thy ===== *)
theory Auth
  imports GrpcAC
begin

text \<open>
  Authentication of gRPC requests: the interceptors for client certificates of \<open>server/grpc.go\<close> and
  for HTTP basic authentication of \<open>server/grpc_basic_auth.go\<close>. An interceptor runs the handler or
  returns an error. The secrets and the check of a password come from a library and are arguments.
\<close>

definition grpcHealthServiceName :: string where
  "grpcHealthServiceName = ''/grpc.health.v1.Health/Check''"

definition readOnlyMethods :: "string list" where
  "readOnlyMethods =
     [''/build.bazel.remote.execution.v2.ActionCache/GetActionResult'',
      ''/build.bazel.remote.execution.v2.ContentAddressableStorage/FindMissingBlobs'',
      ''/build.bazel.remote.execution.v2.ContentAddressableStorage/BatchReadBlobs'',
      ''/build.bazel.remote.execution.v2.ContentAddressableStorage/GetTree'',
      ''/build.bazel.remote.execution.v2.Capabilities/GetCapabilities'',
      ''/google.bytestream.ByteStream/Read'']"

section \<open>Client certificates\<close>

text \<open>
  What the context says of the peer: none, a peer without TLS, or the verified chains of its
  connection.
\<close>

datatype peerInfo = NoPeer | PeerOther | PeerTLS "string list list"

definition checkGRPCClientCert :: "peerInfo \<Rightarrow> grpc_code option" where
  "checkGRPCClientCert p =
     (case p of
        NoPeer \<Rightarrow> Some codeUnauthenticated
      | PeerOther \<Rightarrow> Some codeUnauthenticated
      | PeerTLS verified \<Rightarrow>
          if verified = [] \<or> hd verified = [] then Some codeUnauthenticated else None)"

text \<open>An interceptor: the handler's result, or the error that stands in its place.\<close>

definition GRPCmTLSStreamServerInterceptor :: "bool \<Rightarrow> peerInfo \<Rightarrow> string \<Rightarrow> ('s \<Rightarrow> 'r) \<Rightarrow> 's \<Rightarrow> grpc_code + 'r" where
  "GRPCmTLSStreamServerInterceptor allowUnauthenticatedReads p fullMethod handler st =
     (if allowUnauthenticatedReads \<and> fullMethod \<in> set readOnlyMethods then Inr (handler st)
      else (case checkGRPCClientCert p of Some e \<Rightarrow> Inl e | None \<Rightarrow> Inr (handler st)))"

definition GRPCmTLSUnaryServerInterceptor :: "bool \<Rightarrow> peerInfo \<Rightarrow> string \<Rightarrow> ('s \<Rightarrow> 'r) \<Rightarrow> 's \<Rightarrow> grpc_code + 'r" where
  "GRPCmTLSUnaryServerInterceptor allowUnauthenticatedReads p fullMethod handler st =
     (if fullMethod = grpcHealthServiceName then Inr (handler st)
      else if allowUnauthenticatedReads \<and> fullMethod \<in> set readOnlyMethods then Inr (handler st)
      else (case checkGRPCClientCert p of Some e \<Rightarrow> Inl e | None \<Rightarrow> Inr (handler st)))"

section \<open>Base64\<close>

text \<open>
  \<open>base64.StdEncoding.DecodeString\<close>: line ends are skipped, four characters make three bytes, and
  the last group may be padded. Bits that the padding leaves over are not looked at.
\<close>

definition base64Index :: "char \<Rightarrow> nat option" where
  "base64Index x =
     (let n = of_char x :: nat in
      if 65 \<le> n \<and> n \<le> 90 then Some (n - 65)
      else if 97 \<le> n \<and> n \<le> 122 then Some (n - 71)
      else if 48 \<le> n \<and> n \<le> 57 then Some (n + 4)
      else if n = 43 then Some 62
      else if n = 47 then Some 63
      else None)"

fun base64Groups :: "string \<Rightarrow> string option" where
  "base64Groups [] = Some []"
| "base64Groups (a # b # c # d # rest) =
     (case (base64Index a, base64Index b) of
        (Some i, Some j) \<Rightarrow>
          (let x = char_of (i * 4 + j div 16) in
           if c = CHR ''='' then (if d = CHR ''='' \<and> rest = [] then Some [x] else None)
           else
             (case base64Index c of
                None \<Rightarrow> None
              | Some k \<Rightarrow>
                  (let y = char_of (j mod 16 * 16 + k div 4) in
                   if d = CHR ''='' then (if rest = [] then Some [x, y] else None)
                   else
                     (case base64Index d of
                        None \<Rightarrow> None
                      | Some l \<Rightarrow>
                          map_option (\<lambda>s. x # y # char_of (k mod 4 * 64 + l) # s) (base64Groups rest)))))
      | _ \<Rightarrow> None)"
| "base64Groups _ = None"

definition base64Decode :: "string \<Rightarrow> string option" where
  "base64Decode s = base64Groups (filter (\<lambda>x. x \<noteq> CHR 0x0A \<and> x \<noteq> CHR 0x0D) s)"

text \<open>\<open>base64.StdEncoding.EncodeToString\<close>.\<close>

definition base64Char :: "nat \<Rightarrow> char" where
  "base64Char i =
     (if i < 26 then char_of (i + 65) else if i < 52 then char_of (i + 71) else if i < 62 then char_of (i - 4)
      else if i = 62 then CHR ''+'' else CHR ''/'')"

fun base64Encode :: "string \<Rightarrow> string" where
  "base64Encode [] = []"
| "base64Encode [a] =
     (let x = of_char a :: nat in [base64Char (x div 4), base64Char (x mod 4 * 16), CHR ''='', CHR ''=''])"
| "base64Encode [a, b] =
     (let x = of_char a :: nat; y = of_char b :: nat
      in [base64Char (x div 4), base64Char (x mod 4 * 16 + y div 16), base64Char (y mod 16 * 4), CHR ''=''])"
| "base64Encode (a # b # c # rest) =
     (let x = of_char a :: nat; y = of_char b :: nat; z = of_char c :: nat
      in base64Char (x div 4) # base64Char (x mod 4 * 16 + y div 16) # base64Char (y mod 16 * 4 + z div 64) #
         base64Char (z mod 64) # base64Encode rest)"

section \<open>Basic authentication\<close>

record GrpcBasicAuth =
  baSecrets :: "string \<Rightarrow> string"
  baAllowUnauthenticatedReadOnly :: bool

text \<open>
  One entry of the metadata: a user and a password, if it has them. Missing or unparsable parts make
  the loop go on.
\<close>

definition loginOf :: "string \<Rightarrow> string list \<Rightarrow> (string \<times> string) option" where
  "loginOf k v =
     (case v of
        [] \<Rightarrow> None
      | v0 # _ \<Rightarrow>
          if k = '':authority'' then
            (case cutAt CHR '':'' v0 of
               None \<Rightarrow> None
             | Some (username, rest) \<Rightarrow>
                 (case cutAt CHR ''@'' rest of None \<Rightarrow> None | Some (password, _) \<Rightarrow> Some (username, password)))
          else if k = ''authorization'' \<and> hasPrefix v0 ''Basic '' then
            (case base64Decode (trimPrefix v0 ''Basic '') of
               None \<Rightarrow> None
             | Some auth \<Rightarrow> cutAt CHR '':'' auth)
          else None)"

text \<open>The metadata in the order in which the loop over the map visits it; \<open>None\<close>: no metadata.\<close>

fun findLogin :: "(string \<times> string list) list \<Rightarrow> (string \<times> string) option" where
  "findLogin [] = None"
| "findLogin ((k, v) # md) = (case loginOf k v of Some l \<Rightarrow> Some l | None \<Rightarrow> findLogin md)"

definition getLogin :: "(string \<times> string list) list option \<Rightarrow> grpc_code + string \<times> string" where
  "getLogin md =
     (case md of
        None \<Rightarrow> Inl codeUnauthenticated
      | Some md \<Rightarrow> (case findLogin md of None \<Rightarrow> Inl codeUnauthenticated | Some l \<Rightarrow> Inr l))"

definition allowed :: "GrpcBasicAuth \<Rightarrow> (string \<Rightarrow> string \<Rightarrow> bool) \<Rightarrow> string \<Rightarrow> string \<Rightarrow> bool" where
  "allowed b checkSecret username password =
     (let requiredSecret = baSecrets b username
      in if requiredSecret = [] then False else checkSecret password requiredSecret)"

text \<open>The two interceptors of basic authentication are the same but for their types.\<close>

definition basicAuthInterceptor :: "GrpcBasicAuth \<Rightarrow> (string \<Rightarrow> string \<Rightarrow> bool) \<Rightarrow> (string \<times> string list) list option \<Rightarrow>
    string \<Rightarrow> ('s \<Rightarrow> 'r) \<Rightarrow> 's \<Rightarrow> grpc_code + 'r" where
  "basicAuthInterceptor b checkSecret md fullMethod handler st =
     (if fullMethod = grpcHealthServiceName then Inr (handler st)
      else if baAllowUnauthenticatedReadOnly b \<and> fullMethod \<in> set readOnlyMethods then Inr (handler st)
      else
        (case getLogin md of
           Inl e \<Rightarrow> Inl e
         | Inr (username, password) \<Rightarrow>
             if username = [] \<or> password = [] then Inl codeUnauthenticated
             else if \<not> allowed b checkSecret username password then Inl codeUnauthenticated
             else Inr (handler st)))"

section \<open>Who may write\<close>

definition mutatingMethods :: "string list" where
  "mutatingMethods =
     [''/build.bazel.remote.execution.v2.ActionCache/UpdateActionResult'',
      ''/build.bazel.remote.execution.v2.ContentAddressableStorage/BatchUpdateBlobs'',
      ''/google.bytestream.ByteStream/Write'',
      ''/build.bazel.remote.asset.v1.Fetch/FetchBlob'']"

lemma mutating_methods: "m \<in> set mutatingMethods \<Longrightarrow> m \<notin> set readOnlyMethods \<and> m \<noteq> grpcHealthServiceName"
  by (auto simp: mutatingMethods_def readOnlyMethods_def grpcHealthServiceName_def)

definition authenticated :: "GrpcBasicAuth \<Rightarrow> (string \<Rightarrow> string \<Rightarrow> bool) \<Rightarrow> (string \<times> string list) list option \<Rightarrow> bool" where
  "authenticated b checkSecret md \<longleftrightarrow>
     (\<exists>e user password. md = Some e \<and> findLogin e = Some (user, password) \<and> user \<noteq> [] \<and> password \<noteq> [] \<and>
        baSecrets b user \<noteq> [] \<and> checkSecret password (baSecrets b user))"

lemma basicAuth_exact:
  "basicAuthInterceptor b checkSecret md m handler st =
     (if m = grpcHealthServiceName \<or> baAllowUnauthenticatedReadOnly b \<and> m \<in> set readOnlyMethods \<or>
         authenticated b checkSecret md
      then Inr (handler st) else Inl codeUnauthenticated)"
  by (auto simp: basicAuthInterceptor_def authenticated_def getLogin_def allowed_def Let_def split: option.splits)

text \<open>
  Under every interceptor and whatever is allowed without authentication, a call of a
  method that writes to the cache reaches its handler exactly when the client is authenticated: by a
  verified certificate, or by the first user and password that the metadata hold, both non-empty, with
  a secret of that user which the password matches. Otherwise the answer is \<open>Unauthenticated\<close>.
\<close>

theorem writes_need_authentication:
  assumes "m \<in> set mutatingMethods"
  shows "GRPCmTLSUnaryServerInterceptor anyone p m handler st =
      (if \<exists>first rest. p = PeerTLS (first # rest) \<and> first \<noteq> [] then Inr (handler st) else Inl codeUnauthenticated) \<and>
    GRPCmTLSStreamServerInterceptor anyone p m handler st = GRPCmTLSUnaryServerInterceptor anyone p m handler st \<and>
    basicAuthInterceptor b checkSecret md m handler st =
      (if authenticated b checkSecret md then Inr (handler st) else Inl codeUnauthenticated)"
proof (intro conjI)
  note m = mutating_methods [OF assms]
  show "GRPCmTLSUnaryServerInterceptor anyone p m handler st =
      (if \<exists>first rest. p = PeerTLS (first # rest) \<and> first \<noteq> [] then Inr (handler st) else Inl codeUnauthenticated)"
    using m by (auto simp: GRPCmTLSUnaryServerInterceptor_def checkGRPCClientCert_def neq_Nil_conv split: peerInfo.split)
  show "GRPCmTLSStreamServerInterceptor anyone p m handler st = GRPCmTLSUnaryServerInterceptor anyone p m handler st"
    using m by (simp add: GRPCmTLSUnaryServerInterceptor_def GRPCmTLSStreamServerInterceptor_def)
  show "basicAuthInterceptor b checkSecret md m handler st =
      (if authenticated b checkSecret md then Inr (handler st) else Inl codeUnauthenticated)"
    using m by (simp add: basicAuth_exact)
qed

theorem writes_need_authentication_witness:
  "basicAuthInterceptor \<lparr>baSecrets = (\<lambda>u. if u = ''bob'' then ''s'' else []), baAllowUnauthenticatedReadOnly = True\<rparr> (=)
     (Some [(''authorization'', [''Basic Ym9iOnM=''])]) ''/google.bytestream.ByteStream/Write'' (\<lambda>st. st) (7 :: int) = Inr 7"
proof -
  have "findLogin [(''authorization'', [''Basic Ym9iOnM=''])] = Some (''bob'', ''s'')"
    by code_simp
  then have "authenticated \<lparr>baSecrets = (\<lambda>u. if u = ''bob'' then ''s'' else []), baAllowUnauthenticatedReadOnly = True\<rparr> (=)
      (Some [(''authorization'', [''Basic Ym9iOnM=''])])"
    by (simp add: authenticated_def)
  moreover have "''/google.bytestream.ByteStream/Write'' \<in> set mutatingMethods" by (simp add: mutatingMethods_def)
  ultimately show ?thesis by (simp only: writes_need_authentication [THEN conjunct2, THEN conjunct2] if_True)
qed

end
