(* ===== verification/Proxies.thy ===== *)
theory Proxies
  imports DiskOps
begin

text \<open>
  The backends that the disk cache can have: the upload queue of \<open>utils/backendproxy\<close>, the S3 backend of
  \<open>cache/s3proxy/s3proxy.go\<close> and the HTTP backend of \<open>cache/httpproxy/httpproxy.go\<close>. The client
  libraries (minio, \<open>net/http\<close>'s transport) are arguments: what a request to the store returns. Each
  backend becomes a \<open>proxy\<close> of the disk cache.
\<close>

section \<open>The upload queue\<close>

record uploadReq =
  urHash :: string
  urLogicalSize :: int
  urSizeOnDisk :: int
  urKind :: EntryKind
  urData :: bytes
  urStoragePrefix :: string
  urRequestScopedStoragePrefix :: bool
  urRequireStoragePrefix :: bool

text \<open>
  The queue is a buffered channel, its capacity and the requests in it, or nil. A worker that waits
  empties it at once, so that a request is refused exactly when the buffer is full.
\<close>

record uploadQueue =
  uqCapacity :: int
  uqItems :: "uploadReq list"

definition StartUploaders :: "int \<Rightarrow> int \<Rightarrow> uploadQueue option" where
  "StartUploaders numUploaders maxQueuedUploads =
     (if maxQueuedUploads \<le> 0 \<or> numUploaders \<le> 0 then None
      else Some \<lparr>uqCapacity = maxQueuedUploads, uqItems = []\<rparr>)"

text \<open>What \<open>Put\<close> does with a request: it is queued or dropped.\<close>

definition enqueue :: "uploadReq \<Rightarrow> uploadQueue option \<Rightarrow> bool \<times> uploadQueue option" where
  "enqueue item q =
     (case q of
        None \<Rightarrow> (False, None)
      | Some u \<Rightarrow>
          if int (length (uqItems u)) < uqCapacity u then (True, Some (u\<lparr>uqItems := uqItems u @ [item]\<rparr>))
          else (False, Some u))"

section \<open>S3\<close>

record s3Cache =
  s3Prefix :: string
  s3V2mode :: bool
  s3UpdateTimestamps :: bool

text \<open>
  The operations of the object store on a state of the store. \<open>soGet\<close>: a missing key, another error, or
  the object with its size; \<open>soStat\<close>: the size; \<open>soPut\<close> creates an object unless there is one, and
  fails with an HTTP status; \<open>soCompose\<close> rewrites an object in place, which renews its time stamp.
\<close>

datatype s3_error = NoSuchKey | S3Error string

record 'o s3Ops =
  soGet :: "string \<Rightarrow> 'o \<Rightarrow> s3_error + reader \<times> int"
  soStat :: "string \<Rightarrow> 'o \<Rightarrow> int option"
  soPut :: "string \<Rightarrow> bytes \<Rightarrow> int \<Rightarrow> 'o \<Rightarrow> int option \<times> 'o"
  soCompose :: "string \<Rightarrow> 'o \<Rightarrow> 'o"

text \<open>
  \<open>New\<close>: \<open>None\<close> ends the program, without credentials, when the client cannot be made (\<open>core\<close>), or for an
  unknown storage mode.
\<close>

definition s3New :: "('c \<Rightarrow> bool) \<Rightarrow> 'c option \<Rightarrow> string \<Rightarrow> bool \<Rightarrow> string \<Rightarrow> int \<Rightarrow> int \<Rightarrow> (s3Cache \<times> uploadQueue option) option" where
  "s3New core creds pre upd storageMode numUploaders maxQueuedUploads =
     (case creds of
        None \<Rightarrow> None
      | Some cr \<Rightarrow>
          if \<not> core cr then None
          else if storageMode \<noteq> ''zstd'' \<and> storageMode \<noteq> ''uncompressed'' then None
          else Some (\<lparr>s3Prefix = pre, s3V2mode = (storageMode = ''zstd''), s3UpdateTimestamps = upd\<rparr>,
                     StartUploaders numUploaders maxQueuedUploads))"

definition objectKeyV2 :: "string \<Rightarrow> string \<Rightarrow> EntryKind \<Rightarrow> string" where
  "objectKeyV2 pre hash kind =
     (let baseKey = (if kind = CAS then path_join [''cas.v2'', take 2 hash, hash]
                     else path_join [kindString kind, take 2 hash, hash])
      in if pre = [] then baseKey else path_join [pre, baseKey])"

definition objectKeyV1 :: "string \<Rightarrow> string \<Rightarrow> EntryKind \<Rightarrow> string" where
  "objectKeyV1 pre hash kind =
     (if pre = [] then path_join [kindString kind, take 2 hash, hash]
      else path_join [pre, kindString kind, take 2 hash, hash])"

definition objectKeyForPrefix :: "s3Cache \<Rightarrow> string \<Rightarrow> string \<Rightarrow> EntryKind \<Rightarrow> string" where
  "objectKeyForPrefix s pre hash kind = (if s3V2mode s then objectKeyV2 pre hash kind else objectKeyV1 pre hash kind)"

text \<open>The prefix, whether the request has one of its own, and whether it needs one.\<close>

definition prefixForContext :: "s3Cache \<Rightarrow> ctx \<Rightarrow> EntryKind \<Rightarrow> string \<times> bool \<times> bool" where
  "prefixForContext s c kind =
     (if kind \<noteq> RAW then
        (case StoragePrefixFromContext c of
           Some p \<Rightarrow> (p, True, StoragePrefixRequiredFromContext c)
         | None \<Rightarrow> (s3Prefix s, False, StoragePrefixRequiredFromContext c))
      else (s3Prefix s, False, False))"

definition objectKeyForContext :: "s3Cache \<Rightarrow> ctx \<Rightarrow> string \<Rightarrow> EntryKind \<Rightarrow> string" where
  "objectKeyForContext s c hash kind = objectKeyForPrefix s (fst (prefixForContext s c kind)) hash kind"

definition s3Put :: "s3Cache \<Rightarrow> proxyPut \<Rightarrow> uploadQueue option \<Rightarrow> bool \<times> uploadQueue option" where
  "s3Put s p q =
     (let (pre, scoped, required) = prefixForContext s (ppCtx p) (ppKind p)
      in enqueue \<lparr>urHash = ppHash p, urLogicalSize = ppLogicalSize p, urSizeOnDisk = ppSizeOnDisk p,
                  urKind = ppKind p, urData = ppData p, urStoragePrefix = pre,
                  urRequestScopedStoragePrefix = scoped, urRequireStoragePrefix = required\<rparr> q)"

text \<open>The outcome that the observer is told: a status and a reason.\<close>

definition classifyUploadOutcome :: "int option \<Rightarrow> string \<times> string" where
  "classifyUploadOutcome err =
     (case err of
        None \<Rightarrow> (''created'', [])
      | Some code \<Rightarrow>
          if code = 412 \<or> code = 304 then (''already_exists'', ''precondition_failed'')
          else (''error'', ''s3_put_failed''))"

definition nonNegativeUint64 :: "int \<Rightarrow> int" where
  "nonNegativeUint64 value = (if value < 0 then 0 else value)"

text \<open>A worker's upload: the store afterwards and the outcome with the bytes it counts.\<close>

definition s3UploadFile :: "s3Cache \<Rightarrow> 'o s3Ops \<Rightarrow> uploadReq \<Rightarrow> 'o \<Rightarrow> (string \<times> string \<times> int) \<times> 'o" where
  "s3UploadFile s os item o1 =
     (let pre = (if urKind item = RAW then s3Prefix s else urStoragePrefix item);
          pre = (if pre = [] then s3Prefix s else pre);
          (err, o2) = soPut os (objectKeyForPrefix s pre (urHash item) (urKind item)) (urData item) (urSizeOnDisk item) o1;
          (status, reason) = classifyUploadOutcome err
      in ((status, reason, nonNegativeUint64 (urSizeOnDisk item)), o2))"

definition s3Get :: "s3Cache \<Rightarrow> 'o s3Ops \<Rightarrow> 'o \<Rightarrow> ctx \<Rightarrow> EntryKind \<Rightarrow> string \<Rightarrow> int \<Rightarrow>
    reader option \<times> int \<times> string option" where
  "s3Get s os o1 c kind hash _ =
     (case soGet os (objectKeyForContext s c hash kind) o1 of
        Inl NoSuchKey \<Rightarrow> (None, - 1, None)
      | Inl (S3Error e) \<Rightarrow> (None, - 1, Some e)
      | Inr (rc, n) \<Rightarrow>
          if kind = CAS \<and> s3V2mode s then
            (case ExtractLogicalSize rc of
               Inl e \<Rightarrow> (None, - 1, Some ''ExtractLogicalSize'')
             | Inr (r, k) \<Rightarrow> (Some r, k, None))
          else (Some rc, n, None))"

text \<open>The store after a \<open>Get\<close>: the object that was found may be rewritten.\<close>

definition s3UpdateModificationTimestamp :: "'o s3Ops \<Rightarrow> string \<Rightarrow> 'o \<Rightarrow> 'o" where
  "s3UpdateModificationTimestamp os object o1 = soCompose os object o1"

definition s3AfterGet :: "s3Cache \<Rightarrow> 'o s3Ops \<Rightarrow> 'o \<Rightarrow> ctx \<Rightarrow> EntryKind \<Rightarrow> string \<Rightarrow> 'o" where
  "s3AfterGet s os o1 c kind hash =
     (case soGet os (objectKeyForContext s c hash kind) o1 of
        Inl e \<Rightarrow> o1
      | Inr _ \<Rightarrow> if s3UpdateTimestamps s then s3UpdateModificationTimestamp os (objectKeyForContext s c hash kind) o1 else o1)"

definition s3Contains :: "s3Cache \<Rightarrow> 'o s3Ops \<Rightarrow> 'o \<Rightarrow> ctx \<Rightarrow> EntryKind \<Rightarrow> string \<Rightarrow> int \<Rightarrow> bool \<times> int" where
  "s3Contains s os o1 c kind hash _ =
     (case soStat os (objectKeyForContext s c hash kind) o1 of
        None \<Rightarrow> (False, - 1)
      | Some n \<Rightarrow> (True, if kind \<noteq> CAS \<or> \<not> s3V2mode s then n else - 1))"

text \<open>The size that \<open>Contains\<close> records for the leaf size sink of the context, if it has one.\<close>

definition s3LeafSize :: "s3Cache \<Rightarrow> 'o s3Ops \<Rightarrow> 'o \<Rightarrow> ctx \<Rightarrow> EntryKind \<Rightarrow> string \<Rightarrow> (string \<times> int) option" where
  "s3LeafSize s os o1 c kind hash =
     (case soStat os (objectKeyForContext s c hash kind) o1 of
        None \<Rightarrow> None
      | Some n \<Rightarrow> if ctxLeafSizeSink c \<and> n \<ge> 0 then Some (hash, n) else None)"

definition s3Proxy :: "s3Cache \<Rightarrow> 'o s3Ops \<Rightarrow> 'o \<Rightarrow> proxy" where
  "s3Proxy s os o1 = \<lparr>proxyGet = s3Get s os o1, proxyContains = s3Contains s os o1\<rparr>"

section \<open>HTTP\<close>

record httpProxyCache =
  hpBaseURL :: string
  hpV2mode :: bool

text \<open>A response of the remote server; a missing \<open>Content-Length\<close> header is empty.\<close>

record httpRsp =
  rsStatus :: int
  rsLengthHeader :: string
  rsContentLength :: int
  rsBody :: reader

text \<open>Requests to the remote server: \<open>Inl\<close> is a failure of the transport.\<close>

record 'o httpOps =
  hoHead :: "string \<Rightarrow> 'o \<Rightarrow> string + httpRsp"
  hoGet :: "string \<Rightarrow> 'o \<Rightarrow> string + httpRsp"
  hoPut :: "string \<Rightarrow> int \<Rightarrow> bytes \<Rightarrow> 'o \<Rightarrow> (string + httpRsp) \<times> 'o"

definition newHttpProxy :: "string \<Rightarrow> string \<Rightarrow> httpProxyCache option" where
  "newHttpProxy url storageMode =
     (if storageMode = ''zstd'' \<or> storageMode = ''uncompressed'' then
        Some \<lparr>hpBaseURL = rev (dropWhile (\<lambda>x. x = CHR ''/'') (rev url)), hpV2mode = (storageMode = ''zstd'')\<rparr>
      else None)"

definition requestURL :: "httpProxyCache \<Rightarrow> string \<Rightarrow> EntryKind \<Rightarrow> string" where
  "requestURL h hash kind =
     (if hpV2mode h \<and> kind = CAS then hpBaseURL h @ ''/cas.v2/'' @ hash
      else hpBaseURL h @ ''/'' @ kindString kind @ ''/'' @ hash)"

text \<open>An upload: skipped when the server has the item, and an empty blob has no body.\<close>

definition httpUploadFile :: "httpProxyCache \<Rightarrow> 'o httpOps \<Rightarrow> uploadReq \<Rightarrow> 'o \<Rightarrow> 'o" where
  "httpUploadFile h ho item o1 =
     (let url = requestURL h (urHash item) (urKind item);
          body = (if urLogicalSize item = 0 then [] else urData item)
      in case hoHead ho url o1 of
           Inr rsp \<Rightarrow> if rsStatus rsp = 200 then o1 else snd (hoPut ho url (urSizeOnDisk item) body o1)
         | Inl _ \<Rightarrow> snd (hoPut ho url (urSizeOnDisk item) body o1))"

definition httpPut :: "proxyPut \<Rightarrow> uploadQueue option \<Rightarrow> bool \<times> uploadQueue option" where
  "httpPut p q =
     enqueue \<lparr>urHash = ppHash p, urLogicalSize = ppLogicalSize p, urSizeOnDisk = ppSizeOnDisk p,
              urKind = ppKind p, urData = ppData p, urStoragePrefix = [],
              urRequestScopedStoragePrefix = False, urRequireStoragePrefix = False\<rparr> q"

definition httpGet :: "httpProxyCache \<Rightarrow> 'o httpOps \<Rightarrow> 'o \<Rightarrow> ctx \<Rightarrow> EntryKind \<Rightarrow> string \<Rightarrow> int \<Rightarrow>
    reader option \<times> int \<times> string option" where
  "httpGet h ho o1 c kind hash _ =
     (case hoGet ho (requestURL h hash kind) o1 of
        Inl e \<Rightarrow> (None, - 1, Some e)
      | Inr rsp \<Rightarrow>
          if rsStatus rsp = 404 then (None, - 1, None)
          else if rsStatus rsp \<noteq> 200 then (None, - 1, Some ''remote error'')
          else if kind = CAS \<and> hpV2mode h then
            (case ExtractLogicalSize (rsBody rsp) of
               Inl e \<Rightarrow> (None, - 1, Some ''ExtractLogicalSize'')
             | Inr (r, k) \<Rightarrow> (Some r, k, None))
          else if rsLengthHeader rsp = [] then (None, - 1, Some ''Missing Content-Length header'')
          else (case parse_int64 (rsLengthHeader rsp) of
                  None \<Rightarrow> (None, - 1, Some ''Content-Length'')
                | Some n \<Rightarrow> (Some (rsBody rsp), n, None)))"

definition httpContains :: "httpProxyCache \<Rightarrow> 'o httpOps \<Rightarrow> 'o \<Rightarrow> ctx \<Rightarrow> EntryKind \<Rightarrow> string \<Rightarrow> int \<Rightarrow> bool \<times> int" where
  "httpContains h ho o1 c kind hash _ =
     (case hoHead ho (requestURL h hash kind) o1 of
        Inl e \<Rightarrow> (False, - 1)
      | Inr rsp \<Rightarrow>
          if rsStatus rsp \<noteq> 200 then (False, - 1)
          else if kind \<noteq> CAS \<or> \<not> hpV2mode h then (True, rsContentLength rsp)
          else (True, - 1))"

definition httpProxy :: "httpProxyCache \<Rightarrow> 'o httpOps \<Rightarrow> 'o \<Rightarrow> proxy" where
  "httpProxy h ho o1 = \<lparr>proxyGet = httpGet h ho o1, proxyContains = httpContains h ho o1\<rparr>"

end
