(* ===== verification/Startup.thy ===== *)
theory Startup
  imports Config LoadCache HttpServer Auth Proxies
begin

text \<open>
  How a validated configuration becomes a running server: the loggers, the TLS configuration and the
  backend (\<open>config/logger.go\<close>, \<open>tls.go\<close>, \<open>proxy.go\<close>, \<open>s3.go\<close>, \<open>azblob.go\<close>), the options of the disk cache, and
  the handlers and interceptors that \<open>main.go\<close> puts in front of the services. Files, certificates, and the
  constructors of client libraries are arguments.
\<close>

section \<open>Loggers and TLS\<close>

text \<open>The flags of the loggers (\<open>Ldate\<close>, \<open>Ltime\<close>, \<open>LUTC\<close>), and whether the access log is thrown away.\<close>

definition setLogger :: "config \<Rightarrow> int \<times> bool" where
  "setLogger c =
     (if cnLogTimezone c = ''UTC'' then 1 + 2 + 32 else if cnLogTimezone c = ''local'' then 1 + 2 else 0,
      cnAccessLogLevel c = ''none'')"

datatype startup_error =
    InvalidConfig config_error
  | UnsupportedTLSVersion string
  | CaFileUnreadable
  | CaFileUnusable
  | KeyPairUnreadable
  | MissingAccessKeyID
  | MissingSecretAccessKey
  | InvalidAuthMethod string
  | UnsupportedBucketLookup string
  | CertFileUnusable string
  | TenantIDRequired
  | ClientIDRequired
  | BackendFailed string

text \<open>\<open>tfReadCA\<close>: reading a file of certificates, and whether it had any; \<open>tfLoadPair\<close>: a certificate and its key load.\<close>

record tlsFiles =
  tfReadCA :: "string \<Rightarrow> bool option"
  tfLoadPair :: "string \<Rightarrow> string \<Rightarrow> bool"

record tlsConfig =
  tcMinVersion :: int
  tcVerifyClientCertIfGiven :: bool

definition supportedTLSServerVersion :: "string \<Rightarrow> int option" where
  "supportedTLSServerVersion v =
     (if v = ''1.0'' then Some 769 else if v = ''1.1'' then Some 770
      else if v = ''1.2'' then Some 771 else if v = ''1.3'' then Some 772 else None)"

definition setTLSConfig :: "tlsFiles \<Rightarrow> config \<Rightarrow> startup_error + tlsConfig option" where
  "setTLSConfig f c =
     (case supportedTLSServerVersion (cnMinTLSVersion c) of
        None \<Rightarrow> Inl (UnsupportedTLSVersion (cnMinTLSVersion c))
      | Some minVersion \<Rightarrow>
          if cnTLSCaFile c \<noteq> [] then
            (case tfReadCA f (cnTLSCaFile c) of
               None \<Rightarrow> Inl CaFileUnreadable
             | Some added \<Rightarrow>
                 if \<not> added then Inl CaFileUnusable
                 else if \<not> tfLoadPair f (cnTLSCertFile c) (cnTLSKeyFile c) then Inl KeyPairUnreadable
                 else Inr (Some \<lparr>tcMinVersion = minVersion, tcVerifyClientCertIfGiven = True\<rparr>))
          else if cnTLSCertFile c \<noteq> [] \<and> cnTLSKeyFile c \<noteq> [] then
            (if \<not> tfLoadPair f (cnTLSCertFile c) (cnTLSKeyFile c) then Inl KeyPairUnreadable
             else Inr (Some \<lparr>tcMinVersion = minVersion, tcVerifyClientCertIfGiven = False\<rparr>))
          else Inr None)"

text \<open>\<open>getTLSConfig\<close>, for the client side of a backend.\<close>

definition getTLSConfig :: "tlsFiles \<Rightarrow> urlBackendConfig \<Rightarrow> startup_error option" where
  "getTLSConfig f b =
     (if ubCertFile b \<noteq> [] \<and> ubKeyFile b \<noteq> [] \<and> \<not> tfLoadPair f (ubCertFile b) (ubKeyFile b) then Some KeyPairUnreadable
      else if ubCaFile b \<noteq> [] then
        (case tfReadCA f (ubCaFile b) of
           None \<Rightarrow> Some CaFileUnreadable
         | Some added \<Rightarrow> if \<not> added then Some CaFileUnusable else None)
      else None)"

section \<open>Credentials of the backends\<close>

text \<open>The signature types of the S3 client; a missing map entry is its zero value.\<close>

datatype signatureType = SignatureDefault | SignatureV2 | SignatureV4 | SignatureV4Streaming | SignatureAnonymous

definition parseSignatureType :: "string \<Rightarrow> signatureType" where
  "parseSignatureType s =
     (if s = [] then SignatureV4 else if s = ''v2'' then SignatureV2 else if s = ''v4'' then SignatureV4
      else if s = ''v4streaming'' then SignatureV4Streaming else if s = ''anonymous'' then SignatureAnonymous
      else SignatureDefault)"

datatype s3Credentials =
    FileAWSCredentials string string
  | StaticCredentials string string signatureType
  | IAMCredentials string

definition S3GetCredentials :: "s3Config \<Rightarrow> startup_error + s3Credentials" where
  "S3GetCredentials s =
     (if scAuthMethod s = ''aws_credentials_file'' then
        Inr (FileAWSCredentials (scAWSSharedCredentialsFile s) (scAWSProfile s))
      else if scAuthMethod s = ''access_key'' then
        (if scAccessKeyID s = [] then Inl MissingAccessKeyID
         else if scSecretAccessKey s = [] then Inl MissingSecretAccessKey
         else Inr (StaticCredentials (scAccessKeyID s) (scSecretAccessKey s) (parseSignatureType (scSignatureType s))))
      else if scAuthMethod s = ''iam_role'' then Inr (IAMCredentials (scIAMRoleEndpoint s))
      else Inl (InvalidAuthMethod (scAuthMethod s)))"

datatype bucketLookup = BucketLookupAuto | BucketLookupDNS | BucketLookupPath

definition parseBucketLookupType :: "string \<Rightarrow> startup_error + bucketLookup" where
  "parseBucketLookupType s =
     (if s = ''auto'' then Inr BucketLookupAuto else if s = ''dns'' then Inr BucketLookupDNS
      else if s = ''path'' then Inr BucketLookupPath else Inl (UnsupportedBucketLookup s))"

text \<open>What the Azure library is asked for; the shared key is none of its credentials.\<close>

datatype azCredentials =
    DefaultAzureCredential
  | SharedKey
  | ClientCertificateCredential string string
  | ClientSecretCredential string string string
  | EnvironmentCredential

text \<open>\<open>readCerts\<close>: the certificate file can be read and parsed. \<open>create\<close>: the library makes the credential.\<close>

definition AzGetCredentials :: "(string \<Rightarrow> bool) \<Rightarrow> (azCredentials \<Rightarrow> bool) \<Rightarrow> azBlobConfig \<Rightarrow> startup_error + azCredentials" where
  "AzGetCredentials readCerts create a =
     (let made = (\<lambda>x. if create x then Inr x else Inl (BackendFailed ''azidentity'')) in
      if acAuthMethod a = ''default'' then made DefaultAzureCredential
      else if acAuthMethod a = ''shared_key'' then Inr SharedKey
      else if acAuthMethod a = ''client_certificate'' then
        (if \<not> readCerts (acCertPath a) then Inl (CertFileUnusable (acCertPath a))
         else if acTenantID a = [] then Inl TenantIDRequired
         else if acClientID a = [] then Inl ClientIDRequired
         else made (ClientCertificateCredential (acTenantID a) (acClientID a)))
      else if acAuthMethod a = ''client_secret'' then
        (if acTenantID a = [] then Inl TenantIDRequired
         else if acClientID a = [] then Inl ClientIDRequired
         else made (ClientSecretCredential (acTenantID a) (acClientID a) (acClientSecret a)))
      else if acAuthMethod a = ''environment_credential'' then made EnvironmentCredential
      else Inl (InvalidAuthMethod (acAuthMethod a)))"

section \<open>The backend\<close>

text \<open>The \<open>Authorization\<close> header that a gRPC backend is sent, if its URL has a password.\<close>

definition backendAuthorization :: "url \<Rightarrow> string option" where
  "backendAuthorization u =
     (case urlUser u of
        Some (username, Some password) \<Rightarrow> Some (''Basic '' @ base64Encode (username @ '':'' @ password))
      | _ \<Rightarrow> None)"

text \<open>
  Clients of the backends, from what the code gives them. \<open>bmGoogle\<close>: the credentials are usable, from
  the environment or a file. \<open>bmGrpc\<close>: the connection to a host, with TLS or not and with a header,
  including the check of its capabilities; \<open>None\<close> when a step fails.
\<close>

record backendMakers =
  bmFiles :: tlsFiles
  bmGoogle :: "string option \<Rightarrow> bool"
  bmHttp :: "httpProxyCache \<Rightarrow> proxy"
  bmGrpc :: "string \<Rightarrow> bool \<Rightarrow> string option \<Rightarrow> bool \<Rightarrow> proxy option"
  bmS3 :: "s3Config \<Rightarrow> s3Credentials \<Rightarrow> bucketLookup \<Rightarrow> s3Cache \<Rightarrow> proxy"
  bmAzCerts :: "string \<Rightarrow> bool"
  bmAzCreate :: "azCredentials \<Rightarrow> bool"
  bmAzBlob :: "azBlobConfig \<Rightarrow> azCredentials \<Rightarrow> bool \<Rightarrow> proxy"

definition httpBackend :: "backendMakers \<Rightarrow> string \<Rightarrow> string \<Rightarrow> startup_error + proxy" where
  "httpBackend m url mode =
     (case newHttpProxy url mode of None \<Rightarrow> Inl (BackendFailed ''http_proxy.mode'') | Some h \<Rightarrow> Inr (bmHttp m h))"

text \<open>\<open>gcsproxy.New\<close>: an HTTP backend below the bucket.\<close>

definition gcsNew :: "backendMakers \<Rightarrow> gcsConfig \<Rightarrow> string \<Rightarrow> startup_error + proxy" where
  "gcsNew m g mode =
     (let base = ''https://storage.googleapis.com/'' @ gcBucket g in
      if gcUseDefaultCredentials g then
        (if bmGoogle m None then httpBackend m base mode else Inl (BackendFailed ''google''))
      else if gcJSONCredentialsFile g \<noteq> [] then
        (if bmGoogle m (Some (gcJSONCredentialsFile g)) then httpBackend m base mode else Inl (BackendFailed ''google''))
      else Inl (BackendFailed ''For Google authentication one needs to specify one of default credentials''))"

definition grpcBackend :: "backendMakers \<Rightarrow> urlBackendConfig \<Rightarrow> string \<Rightarrow> startup_error + proxy" where
  "grpcBackend m b mode =
     (let u = the (ubBaseURL b); secure = (urlScheme u = ''grpcs'') in
      case (if secure then getTLSConfig (bmFiles m) b else None) of
        Some e \<Rightarrow> Inl e
      | None \<Rightarrow>
          (case bmGrpc m (urlHost u) secure (backendAuthorization u) (mode = ''zstd'') of
             None \<Rightarrow> Inl (BackendFailed ''grpc'')
           | Some p \<Rightarrow> Inr p))"

text \<open>The gRPC backend does not end the function; with at most one backend that makes no difference.\<close>

definition setProxy :: "backendMakers \<Rightarrow> config \<Rightarrow> startup_error + proxy option" where
  "setProxy m c =
     (case cnGCS c of
        Some g \<Rightarrow> map_sum id Some (gcsNew m g (cnStorageMode c))
      | None \<Rightarrow>
          (case (case cnGRPCBackend c of
                   None \<Rightarrow> Inr None
                 | Some b \<Rightarrow> map_sum id Some (grpcBackend m b (cnStorageMode c))) of
             Inl e \<Rightarrow> Inl e
           | Inr p \<Rightarrow>
               (case cnHTTPBackend c of
                  Some b \<Rightarrow>
                    (case (if urlScheme (the (ubBaseURL b)) = ''https'' then getTLSConfig (bmFiles m) b else None) of
                       Some e \<Rightarrow> Inl e
                     | None \<Rightarrow> map_sum id Some (httpBackend m (urlString (the (ubBaseURL b))) (cnStorageMode c)))
                | None \<Rightarrow>
                    (case cnS3 c of
                       Some s \<Rightarrow>
                         (case S3GetCredentials s of
                            Inl e \<Rightarrow> Inl e
                          | Inr creds \<Rightarrow>
                              (case parseBucketLookupType (scBucketLookupType s) of
                                 Inl e \<Rightarrow> Inl e
                               | Inr lookup \<Rightarrow>
                                   Inr (Some (bmS3 m s creds lookup
                                     \<lparr>s3Prefix = scPrefix s, s3V2mode = (cnStorageMode c = ''zstd''), s3UpdateTimestamps = scUpdateTimestamps s\<rparr>))))
                     | None \<Rightarrow>
                         (case cnAzBlob c of
                            Some a \<Rightarrow>
                              (case AzGetCredentials (bmAzCerts m) (bmAzCreate m) a of
                                 Inl e \<Rightarrow> Inl e
                               | Inr creds \<Rightarrow> Inr (Some (bmAzBlob m a creds (cnStorageMode c = ''zstd''))))
                          | None \<Rightarrow> Inr p)))))"

record settings =
  stConfig :: config
  stLogger :: "int \<times> bool"
  stProxy :: "proxy option"
  stTLS :: "tlsConfig option"

text \<open>\<open>config.Get\<close>: the fields of the configuration and those that are made of them.\<close>

definition configGet :: "(string \<Rightarrow> 'd option) \<Rightarrow> ('d \<Rightarrow> yamlConfig \<Rightarrow> yamlConfig option) \<Rightarrow> (string \<Rightarrow> url option) \<Rightarrow>
    backendMakers \<Rightarrow> cliCtx \<Rightarrow> startup_error + settings" where
  "configGet readFile unmarshal parseUrl m x =
     (case getConfig readFile unmarshal parseUrl x of
        Inl e \<Rightarrow> Inl (InvalidConfig e)
      | Inr c \<Rightarrow>
          (case setProxy m c of
             Inl e \<Rightarrow> Inl e
           | Inr p \<Rightarrow>
               (case setTLSConfig (bmFiles m) c of
                  Inl e \<Rightarrow> Inl e
                | Inr t \<Rightarrow> Inr \<lparr>stConfig = c, stLogger = setLogger c, stProxy = p, stTLS = t\<rparr>)))"

section \<open>The disk cache\<close>

definition diskOptions :: "settings \<Rightarrow> dc_option list" where
  "diskOptions s =
     (let c = stConfig s in
      [WithStorageMode (cnStorageMode c), WithZstdImplementation (cnZstdImplementation c),
       WithMaxBlobSize (cnMaxBlobSize c), WithProxyMaxBlobSize (cnMaxProxyBlobSize c), WithAccessLogger] @
      (if stProxy s \<noteq> None then [WithProxyBackend (stProxy s)] else []) @
      (if cnEnableEndpointMetrics c then [WithEndpointMetrics] else []))"

text \<open>\<open>int64(c.MaxSize)*1024*1024*1024\<close>.\<close>

definition maxSizeBytes :: "config \<Rightarrow> int" where
  "maxSizeBytes c = wrap64 (wrap64 (wrap64 (cnMaxSize c * 1024) * 1024) * 1024)"

definition authMode :: "config \<Rightarrow> string" where
  "authMode c =
     (if cnHtpasswdFile c \<noteq> [] then ''basic'' else if cnTLSCaFile c \<noteq> [] then ''mTLS'' else ''disabled'')"

section \<open>The HTTP server\<close>

type_synonym 's httpHandler = "httpRequest \<Rightarrow> 's \<Rightarrow> (httpResponse \<times> 's) option"

text \<open>
  \<open>auth.JustCheck\<close> and \<open>CheckAuth\<close> of the library say whether a request has a valid user and password. The
  status page and the metrics page only read; the middleware measures the handler that it is given.
\<close>

record 's httpEnv =
  heCheckAuth :: "httpRequest \<Rightarrow> bool"
  heResetTimer :: "'s \<Rightarrow> 's"
  heMiddleware :: "string \<Rightarrow> 's httpHandler \<Rightarrow> 's httpHandler"
  hePromHandler :: "'s httpHandler"
  heStatusPage :: "'s httpHandler"
  heCacheHandler :: "httpCache \<Rightarrow> 's httpHandler"

definition basicAuthWrapper :: "(httpRequest \<Rightarrow> bool) \<Rightarrow> 's httpHandler \<Rightarrow> 's httpHandler" where
  "basicAuthWrapper check handler r st = (if check r then handler r st else Some (HttpError 401, st))"

definition unauthenticatedReadWrapper :: "(httpRequest \<Rightarrow> bool) \<Rightarrow> 's httpHandler \<Rightarrow> 's httpHandler" where
  "unauthenticatedReadWrapper check handler r st =
     (if hrMethod r = ''GET'' \<or> hrMethod r = ''HEAD'' then handler r st
      else if check r then handler r st
      else Some (HttpError 401, st))"

definition NewHTTPCache :: "config \<Rightarrow> httpCache" where
  "NewHTTPCache c =
     \<lparr>hcValidateAC = \<not> cnDisableHTTPACValidation c, hcMangleACKeys = cnEnableACKeyInstanceMangling c,
      hcCheckReads = (cnTLSCaFile c \<noteq> [] \<and> \<not> cnAllowUnauthenticatedReads c), hcCheckWrites = (cnTLSCaFile c \<noteq> [])\<rparr>"

text \<open>The handler of everything but the two pages, without the middleware.\<close>

definition cacheHandlerOf :: "config \<Rightarrow> 's httpEnv \<Rightarrow> 's httpHandler" where
  "cacheHandlerOf c e =
     (let h = heCacheHandler e (NewHTTPCache c);
          h = (if cnHtpasswdFile c \<noteq> [] then
                 (if cnAllowUnauthenticatedReads c then unauthenticatedReadWrapper (heCheckAuth e) h
                  else basicAuthWrapper (heCheckAuth e) h)
               else h)
      in if cnIdleTimeout c > 0 then (\<lambda>r st. h r (heResetTimer e st)) else h)"

text \<open>What protects the two pages.\<close>

definition protectPage :: "config \<Rightarrow> 's httpEnv \<Rightarrow> 's httpHandler \<Rightarrow> 's httpHandler" where
  "protectPage c e h =
     (if \<not> cnAllowUnauthenticatedReads c then
        (if cnTLSCaFile c \<noteq> [] then VerifyClientCertHandler h
         else if cnHtpasswdFile c \<noteq> [] then basicAuthWrapper (heCheckAuth e) h
         else h)
      else h)"

record 's httpHandlers =
  hhStatus :: "'s httpHandler"
  hhMetrics :: "'s httpHandler"
  hhCache :: "'s httpHandler"

text \<open>With endpoint metrics the status handler is made again, of the page itself.\<close>

definition startHttpServer :: "config \<Rightarrow> 's httpEnv \<Rightarrow> 's httpHandlers" where
  "startHttpServer c e =
     (let statusHandler = protectPage c e (heStatusPage e);
          cacheHandler = cacheHandlerOf c e
      in if cnEnableEndpointMetrics c then
           \<lparr>hhStatus = heMiddleware e ''status'' (heStatusPage e),
            hhMetrics = protectPage c e (heMiddleware e ''metrics'' (hePromHandler e)),
            hhCache = (\<lambda>r. heMiddleware e (hrMethod r) cacheHandler r)\<rparr>
         else
           \<lparr>hhStatus = statusHandler, hhMetrics = (\<lambda>r st. Some (HttpError 404, st)), hhCache = cacheHandler\<rparr>)"

text \<open>The routes of the \<open>ServeMux\<close>.\<close>

definition serveMux :: "'s httpHandlers \<Rightarrow> 's httpHandler" where
  "serveMux hs r =
     (if hrPath r = ''/metrics'' then hhMetrics hs r
      else if hrPath r = ''/status'' then hhStatus hs r
      else hhCache hs r)"

section \<open>The gRPC server\<close>

text \<open>An interceptor gets the method and the handler; the call ends with a status or a response.\<close>

type_synonym ('s, 'r) grpcHandler = "'s \<Rightarrow> grpc_code + 'r"
type_synonym ('s, 'r) interceptor = "string \<Rightarrow> ('s, 'r) grpcHandler \<Rightarrow> ('s, 'r) grpcHandler"

text \<open>The interceptors of the program return the handler's result as it is.\<close>

definition joinResult :: "grpc_code + (grpc_code + 'r) \<Rightarrow> grpc_code + 'r" where
  "joinResult x = (case x of Inl e \<Rightarrow> Inl e | Inr y \<Rightarrow> y)"

fun chainInterceptors :: "('s, 'r) interceptor list \<Rightarrow> string \<Rightarrow> ('s, 'r) grpcHandler \<Rightarrow> ('s, 'r) grpcHandler" where
  "chainInterceptors [] m h = h"
| "chainInterceptors (i # is) m h = i m (chainInterceptors is m h)"

text \<open>What the interceptors read of a call, and those of libraries; \<open>geStream\<close>: the call is a stream.\<close>

record ('s, 'r) grpcEnv =
  gePeer :: peerInfo
  geMetadata :: "(string \<times> string list) list option"
  geSecrets :: "string \<Rightarrow> string"
  geCheckSecret :: "string \<Rightarrow> string \<Rightarrow> bool"
  geProm :: "('s, 'r) interceptor"
  geResetTimer :: "'s \<Rightarrow> 's"
  geStream :: bool

definition idleInterceptor :: "('s \<Rightarrow> 's) \<Rightarrow> ('s, 'r) interceptor" where
  "idleInterceptor reset m h st = h (reset st)"

definition mTLSInterceptor :: "bool \<Rightarrow> bool \<Rightarrow> peerInfo \<Rightarrow> ('s, 'r) interceptor" where
  "mTLSInterceptor isStream openReads p m h st =
     joinResult
       (if isStream then GRPCmTLSStreamServerInterceptor openReads p m h st
        else GRPCmTLSUnaryServerInterceptor openReads p m h st)"

definition grpcInterceptors :: "settings \<Rightarrow> ('s, 'r) grpcEnv \<Rightarrow> ('s, 'r) interceptor list" where
  "grpcInterceptors s e =
     (let c = stConfig s in
      (if cnEnableEndpointMetrics c then [geProm e] else []) @
      (if stTLS s \<noteq> None \<and> cnTLSCaFile c \<noteq> []
       then [mTLSInterceptor (geStream e) (cnAllowUnauthenticatedReads c) (gePeer e)] else []) @
      (if cnHtpasswdFile c \<noteq> []
       then [\<lambda>m h st. joinResult (basicAuthInterceptor
               \<lparr>baSecrets = geSecrets e, baAllowUnauthenticatedReadOnly = cnAllowUnauthenticatedReads c\<rparr>
               (geCheckSecret e) (geMetadata e) m h st)] else []) @
      (if cnIdleTimeout c > 0 then [idleInterceptor (geResetTimer e)] else []))"

text \<open>
  \<open>ServeGRPC\<close>: the services that are registered, by their methods; others are unknown to the server and
  run no interceptor. The services are those of the program and the health service.
\<close>

definition registeredServices :: "config \<Rightarrow> string list" where
  "registeredServices c =
     [''/build.bazel.remote.execution.v2.ActionCache/'', ''/build.bazel.remote.execution.v2.Capabilities/'',
      ''/build.bazel.remote.execution.v2.ContentAddressableStorage/'', ''/google.bytestream.ByteStream/''] @
     (if cnExperimentalRemoteAssetAPI c then [''/build.bazel.remote.asset.v1.Fetch/''] else []) @
     [''/grpc.health.v1.Health/'']"

definition startGrpcServer :: "settings \<Rightarrow> ('s, 'r) grpcEnv \<Rightarrow> string \<Rightarrow> ('s, 'r) grpcHandler \<Rightarrow> ('s, 'r) grpcHandler" where
  "startGrpcServer s e m h st =
     (if \<exists>p \<in> set (registeredServices (stConfig s)). hasPrefix m p then chainInterceptors (grpcInterceptors s e) m h st
      else Inl codeUnimplemented)"

definition newGrpcServer :: "config \<Rightarrow> grpcServer" where
  "newGrpcServer c = \<lparr>gsDepsCheck = \<not> cnDisableGRPCACDepsCheck c, gsMangleACKeys = cnEnableACKeyInstanceMangling c\<rparr>"

end
