(* ===== verification/Config_Props.thy ===== *)
theory Config_Props
  imports Config
begin

text \<open>
  The configurations that the validation accepts, described without the order of the checks, and
  what holds of an accepted one. Addresses that the program builds from a host and a port are
  always accepted.
\<close>

section \<open>Accepted configurations\<close>

definition socketOrHostPort :: "string \<Rightarrow> bool" where
  "socketOrHostPort a \<longleftrightarrow>
     (if hasPrefix a ''unix://'' then a \<noteq> ''unix://'' else SplitHostPort a \<noteq> None)"

definition portOf :: "string \<Rightarrow> string" where
  "portOf a = (if hasPrefix a ''unix://'' then [] else snd (the (SplitHostPort a)))"

definition goodUrlBackend :: "string \<Rightarrow> urlBackendConfig \<Rightarrow> bool" where
  "goodUrlBackend protocol c \<longleftrightarrow>
     (\<exists>u. ubBaseURL c = Some u \<and>
        (if ubKeyFile c = [] \<and> ubCertFile c = [] \<and> ubCaFile c = []
         then urlScheme u \<in> {protocol, protocol @ ''s''}
         else urlScheme u = protocol @ ''s'' \<and> (ubKeyFile c = [] \<longleftrightarrow> ubCertFile c = [])))"

definition goodS3 :: "s3Config \<Rightarrow> bool" where
  "goodS3 s \<longleftrightarrow>
     scAuthMethod s \<in> set s3AuthMethods \<and> scKeyVersion s \<in> {None, Some 2} \<and>
     scBucketLookupType s \<in> {[], ''auto'', ''dns'', ''path''} \<and>
     scSignatureType s \<in> {[], ''v2'', ''v4'', ''v4streaming'', ''anonymous''}"

definition goodAzBlob :: "azBlobConfig \<Rightarrow> bool" where
  "goodAzBlob a \<longleftrightarrow> acStorageAccount a \<noteq> [] \<and> acContainerName a \<noteq> [] \<and> acAuthMethod a \<in> set azAuthMethods"

definition goodBackends :: "config \<Rightarrow> bool" where
  "goodBackends c \<longleftrightarrow>
     proxyCount c \<le> 1 \<and> (\<forall>g \<in> set_option (cnGCS c). gcBucket g \<noteq> []) \<and>
     (\<forall>b \<in> set_option (cnHTTPBackend c). goodUrlBackend ''http'' b) \<and>
     (\<forall>b \<in> set_option (cnGRPCBackend c). goodUrlBackend ''grpc'' b) \<and>
     (\<forall>s \<in> set_option (cnS3 c). goodS3 s) \<and> (\<forall>a \<in> set_option (cnAzBlob c). goodAzBlob a)"

definition goodAddresses :: "config \<Rightarrow> bool" where
  "goodAddresses c \<longleftrightarrow>
     socketOrHostPort (cnHTTPAddress c) \<and>
     (cnGRPCAddress c \<in> {[], ''none''} \<or>
        socketOrHostPort (cnGRPCAddress c) \<and>
        (portOf (cnGRPCAddress c) = [] \<or> portOf (cnGRPCAddress c) \<noteq> portOf (cnHTTPAddress c))) \<and>
     cnProfileAddress c \<noteq> ''unix://'' \<and> (cnGRPCAddress c = ''none'' \<longrightarrow> \<not> cnExperimentalRemoteAssetAPI c)"

definition goodSecurity :: "config \<Rightarrow> bool" where
  "goodSecurity c \<longleftrightarrow>
     (cnTLSCertFile c = [] \<longleftrightarrow> cnTLSKeyFile c = []) \<and> (cnTLSCaFile c \<noteq> [] \<longrightarrow> cnTLSCertFile c \<noteq> []) \<and>
     (cnAllowUnauthenticatedReads c \<longrightarrow> cnTLSCaFile c \<noteq> [] \<or> cnHtpasswdFile c \<noteq> [])"

definition goodConfig :: "config \<Rightarrow> bool" where
  "goodConfig c \<longleftrightarrow>
     cnDir c \<noteq> [] \<and> 0 < cnMaxSize c \<and> 0 < cnMaxBlobSize c \<and> 0 < cnMaxProxyBlobSize c \<and>
     cnStorageMode c \<in> {''zstd'', ''uncompressed''} \<and> cnZstdImplementation c \<in> {''go'', ''cgo''} \<and>
     goodAddresses c \<and> goodSecurity c \<and> goodBackends c \<and>
     (\<forall>bs \<in> set_option (cnMetricsDurationBuckets c). distinct bs) \<and>
     cnAccessLogLevel c \<in> {''none'', ''all''} \<and> cnLogTimezone c \<in> {''UTC'', ''local'', ''none''}"

lemma IsValidAuthMethod_iff [simp]: "IsValidAuthMethod ms m \<longleftrightarrow> m \<in> set ms"
  by (induction ms) auto

lemma checkBuckets_None: "checkBuckets seen bs = None \<longleftrightarrow> distinct bs \<and> seen \<inter> set bs = {}"
  by (induction seen bs rule: checkBuckets.induct) auto

lemma optCheck_None [simp]: "optCheck f x = None \<longleftrightarrow> (\<forall>y \<in> set_option x. f y = None)"
  by (cases x) (simp_all add: optCheck_def)

lemma urlBackendValidate_None: "urlBackendValidate protocol c = None \<longleftrightarrow> goodUrlBackend protocol c"
  by (auto simp: urlBackendValidate_def goodUrlBackend_def split: option.splits)

lemma checkS3_None: "checkS3 s = None \<longleftrightarrow> goodS3 s"
  by (cases "scKeyVersion s") (auto simp: checkS3_def goodS3_def)

lemma checkAzBlob_None: "checkAzBlob a = None \<longleftrightarrow> goodAzBlob a"
  by (auto simp: checkAzBlob_def goodAzBlob_def)

lemma hasPrefix_all: "hasPrefix a p \<and> drop (length p) a = [] \<longleftrightarrow> a = p"
  by (auto simp: hasPrefix_def)

lemma httpPortOf_Inr: "httpPortOf a = Inr p \<longleftrightarrow> socketOrHostPort a \<and> p = portOf a"
  using hasPrefix_all [of a "''unix://''"]
  by (auto simp: httpPortOf_def socketOrHostPort_def portOf_def split: option.splits)

lemma checkGRPCAddress_None:
  "checkGRPCAddress a p = None \<longleftrightarrow>
     a \<in> {[], ''none''} \<or> socketOrHostPort a \<and> (portOf a = [] \<or> portOf a \<noteq> p)"
  using hasPrefix_all [of a "''unix://''"]
  by (auto simp: checkGRPCAddress_def socketOrHostPort_def portOf_def disabledGRPCListener_def split: option.splits)

lemma check_addresses:
  "(case httpPortOf (cnHTTPAddress c) of Inl e \<Rightarrow> Some e | Inr p \<Rightarrow> checkGRPCAddress (cnGRPCAddress c) p) = None \<longleftrightarrow>
     socketOrHostPort (cnHTTPAddress c) \<and>
     (cnGRPCAddress c \<in> {[], ''none''} \<or>
        socketOrHostPort (cnGRPCAddress c) \<and>
        (portOf (cnGRPCAddress c) = [] \<or> portOf (cnGRPCAddress c) \<noteq> portOf (cnHTTPAddress c)))"
proof (cases "httpPortOf (cnHTTPAddress c)")
  case (Inl e)
  then show ?thesis using httpPortOf_Inr [of "cnHTTPAddress c"] by fastforce
next
  case (Inr p)
  then have "socketOrHostPort (cnHTTPAddress c)" "p = portOf (cnHTTPAddress c)" by (auto simp: httpPortOf_Inr)
  then show ?thesis using Inr by (simp add: checkGRPCAddress_None)
qed

lemma check_profile:
  "\<not> (cnProfileAddress c \<noteq> [] \<and> cnProfileAddress c \<noteq> disabledGRPCListener \<and>
      hasPrefix (cnProfileAddress c) ''unix://'' \<and> drop (length ''unix://'') (cnProfileAddress c) = []) \<longleftrightarrow>
    cnProfileAddress c \<noteq> ''unix://''"
  using hasPrefix_all [of "cnProfileAddress c" "''unix://''"] by (auto simp: disabledGRPCListener_def)

lemma one_proxy: "proxyCount c \<le> 1 \<Longrightarrow> \<not> (cnGCS c \<noteq> None \<and> cnHTTPBackend c \<noteq> None \<and> cnS3 c \<noteq> None)"
  by (simp add: proxyCount_def split: if_splits)

lemma firstOf_Cons: "firstOf (x # xs) = None \<longleftrightarrow> x = None \<and> firstOf xs = None"
  by (cases x) simp_all

lemmas checks_None =
  check_addresses rejectIf_None check_profile optCheck_None urlBackendValidate_None checkS3_None checkAzBlob_None
  checkBuckets_None Int_empty_left

lemma check_security:
  "\<not> (cert \<noteq> [] \<and> key = [] \<or> cert = [] \<and> key \<noteq> []) \<and> \<not> (ca \<noteq> [] \<and> (cert = [] \<or> key = [])) \<and>
     \<not> (open_reads \<and> ca = [] \<and> htpasswd = []) \<longleftrightarrow>
   (cert = [] \<longleftrightarrow> key = []) \<and> (ca \<noteq> [] \<longrightarrow> cert \<noteq> []) \<and> (open_reads \<longrightarrow> ca \<noteq> [] \<or> htpasswd \<noteq> [])"
  by blast

lemma validateConfig_good: "validateConfig c = None \<longleftrightarrow> goodConfig c"
proof -
  have "validateConfig c = None \<longleftrightarrow>
      cnDir c \<noteq> [] \<and> \<not> cnMaxSize c \<le> 0 \<and> \<not> (cnStorageMode c \<noteq> ''zstd'' \<and> cnStorageMode c \<noteq> ''uncompressed'') \<and>
      \<not> (cnZstdImplementation c \<noteq> ''go'' \<and> cnZstdImplementation c \<noteq> ''cgo'') \<and> \<not> 1 < proxyCount c \<and>
      (socketOrHostPort (cnHTTPAddress c) \<and>
        (cnGRPCAddress c \<in> {[], ''none''} \<or>
           socketOrHostPort (cnGRPCAddress c) \<and>
           (portOf (cnGRPCAddress c) = [] \<or> portOf (cnGRPCAddress c) \<noteq> portOf (cnHTTPAddress c)))) \<and>
      cnProfileAddress c \<noteq> ''unix://'' \<and> \<not> (cnGRPCAddress c = disabledGRPCListener \<and> cnExperimentalRemoteAssetAPI c) \<and>
      \<not> (cnTLSCertFile c \<noteq> [] \<and> cnTLSKeyFile c = [] \<or> cnTLSCertFile c = [] \<and> cnTLSKeyFile c \<noteq> []) \<and>
      \<not> (cnTLSCaFile c \<noteq> [] \<and> (cnTLSCertFile c = [] \<or> cnTLSKeyFile c = [])) \<and>
      \<not> (cnAllowUnauthenticatedReads c \<and> cnTLSCaFile c = [] \<and> cnHtpasswdFile c = []) \<and>
      \<not> cnMaxBlobSize c \<le> 0 \<and> \<not> cnMaxProxyBlobSize c \<le> 0 \<and>
      \<not> (cnGCS c \<noteq> None \<and> cnHTTPBackend c \<noteq> None \<and> cnS3 c \<noteq> None) \<and>
      (\<forall>g \<in> set_option (cnGCS c). gcBucket g \<noteq> []) \<and>
      (\<forall>b \<in> set_option (cnHTTPBackend c). goodUrlBackend ''http'' b) \<and>
      (\<forall>b \<in> set_option (cnGRPCBackend c). goodUrlBackend ''grpc'' b) \<and>
      (\<forall>s \<in> set_option (cnS3 c). goodS3 s) \<and> (\<forall>a \<in> set_option (cnAzBlob c). goodAzBlob a) \<and>
      (\<forall>bs \<in> set_option (cnMetricsDurationBuckets c). distinct bs) \<and>
      cnAccessLogLevel c \<in> {''none'', ''all''} \<and> cnLogTimezone c \<in> {''UTC'', ''local'', ''none''}"
    unfolding validateConfig_def firstOf_Cons checks_None firstOf.simps(1) simp_thms by (rule TrueI)
  also have "\<dots> \<longleftrightarrow> goodConfig c"
    unfolding goodConfig_def goodAddresses_def goodSecurity_def goodBackends_def disabledGRPCListener_def insert_iff empty_iff
      check_security [symmetric]
    using one_proxy [of c] not_le [of "cnMaxSize c" 0] not_le [of "cnMaxBlobSize c" 0] not_le [of "cnMaxProxyBlobSize c" 0]
      not_less [of 1 "proxyCount c"]
    by argo
  finally show ?thesis .
qed

text \<open>
  Property C27. The validation accepts exactly the configurations with a directory, positive sizes, a known
  storage mode and zstd implementation, well-formed addresses of which the HTTP and the gRPC one do not
  share a TCP port, a certificate exactly with a key and always with a client CA, open reads only
  with some authentication, at most one backend that is well-formed itself, histogram buckets
  without duplicates, and known log settings.
\<close>

theorem validateConfig_exact:
  "validateConfig c = None \<longleftrightarrow> goodConfig c"
  by (rule validateConfig_good)

section \<open>Addresses made of hosts and ports\<close>

lemma joined_address:
  assumes "plainHost h" "\<not> hasPrefix (JoinHostPort h (show_int n)) ''unix://''"
  shows "socketOrHostPort (JoinHostPort h (show_int n)) \<and> portOf (JoinHostPort h (show_int n)) = show_int n"
  using assms SplitHostPort_JoinHostPort [OF assms(1) show_int_plain(1) show_int_plain(2)]
  by (simp add: socketOrHostPort_def portOf_def)

end
