(* ===== verification/Startup_Props.thy ===== *)
theory Startup_Props
  imports Startup Config_Props
begin

text \<open>
  What a running server owes to its configuration: who gets past the handlers and the interceptors, that
  an accepted configuration opens the disk cache, and where an accepted configuration does not work.
\<close>

section \<open>The HTTP server\<close>

text \<open>The middleware only measures; the cache handler is the one of \<open>server/http.go\<close>.\<close>

definition transparent :: "'s httpEnv \<Rightarrow> bool" where
  "transparent e \<longleftrightarrow> (\<forall>name h r st. heMiddleware e name h r st = h r st)"

definition idleTick :: "config \<Rightarrow> ('s \<Rightarrow> 's) \<Rightarrow> 's \<Rightarrow> 's" where
  "idleTick c reset st = (if cnIdleTimeout c > 0 then reset st else st)"

definition openRead :: "config \<Rightarrow> httpRequest \<Rightarrow> bool" where
  "openRead c r \<longleftrightarrow> cnAllowUnauthenticatedReads c \<and> hrMethod r \<in> {''GET'', ''HEAD''}"

lemma serve_cache:
  assumes "transparent e" "hrPath r \<noteq> ''/metrics''" "hrPath r \<noteq> ''/status''"
  shows "serveMux (startHttpServer c e) r st =
    (if cnHtpasswdFile c \<noteq> [] \<and> \<not> heCheckAuth e r \<and> \<not> openRead c r then Some (HttpError 401, idleTick c (heResetTimer e) st)
     else heCacheHandler e (NewHTTPCache c) r (idleTick c (heResetTimer e) st))"
  using assms
  by (auto simp: serveMux_def startHttpServer_def cacheHandlerOf_def transparent_def idleTick_def openRead_def Let_def
      basicAuthWrapper_def unauthenticatedReadWrapper_def)

lemma CacheHandler_without_cert:
  assumes "\<not> hasValidClientCert r" "hcCheckWrites h" "hcCheckReads h \<or> hrMethod r \<notin> {''GET'', ''HEAD''}"
  shows "\<exists>code. CacheHandler h ops cd da dec cx r st = Some (HttpError code, st) \<and> code \<in> {400, 401, 405}"
  using assms by (auto simp: CacheHandler_def handleGet_def handlePut_def handleHead_def Let_def split: option.splits prod.splits)


text \<open>
  The status page is open to everyone as soon as endpoint metrics are enabled: the handler is then
  made anew from the page itself, without the check that was put around it before. Without endpoint
  metrics a client needs a certificate if there is a client CA, or else a password if there is a
  password file, unless unauthenticated reads are allowed.
\<close>

theorem status_page_unprotected_with_metrics:
  assumes "transparent e" "hrPath r = ''/status''"
  shows "serveMux (startHttpServer c e) r st =
    (if \<not> cnEnableEndpointMetrics c \<and> \<not> cnAllowUnauthenticatedReads c \<and>
        (if cnTLSCaFile c \<noteq> [] then \<not> hasValidClientCert r else cnHtpasswdFile c \<noteq> [] \<and> \<not> heCheckAuth e r)
     then Some (HttpError 401, st) else heStatusPage e r st)"
  using assms
  by (simp add: serveMux_def startHttpServer_def transparent_def protectPage_def VerifyClientCertHandler_def basicAuthWrapper_def Let_def)

section \<open>The gRPC server\<close>

lemma chain_append: "chainInterceptors (is @ js) m h = chainInterceptors is m (chainInterceptors js m h)"
  by (induction "is") simp_all

lemma mTLS_mutating:
  assumes "m \<in> set mutatingMethods"
  shows "mTLSInterceptor isStream openReads p m h st =
    (if \<exists>first rest. p = PeerTLS (first # rest) \<and> first \<noteq> [] then h st else Inl codeUnauthenticated)"
  using mutating_methods [OF assms]
  by (auto simp: mTLSInterceptor_def joinResult_def GRPCmTLSStreamServerInterceptor_def GRPCmTLSUnaryServerInterceptor_def
      checkGRPCClientCert_def neq_Nil_conv split: peerInfo.split)

lemma basic_mutating:
  assumes "m \<in> set mutatingMethods"
  shows "joinResult (basicAuthInterceptor b check md m h st) =
    (if authenticated b check md then h st else Inl codeUnauthenticated)"
  using mutating_methods [OF assms] by (simp add: basicAuth_exact joinResult_def)

lemma mutating_registered:
  assumes m: "m \<in> set mutatingMethods"
  shows "(\<exists>p \<in> set (registeredServices c). hasPrefix m p) \<longleftrightarrow>
    (m = ''/build.bazel.remote.asset.v1.Fetch/FetchBlob'' \<longrightarrow> cnExperimentalRemoteAssetAPI c)"
proof -
  let ?base = "[''/build.bazel.remote.execution.v2.ActionCache/'', ''/build.bazel.remote.execution.v2.Capabilities/'',
      ''/build.bazel.remote.execution.v2.ContentAddressableStorage/'', ''/google.bytestream.ByteStream/'']"
    and ?asset = "''/build.bazel.remote.asset.v1.Fetch/''" and ?health = "''/grpc.health.v1.Health/''"
    and ?fetch = "''/build.bazel.remote.asset.v1.Fetch/FetchBlob''"
  have p: "list_all (\<lambda>m. m = ?fetch \<or> list_ex (hasPrefix m) ?base) mutatingMethods"
      "hasPrefix ?fetch ?asset" "\<not> list_ex (hasPrefix ?fetch) ?base" "\<not> hasPrefix ?fetch ?health"
    by code_simp+
  have r: "(\<exists>p \<in> set (registeredServices c). hasPrefix m p) \<longleftrightarrow>
      list_ex (hasPrefix m) ?base \<or> cnExperimentalRemoteAssetAPI c \<and> hasPrefix m ?asset \<or> hasPrefix m ?health"
    unfolding registeredServices_def list_ex_iff by (simp only: set_append bex_Un if_distrib [of set] list.set) auto
  show ?thesis
  proof (cases "m = ?fetch")
    case True
    then show ?thesis using p(2-4) r by (simp only: simp_thms)
  next
    case False
    then show ?thesis using p(1) m r by (simp only: list_all_iff) blast
  qed
qed

definition mayWrite :: "settings \<Rightarrow> ('s, 'r) grpcEnv \<Rightarrow> bool" where
  "mayWrite s e \<longleftrightarrow>
     (cnTLSCaFile (stConfig s) \<noteq> [] \<longrightarrow> (\<exists>first rest. gePeer e = PeerTLS (first # rest) \<and> first \<noteq> [])) \<and>
     (cnHtpasswdFile (stConfig s) \<noteq> [] \<longrightarrow>
        authenticated \<lparr>baSecrets = geSecrets e, baAllowUnauthenticatedReadOnly = cnAllowUnauthenticatedReads (stConfig s)\<rparr>
          (geCheckSecret e) (geMetadata e))"

lemma setTLSConfig_client_CA: "setTLSConfig f c = Inr t \<Longrightarrow> cnTLSCaFile c \<noteq> [] \<Longrightarrow> t \<noteq> None"
  by (auto simp: setTLSConfig_def split: option.splits if_splits)

text \<open>
  Property C29. A call of a gRPC method that writes runs exactly for clients that have everything the configuration
  asks for: a verified certificate if there is a client CA, and the password of a known user if there is a
  password file, both if there are both, whether or not unauthenticated reads are allowed. Every other
  client is told \<open>Unauthenticated\<close>, and the state is not touched; asset downloads are
  not even known to a server without the asset API.
\<close>

theorem grpc_writes_need_credentials:
  assumes "setTLSConfig f (stConfig s) = Inr (stTLS s)" "m \<in> set mutatingMethods"
    and "\<And>m h st. geProm e m h st = h st"
  shows "startGrpcServer s e m h st =
    (if m = ''/build.bazel.remote.asset.v1.Fetch/FetchBlob'' \<and> \<not> cnExperimentalRemoteAssetAPI (stConfig s)
     then Inl codeUnimplemented
     else if mayWrite s e then h (idleTick (stConfig s) (geResetTimer e) st)
     else Inl codeUnauthenticated)"
proof -
  let ?c = "stConfig s"
  have tls: "stTLS s \<noteq> None" if "cnTLSCaFile ?c \<noteq> []" using setTLSConfig_client_CA [OF assms(1) that] .
  have "chainInterceptors (grpcInterceptors s e) m h st =
      (if mayWrite s e then h (idleTick ?c (geResetTimer e) st) else Inl codeUnauthenticated)"
    using assms(3) tls
    by (auto simp: grpcInterceptors_def chain_append mTLS_mutating [OF assms(2)] basic_mutating [OF assms(2)] Let_def
        mayWrite_def idleInterceptor_def idleTick_def)
  then show ?thesis using mutating_registered [OF assms(2), of ?c] by (simp add: startGrpcServer_def)
qed

section \<open>The disk cache\<close>

lemma configGet_Inr:
  assumes "configGet readFile unmarshal parseUrl m x = Inr s"
  shows "goodConfig (stConfig s)" "setProxy m (stConfig s) = Inr (stProxy s)" "setTLSConfig (bmFiles m) (stConfig s) = Inr (stTLS s)"
proof -
  obtain c where c: "getConfig readFile unmarshal parseUrl x = Inr c" "setProxy m c = Inr (stProxy s)"
      "setTLSConfig (bmFiles m) c = Inr (stTLS s)" "stConfig s = c"
    using assms by (auto simp: configGet_def split: sum.splits)
  have "validateConfig c = None"
    using c(1) by (auto simp: getConfig_def newFromYamlFile_def newFromYaml_def newFromArgs_def Let_def split: if_splits option.splits sum.splits)
  then show "goodConfig (stConfig s)" "setProxy m (stConfig s) = Inr (stProxy s)" "setTLSConfig (bmFiles m) (stConfig s) = Inr (stTLS s)"
    using c validateConfig_good by simp_all
qed

text \<open>
  Whatever the command line and the YAML file say: if reading the configuration succeeds, the disk
  cache accepts the options that are made of it and runs with the configured storage mode, limits and
  backend. The size of the cache is the configured number of GiB as long as that is less than 2^33; for
  2^33, which the validation accepts as well, the product overflows and the cache gets a negative size.
\<close>

theorem configured_cache_opens:
  assumes "configGet readFile unmarshal parseUrl m x = Inr s"
    and "registry (cnZstdImplementation (stConfig s)) = Some z"
  shows "(\<exists>cc. applyOptions registry (diskOptions s) (defaultConfig dir z0 um) = Inr cc \<and>
      cStorageMode (ccDisk cc) = (if cnStorageMode (stConfig s) = ''zstd'' then Zstandard else Identity) \<and>
      cZstd (ccDisk cc) = z \<and> cMaxBlobSize (ccDisk cc) = cnMaxBlobSize (stConfig s) \<and>
      cMaxProxyBlobSize (ccDisk cc) = cnMaxProxyBlobSize (stConfig s) \<and> cProxy (ccDisk cc) = stProxy s) \<and>
    (cnMaxSize (stConfig s) < 2 ^ 33 \<longrightarrow>
       maxSizeBytes (stConfig s) = cnMaxSize (stConfig s) * 2 ^ 30 \<and> 0 < maxSizeBytes (stConfig s)) \<and>
    (cnMaxSize (stConfig s) = 2 ^ 33 \<longrightarrow> maxSizeBytes (stConfig s) < 0)"
proof -
  have g: "0 < cnMaxSize (stConfig s)" "0 < cnMaxBlobSize (stConfig s)" "0 < cnMaxProxyBlobSize (stConfig s)"
      "cnStorageMode (stConfig s) \<in> {''zstd'', ''uncompressed''}"
    using configGet_Inr(1) [OF assms(1)] by (auto simp: goodConfig_def)
  have w: "maxSizeBytes (stConfig s) = cnMaxSize (stConfig s) * 2 ^ 30" if "cnMaxSize (stConfig s) < 2 ^ 33"
    using that g(1) by (simp add: maxSizeBytes_def wrap64_id in64_def)
  have v: "maxSizeBytes (stConfig s) < 0" if "cnMaxSize (stConfig s) = 2 ^ 33"
    using that by (simp add: maxSizeBytes_def wrap64_def)
  have "\<exists>cc. applyOptions registry (diskOptions s) (defaultConfig dir z0 um) = Inr cc \<and>
      cStorageMode (ccDisk cc) = (if cnStorageMode (stConfig s) = ''zstd'' then Zstandard else Identity) \<and>
      cZstd (ccDisk cc) = z \<and> cMaxBlobSize (ccDisk cc) = cnMaxBlobSize (stConfig s) \<and>
      cMaxProxyBlobSize (ccDisk cc) = cnMaxProxyBlobSize (stConfig s) \<and> cProxy (ccDisk cc) = stProxy s"
    using g assms(2) by (auto simp: diskOptions_def Let_def applyOption_def defaultConfig_def)
  then show ?thesis using w v g(1) by simp
qed

section \<open>Accepted, but not usable\<close>

text \<open>
  An S3 backend without a bucket lookup type is accepted by the validation, which names the empty value
  among the allowed ones, and then always refused: making the backend fails, and the server does not start.
\<close>

theorem unset_bucket_lookup_refused:
  assumes "validateConfig c = None" "cnS3 c = Some s" "scBucketLookupType s = []"
  shows "\<exists>e. setProxy m c = Inl e"
proof -
  have "proxyCount c \<le> 1" using assms(1) validateConfig_good by (simp add: goodConfig_def goodBackends_def)
  then have "cnGCS c = None" "cnGRPCBackend c = None" "cnHTTPBackend c = None"
    using assms(2) by (auto simp: proxyCount_def split: if_splits)
  then show ?thesis
    using assms(2,3) by (auto simp: setProxy_def parseBucketLookupType_def split: sum.splits)
qed

section \<open>Concrete servers\<close>

definition baseConfig :: config where
  "baseConfig = emptyConfig\<lparr>cnDir := ''/c'', cnMaxSize := 5, cnStorageMode := ''zstd'', cnZstdImplementation := ''go'',
     cnHTTPAddress := '':8080'', cnMinTLSVersion := ''1.0'', cnMaxBlobSize := 1000, cnMaxProxyBlobSize := 1000,
     cnMetricsDurationBuckets := Some defaultDurationBuckets, cnAccessLogLevel := ''all'', cnLogTimezone := ''UTC''\<rparr>"

lemma defaultDurationBuckets_sorted: "sorted defaultDurationBuckets \<and> distinct defaultDurationBuckets"
  by (simp add: defaultDurationBuckets_def)

lemma baseConfig_good: "goodConfig baseConfig"
proof -
  have "SplitHostPort '':8080'' \<noteq> None" "\<not> hasPrefix '':8080'' ''unix://''" by code_simp+
  then show ?thesis
    using defaultDurationBuckets_sorted
    by (simp add: goodConfig_def baseConfig_def emptyConfig_def goodAddresses_def goodSecurity_def goodBackends_def
        socketOrHostPort_def proxyCount_def)
qed

text \<open>A YAML file with that configuration, for a server without TLS and backend.\<close>

lemma base_configGet:
  "configGet (\<lambda>_. Some ()) (\<lambda>_ yc. Some (yc\<lparr>ycConfig := baseConfig\<rparr>)) (\<lambda>_. None) m
     \<lparr>clString = (\<lambda>_. ''bazel-remote.yaml''), clInt = (\<lambda>_. 0), clBool = (\<lambda>_. False)\<rparr> =
   Inr \<lparr>stConfig = baseConfig, stLogger = (35, False), stProxy = None, stTLS = None\<rparr>"
proof -
  have v: "validateConfig baseConfig = None" using baseConfig_good validateConfig_good by blast
  have a: "yamlAddresses (yamlDefaults\<lparr>ycConfig := baseConfig\<rparr>) = baseConfig"
    by (simp add: yamlAddresses_def yamlDefaults_def baseConfig_def emptyConfig_def)
  have b: "baseConfig\<lparr>cnMetricsDurationBuckets := map_option sort (cnMetricsDurationBuckets baseConfig)\<rparr> = baseConfig"
    using defaultDurationBuckets_sorted by (simp add: baseConfig_def sorted_sort_id)
  have n: "cnGCS baseConfig = None" "cnGRPCBackend baseConfig = None" "cnHTTPBackend baseConfig = None"
      "cnS3 baseConfig = None" "cnAzBlob baseConfig = None" "cnMinTLSVersion baseConfig = ''1.0''" "cnTLSCaFile baseConfig = []"
      "cnTLSCertFile baseConfig = []" "cnLogTimezone baseConfig = ''UTC''" "cnAccessLogLevel baseConfig = ''all''"
    by (simp_all add: baseConfig_def emptyConfig_def)
  show ?thesis
    using v a b n
    by (simp add: configGet_def getConfig_def newFromYamlFile_def newFromYaml_def Let_def setProxy_def setTLSConfig_def
        supportedTLSServerVersion_def setLogger_def)
qed

theorem configured_cache_opens_witness:
  "\<exists>cc. applyOptions (\<lambda>_. Some toyZstd)
      (diskOptions \<lparr>stConfig = baseConfig, stLogger = (35, False), stProxy = None, stTLS = None\<rparr>)
      (defaultConfig ''/c'' toyZstd (\<lambda>_. None)) = Inr cc \<and> cMaxBlobSize (ccDisk cc) = 1000 \<and>
    maxSizeBytes baseConfig = 5368709120"
proof -
  have c: "cnMaxBlobSize baseConfig = 1000" "cnMaxSize baseConfig = 5" by (simp_all add: baseConfig_def)
  show ?thesis
    using configured_cache_opens [OF base_configGet, of "\<lambda>_. Some toyZstd" toyZstd "''/c''" toyZstd "\<lambda>_. None"] c by auto
qed

definition demoEnv :: "nat httpEnv" where
  "demoEnv = \<lparr>heCheckAuth = (\<lambda>r. hrAccept r = ''secret''), heResetTimer = Suc, heMiddleware = (\<lambda>_ h. h),
     hePromHandler = (\<lambda>r st. Some (HttpOK emptyOK, st)), heStatusPage = (\<lambda>r st. Some (HttpOK emptyOK, st)),
     heCacheHandler = (\<lambda>h. CacheHandler h undefined undefined (\<lambda>_. None) (\<lambda>_. None) emptyCtx)\<rparr>"

definition demoPut :: httpRequest where
  "demoPut = \<lparr>hrMethod = ''PUT'', hrPath = ''/cas/x'', hrContentLength = 1, hrBody = bytes_reader [1], hrAccept = [],
     hrAcceptEncoding = [], hrContentEncoding = [], hrContentType = [], hrDigestSizeBytes = [], hrRemoteAddr = [],
     hrTLS = None\<rparr>"


theorem status_page_unprotected_with_metrics_witness:
  "serveMux (startHttpServer (baseConfig\<lparr>cnHtpasswdFile := ''f'', cnEnableEndpointMetrics := True\<rparr>) demoEnv)
      (demoPut\<lparr>hrPath := ''/status'', hrMethod := ''GET''\<rparr>) 0 = Some (HttpOK emptyOK, 0)"
  using status_page_unprotected_with_metrics [of demoEnv "demoPut\<lparr>hrPath := ''/status'', hrMethod := ''GET''\<rparr>"
      "baseConfig\<lparr>cnHtpasswdFile := ''f'', cnEnableEndpointMetrics := True\<rparr>" 0]
  by (simp add: demoEnv_def transparent_def)

theorem grpc_writes_need_credentials_witness:
  "startGrpcServer \<lparr>stConfig = baseConfig\<lparr>cnHtpasswdFile := ''f''\<rparr>, stLogger = (35, False), stProxy = None, stTLS = None\<rparr>
     \<lparr>gePeer = NoPeer, geMetadata = None, geSecrets = (\<lambda>_. ''s''), geCheckSecret = (=), geProm = (\<lambda>m h. h), geResetTimer = Suc,
      geStream = True\<rparr> ''/google.bytestream.ByteStream/Write'' (\<lambda>st. Inr st) 0 = Inl codeUnauthenticated"
proof -
  let ?s = "\<lparr>stConfig = baseConfig\<lparr>cnHtpasswdFile := ''f''\<rparr>, stLogger = (35 :: int, False), stProxy = None, stTLS = None\<rparr>"
    and ?e = "\<lparr>gePeer = NoPeer, geMetadata = None, geSecrets = (\<lambda>_. ''s''), geCheckSecret = (=), geProm = (\<lambda>m h. h),
      geResetTimer = Suc, geStream = True\<rparr> :: (nat, nat) grpcEnv"
  have t: "setTLSConfig f (stConfig ?s) = Inr (stTLS ?s)" for f
    by (simp add: setTLSConfig_def baseConfig_def emptyConfig_def supportedTLSServerVersion_def)
  have m: "''/google.bytestream.ByteStream/Write'' \<in> set mutatingMethods" by (simp add: mutatingMethods_def)
  have "\<not> mayWrite ?s ?e" by (simp add: mayWrite_def authenticated_def)
  then show ?thesis
    using grpc_writes_need_credentials [of _ ?s _ ?e, OF t m] by simp
qed

theorem unset_bucket_lookup_refused_witness:
  "\<exists>e. setProxy \<lparr>bmFiles = \<lparr>tfReadCA = (\<lambda>_. None), tfLoadPair = (\<lambda>_ _. False)\<rparr>, bmGoogle = (\<lambda>_. False), bmHttp = undefined,
      bmGrpc = (\<lambda>_ _ _ _. None), bmS3 = undefined, bmAzCerts = (\<lambda>_. False), bmAzCreate = (\<lambda>_. False), bmAzBlob = undefined\<rparr>
    (baseConfig\<lparr>cnS3 := Some \<lparr>scEndpoint = ''e'', scBucket = ''b'', scPrefix = [], scAuthMethod = ''iam_role'', scAccessKeyID = [],
       scSecretAccessKey = [], scSignatureType = [], scDisableSSL = False, scUpdateTimestamps = False, scIAMRoleEndpoint = [],
       scRegion = [], scKeyVersion = None, scAWSProfile = [], scAWSSharedCredentialsFile = [], scBucketLookupType = []\<rparr>\<rparr>) = Inl e"
proof -
  define s where "s = \<lparr>scEndpoint = ''e'', scBucket = ''b'', scPrefix = [], scAuthMethod = ''iam_role'', scAccessKeyID = [],
       scSecretAccessKey = [], scSignatureType = [], scDisableSSL = False, scUpdateTimestamps = False, scIAMRoleEndpoint = [],
       scRegion = [], scKeyVersion = None, scAWSProfile = [], scAWSSharedCredentialsFile = [], scBucketLookupType = []\<rparr>"
  have "goodConfig (baseConfig\<lparr>cnS3 := Some s\<rparr>)"
    using baseConfig_good
    by (simp add: goodConfig_def goodAddresses_def goodSecurity_def goodBackends_def proxyCount_def goodS3_def s_def
        s3AuthMethods_def) (simp add: baseConfig_def emptyConfig_def)
  then have "validateConfig (baseConfig\<lparr>cnS3 := Some s\<rparr>) = None" using validateConfig_good by blast
  then show ?thesis
    unfolding s_def [symmetric] by (rule unset_bucket_lookup_refused) (simp, simp add: s_def)
qed

end
