(* ===== verification/Proxies_Props.thy ===== *)
theory Proxies_Props
  imports Proxies Disk_Props
begin

text \<open>
  The backends: the object keys of S3 keep kinds, hashes and prefixes apart, and a blob that one disk
  cache uploads is delivered by another one that has lost it or never had it.
\<close>

section \<open>What the disk cache hands to its backend\<close>

lemma Put_proxied:
  assumes "Put cfg noFaults c kind hash sz r st = Some (None, st')" "cProxy cfg \<noteq> None" "\<not> cObserver cfg"
    and "\<not> (kind = CAS \<and> sz = 0 \<and> hash = emptySha256)"
  shows "\<exists>n bs. writeAndCloseFile cfg noFaults r kind hash sz = (Inr n, bs) \<and>
    dProxyPuts st' = dProxyPuts st @
      [\<lparr>ppCtx = c, ppKind = kind, ppHash = hash, ppLogicalSize = sz, ppSizeOnDisk = n, ppData = bs\<rparr>]"
proof -
  have p: "putBody cfg noFaults c kind hash sz r None st = Some (None, st')"
    using assms by (auto simp: Put_def captureAC_def split: if_splits)
  obtain st1 where r: "putReserve cfg sz st = (None, st1)"
    using p by (auto simp: putBody_def putFinish_def noCleanup_def cleanupReservation_def split: prod.splits option.splits)
  have r1: "dProxyPuts st1 = dProxyPuts st"
    using r by (auto simp: putReserve_def split: if_splits prod.splits sum.splits)
  obtain x cu st2 where w: "putWrite cfg noFaults c kind hash sz r st1 = (x, cu, st2)" by (metis prod_cases3)
  obtain b random n where x: "x = Inr (b, random, n)"
    using p r w putWrite_Inl
    by (cases x) (auto simp: putBody_def putFinish_def cleanupReservation_def split: prod.splits option.splits if_splits)
  obtain st3 bs where t: "createTemp noFaults (path_join [cDir cfg, FileLocationBaseForContext c kind
        (kind = CAS \<and> cStorageMode cfg = Identity) hash sz]) (kind = CAS \<and> cStorageMode cfg = Identity) st1 = (Some (b, random), st3)"
      "writeAndCloseFile cfg noFaults r kind hash sz = (Inr n, bs)" "st2 = setFile b bs st3"
    using w x by (auto simp: putWrite_def Let_def split: if_splits prod.splits option.splits sum.splits)
  define st4 where "st4 = putToProxy cfg noFaults c kind hash sz n b st2"
  have st4: "dProxyPuts st4 = dProxyPuts st @
      [\<lparr>ppCtx = c, ppKind = kind, ppHash = hash, ppLogicalSize = sz, ppSizeOnDisk = n, ppData = bs\<rparr>]"
    using assms(2) createTemp_Some [OF t(1)] r1 t(3)
    by (auto simp: st4_def putToProxy_def openFile_def noFaults_def setFile_def)
  obtain e cu5 st5 where c: "putCommit cfg c kind hash sz (b, random, n) st4 = Some (e, cu5, st5)"
    using p r w x by (auto simp: putBody_def Let_def st4_def split: option.splits)
  have st5: "dProxyPuts st5 = dProxyPuts st4"
    using c by (auto simp: putCommit_def commit_def split: option.splits prod.splits if_splits bool.splits)
  have fin: "putFinish cfg noFaults sz e cu5 st5 = (None, st')"
    using p r w x c by (cases e) (auto simp: putBody_def Let_def st4_def)
  have "dProxyPuts st' = dProxyPuts st5"
    using fin
    by (auto simp: putFinish_def cleanupReservation_def cleanupFile_def removeFile_def noFaults_def
        split: option.splits prod.splits if_splits)
  then show ?thesis using t(2) st4 st5 by simp
qed

section \<open>A miss that the backend answers\<close>

lemma miss_goes_to_proxy:
  assumes ok: "lru_ok (dLru st)" and miss: "Peek (LookupKeyForContext c kind hash) (dLru st) = None"
    and sz: "in64 sz" "0 < sz" "cProxy cfg \<noteq> None" "sz \<le> cMaxProxyBlobSize cfg"
    and room: "reservedSize (dLru st) + sz \<le> maxSize (dLru st)"
  shows "\<exists>st1. availableOrTryProxy cfg noFaults id c kind hash sz off z st = (TryProxy True, st1) \<and> lru_ok (dLru st1) \<and>
    dFs st1 = dFs st \<and> dRand st1 = dRand st \<and> reservedSize (dLru st1) = reservedSize (dLru st) + sz \<and>
    maxSize (dLru st1) = maxSize (dLru st)"
proof -
  have g: "Get (LookupKeyForContext c kind hash) (dLru st) = (None, dLru st)"
    using miss by (simp add: Get_def Peek_def split: option.splits)
  let ?st = "setLru cfg (dLru st) st"
  have l: "localGet cfg noFaults id c kind hash sz off z st = (Inl None, ?st)" using g by (simp add: localGet_def)
  have ok': "lru_ok (dLru ?st)" using ok by simp
  obtain st1 where r: "putReserve cfg sz ?st = (None, st1)" "lru_ok (dLru st1)" "dFs st1 = dFs ?st"
      "reservedSize (dLru st1) = reservedSize (dLru ?st) + sz" "maxSize (dLru st1) = maxSize (dLru ?st)"
    using putReserve_cases [OF ok' sz(1), of cfg] putReserve_room [OF ok' sz(1), of cfg] room sz(2)
    by (metis fst_conv less_imp_le option.distinct(1) setLru_sel(4,5))
  obtain res l' where res: "Reserve sz (dLru ?st) = (res, l')" by (cases "Reserve sz (dLru ?st)")
  then have "res = Inr True" "st1 = setLru cfg l' ?st"
    using r(1) sz(2) by (auto simp: putReserve_def split: sum.splits if_splits)
  then have "availableOrTryProxy cfg noFaults id c kind hash sz off z st = (TryProxy True, st1)"
    using l sz(2-4) res by (simp add: availableOrTryProxy_def)
  then show ?thesis using r putReserve_rand [OF r(1)] by simp
qed

text \<open>The file of the proxied blob has been written; what follows depends on whether it can be opened.\<close>

lemma nofault: "\<not> osMkdir noFaults d" "\<not> osWrite noFaults w" "\<not> osRemove noFaults b"
  by (simp_all add: noFaults_def)

lemma proxied_file:
  assumes ok: "lru_ok (dLru st)" and miss: "Peek (LookupKeyForContext c CAS hash) (dLru st) = None"
    and h: "length hash = 64" and n: "in64 n" "0 < n" "n \<le> cMaxProxyBlobSize cfg" and off: "0 \<le> off" "off < n"
    and p: "cProxy cfg = Some p" "proxyGet p c CAS hash n = (Some (bytes_reader bs), n, None)"
    and room: "reservedSize (dLru st) + n \<le> maxSize (dLru st)"
    and leg: "leg = (cStorageMode cfg = Identity)"
    and name: "fst (createTemp noFaults (path_join [cDir cfg, FileLocationBaseForContext c CAS leg hash n]) leg st) \<noteq> None"
  shows "\<exists>b random st3. lru_ok (dLru st3) \<and> dFs st3 b = Some \<lparr>cfData = bs, cfComplete = False\<rparr> \<and>
    reservedSize (dLru st3) = reservedSize (dLru st) + n \<and> maxSize (dLru st3) = maxSize (dLru st) \<and>
    get cfg noFaults id c CAS hash n off z st =
      map_option (\<lambda>(g, cu, st). getFinish cfg noFaults n g cu st)
        (case openFetched cfg CAS n off z (openBytes bs) of
           Inl e \<Rightarrow> Some (GotError (internalErr e), \<lparr>cuBlobFile = Some b, cuRemove = True, cuUnreserve = True\<rparr>, st3)
         | Inr rc \<Rightarrow>
             (case commit cfg (LookupKeyForContext c CAS hash) leg n n (blen bs) random st3 of
                None \<Rightarrow> None
              | Some (unres, rem, err, st) \<Rightarrow>
                  (let cu = \<lparr>cuBlobFile = Some b, cuRemove = rem, cuUnreserve = unres\<rparr>
                   in case err of
                        Some e \<Rightarrow> Some (GotError (internalErr e), cu, st)
                      | None \<Rightarrow> Some (Found rc n, cu, st))))"
proof -
  let ?base = "path_join [cDir cfg, FileLocationBaseForContext c CAS leg hash n]"
  obtain st1 where a: "availableOrTryProxy cfg noFaults id c CAS hash n off z st = (TryProxy True, st1)"
      "lru_ok (dLru st1)" "dFs st1 = dFs st" "dRand st1 = dRand st"
      "reservedSize (dLru st1) = reservedSize (dLru st) + n" "maxSize (dLru st1) = maxSize (dLru st)"
    using miss_goes_to_proxy [OF ok miss n(1,2) _ n(3) room] p(1) by blast
  obtain b random st2 where t: "createTemp noFaults ?base leg st1 = (Some (b, random), st2)"
    using name createTemp_cong [OF a(3,4)] by (metis option.exhaust prod.collapse)
  let ?st3 = "setFile b bs st2"
  have l3: "dLru ?st3 = dLru st1" using createTemp_lru [OF t] by (simp add: setFile_def)
  have f: "dFs ?st3 b = Some \<lparr>cfData = bs, cfComplete = False\<rparr>" by (simp add: setFile_def)
  have gf: "getFetched cfg noFaults c CAS hash n off z (bytes_reader bs) n (noCleanup\<lparr>cuUnreserve := n > 0\<rparr>) st1 =
        (case openFetched cfg CAS n off z (openBytes bs) of
           Inl e \<Rightarrow> Some (GotError (internalErr e), \<lparr>cuBlobFile = Some b, cuRemove = True, cuUnreserve = True\<rparr>, ?st3)
         | Inr rc \<Rightarrow>
             (case commit cfg (LookupKeyForContext c CAS hash) leg n n (blen bs) random ?st3 of
                None \<Rightarrow> None
              | Some (unres, rem, err, st) \<Rightarrow>
                  (let cu = \<lparr>cuBlobFile = Some b, cuRemove = rem, cuUnreserve = unres\<rparr>
                   in case err of
                        Some e \<Rightarrow> Some (GotError (internalErr e), cu, st)
                      | None \<Rightarrow> Some (Found rc n, cu, st))))"
    using t n(2) openFile_noFaults [of ?st3 b bs False, OF f]
    by (simp add: getFetched_def Let_def bytes_reader_def noCleanup_def nofault flip: leg split: sum.split)
  have g: "get cfg noFaults id c CAS hash n off z st =
      map_option (\<lambda>(g, cu, st). getFinish cfg noFaults n g cu st)
        (getFetched cfg noFaults c CAS hash n off z (bytes_reader bs) n (noCleanup\<lparr>cuUnreserve := n > 0\<rparr>) st1)"
    using a(1) h n off p by (simp add: get_def isSizeMismatch_def)
  show ?thesis
    by (rule exI [of _ b], rule exI [of _ random], rule exI [of _ ?st3], unfold g gf l3) (use a f in simp)
qed

lemma proxied_get:
  assumes ok: "lru_ok (dLru st)" and miss: "Peek (LookupKeyForContext c CAS hash) (dLru st) = None"
    and h: "length hash = 64" and n: "in64 n" "0 < n" "n \<le> cMaxProxyBlobSize cfg" and off: "0 \<le> off" "off < n"
    and p: "cProxy cfg = Some p" "proxyGet p c CAS hash n = (Some (bytes_reader bs), n, None)"
    and rd: "openFetched cfg CAS n off z (openBytes bs) = Inr rc"
    and room: "reservedSize (dLru st) + n \<le> maxSize (dLru st)"
      "reservedSize (dLru st) + roundUp4k (blen bs) \<le> maxSize (dLru st)" "size_ok (blen bs)"
    and leg: "leg = (cStorageMode cfg = Identity)"
    and name: "fst (createTemp noFaults (path_join [cDir cfg, FileLocationBaseForContext c CAS leg hash n]) leg st) \<noteq> None"
  shows "\<exists>st' random. get cfg noFaults id c CAS hash n off z st = Some (Found rc n, st') \<and>
    Peek (LookupKeyForContext c CAS hash) (dLru st') =
      Some \<lparr>itemSize = n, sizeOnDisk = blen bs, randomStr = random, legacy = leg\<rparr>"
proof -
  let ?key = "LookupKeyForContext c CAS hash"
  obtain b random st3 where g: "lru_ok (dLru st3)" "dFs st3 b = Some \<lparr>cfData = bs, cfComplete = False\<rparr>"
      "reservedSize (dLru st3) = reservedSize (dLru st) + n" "maxSize (dLru st3) = maxSize (dLru st)"
      "get cfg noFaults id c CAS hash n off z st =
        map_option (\<lambda>(g, cu, st). getFinish cfg noFaults n g cu st)
          (case commit cfg ?key leg n n (blen bs) random st3 of
             None \<Rightarrow> None
           | Some (unres, rem, err, st) \<Rightarrow>
               (let cu = \<lparr>cuBlobFile = Some b, cuRemove = rem, cuUnreserve = unres\<rparr>
                in case err of
                     Some e \<Rightarrow> Some (GotError (internalErr e), cu, st)
                   | None \<Rightarrow> Some (Found rc n, cu, st)))"
    using proxied_file [OF ok miss h n off p room(1) leg name, of z] rd by auto
  have nn: "0 \<le> reservedSize (dLru st)" using lru_okD(5) [OF ok] by simp
  obtain st4 where c: "commit cfg ?key leg n n (blen bs) random st3 = Some (False, False, None, st4)"
      "Peek ?key (dLru st4) = Some \<lparr>itemSize = n, sizeOnDisk = blen bs, randomStr = random, legacy = leg\<rparr>"
    using commit_succeeds [of st3 n "blen bs" cfg ?key leg n random] g(1-4) n room nn by auto
  let ?cu = "\<lparr>cuBlobFile = Some b, cuRemove = False, cuUnreserve = False\<rparr>"
  have "\<exists>st'. getFinish cfg noFaults n (Found rc n) ?cu st4 = (Found rc n, st') \<and> dLru st' = dLru st4"
    by (simp add: getFinish_def cleanupReservation_def cleanupFile_def gotErr_def)
  then show ?thesis using c g(5) by auto
qed

lemma proxied_get_fails:
  assumes ok: "lru_ok (dLru st)" and miss: "Peek (LookupKeyForContext c CAS hash) (dLru st) = None"
    and h: "length hash = 64" and n: "in64 n" "0 < n" "n \<le> cMaxProxyBlobSize cfg" and off: "0 \<le> off" "off < n"
    and p: "cProxy cfg = Some p" "proxyGet p c CAS hash n = (Some (bytes_reader bs), n, None)"
    and rd: "openFetched cfg CAS n off z (openBytes bs) = Inl e"
    and room: "reservedSize (dLru st) + n \<le> maxSize (dLru st)"
    and leg: "leg = (cStorageMode cfg = Identity)"
    and name: "fst (createTemp noFaults (path_join [cDir cfg, FileLocationBaseForContext c CAS leg hash n]) leg st) \<noteq> None"
  shows "\<exists>st'. get cfg noFaults id c CAS hash n off z st = Some (GotError (internalErr e), st')"
proof -
  obtain b random st3 where g: "lru_ok (dLru st3)" "reservedSize (dLru st3) = reservedSize (dLru st) + n"
      "get cfg noFaults id c CAS hash n off z st = Some (getFinish cfg noFaults n (GotError (internalErr e))
         \<lparr>cuBlobFile = Some b, cuRemove = True, cuUnreserve = True\<rparr> st3)"
    using proxied_file [OF ok miss h n off p room leg name, of z] rd by auto
  let ?cu = "\<lparr>cuBlobFile = Some b, cuRemove = True, cuUnreserve = True\<rparr>"
  have "dLru (cleanupFile noFaults ?cu st3) = dLru st3" by (simp add: cleanupFile_def)
  then obtain st4 where "cleanupReservation cfg n ?cu (Some (internalErr e)) (cleanupFile noFaults ?cu st3) = (Some (internalErr e), st4)"
    using cleanupReservation_ok [of "cleanupFile noFaults ?cu st3" n ?cu cfg "Some (internalErr e)"] g(1,2) n lru_okD(5) [OF ok] by auto
  then show ?thesis using g(3) by (simp add: getFinish_def gotErr_def)
qed

section \<open>Through S3\<close>

lemma upload_key:
  "(let pre = fst (prefixForContext s c kind); pre = (if kind = RAW then s3Prefix s else pre)
    in objectKeyForPrefix s (if pre = [] then s3Prefix s else pre) hash kind) = objectKeyForContext s c hash kind"
  by (auto simp: objectKeyForContext_def prefixForContext_def StoragePrefixFromContext_def Let_def split: option.splits if_splits)

lemma s3_upload:
  assumes "s3Put s p (Some q) = (True, Some q')" "s3UploadFile s os (last (uqItems q')) o1 = ((''created'', reason, n), o2)"
  shows "soPut os (objectKeyForContext s (ppCtx p) (ppHash p) (ppKind p)) (ppData p) (ppSizeOnDisk p) o1 = (None, o2)"
proof -
  obtain pre scoped req where x: "prefixForContext s (ppCtx p) (ppKind p) = (pre, scoped, req)"
    by (metis prod_cases3)
  have "last (uqItems q') = \<lparr>urHash = ppHash p, urLogicalSize = ppLogicalSize p, urSizeOnDisk = ppSizeOnDisk p,
      urKind = ppKind p, urData = ppData p, urStoragePrefix = pre,
      urRequestScopedStoragePrefix = scoped, urRequireStoragePrefix = req\<rparr>"
    using assms(1) x by (auto simp: s3Put_def enqueue_def split: if_splits)
  then show ?thesis
    using assms(2) x upload_key [of s "ppCtx p" "ppKind p" "ppHash p"]
    by (auto simp: s3UploadFile_def Let_def classifyUploadOutcome_def split: prod.splits option.splits if_splits)
qed

text \<open>
  What a compressing cache hands to its backend is the file of the blob, and the file is all that
  another cache needs: it has the size, and every part of the blob can be read from it.
\<close>

lemma handed_to_proxy:
  assumes put: "Put w noFaults c CAS hash n r st = Some (None, st')" "lru_ok (dLru st)" "in64 n" "0 < n" "hex64 hash"
    and w: "goodUpload w CAS r n" "cStorageMode w = Zstandard" "cProxy w \<noteq> None" "\<not> cObserver w" "zstd_laws (cZstd w)"
  shows "\<exists>k. last (dProxyPuts st') = \<lparr>ppCtx = c, ppKind = CAS, ppHash = hash, ppLogicalSize = n, ppSizeOnDisk = k,
      ppData = casFile (cZstd w) (rdata r)\<rparr>"
    and "ExtractLogicalSize (bytes_reader (casFile (cZstd w) (rdata r))) = Inr (bytes_reader (casFile (cZstd w) (rdata r)), n)"
    and "0 \<le> off \<Longrightarrow> off < n \<Longrightarrow> GetUncompressedReadCloser (cZstd w) (openBytes (casFile (cZstd w) (rdata r))) n off =
      Inr (bytes_reader (drop (nat off) (rdata r)))"
    and "size_ok (blen (casFile (cZstd w) (rdata r)))"
proof -
  have ne: "\<not> (CAS = CAS \<and> n = 0 \<and> hash = emptySha256)" using put(4) by simp
  let ?bs = "casFile (cZstd w) (rdata r)"
  obtain k bs where wr: "writeAndCloseFile w noFaults r CAS hash n = (Inr k, bs)"
      "dProxyPuts st' = dProxyPuts st @
        [\<lparr>ppCtx = c, ppKind = CAS, ppHash = hash, ppLogicalSize = n, ppSizeOnDisk = k, ppData = bs\<rparr>]"
    using Put_proxied [OF put(1) w(3,4) ne] by blast
  have zi: "Zstandard \<noteq> Identity" by (simp add: Zstandard_def Identity_def)
  note wi = writeAndCloseFile_Inr [OF wr(1) w(1)]
  have bs: "bs = ?bs" using wi put(4) w(2) zi by (simp add: storedBytes_def)
  have len: "blen (rdata r) = n" using wi put(4) by simp
  have wac: "WriteAndClose (cZstd w) (osWrite noFaults) r Zstandard hash n = (Inr k, ?bs)"
    using wr(1) w(2) zi bs by (auto simp: writeAndCloseFile_def split: prod.splits sum.splits)
  have small: "n \<le> maxBlobSize" "blen (casFile (cZstd w) (take (nat n) (rdata r))) \<le> maxInt64"
    using w(1,2) zi by (auto simp: goodUpload_def)
  show "\<exists>k. last (dProxyPuts st') = \<lparr>ppCtx = c, ppKind = CAS, ppHash = hash, ppLogicalSize = n, ppSizeOnDisk = k, ppData = ?bs\<rparr>"
    using wr(2) bs by simp
  show "ExtractLogicalSize (bytes_reader ?bs) = Inr (bytes_reader ?bs, n)"
    using logical_size_found [OF wac small w(5), of False] by (simp add: bytes_reader_def)
  show "GetUncompressedReadCloser (cZstd w) (openBytes ?bs) n off = Inr (bytes_reader (drop (nat off) (rdata r)))"
    if "0 \<le> off" "off < n"
    using read_back_uncompressed [OF wac small w(5) that(1)] that(2) by simp
  show "size_ok (blen ?bs)"
    using w(1,2) zi len put(4) by (auto simp: goodUpload_def size_ok_def blen_def)
qed

lemma handed_and_fetched:
  assumes put: "Put w noFaults c CAS hash n r st = Some (None, st')" "lru_ok (dLru st)" "in64 n" "0 < n" "hex64 hash"
    and w: "goodUpload w CAS r n" "cStorageMode w = Zstandard" "cProxy w \<noteq> None" "\<not> cObserver w" "zstd_laws (cZstd w)"
    and v: "cProxy v = Some p" "cZstd v = cZstd w" "cStorageMode v \<noteq> Identity" "n \<le> cMaxProxyBlobSize v"
      "proxyGet p c2 CAS hash n = (Some (bytes_reader (casFile (cZstd w) (rdata r))), n, None)"
    and miss: "lru_ok (dLru st2)" "Peek (LookupKeyForContext c2 CAS hash) (dLru st2) = None"
    and room: "reservedSize (dLru st2) + n \<le> maxSize (dLru st2)"
      "reservedSize (dLru st2) + roundUp4k (blen (casFile (cZstd w) (rdata r))) \<le> maxSize (dLru st2)"
    and name: "fst (createTemp noFaults (path_join [cDir v, FileLocationBaseForContext c2 CAS False hash n]) False st2) \<noteq> None"
    and off: "0 \<le> off" "off < n"
  shows "\<exists>st3. get v noFaults id c2 CAS hash n off False st2 =
      Some (Found (bytes_reader (drop (nat off) (rdata r))) n, st3) \<and>
    map_option itemSize (Peek (LookupKeyForContext c2 CAS hash) (dLru st3)) = Some n"
proof -
  have "openFetched v CAS n off False (openBytes (casFile (cZstd w) (rdata r))) = Inr (bytes_reader (drop (nat off) (rdata r)))"
    using handed_to_proxy(3) [OF put w off] v(2,3) by (simp add: openFetched_def)
  then show ?thesis
    using proxied_get [OF miss hex64_length [OF put(5)] put(3,4) v(4) off v(1,5) _ room(1) room(2)
        handed_to_proxy(4) [OF put w] _ name, of False] v(3) by auto
qed


text \<open>For the witnesses: an upload of three bytes to a cache with a backend, and a cache without the blob.\<close>

lemma demo_miss: "Peek k (dLru (demoState m)) = None"
  by (simp add: demoState_def NewSizedLRU_def Peek_def)

lemma demo_good_proxied: "goodUpload (demoConfig Zstandard\<lparr>cProxy := x\<rparr>) CAS (bytes_reader [1, 2, 3]) 3"
  using demo_good_zstd [of CAS] by (simp add: goodUpload_def)

lemma demo_maxProxy [simp]: "cMaxProxyBlobSize (demoConfig m) = maxInt64"
  by (simp add: demoConfig_def)

lemma Zstandard_Identity [simp]: "Zstandard \<noteq> Identity" "Identity \<noteq> Zstandard"
  by (simp_all add: Zstandard_def Identity_def)

lemma demo_handed:
  "\<exists>st' k. Put (demoConfig Zstandard\<lparr>cProxy := Some p\<rparr>) noFaults emptyCtx CAS toyHash 3 (bytes_reader [1, 2, 3])
      (demoState 100000) = Some (None, st') \<and>
    last (dProxyPuts st') = \<lparr>ppCtx = emptyCtx, ppKind = CAS, ppHash = toyHash, ppLogicalSize = 3, ppSizeOnDisk = k,
      ppData = casFile toyZstd [1, 2, 3]\<rparr>"
proof -
  let ?w = "demoConfig Zstandard\<lparr>cProxy := Some p\<rparr>" and ?r = "bytes_reader [1, 2, 3]"
  have obs: "\<not> cObserver ?w" by simp
  have wr: "writeAndCloseFile ?w noFaults ?r CAS toyHash 3 = (Inr (blen (casFile toyZstd [1, 2, 3])), casFile toyZstd [1, 2, 3])"
    using demo_write_zstd by (simp add: writeAndCloseFile_def)
  obtain st' where put: "Put ?w noFaults emptyCtx CAS toyHash 3 ?r (demoState 100000) = Some (None, st')"
    using Put_succeeds [OF demoState_ok [of 100000] _ _ _ obs hex64_toyHash _ demo_good_proxied wr _ _ demo_free_name, of emptyCtx]
    by (auto simp: in64_def roundUp4k_eq size_ok_def toy_casFile_small)
  have ok: "lru_ok (dLru (demoState 100000))" by (simp add: demoState_ok)
  have "\<exists>k. last (dProxyPuts st') = \<lparr>ppCtx = emptyCtx, ppKind = CAS, ppHash = toyHash, ppLogicalSize = 3, ppSizeOnDisk = k,
      ppData = casFile (cZstd ?w) (rdata ?r)\<rparr>"
    by (rule handed_to_proxy(1) [OF put ok _ _ hex64_toyHash demo_good_proxied]) (use toyZstd_laws in \<open>simp_all add: in64_def\<close>)
  then show ?thesis using put by (simp add: bytes_reader_def)
qed

text \<open>An object store in memory, for the witness.\<close>

definition memOps :: "(string \<Rightarrow> bytes option) s3Ops" where
  "memOps =
     \<lparr>soGet = \<lambda>k m. (case m k of None \<Rightarrow> Inl NoSuchKey | Some bs \<Rightarrow> Inr (bytes_reader bs, blen bs)),
      soStat = \<lambda>k m. map_option blen (m k),
      soPut = \<lambda>k bs n m. (case m k of None \<Rightarrow> (None, m(k \<mapsto> bs)) | Some _ \<Rightarrow> (Some 412, m)),
      soCompose = \<lambda>k m. m\<rparr>"

definition demoS3 :: s3Cache where
  "demoS3 = \<lparr>s3Prefix = ''p'', s3V2mode = True, s3UpdateTimestamps = False\<rparr>"

lemma memOps_store: "soPut memOps key bs k o1 = (None, o2) \<Longrightarrow> soGet memOps key o2 = Inr (bytes_reader bs, blen bs)"
  by (auto simp: memOps_def split: option.splits)


end
