(* ===== verification/Asset.thy ===== *)
theory Asset
  imports Auth
begin

text \<open>
  \<open>server/grpc_asset.go\<close>: the part of the remote asset service that the server implements.
  \<open>FetchBlob\<close> looks for a blob by its checksum and downloads it otherwise, and what a download reports
  as fetched has the digest it reports. Parsing a URI and the HTTP client are arguments.
\<close>

section \<open>Downloads\<close>

text \<open>
  \<open>uriScheme\<close>: the scheme of a URI, if it parses. \<open>httpGet\<close>: the status, the content length (-1 when
  unknown) and the body of the response, if there is one.
\<close>

record webClient =
  wcScheme :: "string \<Rightarrow> string option"
  wcGet :: "string \<Rightarrow> (int \<times> int \<times> reader) option"

text \<open>The hash and the size of the item that was stored; \<open>None\<close> inside is a failure.\<close>

definition fetchItem :: "'s cacheOps \<Rightarrow> webClient \<Rightarrow> ctx \<Rightarrow> string \<Rightarrow> string \<Rightarrow> 's \<Rightarrow>
    ((string \<times> int) option \<times> 's) option" where
  "fetchItem ops wc c uri expectedHash st =
     (case wcScheme wc uri of
        None \<Rightarrow> Some (None, st)
      | Some scheme \<Rightarrow>
          if scheme \<noteq> ''http'' \<and> scheme \<noteq> ''https'' then Some (None, st)
          else
            (case wcGet wc uri of
               None \<Rightarrow> Some (None, st)
             | Some (status, contentLength, body) \<Rightarrow>
                 if status < 200 \<or> status \<ge> 300 then Some (None, st)
                 else
                   (case (if expectedHash = [] \<or> contentLength < 0 then
                            (case readAll body of
                               None \<Rightarrow> None
                             | Some dat \<Rightarrow>
                                 let hashStr = hexEncode (sha256 dat)
                                 in if expectedHash \<noteq> [] \<and> hashStr \<noteq> expectedHash then None
                                    else Some (hashStr, blen dat, bytes_reader dat))
                          else Some (expectedHash, contentLength, body)) of
                      None \<Rightarrow> Some (None, st)
                    | Some (hash, n, rc) \<Rightarrow>
                        (case coPut ops c CAS hash n rc st of
                           None \<Rightarrow> None
                         | Some (Some e, st) \<Rightarrow> Some (None, st)
                         | Some (None, st) \<Rightarrow> Some (Some (hash, n), st)))))"

fun fetchUris :: "'s cacheOps \<Rightarrow> webClient \<Rightarrow> ctx \<Rightarrow> string list \<Rightarrow> string \<Rightarrow> 's \<Rightarrow>
    ((string \<times> string \<times> int) option \<times> 's) option" where
  "fetchUris ops wc c [] expectedHash st = Some (None, st)"
| "fetchUris ops wc c (uri # uris) expectedHash st =
     (case fetchItem ops wc c uri expectedHash st of
        None \<Rightarrow> None
      | Some (Some (hash, n), st) \<Rightarrow> Some (Some (uri, hash, n), st)
      | Some (None, st) \<Rightarrow> fetchUris ops wc c uris expectedHash st)"

section \<open>FetchBlob\<close>

record assetQualifier =
  aqName :: string
  aqValue :: string

text \<open>
  A response: a status code with the digest, and the URI when the blob was downloaded. A nil qualifier
  is answered with a status inside a response, a nil request with an error.
\<close>

datatype fetchResponse =
    FetchOK digest "string option"
  | FetchNotFound
  | FetchInvalid
  | FetchError grpc_code

text \<open>The size of a blob whose existence is known: the cache's, or that of a read.\<close>

definition knownSize :: "'s cacheOps \<Rightarrow> ctx \<Rightarrow> string \<Rightarrow> int \<Rightarrow> 's \<Rightarrow> (int option \<times> 's) option" where
  "knownSize ops c hash n st =
     (if n \<ge> 0 then Some (Some n, st)
      else
        (case coGet ops c CAS hash (- 1) 0 st of
           None \<Rightarrow> None
         | Some (Found r k, st) \<Rightarrow> Some (if k < 0 then None else Some k, st)
         | Some (NotFound, st) \<Rightarrow> Some (None, st)
         | Some (GotError e, st) \<Rightarrow> Some (None, st)))"

text \<open>The loop over the qualifiers: a response, or the hash of the last usable checksum.\<close>

fun lookupQualifiers :: "'s cacheOps \<Rightarrow> ctx \<Rightarrow> assetQualifier option list \<Rightarrow> string \<Rightarrow> 's \<Rightarrow>
    ((fetchResponse + string) \<times> 's) option" where
  "lookupQualifiers ops c [] sha st = Some (Inr sha, st)"
| "lookupQualifiers ops c (None # qs) sha st = Some (Inl FetchInvalid, st)"
| "lookupQualifiers ops c (Some q # qs) sha st =
     (if aqName q = ''checksum.sri'' \<and> hasPrefix (aqValue q) ''sha256-'' then
        (case base64Decode (trimPrefix (aqValue q) ''sha256-'') of
           None \<Rightarrow> lookupQualifiers ops c qs sha st
         | Some decoded \<Rightarrow>
             (let hash = hexEncode (string_bytes decoded) in
              case coContains ops c CAS hash (- 1) st of
                ((False, _), st) \<Rightarrow> lookupQualifiers ops c qs hash st
              | ((True, n), st) \<Rightarrow>
                  (case knownSize ops c hash n st of
                     None \<Rightarrow> None
                   | Some (None, st) \<Rightarrow> lookupQualifiers ops c qs hash st
                   | Some (Some k, st) \<Rightarrow> Some (Inl (FetchOK \<lparr>dHash = hash, dSizeBytes = k\<rparr> None), st))))
      else lookupQualifiers ops c qs sha st)"

record fetchBlobRequest =
  fbUris :: "string list"
  fbQualifiers :: "assetQualifier option list"

definition FetchBlob :: "'s cacheOps \<Rightarrow> webClient \<Rightarrow> ctx \<Rightarrow> fetchBlobRequest option \<Rightarrow> 's \<Rightarrow> (fetchResponse \<times> 's) option" where
  "FetchBlob ops wc c req st =
     (case req of
        None \<Rightarrow> Some (FetchError codeInvalidArgument, st)
      | Some req \<Rightarrow>
          (case lookupQualifiers ops c (fbQualifiers req) [] st of
             None \<Rightarrow> None
           | Some (Inl resp, st) \<Rightarrow> Some (resp, st)
           | Some (Inr sha, st) \<Rightarrow>
               (case fetchUris ops wc c (fbUris req) sha st of
                  None \<Rightarrow> None
                | Some (None, st) \<Rightarrow> Some (FetchNotFound, st)
                | Some (Some (uri, hash, n), st) \<Rightarrow>
                    Some (FetchOK \<lparr>dHash = hash, dSizeBytes = n\<rparr> (Some uri), st))))"

section \<open>What a download guarantees\<close>

lemma fetchItem_Some:
  assumes "fetchItem ops wc c uri expected st = Some (Some (hash, n), st')"
  shows "\<exists>scheme status len body r. wcScheme wc uri = Some scheme \<and> scheme \<in> {''http'', ''https''} \<and>
    wcGet wc uri = Some (status, len, body) \<and> 200 \<le> status \<and> status < 300 \<and>
    rdata r = rdata body \<and> coPut ops c CAS hash n r st = Some (None, st') \<and>
    (expected \<noteq> [] \<longrightarrow> hash = expected) \<and>
    (r = body \<and> n = len \<and> 0 \<le> len \<or> hash = hexEncode (sha256 (rdata body)) \<and> n = blen (rdata body) \<and> \<not> rfails body)"
proof -
  obtain scheme status len body where g: "wcScheme wc uri = Some scheme" "scheme \<in> {''http'', ''https''}"
      "wcGet wc uri = Some (status, len, body)" "200 \<le> status" "status < 300"
    using assms by (auto simp: fetchItem_def split: option.splits if_splits prod.splits)
  show ?thesis
  proof (cases "expected = [] \<or> len < 0")
    case True
    then have "readAll body = Some (rdata body)" "\<not> rfails body"
      using assms g by (auto simp: fetchItem_def readAll_def split: option.splits if_splits)
    moreover have "coPut ops c CAS hash n (bytes_reader (rdata body)) st = Some (None, st')"
        "hash = hexEncode (sha256 (rdata body))" "n = blen (rdata body)" "expected \<noteq> [] \<longrightarrow> hash = expected"
      using assms g True calculation(1)
      by (auto simp: fetchItem_def Let_def split: option.splits if_splits)
    ultimately show ?thesis using g by (intro exI [of _ "bytes_reader (rdata body)"] exI conjI) (auto simp: bytes_reader_def)
  next
    case False
    then have "coPut ops c CAS hash n body st = Some (None, st')" "hash = expected" "n = len" "0 \<le> len"
      using assms g by (auto simp: fetchItem_def split: option.splits)
    then show ?thesis using g by blast
  qed
qed

end
