(* ===== verification/Asset_Props.thy ===== *)
theory Asset_Props
  imports Asset Disk_Props Sha256_Vector
begin

text \<open>
  The remote asset service: what is reported as downloaded is what the web delivered, under its own digest, as
  long as the disk cache compresses and so verifies what it stores.
\<close>

section \<open>What a successful write has read\<close>

lemma Put_cas_content:
  assumes put: "Put cfg os c CAS hash n r st = Some (None, st')" and g: "goodUpload cfg CAS r n"
    and mode: "cStorageMode cfg \<noteq> Identity" and ne: "\<not> (n = 0 \<and> hash = emptySha256)"
  shows "hash = hexEncode (sha256 (rdata r)) \<and> blen (rdata r) = n"
proof -
  have n: "0 \<le> n" using put by (auto simp: Put_def split: if_splits)
  obtain st2 where p: "putBody cfg os c CAS hash n r None st = Some (None, st2)"
    using put ne by (auto simp: Put_def captureAC_def split: if_splits option.splits)
  obtain st1 where r: "putReserve cfg n st = (None, st1)"
    using p by (auto simp: putBody_def putFinish_def noCleanup_def cleanupReservation_def split: prod.splits option.splits)
  obtain x cu st3 where w: "putWrite cfg os c CAS hash n r st1 = (x, cu, st3)" by (metis prod_cases3)
  obtain b random k where "x = Inr (b, random, k)"
    using p r w putWrite_Inl
    by (cases x) (auto simp: putBody_def putFinish_def cleanupReservation_def split: prod.splits option.splits if_splits)
  then obtain bs where "writeAndCloseFile cfg os r CAS hash n = (Inr k, bs)"
    using w by (auto simp: putWrite_def Let_def split: if_splits prod.splits option.splits sum.splits)
  from writeAndCloseFile_Inr [OF this g n] show ?thesis using mode by simp
qed

section \<open>The checksum that a request asks for\<close>

text \<open>The last checksum of a request that decodes, empty when there is none.\<close>

fun wantedHash :: "assetQualifier option list \<Rightarrow> string \<Rightarrow> string" where
  "wantedHash [] sha = sha"
| "wantedHash (None # qs) sha = wantedHash qs sha"
| "wantedHash (Some q # qs) sha =
     wantedHash qs
       (if aqName q = ''checksum.sri'' \<and> hasPrefix (aqValue q) ''sha256-'' then
          (case base64Decode (trimPrefix (aqValue q) ''sha256-'') of
             None \<Rightarrow> sha
           | Some decoded \<Rightarrow> hexEncode (string_bytes decoded))
        else sha)"

lemma lookupQualifiers_Inr: "lookupQualifiers ops c qs sha st = Some (Inr h, st') \<Longrightarrow> h = wantedHash qs sha"
  by (induction ops c qs sha st rule: lookupQualifiers.induct)
    (auto simp: Let_def split: if_splits option.splits prod.splits bool.splits)

lemma lookupQualifiers_no_uri: "lookupQualifiers ops c qs sha st = Some (Inl (FetchOK d u), st') \<Longrightarrow> u = None"
  by (induction ops c qs sha st rule: lookupQualifiers.induct)
    (auto simp: Let_def split: if_splits option.splits prod.splits bool.splits)

lemma fetchUris_Some:
  assumes "fetchUris ops wc c uris expected st = Some (Some (uri, hash, n), st')"
  shows "uri \<in> set uris \<and> (\<exists>st1. fetchItem ops wc c uri expected st1 = Some (Some (hash, n), st'))"
  using assms by (induction ops wc c uris expected st rule: fetchUris.induct) (auto split: option.splits prod.splits)

text \<open>
  Property C26. Downloads are verified when the disk cache compresses: if \<open>FetchBlob\<close> answers that it
  fetched a blob from a URI, the URI is one of the request's, the web server answered it with success,
  and the reported digest is the SHA-256 hash and the length of the body of that answer; and if the request
  had a checksum that decodes, the hash is the (last) one it asked for. The web client is
  supposed to deliver no more than the announced length, and bodies to be small enough for a file.
\<close>

theorem fetched_blob_verified:
  assumes "FetchBlob (diskOps cfg os env fm vac) wc c (Some req) st = Some (FetchOK d (Some uri), st')"
    and mode: "cStorageMode cfg \<noteq> Identity"
    and web: "\<And>uri status len body. wcGet wc uri = Some (status, len, body) \<Longrightarrow> 0 \<le> len \<Longrightarrow> blen (rdata body) \<le> len"
    and good: "\<And>uri status len body n. wcGet wc uri = Some (status, len, body) \<Longrightarrow> n \<in> {len, blen (rdata body)} \<Longrightarrow> goodUpload cfg CAS body n"
  shows "uri \<in> set (fbUris req) \<and>
    (\<exists>status len body. wcGet wc uri = Some (status, len, body) \<and> 200 \<le> status \<and> status < 300 \<and>
       dHash d = hexEncode (sha256 (rdata body)) \<and> dSizeBytes d = blen (rdata body)) \<and>
    (wantedHash (fbQualifiers req) [] = [] \<or> dHash d = wantedHash (fbQualifiers req) [])"
proof -
  let ?ops = "diskOps cfg os env fm vac"
  obtain sha st1 hash n where l: "lookupQualifiers ?ops c (fbQualifiers req) [] st = Some (Inr sha, st1)"
      "fetchUris ?ops wc c (fbUris req) sha st1 = Some (Some (uri, hash, n), st')"
      "d = \<lparr>dHash = hash, dSizeBytes = n\<rparr>"
    using assms(1) by (auto simp: FetchBlob_def dest: lookupQualifiers_no_uri split: option.splits sum.splits prod.splits)
  obtain st2 where u: "uri \<in> set (fbUris req)" "fetchItem ?ops wc c uri sha st2 = Some (Some (hash, n), st')"
    using fetchUris_Some [OF l(2)] by blast
  obtain status len body r where f: "wcGet wc uri = Some (status, len, body)" "200 \<le> status" "status < 300"
      "rdata r = rdata body" "Put cfg os c CAS hash n r st2 = Some (None, st')" "sha \<noteq> [] \<longrightarrow> hash = sha"
      "r = body \<and> n = len \<and> 0 \<le> len \<or> hash = hexEncode (sha256 (rdata body)) \<and> n = blen (rdata body)"
    using fetchItem_Some [OF u(2)] by auto
  have "hash = hexEncode (sha256 (rdata body)) \<and> n = blen (rdata body)"
  proof (cases "n = 0 \<and> hash = emptySha256")
    case True
    then have "rdata body = []" using f(7) web [OF f(1)] by (auto simp: blen_def)
    then show ?thesis using True emptySha256_correct by (simp add: blen_def)
  next
    case False
    have "goodUpload cfg CAS r n" using good [OF f(1), of n] f(4,7) by (auto simp: goodUpload_def)
    then show ?thesis using Put_cas_content [OF f(5) _ mode False] f(4) by simp
  qed
  then show ?thesis using u(1) f(1-3,6) l(3) lookupQualifiers_Inr [OF l(1)] by auto
qed

definition demoWeb :: webClient where
  "demoWeb =
     \<lparr>wcScheme = \<lambda>_. Some ''https'',
      wcGet = \<lambda>u. if u = ''https://a/x'' then Some (200, 3, bytes_reader [1, 2, 3]) else None\<rparr>"

theorem fetched_blob_verified_witness:
  "\<forall>fm vac. \<exists>d st'. FetchBlob (diskOps (demoConfig Zstandard) noFaults id fm vac) demoWeb emptyCtx
      (Some \<lparr>fbUris = [''https://a/y'', ''https://a/x''], fbQualifiers = []\<rparr>) (demoState 100000) =
        Some (FetchOK d (Some ''https://a/x''), st') \<and>
    dHash d = hexEncode (sha256 [1, 2, 3])"
proof (intro allI)
  fix fm vac
  let ?ops = "diskOps (demoConfig Zstandard) noFaults id fm vac"
    and ?req = "\<lparr>fbUris = [''https://a/y'', ''https://a/x''], fbQualifiers = []\<rparr>"
  have ne: "''https://a/y'' \<noteq> ''https://a/x''" by simp
  obtain st' where p: "Put (demoConfig Zstandard) noFaults emptyCtx CAS toyHash 3 (bytes_reader [1, 2, 3]) (demoState 100000) =
      Some (None, st')"
    using demo_stored_zstd by blast
  have f: "FetchBlob ?ops demoWeb emptyCtx (Some ?req) (demoState 100000) =
      Some (FetchOK \<lparr>dHash = toyHash, dSizeBytes = 3\<rparr> (Some ''https://a/x''), st')"
    using p by (simp add: FetchBlob_def fetchItem_def demoWeb_def readAll_def bytes_reader_def Let_def blen_def)
  have web: "body = bytes_reader [1, 2, 3] \<and> len = 3" if "wcGet demoWeb uri = Some (status, len, body)" for uri status len body
    using that by (auto simp: demoWeb_def split: if_splits)
  have good: "goodUpload (demoConfig Zstandard) CAS body n"
    if "wcGet demoWeb uri = Some (status, len, body)" "n \<in> {len, blen (rdata body)}" for uri status len body n
    using web [OF that(1)] that(2) demo_good_zstd by (auto simp: bytes_reader_def blen_def)
  have short: "blen (rdata body) \<le> len" if "wcGet demoWeb uri = Some (status, len, body)" for uri status len body
    using web [OF that] by (simp add: bytes_reader_def blen_def)
  have "''https://a/x'' \<in> set (fbUris ?req) \<and>
      (\<exists>status len body. wcGet demoWeb ''https://a/x'' = Some (status, len, body) \<and> 200 \<le> status \<and> status < 300 \<and>
         dHash \<lparr>dHash = toyHash, dSizeBytes = 3\<rparr> = hexEncode (sha256 (rdata body)) \<and>
         dSizeBytes \<lparr>dHash = toyHash, dSizeBytes = 3\<rparr> = blen (rdata body)) \<and>
      (wantedHash (fbQualifiers ?req) [] = [] \<or> dHash \<lparr>dHash = toyHash, dSizeBytes = 3\<rparr> = wantedHash (fbQualifiers ?req) [])"
    by (rule fetched_blob_verified [OF f _ short good]) (simp_all add: Zstandard_def Identity_def)
  then obtain body where "dHash \<lparr>dHash = toyHash, dSizeBytes = 3\<rparr> = hexEncode (sha256 (rdata body))" "body = bytes_reader [1, 2, 3]"
    using web by blast
  then show "\<exists>d st'. FetchBlob ?ops demoWeb emptyCtx (Some ?req) (demoState 100000) = Some (FetchOK d (Some ''https://a/x''), st') \<and>
      dHash d = hexEncode (sha256 [1, 2, 3])"
    using f by (intro exI conjI) (auto simp: bytes_reader_def)
qed

end
