(* ===== verification/GrpcProxy.thy ===== *)
theory GrpcProxy
  imports ByteStream Asset Proxies
begin

text \<open>
  \<open>cache/grpcproxy\<close>: another gRPC cache as the backend, and the capabilities of \<open>server/grpc.go\<close> that
  it is asked for. The network and the other server are arguments: what its calls return.
\<close>

section \<open>Capabilities\<close>

record serverCapabilities =
  scapDigestFunctions :: "int list"
  scapUpdateEnabled :: bool
  scapPriorities :: "(int \<times> int) list"
  scapMaxBatchTotalSizeBytes :: int
  scapSymlinkAbsolutePathStrategy :: int
  scapSupportedCompressors :: "int list"
  scapSupportedBatchUpdateCompressors :: "int list"
  scapLowApiVersion :: "int \<times> int"
  scapHighApiVersion :: "int \<times> int"

definition DigestFunction_SHA256 :: int where "DigestFunction_SHA256 = 1"
definition SymlinkAbsolutePathStrategy_ALLOWED :: int where "SymlinkAbsolutePathStrategy_ALLOWED = 2"

definition GetCapabilities :: serverCapabilities where
  "GetCapabilities =
     \<lparr>scapDigestFunctions = [DigestFunction_SHA256], scapUpdateEnabled = True, scapPriorities = [(0, 0)],
      scapMaxBatchTotalSizeBytes = 0, scapSymlinkAbsolutePathStrategy = SymlinkAbsolutePathStrategy_ALLOWED,
      scapSupportedCompressors = [1], scapSupportedBatchUpdateCompressors = [1],
      scapLowApiVersion = (2, 0), scapHighApiVersion = (2, 3)\<rparr>"

fun sliceContains :: "'a list \<Rightarrow> 'a \<Rightarrow> bool" where
  "sliceContains [] v = False"
| "sliceContains (x # xs) v = (if x = v then True else sliceContains xs v)"

definition CheckCapabilities :: "bool \<Rightarrow> string + serverCapabilities \<Rightarrow> string option" where
  "CheckCapabilities useZstd resp =
     (case resp of
        Inl e \<Rightarrow> Some e
      | Inr r \<Rightarrow>
          if \<not> scapUpdateEnabled r then Some ''Proxy backend does not allow action cache updates''
          else if \<not> sliceContains (scapDigestFunctions r) DigestFunction_SHA256 then
            Some ''Proxy backend does not support sha256''
          else if useZstd \<and> \<not> sliceContains (scapSupportedCompressors r) 1 then
            Some ''Compression required but the grpc proxy does not support it.''
          else None)"

section \<open>Streams as readers\<close>

text \<open>
  \<open>StreamReadCloser\<close>: the buffer (nil or a slice), the messages that \<open>Recv\<close> will deliver, and how the
  stream ends: with an error, or at its end, where \<open>CloseSend\<close> may fail.
\<close>

record streamReader =
  srBuf :: "bytes option"
  srMsgs :: "bytes list"
  srFails :: bool
  srCloseFails :: bool

definition readFromBuf :: "nat \<Rightarrow> bytes \<Rightarrow> bytes \<times> bytes option" where
  "readFromBuf k buf = (take k buf, if length buf \<le> k then None else Some (drop k buf))"

datatype read_end = ReadOk | ReadEOF | ReadErr

text \<open>
  \<open>Read\<close> into a slice of length \<open>k\<close>: the number it returns (-1 with an error), the bytes that it put
  into the slice, and the error.
\<close>

definition streamRead :: "nat \<Rightarrow> streamReader \<Rightarrow> (int \<times> bytes \<times> read_end) \<times> streamReader" where
  "streamRead k s =
     (let (out, buf) = (case srBuf s of None \<Rightarrow> ([], None) | Some b \<Rightarrow> readFromBuf k b)
      in if length out = k then ((blen out, out, ReadOk), s\<lparr>srBuf := buf\<rparr>)
         else
           (case srMsgs s of
              m # ms \<Rightarrow>
                let (more, buf) = readFromBuf (k - length out) m
                in ((blen out + blen more, out @ more, ReadOk), s\<lparr>srBuf := buf, srMsgs := ms\<rparr>)
            | [] \<Rightarrow>
                if srFails s \<or> srCloseFails s then ((- 1, out, ReadErr), s\<lparr>srBuf := buf\<rparr>)
                else ((blen out, out, ReadEOF), s\<lparr>srBuf := None\<rparr>)))"

definition srPending :: "streamReader \<Rightarrow> nat" where
  "srPending s = length (srMsgs s) + (case srBuf s of None \<Rightarrow> 0 | Some b \<Rightarrow> length b) + length (concat (srMsgs s))"

lemma streamRead_pending:
  assumes "streamRead k s = ((n, out, ReadOk), s')" "0 < k"
  shows "srPending s' < srPending s"
  using assms
  by (cases "srBuf s"; cases "srMsgs s")
    (auto simp: streamRead_def readFromBuf_def srPending_def Let_def split: if_splits prod.splits)

text \<open>\<open>io.Copy\<close> from a stream with a buffer of \<open>k + 1\<close> bytes: the bytes written, and whether it failed.\<close>

function ioCopy :: "nat \<Rightarrow> streamReader \<Rightarrow> bytes \<times> bool" where
  "ioCopy k s =
     (case streamRead (Suc k) s of
        ((n, out, ReadOk), s') \<Rightarrow> (let (rest, failed) = ioCopy k s' in (take (nat n) out @ rest, failed))
      | ((n, out, ReadEOF), s') \<Rightarrow> (take (nat n) out, False)
      | ((n, out, ReadErr), s') \<Rightarrow> (take (nat n) out, True))"
  by pat_completeness auto
termination
  by (relation "measure (\<lambda>(k, s). srPending s)") (auto dest: streamRead_pending [OF sym])

declare ioCopy.simps [simp del]

text \<open>The stream as the reader that the disk cache copies.\<close>

definition readerOf :: "streamReader \<Rightarrow> reader" where
  "readerOf s =
     \<lparr>rdata = (case srBuf s of None \<Rightarrow> [] | Some b \<Rightarrow> b) @ concat (srMsgs s), rfails = (srFails s \<or> srCloseFails s)\<rparr>"

section \<open>The backend\<close>

text \<open>
  The calls to the other server on its state. A write is the stream of its messages, and it may never be
  answered; a read gives the messages and the final status.
\<close>

record 'o grpcClients =
  gcWrite :: "recv list \<Rightarrow> 'o \<Rightarrow> (write_answer \<times> 'o) option"
  gcRead :: "readRequest \<Rightarrow> 'o \<Rightarrow> bytes list \<times> grpc_code option"
  gcUpdateAR :: "digest \<Rightarrow> actionResult \<Rightarrow> 'o \<Rightarrow> 'o"
  gcGetAR :: "digest \<Rightarrow> 'o \<Rightarrow> grpc_code + actionResult"
  gcFetchBlob :: "fetchBlobRequest \<Rightarrow> 'o \<Rightarrow> fetchResponse"
  gcFindMissing :: "digest list \<Rightarrow> 'o \<Rightarrow> grpc_code + digest list"

text \<open>The backend's own settings, with the codec of action results and how files are read in parts.\<close>

record grpcProxyCache =
  gpV2mode :: bool
  gpUnmarshal :: "bytes \<Rightarrow> actionResult option"
  gpMarshal :: "actionResult \<Rightarrow> bytes option"
  gpReads :: "int \<Rightarrow> bytes \<Rightarrow> bytes list"
  gpUuid :: string

text \<open>\<open>New\<close> and \<open>Put\<close>, with a fresh id for the upload names and the codec as arguments.\<close>

definition newGrpcProxy :: "(bytes \<Rightarrow> actionResult option) \<Rightarrow> (actionResult \<Rightarrow> bytes option) \<Rightarrow> (int \<Rightarrow> bytes \<Rightarrow> bytes list) \<Rightarrow>
    string \<Rightarrow> string \<Rightarrow> int \<Rightarrow> int \<Rightarrow> grpcProxyCache \<times> uploadQueue option" where
  "newGrpcProxy unm mar reads uuid storageMode numUploaders maxQueuedUploads =
     (\<lparr>gpV2mode = (storageMode = ''zstd''), gpUnmarshal = unm, gpMarshal = mar, gpReads = reads, gpUuid = uuid\<rparr>,
      StartUploaders numUploaders maxQueuedUploads)"

definition grpcPut :: "proxyPut \<Rightarrow> uploadQueue option \<Rightarrow> bool \<times> uploadQueue option" where
  "grpcPut p q =
     enqueue \<lparr>urHash = ppHash p, urLogicalSize = ppLogicalSize p, urSizeOnDisk = ppSizeOnDisk p,
              urKind = ppKind p, urData = ppData p, urStoragePrefix = [],
              urRequestScopedStoragePrefix = False, urRequireStoragePrefix = False\<rparr> q"

definition uploadName :: "grpcProxyCache \<Rightarrow> string \<Rightarrow> int \<Rightarrow> string" where
  "uploadName g hash n =
     (if gpV2mode g then ''uploads/'' @ gpUuid g @ ''/compressed-blobs/zstd/'' @ hash @ ''/'' @ show_int n
      else ''uploads/'' @ gpUuid g @ ''/blobs/'' @ hash @ ''/'' @ show_int n)"

definition downloadName :: "grpcProxyCache \<Rightarrow> string \<Rightarrow> int \<Rightarrow> string" where
  "downloadName g hash n =
     (if gpV2mode g then ''compressed-blobs/zstd/'' @ hash @ ''/'' @ show_int n
      else ''blobs/'' @ hash @ ''/'' @ show_int n)"

text \<open>Only the first message has the resource name, none has \<open>finish_write\<close>.\<close>

fun uploadMessages :: "string \<Rightarrow> bytes list \<Rightarrow> recv list" where
  "uploadMessages rn [] = []"
| "uploadMessages rn (d # ds) =
     RecvReq \<lparr>wrResourceName = rn, wrWriteOffset = 0, wrData = d, wrFinishWrite = False\<rparr> # uploadMessages [] ds"

text \<open>
  A worker's upload of a file that reads without errors: the other server afterwards, or \<open>None\<close> when it
  does not answer. An action result is read up to the announced size and decoded again.
\<close>

definition grpcUploadFile :: "grpcProxyCache \<Rightarrow> 'o grpcClients \<Rightarrow> uploadReq \<Rightarrow> 'o \<Rightarrow> 'o option" where
  "grpcUploadFile g cl item o1 =
     (if urKind item = CAS then
        (let bufSize = (if urSizeOnDisk item > maxChunkSize then maxChunkSize else urSizeOnDisk item);
             msgs = uploadMessages (uploadName g (urHash item) (urLogicalSize item)) (gpReads g bufSize (urData item))
         in map_option snd (gcWrite cl msgs o1))
      else if blen (urData item) < urSizeOnDisk item then Some o1
      else
        (case gpUnmarshal g (take (nat (urSizeOnDisk item)) (urData item)) of
           None \<Rightarrow> Some o1
         | Some ar \<Rightarrow> Some (gcUpdateAR cl \<lparr>dHash = urHash item, dSizeBytes = urLogicalSize item\<rparr> ar o1)))"

text \<open>\<open>hex.DecodeString\<close>.\<close>

definition unhexDigit :: "char \<Rightarrow> nat option" where
  "unhexDigit x =
     (let n = of_char x :: nat in
      if 48 \<le> n \<and> n \<le> 57 then Some (n - 48)
      else if 97 \<le> n \<and> n \<le> 102 then Some (n - 87)
      else if 65 \<le> n \<and> n \<le> 70 then Some (n - 55)
      else None)"

fun hexDecode :: "string \<Rightarrow> bytes option" where
  "hexDecode [] = Some []"
| "hexDecode [x] = None"
| "hexDecode (x # y # s) =
     (case (unhexDigit x, unhexDigit y) of
        (Some i, Some j) \<Rightarrow> map_option (Cons (of_nat (16 * i + j))) (hexDecode s)
      | _ \<Rightarrow> None)"

definition fetchBlobDigest :: "'o grpcClients \<Rightarrow> string \<Rightarrow> 'o \<Rightarrow> string + digest" where
  "fetchBlobDigest cl hash o1 =
     (case hexDecode hash of
        None \<Rightarrow> Inl ''hex''
      | Some decoded \<Rightarrow>
          (case gcFetchBlob cl
                  \<lparr>fbUris = [], fbQualifiers = [Some \<lparr>aqName = ''checksum.sri'',
                     aqValue = ''sha256-'' @ base64Encode (map (\<lambda>b. char_of (unat b)) decoded)\<rparr>]\<rparr> o1 of
             FetchOK d uri \<Rightarrow> Inr d
           | FetchNotFound \<Rightarrow> Inl ''Not Found''
           | FetchInvalid \<Rightarrow> Inl ''unexpected nil qualifier in FetchBlobRequest''
           | FetchError e \<Rightarrow> Inl ''FetchBlob''))"

definition grpcGet :: "grpcProxyCache \<Rightarrow> 'o grpcClients \<Rightarrow> 'o \<Rightarrow> ctx \<Rightarrow> EntryKind \<Rightarrow> string \<Rightarrow> int \<Rightarrow>
    reader option \<times> int \<times> string option" where
  "grpcGet g cl o1 c kind hash n =
     (if kind = CAS then
        (case (if n < 0 then map_sum id dSizeBytes (fetchBlobDigest cl hash o1) else Inr n) of
           Inl e \<Rightarrow> (None, - 1, Some e)
         | Inr n \<Rightarrow>
             (case gcRead cl \<lparr>rrResourceName = downloadName g hash n, rrReadOffset = 0, rrReadLimit = 0\<rparr> o1 of
                (msgs, status) \<Rightarrow>
                  (Some (readerOf \<lparr>srBuf = None, srMsgs = msgs, srFails = (status \<noteq> None), srCloseFails = False\<rparr>), n, None)))
      else
        (case gcGetAR cl \<lparr>dHash = hash, dSizeBytes = - 1\<rparr> o1 of
           Inl e \<Rightarrow> if e = codeNotFound then (None, - 1, None) else (None, - 1, Some ''GetActionResult'')
         | Inr ar \<Rightarrow>
             (case gpMarshal g ar of
                None \<Rightarrow> (None, - 1, Some ''Marshal'')
              | Some dat \<Rightarrow> (Some (bytes_reader dat), blen dat, None))))"

text \<open>\<open>None\<close>: closing the nil reader of a \<open>Get\<close> without a result panics.\<close>

definition grpcContains :: "grpcProxyCache \<Rightarrow> 'o grpcClients \<Rightarrow> 'o \<Rightarrow> ctx \<Rightarrow> EntryKind \<Rightarrow> string \<Rightarrow> int \<Rightarrow>
    (bool \<times> int) option" where
  "grpcContains g cl o1 c kind hash n =
     (if kind = CAS then
        (if n < 0 then
           (case fetchBlobDigest cl hash o1 of
              Inl e \<Rightarrow> Some (False, - 1)
            | Inr d \<Rightarrow> Some (True, dSizeBytes d))
         else
           (case gcFindMissing cl [\<lparr>dHash = hash, dSizeBytes = n\<rparr>] o1 of
              Inl e \<Rightarrow> Some (False, - 1)
            | Inr missing \<Rightarrow> Some (if missing \<noteq> [] then (False, - 1) else (True, n))))
      else
        (case grpcGet g cl o1 c kind hash n of
           (None, _, _) \<Rightarrow> None
         | (Some rc, n, err) \<Rightarrow> Some (if err \<noteq> None \<or> n < 0 then (False, - 1) else (True, n))))"

text \<open>As the backend of a disk cache; a panic ends the request, which then has no answer.\<close>

definition grpcProxy :: "grpcProxyCache \<Rightarrow> 'o grpcClients \<Rightarrow> 'o \<Rightarrow> proxy" where
  "grpcProxy g cl o1 =
     \<lparr>proxyGet = grpcGet g cl o1,
      proxyContains = (\<lambda>c kind hash n. the (grpcContains g cl o1 c kind hash n))\<rparr>"

end
