(* ===== verification/AzBlob.thy ===== *)
theory AzBlob
  imports Proxies
begin

text \<open>
  The Azure backend of \<open>cache/azblobproxy/azblobproxy.go\<close>. The client library is an argument: what the
  calls for a blob return on a state of the container.
\<close>

record azBlobCache =
  azPrefix :: string
  azV2mode :: bool
  azUpdateTimestamps :: bool

text \<open>
  \<open>aoClient\<close>: the client for a key, which may be refused with an error. A download finds no blob
  (\<open>BlobNotFound\<close>), fails otherwise, or delivers a body with a content length, which may be missing.
\<close>

datatype az_error = BlobNotFound | StorageError string

record 'o azOps =
  aoClient :: "string \<Rightarrow> string option"
  aoDownload :: "string \<Rightarrow> 'o \<Rightarrow> az_error + reader \<times> int option"
  aoProperties :: "string \<Rightarrow> 'o \<Rightarrow> int option option"
  aoUpload :: "string \<Rightarrow> bytes \<Rightarrow> 'o \<Rightarrow> 'o"
  aoSetMetadata :: "string \<Rightarrow> 'o \<Rightarrow> 'o"

definition azObjectKeyV2 :: "string \<Rightarrow> string \<Rightarrow> EntryKind \<Rightarrow> string" where
  "azObjectKeyV2 pre hash kind =
     (let baseKey = (if kind = CAS then path_join [''cas.v2'', take 2 hash, hash]
                     else path_join [kindString kind, take 2 hash, hash])
      in if pre = [] then baseKey else path_join [pre, baseKey])"

definition azObjectKeyV1 :: "string \<Rightarrow> string \<Rightarrow> EntryKind \<Rightarrow> string" where
  "azObjectKeyV1 pre hash kind =
     (if pre = [] then path_join [kindString kind, take 2 hash, hash]
      else path_join [pre, kindString kind, take 2 hash, hash])"

definition azObjectKey :: "azBlobCache \<Rightarrow> string \<Rightarrow> EntryKind \<Rightarrow> string" where
  "azObjectKey a hash kind =
     (if azV2mode a then azObjectKeyV2 (azPrefix a) hash kind else azObjectKeyV1 (azPrefix a) hash kind)"

text \<open>The key of a request: \<open>objectKey\<close> has the prefix already, and it is put in front once more.\<close>

definition azKey :: "azBlobCache \<Rightarrow> string \<Rightarrow> EntryKind \<Rightarrow> string" where
  "azKey a hash kind =
     (let key = azObjectKey a hash kind in if azPrefix a \<noteq> [] then azPrefix a @ ''/'' @ key else key)"

definition azPut :: "proxyPut \<Rightarrow> uploadQueue option \<Rightarrow> bool \<times> uploadQueue option" where
  "azPut p q =
     enqueue \<lparr>urHash = ppHash p, urLogicalSize = ppLogicalSize p, urSizeOnDisk = ppSizeOnDisk p,
              urKind = ppKind p, urData = ppData p, urStoragePrefix = [],
              urRequestScopedStoragePrefix = False, urRequireStoragePrefix = False\<rparr> q"

text \<open>Without a client for the key the update goes on with a nil client, which panics: \<open>None\<close>.\<close>

definition azUpdateModificationTimestamp :: "'o azOps \<Rightarrow> string \<Rightarrow> 'o \<Rightarrow> 'o option" where
  "azUpdateModificationTimestamp ao key o1 =
     (case aoClient ao key of Some e \<Rightarrow> None | None \<Rightarrow> Some (aoSetMetadata ao key o1))"

text \<open>The answer, and the container after the update of the timestamp.\<close>

definition azGet :: "azBlobCache \<Rightarrow> 'o azOps \<Rightarrow> 'o \<Rightarrow> ctx \<Rightarrow> EntryKind \<Rightarrow> string \<Rightarrow> int \<Rightarrow>
    ((reader option \<times> int \<times> string option) \<times> 'o) option" where
  "azGet a ao o1 c kind hash _ =
     (let key = azKey a hash kind
      in case aoClient ao key of
           Some e \<Rightarrow> Some ((None, - 1, Some e), o1)
         | None \<Rightarrow>
             (case aoDownload ao key o1 of
                Inl BlobNotFound \<Rightarrow> Some ((None, - 1, None), o1)
              | Inl (StorageError e) \<Rightarrow> Some ((None, - 1, Some e), o1)
              | Inr (rc, contentLength) \<Rightarrow>
                  map_option (Pair
                     (if kind = CAS \<and> azV2mode a then
                        (case ExtractLogicalSize rc of
                           Inl e \<Rightarrow> (None, - 1, Some ''ExtractLogicalSize'')
                         | Inr (r, k) \<Rightarrow> (Some r, k, None))
                      else (Some rc, case contentLength of None \<Rightarrow> 0 | Some n \<Rightarrow> n, None)))
                    (if azUpdateTimestamps a then azUpdateModificationTimestamp ao key o1 else Some o1)))"

definition azContains :: "azBlobCache \<Rightarrow> 'o azOps \<Rightarrow> 'o \<Rightarrow> ctx \<Rightarrow> EntryKind \<Rightarrow> string \<Rightarrow> int \<Rightarrow> bool \<times> int" where
  "azContains a ao o1 c kind hash _ =
     (let key = azKey a hash kind
      in case aoClient ao key of
           Some e \<Rightarrow> (False, - 1)
         | None \<Rightarrow>
             (case aoProperties ao key o1 of
                None \<Rightarrow> (False, - 1)
              | Some contentLength \<Rightarrow>
                  (True, if kind \<noteq> CAS \<or> \<not> azV2mode a then (case contentLength of None \<Rightarrow> - 1 | Some n \<Rightarrow> n) else - 1)))"

definition azUploadFile :: "azBlobCache \<Rightarrow> 'o azOps \<Rightarrow> uploadReq \<Rightarrow> 'o \<Rightarrow> 'o" where
  "azUploadFile a ao item o1 =
     (let key = azKey a (urHash item) (urKind item)
      in case aoClient ao key of Some e \<Rightarrow> o1 | None \<Rightarrow> aoUpload ao key (urData item) o1)"

text \<open>
  \<open>New\<close>: \<open>None\<close> ends the program. \<open>shared\<close> and \<open>token\<close> say whether the library makes a service client
  with a shared key and with a credential (which may be nil), \<open>container\<close> whether it makes the client
  of the container.
\<close>

definition azNew :: "(string \<Rightarrow> string \<Rightarrow> bool) \<Rightarrow> (string \<Rightarrow> 'c option \<Rightarrow> bool) \<Rightarrow> (string \<Rightarrow> bool) \<Rightarrow> string \<Rightarrow> string \<Rightarrow>
    string \<Rightarrow> 'c option \<Rightarrow> string \<Rightarrow> bool \<Rightarrow> string \<Rightarrow> int \<Rightarrow> int \<Rightarrow> (azBlobCache \<times> uploadQueue option) option" where
  "azNew shared token container account name pre creds sharedKey upd storageMode numUploaders maxQueuedUploads =
     (let url = ''https://'' @ account @ ''.blob.core.windows.net/''
      in if \<not> (if creds = None \<and> sharedKey \<noteq> [] then shared url sharedKey else token url creds) then None
         else if \<not> container name then None
         else if storageMode \<noteq> ''zstd'' \<and> storageMode \<noteq> ''uncompressed'' then None
         else Some (\<lparr>azPrefix = pre, azV2mode = (storageMode = ''zstd''), azUpdateTimestamps = upd\<rparr>,
                    StartUploaders numUploaders maxQueuedUploads))"

text \<open>As the backend of a disk cache, for the answers that a request gets.\<close>

definition azProxy :: "azBlobCache \<Rightarrow> 'o azOps \<Rightarrow> 'o \<Rightarrow> proxy" where
  "azProxy a ao o1 =
     \<lparr>proxyGet = (\<lambda>c kind hash n. fst (the (azGet a ao o1 c kind hash n))), proxyContains = azContains a ao o1\<rparr>"

end
