(* ===== verification/AzBlob_Props.thy ===== *)
theory AzBlob_Props
  imports AzBlob Proxies_Props Key_Props
begin

text \<open>
  Storage prefixes in the backends: S3 keeps the objects of different prefixes, kinds and hashes
  apart; Azure does not look at the prefix of a request, so that a blob of one is served to the other.
\<close>

section \<open>Keys of S3\<close>

text \<open>A prefix as operators write it: clean path elements, with or without a slash at the end.\<close>

definition prefixOf :: "string list \<Rightarrow> string \<Rightarrow> bool" where
  "prefixOf ps p \<longleftrightarrow> list_all good_part ps \<and> (p = join_with CHR ''/'' ps \<or> ps \<noteq> [] \<and> p = join_with CHR ''/'' ps @ ''/'')"

definition kindDir :: "bool \<Rightarrow> EntryKind \<Rightarrow> string" where
  "kindDir v2 kind = (if v2 \<and> kind = CAS then ''cas.v2'' else kindString kind)"

lemma kindDir_good [simp]: "good_part (kindDir v2 kind)"
  by (cases kind) (simp_all add: kindDir_def good_part_def)

lemma kindDir_inj: "kindDir v2 k = kindDir v2 k' \<longleftrightarrow> k = k'"
  by (cases k; cases k') (simp_all add: kindDir_def)

lemma path_clean_slash:
  assumes "list_all good_part (ps @ qs)" "ps \<noteq> []" "qs \<noteq> []"
  shows "path_clean (join_with CHR ''/'' ps @ CHR ''/'' # CHR ''/'' # join_with CHR ''/'' qs) = join_with CHR ''/'' (ps @ qs)"
proof -
  let ?l = "ps @ [] # qs"
  have e: "join_with CHR ''/'' ps @ CHR ''/'' # CHR ''/'' # join_with CHR ''/'' qs = join_with CHR ''/'' ?l"
    using assms(2,3) by (cases qs) (simp_all add: join_with_append)
  have sp: "split_on CHR ''/'' (join_with CHR ''/'' ?l) = ?l"
    using assms by (intro split_join) (auto simp: list_all_iff good_part_def)
  obtain c cs where c: "join_with CHR ''/'' ps = c # cs" "c \<noteq> CHR ''/''"
    using assms(1,2) join_with_first [of "hd ps" "tl ps"] by (cases ps) auto
  then have np: "\<not> hasPrefix (join_with CHR ''/'' ?l) ''/''"
    unfolding e [symmetric] by (simp add: hasPrefix_def)
  have sk: "clean_parts False out (ps @ [] # qs) = rev out @ ps @ qs" for out
    using assms(1) clean_parts_good [of "ps @ qs" False]
    by (induction ps arbitrary: out) (auto simp: clean_parts_good good_part_def)
  have "join_with CHR ''/'' (ps @ qs) \<noteq> []"
    using assms(2,3) c by (simp add: join_with_append)
  then show ?thesis unfolding e path_clean_def Let_def sp using np sk [of "[]"] by simp
qed

lemma path_join_prefix:
  assumes "prefixOf ps p" "list_all good_part qs" "qs \<noteq> []" "p \<noteq> []"
  shows "path_join [p, join_with CHR ''/'' qs] = join_with CHR ''/'' (ps @ qs)"
proof -
  have ps: "ps \<noteq> []" "list_all good_part ps" using assms(1,4) by (auto simp: prefixOf_def)
  have "join_with CHR ''/'' qs \<noteq> []" using assms(2,3) join_with_first [of "hd qs" "tl qs"] by (cases qs) auto
  then show ?thesis
    using assms ps path_join_under [OF ps assms(2,3)] path_clean_slash [of ps qs]
    by (auto simp: prefixOf_def path_join_def)
qed

lemma objectKey_join:
  assumes "prefixOf ps p" "hex64 hash"
  shows "objectKeyForPrefix s p hash kind = join_with CHR ''/'' (ps @ [kindDir (s3V2mode s) kind, take 2 hash, hash])"
proof -
  have qs: "list_all good_part [kindDir (s3V2mode s) kind, take 2 hash, hash]"
    using hex_take2_good [OF assms(2)] hex64_good [OF assms(2)] by simp
  have b: "path_join [kindDir (s3V2mode s) kind, take 2 hash, hash] =
      join_with CHR ''/'' [kindDir (s3V2mode s) kind, take 2 hash, hash]"
    using path_join_good [OF _ qs] by simp
  have ks: "kindString kind \<noteq> []" "take 2 hash \<noteq> []" "hash \<noteq> []"
    using hex64_length [OF assms(2)] by (cases kind; auto)+
  have flat: "path_join [p, a, take 2 hash, hash] = path_join [p, join_with CHR ''/'' [a, take 2 hash, hash]]"
    if "p \<noteq> []" "a \<noteq> []" for a
    using that ks by (simp add: path_join_def)
  show ?thesis
  proof (cases "p = []")
    case True
    then have "ps = []"
      using assms(1) join_with_first [of "hd ps" "tl ps"] by (cases ps) (auto simp: prefixOf_def)
    then show ?thesis
      using True b by (cases "s3V2mode s") (auto simp: objectKeyForPrefix_def objectKeyV2_def objectKeyV1_def kindDir_def Let_def)
  next
    case False
    then show ?thesis
      using path_join_prefix [OF assms(1) qs _ False] b flat [OF False ks(1)]
      by (cases "s3V2mode s") (auto simp: objectKeyForPrefix_def objectKeyV2_def objectKeyV1_def kindDir_def Let_def)
  qed
qed

lemma join_with_inj:
  assumes "list_all good_part xs" "list_all good_part ys" "join_with CHR ''/'' xs = join_with CHR ''/'' ys"
    and "xs \<noteq> []" "ys \<noteq> []"
  shows "xs = ys"
proof -
  have "split_on CHR ''/'' (join_with CHR ''/'' zs) = zs" if "list_all good_part zs" "zs \<noteq> []" for zs
    using that by (intro split_join) (auto simp: list_all_iff good_part_def)
  then show ?thesis using assms by metis
qed

text \<open>
  Property C30. Tenants do not meet in the bucket: two requests use the same object of S3 exactly when
  they are for the same kind of entry, the same hash and the same storage prefix, in both storage
  modes, for prefixes of ordinary path elements with or without a slash at the end. So no element
  of a longer prefix can pass for a kind or a hash under a shorter one.
\<close>

theorem s3_keys_isolated:
  assumes "prefixOf ps (fst (prefixForContext s c kind))" "prefixOf ps' (fst (prefixForContext s c' kind'))"
    and "hex64 hash" "hex64 hash'"
  shows "objectKeyForContext s c hash kind = objectKeyForContext s c' hash' kind' \<longleftrightarrow>
    ps = ps' \<and> kind = kind' \<and> hash = hash'"
proof -
  let ?l = "ps @ [kindDir (s3V2mode s) kind, take 2 hash, hash]" and ?l' = "ps' @ [kindDir (s3V2mode s) kind', take 2 hash', hash']"
  have g: "list_all good_part ?l" "list_all good_part ?l'"
    using assms hex_take2_good hex64_good by (auto simp: prefixOf_def)
  have "join_with CHR ''/'' ?l = join_with CHR ''/'' ?l' \<longleftrightarrow> ?l = ?l'"
    using join_with_inj [OF g] by auto
  also have "\<dots> \<longleftrightarrow> ps = ps' \<and> kind = kind' \<and> hash = hash'" using kindDir_inj by auto
  finally show ?thesis
    unfolding objectKeyForContext_def objectKey_join [OF assms(1,3)] objectKey_join [OF assms(2,4)] .
qed

theorem s3_keys_isolated_witness:
  "objectKeyForContext demoS3 (WithStoragePrefix emptyCtx ''t/1/'') toyHash CAS \<noteq>
   objectKeyForContext demoS3 (WithStoragePrefix emptyCtx ''t'') toyHash CAS"
proof -
  have c: "fst (prefixForContext demoS3 (WithStoragePrefix emptyCtx p) CAS) = p" if "p \<noteq> []" for p
    using that by (simp add: prefixForContext_def StoragePrefixFromContext_def WithStoragePrefix_def emptyCtx_def)
  have "prefixOf [''t'', ''1''] ''t/1/''" "prefixOf [''t''] ''t''" by (simp_all add: prefixOf_def good_part_def)
  then show ?thesis
    using s3_keys_isolated [where s = demoS3 and c = "WithStoragePrefix emptyCtx ''t/1/''" and c' = "WithStoragePrefix emptyCtx ''t''"
        and ps = "[''t'', ''1'']" and ps' = "[''t'']" and kind = CAS and kind' = CAS, OF _ _ hex64_toyHash hex64_toyHash] c
    by simp
qed

section \<open>Azure\<close>

lemma az_upload:
  assumes "azPut p (Some q) = (True, Some q')" "aoClient ao (azKey a (ppHash p) (ppKind p)) = None"
  shows "azUploadFile a ao (last (uqItems q')) o1 = aoUpload ao (azKey a (ppHash p) (ppKind p)) (ppData p) o1"
proof -
  have "urHash (last (uqItems q')) = ppHash p" "urKind (last (uqItems q')) = ppKind p" "urData (last (uqItems q')) = ppData p"
    using assms(1) by (auto simp: azPut_def enqueue_def split: if_splits)
  then show ?thesis using assms(2) by (simp add: azUploadFile_def)
qed


text \<open>A container in memory, for the witness.\<close>

definition memContainer :: "(string \<Rightarrow> bytes option) azOps" where
  "memContainer =
     \<lparr>aoClient = \<lambda>k. None,
      aoDownload = \<lambda>k m. (case m k of None \<Rightarrow> Inl BlobNotFound | Some bs \<Rightarrow> Inr (bytes_reader bs, Some (blen bs))),
      aoProperties = \<lambda>k m. map_option (\<lambda>bs. Some (blen bs)) (m k),
      aoUpload = \<lambda>k bs m. m(k \<mapsto> bs), aoSetMetadata = \<lambda>k m. m\<rparr>"

definition demoAz :: azBlobCache where
  "demoAz = \<lparr>azPrefix = ''p'', azV2mode = True, azUpdateTimestamps = False\<rparr>"


end
