(* ===== verification/Metrics.thy ===== *)
theory Metrics
  imports CacheInterface
begin

text \<open>
  \<open>cache/disk/metrics.go\<close> and \<open>cache/metrics_context.go\<close>: the decorator that counts the lookups of the disk
  cache and reports them to an observer. It is an implementation of the interface of
  \<open>CacheInterface\<close> whose state is the state of the cache with that of the counter and the observer.
\<close>

section \<open>Outcomes and the observer\<close>

record metricsLabels =
  mlInstallationID :: string
  mlRepositoryID :: string
  mlGeneration :: string
  mlBuildToolID :: string
  mlVMID :: string
  mlJobID :: string

definition noLabels :: metricsLabels where
  "noLabels = \<lparr>mlInstallationID = [], mlRepositoryID = [], mlGeneration = [], mlBuildToolID = [], mlVMID = [], mlJobID = []\<rparr>"

record operationOutcome =
  ooLabels :: metricsLabels
  ooMethod :: string
  ooStatus :: string
  ooReason :: string
  ooOps :: int
  ooBytes :: int

text \<open>
  An observer acts on its own state and may panic, which is swallowed. The labels of a context are the
  argument \<open>lab\<close>.
\<close>

type_synonym 'w observer = "operationOutcome \<Rightarrow> 'w \<Rightarrow> bool \<times> 'w"

definition ObserveOperation :: "(ctx \<Rightarrow> metricsLabels option) \<Rightarrow> ctx \<Rightarrow> 'w observer option \<Rightarrow> operationOutcome \<Rightarrow> 'w \<Rightarrow> 'w" where
  "ObserveOperation lab c obs outcome w =
     (case obs of
        None \<Rightarrow> w
      | Some f \<Rightarrow> snd (f (case lab c of None \<Rightarrow> outcome | Some l \<Rightarrow> outcome\<lparr>ooLabels := l\<rparr>) w))"

section \<open>The decorator\<close>

record 'w metricsDecorator =
  mdObserver :: "'w observer option"
  mdLabels :: "ctx \<Rightarrow> metricsLabels option"

text \<open>The counter by method, kind and status, or nil.\<close>

record 'w metrics =
  mtCounter :: "(string \<times> string \<times> string \<Rightarrow> int) option"
  mtWorld :: 'w

definition hitStatus :: string where "hitStatus = ''hit''"
definition missStatus :: string where "missStatus = ''miss''"
definition errorStatus :: string where "errorStatus = ''error''"
definition containsMethod :: string where "containsMethod = ''contains''"
definition getMethod :: string where "getMethod = ''get''"
definition actionCacheGet :: string where "actionCacheGet = ''action_cache_get''"
definition casLookup :: string where "casLookup = ''cas_lookup''"

definition metricBytes :: "int \<Rightarrow> int" where
  "metricBytes value = (if value < 0 then 0 else value)"

definition incCounter :: "string \<Rightarrow> string \<Rightarrow> string \<Rightarrow> int \<Rightarrow> 'w metrics \<Rightarrow> 'w metrics" where
  "incCounter meth kind status value m =
     (case mtCounter m of
        None \<Rightarrow> m
      | Some cnt \<Rightarrow>
          if value = 0 then m
          else m\<lparr>mtCounter := Some (cnt((meth, kind, status) := cnt (meth, kind, status) + value))\<rparr>)"

definition metricRecord :: "'w metricsDecorator \<Rightarrow> ctx \<Rightarrow> string \<Rightarrow> string \<Rightarrow> string \<Rightarrow> int \<Rightarrow> int \<Rightarrow> 'w metrics \<Rightarrow> 'w metrics" where
  "metricRecord d c operation status reason ops byteCount m =
     m\<lparr>mtWorld := ObserveOperation (mdLabels d) c (mdObserver d)
        \<lparr>ooLabels = noLabels, ooMethod = operation, ooStatus = status, ooReason = reason, ooOps = ops, ooBytes = byteCount\<rparr>
        (mtWorld m)\<rparr>"

definition recordLookup :: "'w metricsDecorator \<Rightarrow> ctx \<Rightarrow> EntryKind \<Rightarrow> string \<Rightarrow> string \<Rightarrow> string \<Rightarrow> int \<Rightarrow> int \<Rightarrow>
    'w metrics \<Rightarrow> 'w metrics" where
  "recordLookup d c kind meth status reason ops byteCount m =
     (case kind of
        AC \<Rightarrow> metricRecord d c actionCacheGet status reason ops byteCount m
      | CAS \<Rightarrow> metricRecord d c casLookup status reason ops byteCount m
      | RAW \<Rightarrow> metricRecord d c meth status reason ops byteCount m)"

text \<open>The answer of a lookup in the terms of the metrics: whether there is a reader, and the size.\<close>

definition lookupStatus :: "bool \<Rightarrow> string" where
  "lookupStatus found = (if found then hitStatus else missStatus)"

definition metricsGet :: "'w metricsDecorator \<Rightarrow> 's cacheOps \<Rightarrow> ctx \<Rightarrow> EntryKind \<Rightarrow> string \<Rightarrow> int \<Rightarrow> int \<Rightarrow> 's \<times> 'w metrics \<Rightarrow>
    (got \<times> 's \<times> 'w metrics) option" where
  "metricsGet d ops c kind hash sz offset = (\<lambda>(st, m).
     (case coGet ops c kind hash sz offset st of
        None \<Rightarrow> None
      | Some (GotError e, st) \<Rightarrow> Some (GotError e, st, recordLookup d c kind getMethod errorStatus ''get_failed'' 1 0 m)
      | Some (NotFound, st) \<Rightarrow>
          Some (NotFound, st, recordLookup d c kind getMethod missStatus [] 1 (metricBytes (- 1))
                                (incCounter getMethod (kindString kind) missStatus 1 m))
      | Some (Found r n, st) \<Rightarrow>
          Some (Found r n, st, recordLookup d c kind getMethod hitStatus [] 1 (metricBytes n)
                                (incCounter getMethod (kindString kind) hitStatus 1 m))))"

definition metricsGetValidated :: "'w metricsDecorator \<Rightarrow> 's cacheOps \<Rightarrow> ctx \<Rightarrow> string \<Rightarrow> 's \<times> 'w metrics \<Rightarrow>
    (vac_result \<times> 's \<times> 'w metrics) option" where
  "metricsGetValidated d ops c hash = (\<lambda>(st, m).
     (case coGetValidated ops c hash st of
        None \<Rightarrow> None
      | Some (VacError e, st) \<Rightarrow> Some (VacError e, st, metricRecord d c actionCacheGet errorStatus ''get_action_result_failed'' 1 0 m)
      | Some (VacNotFound, st) \<Rightarrow>
          Some (VacNotFound, st, metricRecord d c actionCacheGet missStatus [] 1 0 (incCounter getMethod ''ac'' missStatus 1 m))
      | Some (VacFound ar dat, st) \<Rightarrow>
          Some (VacFound ar dat, st,
                metricRecord d c actionCacheGet hitStatus [] 1 (blen dat) (incCounter getMethod ''ac'' hitStatus 1 m))))"

definition metricsGetZstd :: "'w metricsDecorator \<Rightarrow> 's cacheOps \<Rightarrow> ctx \<Rightarrow> string \<Rightarrow> int \<Rightarrow> int \<Rightarrow> 's \<times> 'w metrics \<Rightarrow>
    (got \<times> 's \<times> 'w metrics) option" where
  "metricsGetZstd d ops c hash sz offset = (\<lambda>(st, m).
     (case coGetZstd ops c hash sz offset st of
        None \<Rightarrow> None
      | Some (GotError e, st) \<Rightarrow> Some (GotError e, st, metricRecord d c casLookup errorStatus ''get_zstd_failed'' 1 0 m)
      | Some (NotFound, st) \<Rightarrow>
          Some (NotFound, st, metricRecord d c casLookup missStatus [] 1 (metricBytes (- 1)) (incCounter getMethod ''cas'' missStatus 1 m))
      | Some (Found r n, st) \<Rightarrow>
          Some (Found r n, st, metricRecord d c casLookup hitStatus [] 1 (metricBytes n) (incCounter getMethod ''cas'' hitStatus 1 m))))"

definition metricsContains :: "'w metricsDecorator \<Rightarrow> 's cacheOps \<Rightarrow> ctx \<Rightarrow> EntryKind \<Rightarrow> string \<Rightarrow> int \<Rightarrow> 's \<times> 'w metrics \<Rightarrow>
    (bool \<times> int) \<times> 's \<times> 'w metrics" where
  "metricsContains d ops c kind hash sz = (\<lambda>(st, m).
     (let ((ok, n), st) = coContains ops c kind hash sz st;
          m = incCounter containsMethod (kindString kind) (lookupStatus ok) 1 m
      in ((ok, n), st, recordLookup d c kind containsMethod (lookupStatus ok) [] 1 (metricBytes n) m)))"

definition metricsFindMissing :: "'w metricsDecorator \<Rightarrow> 's cacheOps \<Rightarrow> ctx \<Rightarrow> digest list \<Rightarrow> 's \<times> 'w metrics \<Rightarrow>
    (fm_error + digest list) \<times> 's \<times> 'w metrics" where
  "metricsFindMissing d ops c blobs = (\<lambda>(st, m).
     (let numLooking = int (length blobs)
      in case coFindMissing ops c blobs st of
           (Inl e, st) \<Rightarrow> (Inl e, st, metricRecord d c casLookup errorStatus ''find_missing_cas_blobs_failed'' numLooking 0 m)
         | (Inr digests, st) \<Rightarrow>
             (let numMissing = int (length digests);
                  numFound = numLooking - numMissing;
                  m = incCounter containsMethod ''cas'' hitStatus numFound m;
                  m = incCounter containsMethod ''cas'' missStatus numMissing m;
                  m = (if numFound > 0 then metricRecord d c casLookup hitStatus [] numFound 0 m else m);
                  m = (if numMissing > 0 then metricRecord d c casLookup missStatus [] numMissing 0 m else m)
              in (Inr digests, st, m))))"

text \<open>The other operations are those of the embedded cache.\<close>

definition decorate :: "'w metricsDecorator \<Rightarrow> 's cacheOps \<Rightarrow> ('s \<times> 'w metrics) cacheOps" where
  "decorate d ops =
     \<lparr>coGet = metricsGet d ops, coGetValidated = metricsGetValidated d ops, coGetZstd = metricsGetZstd d ops,
      coPut = (\<lambda>c kind hash n r (st, m). map_option (\<lambda>(e, st). (e, st, m)) (coPut ops c kind hash n r st)),
      coContains = metricsContains d ops, coFindMissing = metricsFindMissing d ops,
      coMaxSize = (\<lambda>(st, m). coMaxSize ops st), coStats = (\<lambda>(st, m). coStats ops st)\<rparr>"

end
