(* ===== verification/Metrics_Props.thy ===== *)
theory Metrics_Props
  imports Metrics ByteStream_Props
begin

text \<open>
  The metrics decorator never changes what the cache answers, however the observer behaves, and its
  counter loses no lookup and counts none twice.
\<close>

section \<open>A cache that answers like another one\<close>

locale same_answers =
  fixes big :: "'t cacheOps" and ops :: "'s cacheOps" and proj :: "'t \<Rightarrow> 's"
  assumes get: "map_option (map_prod id proj) (coGet big c k h n off t) = coGet ops c k h n off (proj t)"
    and validated: "map_option (map_prod id proj) (coGetValidated big c h t) = coGetValidated ops c h (proj t)"
    and get_zstd: "map_option (map_prod id proj) (coGetZstd big c h n off t) = coGetZstd ops c h n off (proj t)"
    and put: "map_option (map_prod id proj) (coPut big c k h n r t) = coPut ops c k h n r (proj t)"
    and contains: "map_prod id proj (coContains big c k h n t) = coContains ops c k h n (proj t)"
    and find_missing: "map_prod id proj (coFindMissing big c ds t) = coFindMissing ops c ds (proj t)"
    and max_size: "coMaxSize big t = coMaxSize ops (proj t)"
    and stats: "coStats big t = coStats ops (proj t)"

text \<open>The calls that a server makes, one after the other; a call that does not return ends the run.\<close>

datatype cacheCall =
    CallGet ctx EntryKind string int int
  | CallValidated ctx string
  | CallGetZstd ctx string int int
  | CallPut ctx EntryKind string int reader
  | CallContains ctx EntryKind string int
  | CallFindMissing ctx "digest list"
  | CallMaxSize
  | CallStats

datatype cacheAnswer =
    AnsGot got
  | AnsValidated vac_result
  | AnsPut "dc_error option"
  | AnsContains bool int
  | AnsMissing "fm_error + digest list"
  | AnsMaxSize int
  | AnsStats "int \<times> int \<times> nat \<times> int"

fun answerCall :: "'s cacheOps \<Rightarrow> cacheCall \<Rightarrow> 's \<Rightarrow> (cacheAnswer \<times> 's) option" where
  "answerCall ops (CallGet c k h n off) st = map_option (map_prod AnsGot id) (coGet ops c k h n off st)"
| "answerCall ops (CallValidated c h) st = map_option (map_prod AnsValidated id) (coGetValidated ops c h st)"
| "answerCall ops (CallGetZstd c h n off) st = map_option (map_prod AnsGot id) (coGetZstd ops c h n off st)"
| "answerCall ops (CallPut c k h n r) st = map_option (map_prod AnsPut id) (coPut ops c k h n r st)"
| "answerCall ops (CallContains c k h n) st = Some (map_prod (\<lambda>(b, n). AnsContains b n) id (coContains ops c k h n st))"
| "answerCall ops (CallFindMissing c ds) st = Some (map_prod AnsMissing id (coFindMissing ops c ds st))"
| "answerCall ops CallMaxSize st = Some (AnsMaxSize (coMaxSize ops st), st)"
| "answerCall ops CallStats st = Some (AnsStats (coStats ops st), st)"

fun runCalls :: "'s cacheOps \<Rightarrow> cacheCall list \<Rightarrow> 's \<Rightarrow> (cacheAnswer list \<times> 's) option" where
  "runCalls ops [] st = Some ([], st)"
| "runCalls ops (x # xs) st =
     (case answerCall ops x st of
        None \<Rightarrow> None
      | Some (a, st) \<Rightarrow> map_option (\<lambda>(as, st). (a # as, st)) (runCalls ops xs st))"

context same_answers
begin

lemma call: "map_option (map_prod id proj) (answerCall big x t) = answerCall ops x (proj t)"
proof (cases x)
  case (CallGet c k h n off)
  then show ?thesis by (simp add: get [symmetric] option.map_comp comp_def map_prod_def split_beta)
next
  case (CallValidated c h)
  then show ?thesis by (simp add: validated [symmetric] option.map_comp comp_def map_prod_def split_beta)
next
  case (CallGetZstd c h n off)
  then show ?thesis by (simp add: get_zstd [symmetric] option.map_comp comp_def map_prod_def split_beta)
next
  case (CallPut c k h n r)
  then show ?thesis by (simp add: put [symmetric] option.map_comp comp_def map_prod_def split_beta)
next
  case (CallContains c k h n)
  then show ?thesis by (simp add: contains [symmetric] map_prod_def split_beta)
next
  case (CallFindMissing c ds)
  then show ?thesis by (simp add: find_missing [symmetric] map_prod_def split_beta)
qed (simp_all add: max_size stats)

lemma run: "map_option (map_prod id proj) (runCalls big xs t) = runCalls ops xs (proj t)"
proof (induction xs arbitrary: t)
  case (Cons x xs)
  show ?case
  proof (cases "answerCall big x t")
    case None
    then show ?thesis using call [of x t] by (auto split: option.splits)
  next
    case (Some p)
    obtain a t' where p: "p = (a, t')" by fastforce
    then have "answerCall ops x (proj t) = Some (a, proj t')" using call [of x t] Some by simp
    then show ?thesis
      using Some p Cons [of t', symmetric] by (simp add: option.map_comp comp_def map_prod_def split_beta)
  qed
qed simp

text \<open>The handlers of the byte streams, which take their answers from the cache.\<close>

lemma reads: "map_option (map_prod id proj) (Read big rd sendErr c req t) = Read ops rd sendErr c req (proj t)"
  unfolding Read_def Let_def
  by (auto simp: get [symmetric] get_zstd [symmetric] split: option.split sum.split prod.split got.split)

lemma start: "map_prod id proj (writeStart big c rs t) = writeStart ops c rs (proj t)"
  unfolding writeStart_def
  by (auto simp: contains [symmetric] split: list.split recv.split sum.split prod.split bool.split)

lemma writes:
  "map_option (map_prod id proj) (Write big dec first sendFails c rs t) = Write ops dec first sendFails c rs (proj t)"
  unfolding Write_def Let_def start [symmetric]
  by (auto simp: put [symmetric] split: option.split prod.split write_start.split)

end

section \<open>The decorator\<close>

interpretation metrics: same_answers "decorate d ops" ops fst for d :: "'w metricsDecorator" and ops :: "'s cacheOps"
proof
  fix c k h n off t r ds
  show "map_option (map_prod id fst) (coGet (decorate d ops) c k h n off t) = coGet ops c k h n off (fst t)"
    by (simp add: decorate_def metricsGet_def split_beta split: option.split prod.split got.split)
  show "map_option (map_prod id fst) (coGetValidated (decorate d ops) c h t) = coGetValidated ops c h (fst t)"
    by (simp add: decorate_def metricsGetValidated_def split_beta split: option.split prod.split vac_result.split)
  show "map_option (map_prod id fst) (coGetZstd (decorate d ops) c h n off t) = coGetZstd ops c h n off (fst t)"
    by (simp add: decorate_def metricsGetZstd_def split_beta split: option.split prod.split got.split)
  show "map_option (map_prod id fst) (coPut (decorate d ops) c k h n r t) = coPut ops c k h n r (fst t)"
    by (simp add: decorate_def split_beta option.map_comp comp_def map_prod_def option.map_ident)
  show "map_prod id fst (coContains (decorate d ops) c k h n t) = coContains ops c k h n (fst t)"
    by (simp add: decorate_def metricsContains_def Let_def split_beta)
  show "map_prod id fst (coFindMissing (decorate d ops) c ds t) = coFindMissing ops c ds (fst t)"
    by (cases t; cases "coFindMissing ops c ds (fst t)")
      (simp add: decorate_def metricsFindMissing_def Let_def split: sum.split)
  show "coMaxSize (decorate d ops) t = coMaxSize ops (fst t)" "coStats (decorate d ops) t = coStats ops (fst t)"
    by (simp_all add: decorate_def split_beta)
qed

text \<open>
  Property C34. Metrics cannot change the behaviour of the cache: for every cache, every observer, with
  panics or without, every labelling of the contexts and every sequence of calls of all operations, the
  decorated cache gives the same answers, ends in the same state of the cache, and returns
  exactly when the cache itself does.
\<close>

theorem metrics_change_nothing:
  "map_option (map_prod id fst) (runCalls (decorate d ops) calls (st0, m0)) = runCalls ops calls st0"
  using metrics.run [of d ops calls "(st0, m0)"] by simp

text \<open>So a byte stream over the decorated cache is the one over the cache.\<close>

lemma metrics_byte_stream:
  "map_option (map_prod id fst) (Read (decorate d ops) rd sendErr c req (st, m)) = Read ops rd sendErr c req st"
  "map_option (map_prod id fst) (Write (decorate d ops) dec first sendFails c rs (st, m)) = Write ops dec first sendFails c rs st"
  using metrics.reads [of d ops rd sendErr c req "(st, m)"] metrics.writes [of d ops dec first sendFails c rs "(st, m)"] by simp_all

section \<open>A decorated store is a store\<close>

text \<open>What the servers rely on is kept by every cache that answers like a store.\<close>

locale decorated_store = same_answers big ops proj + blob_store ops dec ok accepts indexed
  for big :: "'t cacheOps" and ops :: "'s cacheOps" and proj and dec and ok and accepts and indexed

sublocale decorated_store \<subseteq> big: blob_store big dec "\<lambda>t. ok (proj t)" accepts "\<lambda>c h t. indexed c h (proj t)"
proof
  fix s s' n r h c off
  assume a: "ok (proj s)" "in64 n" "accepts r n" "hex64 h" and p: "coPut big c CAS h n r s = Some (None, s')"
  have p': "coPut ops c CAS h n r (proj s) = Some (None, proj s')" using put [of c CAS h n r s] p by simp
  show "blen (rdata r) = n \<and> \<not> rfails r" if "\<not> (n = 0 \<and> h = emptySha256)" by (rule put_exact [OF a that p'])
  assume n: "0 < n" and i: "indexed c h (proj s')"
  show "fst (coContains big c CAS h n s') = (True, n)"
    using put_contains [OF a n p' i] by (simp add: contains [symmetric])
  assume off: "0 \<le> off" "off < n"
  show "\<exists>s2. coGet big c CAS h n off s' = Some (Found (bytes_reader (drop (nat off) (rdata r))) n, s2)"
    using put_get [OF a n p' i off] by (auto simp: get [symmetric])
  show "\<exists>out s2. coGetZstd big c h n off s' = Some (Found out n, s2) \<and> dec out = Some (bytes_reader (drop (nat off) (rdata r)))"
    using put_get_zstd [OF a n p' i off] by (fastforce simp: get_zstd [symmetric])
qed

interpretation metered: decorated_store "decorate d (diskOps cfg noFaults id fm vac)" "diskOps cfg noFaults id fm vac" fst
    "GetDecoder (cZstd cfg)" "\<lambda>st. lru_ok (dLru st)" "\<lambda>r n. goodUpload cfg CAS r n \<and> zstd_laws (cZstd cfg)"
    "\<lambda>c h st. Peek (LookupKeyForContext c CAS h) (dLru st) \<noteq> None"
  for d :: "'w metricsDecorator" and cfg fm vac
  by unfold_locales

text \<open>So the round trip of the byte streams holds with metrics: what a write acknowledges, a read delivers.\<close>

lemmas metered_write_then_read = metered.big.write_then_read

section \<open>The counter\<close>

definition counterKeys :: "(string \<times> string \<times> string) set" where
  "counterKeys = {getMethod, containsMethod} \<times> {''ac'', ''cas'', ''raw''} \<times> {hitStatus, missStatus}"

definition counted :: "'w metrics \<Rightarrow> int" where
  "counted m = (case mtCounter m of None \<Rightarrow> 0 | Some cnt \<Rightarrow> (\<Sum>k \<in> counterKeys. cnt k))"

text \<open>The lookups that a call makes when it is answered without an error.\<close>

fun lookupsOf :: "cacheCall \<Rightarrow> cacheAnswer \<Rightarrow> int" where
  "lookupsOf (CallGet c k h n off) (AnsGot (GotError e)) = 0"
| "lookupsOf (CallGet c k h n off) a = 1"
| "lookupsOf (CallGetZstd c h n off) (AnsGot (GotError e)) = 0"
| "lookupsOf (CallGetZstd c h n off) a = 1"
| "lookupsOf (CallValidated c h) (AnsValidated (VacError e)) = 0"
| "lookupsOf (CallValidated c h) a = 1"
| "lookupsOf (CallContains c k h n) a = 1"
| "lookupsOf (CallFindMissing c ds) (AnsMissing (Inr missing)) = int (length ds)"
| "lookupsOf x a = 0"

lemma counted_frame [simp]:
  "mtCounter (metricRecord d c op st reason ops n m) = mtCounter m"
  "mtCounter (recordLookup d c k meth st reason ops n m) = mtCounter m"
  by (simp_all add: metricRecord_def recordLookup_def split: EntryKind.split)

lemma finite_counterKeys [simp]: "finite counterKeys"
  by (simp add: counterKeys_def)

lemma counted_incCounter:
  assumes "(meth, kind, status) \<in> counterKeys" "mtCounter m \<noteq> None"
  shows "counted (incCounter meth kind status n m) = counted m + n" "mtCounter (incCounter meth kind status n m) \<noteq> None"
proof -
  obtain cnt where c: "mtCounter m = Some cnt" using assms(2) by blast
  let ?k = "(meth, kind, status)"
  have "(\<Sum>k \<in> counterKeys. (cnt(?k := cnt ?k + n)) k) = (\<Sum>k \<in> counterKeys. cnt k) + n"
    using assms(1) by (simp add: sum.remove [of counterKeys ?k])
  then show "counted (incCounter meth kind status n m) = counted m + n"
    using c by (auto simp: incCounter_def counted_def)
  show "mtCounter (incCounter meth kind status n m) \<noteq> None" using c by (simp add: incCounter_def)
qed

lemma counterKeys_in:
  "(getMethod, kindString k, hitStatus) \<in> counterKeys" "(getMethod, kindString k, missStatus) \<in> counterKeys"
  "(containsMethod, kindString k, lookupStatus b) \<in> counterKeys"
  "(getMethod, ''ac'', hitStatus) \<in> counterKeys" "(getMethod, ''ac'', missStatus) \<in> counterKeys"
  "(getMethod, ''cas'', hitStatus) \<in> counterKeys" "(getMethod, ''cas'', missStatus) \<in> counterKeys"
  "(containsMethod, ''cas'', hitStatus) \<in> counterKeys" "(containsMethod, ''cas'', missStatus) \<in> counterKeys"
  by (cases k; simp add: counterKeys_def lookupStatus_def)+

lemma counted_cong: "mtCounter m = mtCounter m' \<Longrightarrow> counted m = counted m'"
  by (simp add: counted_def)

lemma counted_record [simp]:
  "counted (metricRecord d c op s reason k n m) = counted m" "counted (recordLookup d c ki me s reason k n m) = counted m"
  by (intro counted_cong; simp)+

lemma counted_call:
  assumes "answerCall (decorate d ops) x (st, m) = Some (a, st', m')" "mtCounter m \<noteq> None"
  shows "counted m' = counted m + lookupsOf x a \<and> mtCounter m' \<noteq> None"
proof -
  note inc = counted_incCounter [OF counterKeys_in(1) assms(2)] counted_incCounter [OF counterKeys_in(2) assms(2)]
    counted_incCounter [OF counterKeys_in(3) assms(2)] counted_incCounter [OF counterKeys_in(4) assms(2)]
    counted_incCounter [OF counterKeys_in(5) assms(2)] counted_incCounter [OF counterKeys_in(6) assms(2)]
    counted_incCounter [OF counterKeys_in(7) assms(2)]
  show ?thesis
  proof (cases x)
    case (CallFindMissing c ds)
    have two: "counted (incCounter containsMethod ''cas'' missStatus p (incCounter containsMethod ''cas'' hitStatus q m)) = counted m + q + p"
        "mtCounter (incCounter containsMethod ''cas'' missStatus p (incCounter containsMethod ''cas'' hitStatus q m)) \<noteq> None" for p q
      using counted_incCounter [OF counterKeys_in(9), OF counted_incCounter(2) [OF counterKeys_in(8) assms(2)]]
        counted_incCounter [OF counterKeys_in(8) assms(2)] by simp_all
    show ?thesis
      using assms CallFindMissing two
      by (auto simp: decorate_def metricsFindMissing_def Let_def split: prod.splits sum.splits if_splits)
  qed (use assms inc in \<open>auto simp: decorate_def metricsGet_def metricsGetValidated_def metricsGetZstd_def metricsContains_def Let_def
        split: option.splits prod.splits got.splits vac_result.splits\<close>)
qed

text \<open>
  The counter adds up: with endpoint metrics, after every sequence of calls that returns,
  the hits and misses of all methods and kinds have grown together by the number of lookups that were
  answered without an error, where a search for missing blobs is one lookup for each of its digests.
\<close>

theorem lookups_counted:
  assumes "runCalls (decorate d ops) calls (st, m) = Some (answers, st', m')" "mtCounter m \<noteq> None"
  shows "counted m' = counted m + sum_list (map2 lookupsOf calls answers)"
proof -
  have "counted m' = counted m + sum_list (map2 lookupsOf calls answers) \<and> mtCounter m' \<noteq> None"
    using assms
  proof (induction calls arbitrary: st m answers)
    case (Cons x xs)
    obtain a st1 m1 where a: "answerCall (decorate d ops) x (st, m) = Some (a, st1, m1)"
      using Cons.prems(1) by (auto split: option.splits)
    obtain as where as: "runCalls (decorate d ops) xs (st1, m1) = Some (as, st', m')" "answers = a # as"
      using Cons.prems(1) a by (auto split: option.splits)
    show ?case using Cons.IH [OF as(1)] counted_call [OF a Cons.prems(2)] as(2) by simp
  qed simp
  then show ?thesis by blast
qed

text \<open>A blob that is looked for twice, with an observer that panics.\<close>

definition demoDecorator :: "nat metricsDecorator" where
  "demoDecorator = \<lparr>mdObserver = Some (\<lambda>outcome n. (True, Suc n)), mdLabels = (\<lambda>_. None)\<rparr>"

theorem lookups_counted_witness:
  "\<exists>answers st' m'. runCalls (decorate demoDecorator (diskOps (demoConfig Zstandard) noFaults id undefined undefined))
     [CallContains emptyCtx CAS toyHash 3, CallMaxSize, CallContains emptyCtx CAS toyHash 3]
     (demoState 1, \<lparr>mtCounter = Some (\<lambda>_. 0), mtWorld = 0\<rparr>) = Some (answers, st', m') \<and> counted m' = 2"
proof -
  let ?ops = "decorate demoDecorator (diskOps (demoConfig Zstandard) noFaults id undefined undefined)"
  let ?m = "\<lparr>mtCounter = Some (\<lambda>_. 0), mtWorld = 0\<rparr>"
  let ?calls = "[CallContains emptyCtx CAS toyHash 3, CallMaxSize, CallContains emptyCtx CAS toyHash 3]"
  have "runCalls ?ops ?calls (demoState 1, ?m) \<noteq> None" by (simp add: split_beta)
  then obtain answers st' m' where r: "runCalls ?ops ?calls (demoState 1, ?m) = Some (answers, st', m')" by (metis option.exhaust prod_cases3)
  have a: "sum_list (map2 lookupsOf ?calls answers) = 2"
    using r by (auto simp: map_prod_def split: prod.splits)
  show ?thesis using lookups_counted [OF r] a r by (auto simp: counted_def)
qed

end
