(* ===== verification/LruArtifact.thy ===== *)
theory LruArtifact
  imports ValidatedAC
begin

text \<open>
  The artifacts of \<open>cache/lru_observer.go\<close>: the object key of an artifact and its text, a line of JSON for
  the header and one for each closure. The JSON of a header and of a closure is an argument; the
  scanner that cuts the text into lines is modelled with its limit.
\<close>

section \<open>Keys\<close>

definition LRUArtifactKeyInfix :: string where "LRUArtifactKeyInfix = ''lru/''"
definition lruArtifactKeyTimestampWidth :: nat where "lruArtifactKeyTimestampWidth = 20"

text \<open>\<open>%0*d\<close>: zeros after the sign, up to the width.\<close>

definition padZeros :: "nat \<Rightarrow> string \<Rightarrow> string" where
  "padZeros w s = replicate (w - length s) CHR ''0'' @ s"

definition formatPadded :: "nat \<Rightarrow> int \<Rightarrow> string" where
  "formatPadded w i =
     (if i < 0 then CHR ''-'' # padZeros (w - 1) (show_nat (nat (- i))) else padZeros w (show_nat (nat i)))"

definition LRUArtifactKey :: "string \<Rightarrow> int \<Rightarrow> string \<Rightarrow> string" where
  "LRUArtifactKey storagePrefix windowEndMs uniq =
     storagePrefix @ LRUArtifactKeyInfix @ formatPadded lruArtifactKeyTimestampWidth windowEndMs @ ''-'' @ uniq @ ''.jsonl''"

section \<open>The text of an artifact\<close>

record lruHeader =
  lhSchemaVersion :: int
  lhGeneration :: string
  lhInstanceName :: string
  lhHost :: string
  lhProcessID :: string
  lhWindowStartMs :: int
  lhWindowEndMs :: int
  lhEntryCount :: int

text \<open>A closure with its time stamp.\<close>

type_synonym timedClosure = "acClosure \<times> int"

record jsonCodec =
  jcHeader :: "lruHeader \<Rightarrow> string option"
  jcClosure :: "timedClosure \<Rightarrow> string option"
  jcParseHeader :: "string \<Rightarrow> lruHeader option"
  jcParseClosure :: "string \<Rightarrow> timedClosure option"

abbreviation newline :: char where "newline \<equiv> CHR 0x0A"

definition writeJSONLine :: "string option \<Rightarrow> string option" where
  "writeJSONLine b = map_option (\<lambda>s. s @ [newline]) b"

fun writeClosures :: "jsonCodec \<Rightarrow> timedClosure list \<Rightarrow> string option" where
  "writeClosures j [] = Some []"
| "writeClosures j (c # cs) =
     (case writeJSONLine (jcClosure j c) of
        None \<Rightarrow> None
      | Some s \<Rightarrow> map_option ((@) s) (writeClosures j cs))"

text \<open>What has been written when the function returns without an error, to a writer that does not fail.\<close>

definition WriteLRUArtifact :: "jsonCodec \<Rightarrow> lruHeader \<Rightarrow> timedClosure list \<Rightarrow> string option" where
  "WriteLRUArtifact j header closures =
     (case writeJSONLine (jcHeader j header) of
        None \<Rightarrow> None
      | Some s \<Rightarrow> map_option ((@) s) (writeClosures j closures))"

text \<open>
  \<open>bufio.Scanner\<close> with a buffer of at most \<open>limit\<close> bytes: the lines, without a carriage return at their end,
  and whether it stopped at a line that the buffer cannot hold. A line without a newline at the
  end of the text counts when it is not empty.
\<close>

definition dropCR :: "string \<Rightarrow> string" where
  "dropCR s = (if s \<noteq> [] \<and> last s = CHR 0x0D then butlast s else s)"

fun scanLines :: "nat \<Rightarrow> string \<Rightarrow> string list \<times> bool" where
  "scanLines limit [] = ([], False)"
| "scanLines limit (x # s) =
     (let line = takeWhile (\<lambda>c. c \<noteq> newline) (x # s);
          rest = drop (Suc (length line)) (x # s)
      in if limit \<le> length line then ([], True)
         else (let (ls, tooLong) = scanLines limit rest in (dropCR line # ls, tooLong)))"

definition maxLineBuffer :: nat where "maxLineBuffer = 16 * 1024 * 1024"

datatype artifact_error = LineTooLong | EmptyInput | BadHeader | BadClosureLine

text \<open>The lines after the header: empty ones are skipped.\<close>

fun readClosures :: "jsonCodec \<Rightarrow> string list \<Rightarrow> timedClosure list option" where
  "readClosures j [] = Some []"
| "readClosures j (l # ls) =
     (if l = [] then readClosures j ls
      else (case jcParseClosure j l of None \<Rightarrow> None | Some c \<Rightarrow> map_option (Cons c) (readClosures j ls)))"

definition ReadLRUArtifact :: "jsonCodec \<Rightarrow> string \<Rightarrow> artifact_error + lruHeader \<times> timedClosure list" where
  "ReadLRUArtifact j s =
     (case scanLines maxLineBuffer s of
        ([], tooLong) \<Rightarrow> Inl (if tooLong then LineTooLong else EmptyInput)
      | (l # ls, tooLong) \<Rightarrow>
          (case jcParseHeader j l of
             None \<Rightarrow> Inl BadHeader
           | Some h \<Rightarrow>
               (case readClosures j ls of
                  None \<Rightarrow> Inl BadClosureLine
                | Some cs \<Rightarrow> if tooLong then Inl LineTooLong else Inr (h, cs))))"

section \<open>Reading back\<close>

text \<open>What is asked of the JSON encoder: a line without control characters, which is parsed back.\<close>

definition json_laws :: "jsonCodec \<Rightarrow> bool" where
  "json_laws j \<longleftrightarrow>
     (\<forall>h s. jcHeader j h = Some s \<longrightarrow> s \<noteq> [] \<and> newline \<notin> set s \<and> CHR 0x0D \<notin> set s \<and> jcParseHeader j s = Some h) \<and>
     (\<forall>c s. jcClosure j c = Some s \<longrightarrow> s \<noteq> [] \<and> newline \<notin> set s \<and> CHR 0x0D \<notin> set s \<and> jcParseClosure j s = Some c)"

definition goodLine :: "string \<Rightarrow> bool" where
  "goodLine s \<longleftrightarrow> s \<noteq> [] \<and> newline \<notin> set s \<and> CHR 0x0D \<notin> set s"

lemma json_lawsD:
  assumes "json_laws j"
  shows "jcHeader j h = Some s \<Longrightarrow> goodLine s \<and> jcParseHeader j s = Some h"
    and "jcClosure j c = Some s \<Longrightarrow> goodLine s \<and> jcParseClosure j s = Some c"
  using assms unfolding json_laws_def goodLine_def by blast+

lemma dropCR_goodLine: "goodLine l \<Longrightarrow> dropCR l = l"
  unfolding dropCR_def goodLine_def by (metis last_in_set)

lemma scanLines_line:
  assumes "newline \<notin> set l"
  shows "scanLines limit (l @ newline # s) =
    (if limit \<le> length l then ([], True) else (dropCR l # fst (scanLines limit s), snd (scanLines limit s)))"
proof -
  have t: "takeWhile (\<lambda>c. c \<noteq> newline) (l @ newline # s) = l"
    using assms by (subst takeWhile_append2) auto
  obtain x t' where x: "l @ newline # s = x # t'" by (cases l) auto
  have "drop (Suc (length l)) (l @ newline # s) = s" by simp
  then show ?thesis using t unfolding x by (simp add: Let_def split_beta)
qed

lemma scanLines_text:
  assumes "list_all goodLine ls"
  shows "scanLines limit (concat (map (\<lambda>l. l @ [newline]) ls)) =
    (takeWhile (\<lambda>l. length l < limit) ls, \<exists>l \<in> set ls. limit \<le> length l)"
  using assms
proof (induction ls)
  case (Cons l ls)
  then have "dropCR l = l" by (simp add: dropCR_goodLine)
  then show ?case
    using Cons scanLines_line [of l limit "concat (map (\<lambda>l. l @ [newline]) ls)"] by (auto simp: goodLine_def)
qed simp

lemma writeClosures_lines:
  assumes "json_laws j" "writeClosures j cs = Some s"
  shows "\<exists>ls. s = concat (map (\<lambda>l. l @ [newline]) ls) \<and> list_all goodLine ls \<and> map (jcClosure j) cs = map Some ls"
  using assms(2)
proof (induction cs arbitrary: s)
  case (Cons c cs)
  then obtain l s' where l: "jcClosure j c = Some l" "writeClosures j cs = Some s'" "s = (l @ [newline]) @ s'"
    by (auto simp: writeJSONLine_def split: option.splits)
  obtain ls where "s' = concat (map (\<lambda>l. l @ [newline]) ls)" "list_all goodLine ls" "map (jcClosure j) cs = map Some ls"
    using Cons.IH [OF l(2)] by blast
  moreover have "goodLine l" using json_lawsD(2) [OF assms(1) l(1)] by simp
  ultimately show ?case using l by (intro exI [of _ "l # ls"]) simp
qed simp

lemma readClosures_lines:
  assumes "json_laws j" "map (jcClosure j) cs = map Some ls"
  shows "readClosures j ls = Some cs"
  using assms(2)
proof (induction cs arbitrary: ls)
  case (Cons c cs)
  then obtain l ls' where l: "ls = l # ls'" "jcClosure j c = Some l" "map (jcClosure j) cs = map Some ls'"
    by (cases ls) auto
  then show ?case using Cons.IH [OF l(3)] json_lawsD(2) [OF assms(1) l(2)] by (auto simp: goodLine_def)
qed simp

lemma readClosures_prefix:
  assumes "json_laws j" "map (jcClosure j) cs = map Some ls"
  shows "readClosures j (takeWhile P ls) \<noteq> None"
proof -
  let ?n = "length (takeWhile P ls)"
  have "map (jcClosure j) (take ?n cs) = map Some (take ?n ls)"
    using assms(2) by (simp add: take_map [symmetric])
  then show ?thesis using readClosures_lines [OF assms(1)] takeWhile_eq_take [of P ls] by (metis option.distinct(1))
qed


text \<open>A codec of one header and one closure.\<close>

definition demoHeader :: lruHeader where
  "demoHeader = \<lparr>lhSchemaVersion = 1, lhGeneration = ''g'', lhInstanceName = [], lhHost = ''h'', lhProcessID = ''p'',
     lhWindowStartMs = 0, lhWindowEndMs = 60000, lhEntryCount = 1\<rparr>"

definition demoClosure :: timedClosure where
  "demoClosure = (\<lparr>acObject = \<lparr>loHash = ''a'', loSizeOnDisk = 1\<rparr>, acLeaves = []\<rparr>, 7)"

definition demoJson :: jsonCodec where
  "demoJson =
     \<lparr>jcHeader = \<lambda>h. if h = demoHeader then Some ''H'' else None, jcClosure = \<lambda>c. if c = demoClosure then Some ''C'' else None,
      jcParseHeader = \<lambda>s. if s = ''H'' then Some demoHeader else None, jcParseClosure = \<lambda>s. if s = ''C'' then Some demoClosure else None\<rparr>"


section \<open>The order of the keys\<close>

text \<open>The order of a listing: by the codes of the characters.\<close>

definition listedBefore :: "string \<Rightarrow> string \<Rightarrow> bool" where
  "listedBefore x y \<longleftrightarrow> (x, y) \<in> lexord {(a, b). (of_char a :: nat) < of_char b}"

lemma listedBefore_prefix: "listedBefore x y \<Longrightarrow> listedBefore (p @ x) (p @ y)"
  by (simp add: listedBefore_def lexord_append_leftI)

lemma listedBefore_suffix: "listedBefore x y \<Longrightarrow> length x = length y \<Longrightarrow> listedBefore (x @ u) (y @ v)"
  by (auto simp: listedBefore_def lexord_sufI)

lemma padZeros_snoc:
  assumes "0 < w" "d < 10"
  shows "padZeros (Suc w) (show_nat (10 * n + d)) = padZeros w (show_nat n) @ [digit_char d]"
proof (cases "n = 0")
  case True
  then have "show_nat (10 * n + d) = [digit_char d]" "show_nat n = ''0''"
    using assms(2) True by (simp_all add: show_nat.simps) (simp add: digit_char_def, code_simp)
  moreover have "replicate w CHR ''0'' = replicate (w - 1) CHR ''0'' @ ''0''"
    using assms(1) by (cases w) (simp_all add: replicate_append_same)
  ultimately show ?thesis by (simp add: padZeros_def)
next
  case False
  then have "show_nat (10 * n + d) = show_nat n @ [digit_char d]"
    using assms(2) by (simp add: show_nat.simps [of "10 * n + d"])
  then show ?thesis by (simp add: padZeros_def)
qed

lemma length_show_nat: "0 < w \<Longrightarrow> n < 10 ^ w \<Longrightarrow> length (show_nat n) \<le> w"
proof (induction w arbitrary: n)
  case (Suc w)
  show ?case
  proof (cases "n < 10")
    case True
    then show ?thesis by (simp add: show_nat.simps)
  next
    case False
    then have "0 < w" using Suc.prems by (cases w) auto
    moreover have "n div 10 < 10 ^ w" using Suc.prems(2) by (simp add: div_less_iff_less_mult mult.commute)
    ultimately show ?thesis using Suc.IH [of "n div 10"] False by (simp add: show_nat.simps [of n])
  qed
qed simp

lemma listedBefore_digit: "i < j \<Longrightarrow> j < 10 \<Longrightarrow> listedBefore [digit_char i] [digit_char j]"
  using of_char_digit_char [of i] of_char_digit_char [of j] by (simp add: listedBefore_def)

lemma padded_order:
  assumes "0 < w" "a < b" "b < 10 ^ w"
  shows "listedBefore (padZeros w (show_nat a)) (padZeros w (show_nat b))"
  using assms
proof (induction w arbitrary: a b)
  case (Suc w)
  show ?case
  proof (cases "w = 0")
    case True
    then have "show_nat a = [digit_char a]" "show_nat b = [digit_char b]"
      using Suc.prems by (simp_all add: show_nat.simps)
    then show ?thesis using listedBefore_digit Suc.prems True by (simp add: padZeros_def)
  next
    case False
    have d: "a div 10 < 10 ^ w" "b div 10 < 10 ^ w"
      using Suc.prems by (simp_all add: div_less_iff_less_mult mult.commute)
    have p: "padZeros (Suc w) (show_nat n) = padZeros w (show_nat (n div 10)) @ [digit_char (n mod 10)]" for n
      using padZeros_snoc [of w "n mod 10" "n div 10"] False by simp
    have len: "length (padZeros w (show_nat (a div 10))) = length (padZeros w (show_nat (b div 10)))"
      using length_show_nat [of w "a div 10"] length_show_nat [of w "b div 10"] d False by (simp add: padZeros_def)
    show ?thesis
    proof (cases "a div 10 = b div 10")
      case True
      have "a mod 10 < b mod 10"
        using Suc.prems(2) True div_mult_mod_eq [of a 10] div_mult_mod_eq [of b 10] by linarith
      then have "listedBefore [digit_char (a mod 10)] [digit_char (b mod 10)]" by (intro listedBefore_digit) simp_all
      then show ?thesis unfolding p [of a] p [of b] True by (rule listedBefore_prefix)
    next
      case neq: False
      then have "a div 10 < b div 10" using Suc.prems(2) by (simp add: div_le_mono le_neq_implies_less)
      then have "listedBefore (padZeros w (show_nat (a div 10))) (padZeros w (show_nat (b div 10)))"
        using Suc.IH d(2) False by simp
      then show ?thesis unfolding p [of a] p [of b] using len by (rule listedBefore_suffix)
    qed
  qed
qed simp

text \<open>
  A listing of the artifacts of a storage prefix, which object stores sort by name, is in the
  order of time: of two windows that end at different times after the epoch, the key of the
  earlier one comes first, whatever hosts and processes they are from.
\<close>

theorem artifact_keys_in_order_of_time:
  assumes "0 \<le> t" "t < t'" "t' \<le> maxInt64"
  shows "listedBefore (LRUArtifactKey p t uniq) (LRUArtifactKey p t' uniq')"
proof -
  have n: "nat t < nat t'" "nat t' < 10 ^ 20" "nat t < 10 ^ 20" using assms by simp_all
  let ?w = "lruArtifactKeyTimestampWidth"
  have "listedBefore (padZeros ?w (show_nat (nat t))) (padZeros ?w (show_nat (nat t')))"
    using padded_order [of ?w "nat t" "nat t'"] n by (simp add: lruArtifactKeyTimestampWidth_def)
  moreover have "length (padZeros ?w (show_nat (nat t))) = length (padZeros ?w (show_nat (nat t')))"
    using length_show_nat [of ?w "nat t"] length_show_nat [of ?w "nat t'"] n by (simp add: padZeros_def lruArtifactKeyTimestampWidth_def)
  ultimately show ?thesis
    using assms by (simp add: LRUArtifactKey_def formatPadded_def listedBefore_prefix listedBefore_suffix)
qed

theorem artifact_keys_in_order_of_time_witness:
  "listedBefore (LRUArtifactKey ''p/'' 999 ''b'') (LRUArtifactKey ''p/'' 1000 ''a'')"
  by (rule artifact_keys_in_order_of_time) simp_all

end
