(* ===== verification/Lifecycle.thy ===== *)
theory Lifecycle
  imports Prelude
begin

text \<open>
  The life of the process: the idle timer of \<open>utils/idle/idle.go\<close>, and how \<open>run\<close> in \<open>main.go\<close> starts its two
  servers and stops them after a signal or the idle timeout, in goroutines that only two semaphores
  keep in order.
\<close>

section \<open>The idle timer\<close>

text \<open>Times are nanoseconds. The channel of notifications has room for one; \<open>itRunning\<close>: \<open>start\<close> has not returned.\<close>

record idleTimer =
  itTimeout :: int
  itLastRequest :: int
  itNotified :: bool
  itRunning :: bool

definition NewTimer :: "int \<Rightarrow> int \<Rightarrow> idleTimer" where
  "NewTimer timeout now =
     \<lparr>itTimeout = timeout, itLastRequest = now, itNotified = False, itRunning = False\<rparr>"

definition timerStart :: "idleTimer \<Rightarrow> idleTimer" where
  "timerStart t = t\<lparr>itRunning := True\<rparr>"

text \<open>One round of the loop, for the time that the ticker delivers.\<close>

definition timerTick :: "int \<Rightarrow> idleTimer \<Rightarrow> idleTimer" where
  "timerTick now t =
     (if \<not> itRunning t then t
      else if now - itLastRequest t > itTimeout t then t\<lparr>itNotified := True, itRunning := False\<rparr>
      else t)"

definition ResetTimer :: "int \<Rightarrow> idleTimer \<Rightarrow> idleTimer" where
  "ResetTimer now t = t\<lparr>itLastRequest := now\<rparr>"

datatype timer_event = Tick int | Request int

fun timerEvent :: "timer_event \<Rightarrow> idleTimer \<Rightarrow> idleTimer" where
  "timerEvent (Tick now) t = timerTick now t"
| "timerEvent (Request now) t = ResetTimer now t"

definition timerRun :: "timer_event list \<Rightarrow> idleTimer \<Rightarrow> idleTimer" where
  "timerRun es t = fold timerEvent es t"

text \<open>The start of the countdown after some events: the last request, or the start of the timer.\<close>

fun lastRequest :: "int \<Rightarrow> timer_event list \<Rightarrow> int" where
  "lastRequest t0 [] = t0"
| "lastRequest t0 (Tick now # es) = lastRequest t0 es"
| "lastRequest t0 (Request now # es) = lastRequest now es"

lemma lastRequest_append: "lastRequest t0 (xs @ ys) = lastRequest (lastRequest t0 xs) ys"
  by (induction t0 xs rule: lastRequest.induct) auto

lemma timerRun_simps [simp]:
  "timerRun [] t = t" "timerRun (e # es) t = timerRun es (timerEvent e t)"
  "timerRun (xs @ ys) t = timerRun ys (timerRun xs t)"
  by (simp_all add: timerRun_def)

lemma timerRun_frame:
  "itLastRequest (timerRun es t) = lastRequest (itLastRequest t) es"
  "itTimeout (timerRun es t) = itTimeout t"
  "\<not> itRunning t \<Longrightarrow> itNotified (timerRun es t) = itNotified t \<and> \<not> itRunning (timerRun es t)"
proof -
  show "itLastRequest (timerRun es t) = lastRequest (itLastRequest t) es"
  proof (induction es arbitrary: t)
    case (Cons e es)
    then show ?case by (cases e) (simp_all add: timerTick_def ResetTimer_def)
  qed simp
  show "itTimeout (timerRun es t) = itTimeout t"
  proof (induction es arbitrary: t)
    case (Cons e es)
    then show ?case by (cases e) (simp_all add: timerTick_def ResetTimer_def)
  qed simp
  show "itNotified (timerRun es t) = itNotified t \<and> \<not> itRunning (timerRun es t)" if "\<not> itRunning t"
    using that
  proof (induction es arbitrary: t)
    case (Cons e es)
    then show ?case by (cases e) (simp_all add: timerTick_def ResetTimer_def)
  qed simp
qed

lemma timer_fired_iff:
  assumes "itRunning t" "\<not> itNotified t"
  shows "itNotified (timerRun es t) \<longleftrightarrow>
    (\<exists>xs now ys. es = xs @ Tick now # ys \<and> now - lastRequest (itLastRequest t) xs > itTimeout t)"
  using assms
proof (induction es arbitrary: t)
  case (Cons e es)
  show ?case
  proof (cases e)
    case (Request now)
    have "(\<exists>xs m ys. e # es = xs @ Tick m # ys \<and> m - lastRequest (itLastRequest t) xs > itTimeout t) \<longleftrightarrow>
        (\<exists>xs m ys. es = xs @ Tick m # ys \<and> m - lastRequest now xs > itTimeout t)" (is "?l = ?r")
    proof
      assume ?l
      then obtain xs m ys where "e # es = xs @ Tick m # ys" "m - lastRequest (itLastRequest t) xs > itTimeout t" by blast
      then show ?r using Request by (cases xs) auto
    next
      assume ?r
      then obtain xs m ys where "es = xs @ Tick m # ys" "m - lastRequest now xs > itTimeout t" by blast
      then show ?l using Request by (intro exI [of _ "Request now # xs"]) auto
    qed
    then show ?thesis using Cons Request by (simp add: ResetTimer_def)
  next
    case (Tick now)
    show ?thesis
    proof (cases "now - itLastRequest t > itTimeout t")
      case True
      have "timerEvent e t = t\<lparr>itNotified := True, itRunning := False\<rparr>" using Tick True Cons.prems by (simp add: timerTick_def)
      then have "itNotified (timerRun (e # es) t)" by (simp add: timerRun_frame(3))
      moreover have "\<exists>xs m ys. e # es = xs @ Tick m # ys \<and> m - lastRequest (itLastRequest t) xs > itTimeout t"
        using True Tick by (intro exI [of _ "[]"]) auto
      ultimately show ?thesis by blast
    next
      case False
      then have e: "timerEvent e t = t" using Tick Cons.prems by (simp add: timerTick_def)
      have "(\<exists>xs m ys. e # es = xs @ Tick m # ys \<and> m - lastRequest (itLastRequest t) xs > itTimeout t) \<longleftrightarrow>
          (\<exists>xs m ys. es = xs @ Tick m # ys \<and> m - lastRequest (itLastRequest t) xs > itTimeout t)" (is "?l = ?r")
      proof
        assume ?l
        then obtain xs m ys where "e # es = xs @ Tick m # ys" "m - lastRequest (itLastRequest t) xs > itTimeout t" by blast
        then show ?r using Tick False by (cases xs) auto
      next
        assume ?r
        then obtain xs m ys where "es = xs @ Tick m # ys" "m - lastRequest (itLastRequest t) xs > itTimeout t" by blast
        then show ?l using Tick by (intro exI [of _ "Tick now # xs"]) auto
      qed
      then show ?thesis using Cons e by simp
    qed
  qed
qed auto

text \<open>
  Property C36. The idle timeout is exact: for every sequence of ticks and requests after the start, the timer
  has notified exactly when some tick came later than the timeout after the last request before it (or
  after the start). So a request always starts the countdown again, a late tick with an older time
  never ends it, and once it is over no request takes the notification back.
\<close>

theorem idle_timer_exact:
  "itNotified (timerRun es (timerStart (NewTimer timeout t0))) \<longleftrightarrow>
    (\<exists>xs now ys. es = xs @ Tick now # ys \<and> now - lastRequest t0 xs > timeout)"
  by (subst timer_fired_iff) (simp_all add: timerStart_def NewTimer_def)

section \<open>Starting and stopping a server\<close>

text \<open>
  The goroutine of a server makes the server, acquires its semaphore and serves; the shutdown tries
  to acquire the semaphore too, and stops the server when that fails. \<open>Serve\<close> of a server that was
  stopped before returns at once, with an error that the HTTP server recognises and that the gRPC
  server passes on, which ends the process with \<open>log.Fatal\<close>: \<open>slFatal\<close> says which of the two it is.
\<close>

datatype server_phase = NotCreated | Created | Acquired | Serving | Returned | FatalError

datatype shutdown_phase = Waiting | Stopping | ShutDown

record serverLife =
  slPhase :: server_phase
  slSem :: bool
  slStopped :: bool
  slShutdown :: shutdown_phase
  slFatal :: bool

text \<open>The phases in the order in which they are passed; the last two are both ends.\<close>

fun phaseIndex :: "server_phase \<Rightarrow> nat" where
  "phaseIndex NotCreated = 0"
| "phaseIndex Created = 1"
| "phaseIndex Acquired = 2"
| "phaseIndex Serving = 3"
| "phaseIndex Returned = 4"
| "phaseIndex FatalError = 5"

lemma phaseIndex_inj [simp]: "phaseIndex p = phaseIndex q \<longleftrightarrow> p = q"
  by (cases p; cases q) simp_all

instantiation server_phase :: linorder
begin

definition less_eq_server_phase :: "server_phase \<Rightarrow> server_phase \<Rightarrow> bool" where
  "less_eq_server_phase p q \<longleftrightarrow> phaseIndex p \<le> phaseIndex q"

definition less_server_phase :: "server_phase \<Rightarrow> server_phase \<Rightarrow> bool" where
  "less_server_phase p q \<longleftrightarrow> phaseIndex p < phaseIndex q"

instance
  by standard (auto simp: less_eq_server_phase_def less_server_phase_def dest: antisym)

end

fun shutdownIndex :: "shutdown_phase \<Rightarrow> nat" where
  "shutdownIndex Waiting = 0"
| "shutdownIndex Stopping = 1"
| "shutdownIndex ShutDown = 2"

lemma shutdownIndex_inj [simp]: "shutdownIndex p = shutdownIndex q \<longleftrightarrow> p = q"
  by (cases p; cases q) simp_all

instantiation shutdown_phase :: linorder
begin

definition less_eq_shutdown_phase :: "shutdown_phase \<Rightarrow> shutdown_phase \<Rightarrow> bool" where
  "less_eq_shutdown_phase p q \<longleftrightarrow> shutdownIndex p \<le> shutdownIndex q"

definition less_shutdown_phase :: "shutdown_phase \<Rightarrow> shutdown_phase \<Rightarrow> bool" where
  "less_shutdown_phase p q \<longleftrightarrow> shutdownIndex p < shutdownIndex q"

instance
  by standard (auto simp: less_eq_shutdown_phase_def less_shutdown_phase_def dest: antisym)

end

definition newServer :: "bool \<Rightarrow> serverLife" where
  "newServer fatal = \<lparr>slPhase = NotCreated, slSem = False, slStopped = False, slShutdown = Waiting, slFatal = fatal\<rparr>"

inductive life :: "serverLife \<Rightarrow> serverLife \<Rightarrow> bool" where
  create: "slPhase s = NotCreated \<Longrightarrow> life s (s\<lparr>slPhase := Created\<rparr>)"
| acquire: "slPhase s = Created \<Longrightarrow> \<not> slSem s \<Longrightarrow> life s (s\<lparr>slPhase := Acquired, slSem := True\<rparr>)"
| give_up: "slPhase s = Created \<Longrightarrow> slSem s \<Longrightarrow> life s (s\<lparr>slPhase := Returned\<rparr>)"
| serve: "slPhase s = Acquired \<Longrightarrow> \<not> slStopped s \<Longrightarrow> life s (s\<lparr>slPhase := Serving\<rparr>)"
| serve_stopped: "slPhase s = Acquired \<Longrightarrow> slStopped s \<Longrightarrow>
    life s (s\<lparr>slPhase := if slFatal s then FatalError else Returned\<rparr>)"
| serve_ends: "slPhase s = Serving \<Longrightarrow> slStopped s \<Longrightarrow> life s (s\<lparr>slPhase := Returned\<rparr>)"
| signal: "slShutdown s = Waiting \<Longrightarrow> life s (s\<lparr>slShutdown := Stopping\<rparr>)"
| prevent: "slShutdown s = Stopping \<Longrightarrow> \<not> slSem s \<Longrightarrow> life s (s\<lparr>slShutdown := ShutDown, slSem := True\<rparr>)"
| stop: "slShutdown s = Stopping \<Longrightarrow> slSem s \<Longrightarrow> slPhase s \<noteq> NotCreated \<Longrightarrow>
    life s (s\<lparr>slShutdown := ShutDown, slStopped := True\<rparr>)"
| no_server: "slShutdown s = Stopping \<Longrightarrow> slSem s \<Longrightarrow> slPhase s = NotCreated \<Longrightarrow> life s (s\<lparr>slShutdown := ShutDown\<rparr>)"

abbreviation lifeReach :: "bool \<Rightarrow> serverLife \<Rightarrow> bool" where
  "lifeReach fatal \<equiv> life\<^sup>*\<^sup>* (newServer fatal)"

text \<open>Accepting requests: in \<open>Serve\<close>, and not told to stop.\<close>

definition accepting :: "serverLife \<Rightarrow> bool" where
  "accepting s \<longleftrightarrow> slPhase s = Serving \<and> \<not> slStopped s"

definition lifeInv :: "serverLife \<Rightarrow> bool" where
  "lifeInv s \<longleftrightarrow>
     (slSem s \<longrightarrow> slPhase s \<in> {Acquired, Serving} \<or> slShutdown s = ShutDown \<or> slPhase s \<in> {Returned, FatalError}) \<and>
     (slPhase s \<in> {Acquired, Serving, Returned, FatalError} \<longrightarrow> slSem s) \<and>
     (slStopped s \<longrightarrow> slShutdown s = ShutDown \<and> slPhase s \<notin> {NotCreated, Created}) \<and>
     (slShutdown s = ShutDown \<longrightarrow> slSem s \<and> (slStopped s \<or> slPhase s \<in> {NotCreated, Created, Returned})) \<and>
     (slPhase s \<in> {Returned, FatalError} \<longrightarrow> slShutdown s = ShutDown) \<and>
     (slPhase s = FatalError \<longrightarrow> slFatal s)"

lemma life_inv: "life s s' \<Longrightarrow> lifeInv s \<Longrightarrow> lifeInv s'"
proof (induction rule: life.induct)
  case (prevent s)
  then show ?case by (cases "slPhase s") (auto simp: lifeInv_def)
qed (auto simp: lifeInv_def)

lemma lifeReach_inv: "lifeReach fatal s \<Longrightarrow> lifeInv s"
proof (induction rule: rtranclp_induct)
  case base
  then show ?case by (simp add: lifeInv_def newServer_def)
next
  case (step s s')
  then show ?case using life_inv by blast
qed

text \<open>Every step brings the server and the shutdown further.\<close>

fun phaseRank :: "server_phase \<Rightarrow> nat" where
  "phaseRank NotCreated = 4"
| "phaseRank Created = 3"
| "phaseRank Acquired = 2"
| "phaseRank Serving = 1"
| "phaseRank Returned = 0"
| "phaseRank FatalError = 0"

fun shutdownRank :: "shutdown_phase \<Rightarrow> nat" where
  "shutdownRank Waiting = 2"
| "shutdownRank Stopping = 1"
| "shutdownRank ShutDown = 0"

definition lifeRank :: "serverLife \<Rightarrow> nat" where
  "lifeRank s = phaseRank (slPhase s) + shutdownRank (slShutdown s)"

lemma life_rank: "life s s' \<Longrightarrow> lifeRank s' < lifeRank s"
  by (induction rule: life.induct) (auto simp: lifeRank_def)

lemma life_progress:
  assumes "slShutdown s \<noteq> ShutDown \<or> slPhase s \<notin> {Returned, FatalError}" "lifeInv s"
  shows "\<exists>s'. life s s'"
proof (cases "slShutdown s")
  case Waiting
  then show ?thesis using life.signal by blast
next
  case Stopping
  then show ?thesis using life.prevent life.stop life.no_server by blast
next
  case ShutDown
  show ?thesis
  proof (cases "slPhase s")
    case NotCreated
    then show ?thesis using life.create by blast
  next
    case Created
    then show ?thesis using life.acquire life.give_up by blast
  next
    case Acquired
    then show ?thesis using life.serve life.serve_stopped by blast
  next
    case Serving
    then have "slStopped s" using assms(2) ShutDown by (auto simp: lifeInv_def)
    then show ?thesis using Serving life.serve_ends by blast
  qed (use assms(1) ShutDown in auto)
qed

text \<open>
  However the goroutines of a server and of its shutdown interleave: a server never
  accepts requests once the shutdown is done, it is stopped only when it has been created, it returns
  only after the shutdown, no step is undone, and a state without a next step is one in which the
  shutdown is done and the server has returned, so that the wait for the servers ends.
\<close>

theorem shutdown_stops_server:
  assumes "lifeReach fatal s"
  shows "(slShutdown s = ShutDown \<longrightarrow> \<not> accepting s) \<and> (slStopped s \<longrightarrow> slPhase s \<noteq> NotCreated) \<and>
    (slPhase s \<in> {Returned, FatalError} \<longrightarrow> slShutdown s = ShutDown) \<and> (\<forall>s'. life s s' \<longrightarrow> lifeRank s' < lifeRank s) \<and>
    ((\<nexists>s'. life s s') \<longrightarrow> slShutdown s = ShutDown \<and> slPhase s \<in> {Returned, FatalError})"
proof (intro conjI)
  have inv: "lifeInv s" by (rule lifeReach_inv [OF assms])
  show "slShutdown s = ShutDown \<longrightarrow> \<not> accepting s" using inv by (auto simp: lifeInv_def accepting_def)
  show "slStopped s \<longrightarrow> slPhase s \<noteq> NotCreated" using inv by (auto simp: lifeInv_def)
  show "slPhase s \<in> {Returned, FatalError} \<longrightarrow> slShutdown s = ShutDown" using inv by (auto simp: lifeInv_def)
  show "\<forall>s'. life s s' \<longrightarrow> lifeRank s' < lifeRank s" using life_rank by blast
  show "(\<nexists>s'. life s s') \<longrightarrow> slShutdown s = ShutDown \<and> slPhase s \<in> {Returned, FatalError}"
    using life_progress [OF _ inv] by blast
qed

text \<open>A run in which the shutdown comes between the acquisition of the semaphore and \<open>Serve\<close>.\<close>

lemma late_stop:
  "lifeReach fatal \<lparr>slPhase = Acquired, slSem = True, slStopped = True, slShutdown = ShutDown, slFatal = fatal\<rparr>"
proof -
  let ?s = "\<lambda>p sem st sd. \<lparr>slPhase = p, slSem = sem, slStopped = st, slShutdown = sd, slFatal = fatal\<rparr>"
  have "life (newServer fatal) (?s Created False False Waiting)"
    using life.create [of "newServer fatal"] by (simp add: newServer_def)
  moreover have "life (?s Created False False Waiting) (?s Acquired True False Waiting)"
    using life.acquire [of "?s Created False False Waiting"] by simp
  moreover have "life (?s Acquired True False Waiting) (?s Acquired True False Stopping)"
    using life.signal [of "?s Acquired True False Waiting"] by simp
  moreover have "life (?s Acquired True False Stopping) (?s Acquired True True ShutDown)"
    using life.stop [of "?s Acquired True False Stopping"] by simp
  ultimately show ?thesis by (meson converse_rtranclp_into_rtranclp rtranclp.rtrancl_refl)
qed

theorem shutdown_stops_server_witness:
  "\<not> accepting \<lparr>slPhase = Acquired, slSem = True, slStopped = True, slShutdown = ShutDown, slFatal = True\<rparr>"
  using shutdown_stops_server [OF late_stop [of True]] by simp

lemma life_bounded: "(life ^^ n) s s' \<Longrightarrow> n + lifeRank s' \<le> lifeRank s"
proof (induction n arbitrary: s')
  case (Suc n)
  then obtain t where "(life ^^ n) s t" "life t s'" by auto
  then show ?case using Suc.IH [of t] life_rank [of t s'] by simp
qed simp

lemma life_forward: "life s s' \<Longrightarrow> slPhase s \<le> slPhase s' \<and> slShutdown s \<le> slShutdown s'"
  by (induction rule: life.induct) (simp_all add: less_eq_server_phase_def less_eq_shutdown_phase_def)

lemma life_run_forward: "life\<^sup>*\<^sup>* s s' \<Longrightarrow> slPhase s \<le> slPhase s' \<and> slShutdown s \<le> slShutdown s'"
proof (induction rule: rtranclp_induct)
  case (step t u)
  show ?case using step.IH life_forward [OF step.hyps(2)] by (auto intro: order_trans)
qed simp

definition lifeDone :: "serverLife \<Rightarrow> bool" where
  "lifeDone s \<longleftrightarrow> slShutdown s = ShutDown \<and> slPhase s \<in> {Returned, FatalError}"

lemma lifeDone_final:
  assumes "lifeInv s"
  shows "(\<nexists>s'. life s s') \<longleftrightarrow> lifeDone s"
proof
  assume "\<nexists>s'. life s s'"
  then show "lifeDone s" using life_progress [OF _ assms] by (auto simp: lifeDone_def)
next
  assume "lifeDone s"
  then show "\<nexists>s'. life s s'" by (auto simp: lifeDone_def elim: life.cases)
qed

lemma life_reaches_end: "lifeInv s \<Longrightarrow> \<exists>s'. life\<^sup>*\<^sup>* s s' \<and> lifeDone s'"
proof (induction "lifeRank s" arbitrary: s rule: less_induct)
  case less
  show ?case
  proof (cases "lifeDone s")
    case False
    then obtain t where t: "life s t" using lifeDone_final [OF less.prems] by blast
    then obtain s' where "life\<^sup>*\<^sup>* t s'" "lifeDone s'" using less.hyps [OF life_rank life_inv] less.prems by blast
    then show ?thesis using t converse_rtranclp_into_rtranclp by metis
  qed blast
qed



text \<open>
  A shutdown can end the process with an error: exactly for a server whose \<open>Serve\<close> reports that it was
  stopped, which is the gRPC server.
\<close>

lemma fatal_shutdown: "(\<exists>s. lifeReach fatal s \<and> slPhase s = FatalError) \<longleftrightarrow> fatal"
proof
  assume "\<exists>s. lifeReach fatal s \<and> slPhase s = FatalError"
  then obtain s where s: "lifeReach fatal s" "slPhase s = FatalError" by blast
  have "slFatal s = fatal"
    using s(1)
  proof (induction rule: rtranclp_induct)
    case base
    then show ?case by (simp add: newServer_def)
  next
    case (step s s')
    have "slFatal s' = slFatal s" using step(2) by (induction rule: life.induct) auto
    then show ?case using step by simp
  qed
  then show fatal using lifeReach_inv [OF s(1)] s(2) by (simp add: lifeInv_def)
next
  assume fatal
  let ?s = "\<lparr>slPhase = Acquired, slSem = True, slStopped = True, slShutdown = ShutDown, slFatal = fatal\<rparr>"
  have "life ?s (?s\<lparr>slPhase := FatalError\<rparr>)" using life.serve_stopped [of ?s] \<open>fatal\<close> by simp
  then have "lifeReach fatal (?s\<lparr>slPhase := FatalError\<rparr>)" using late_stop [of fatal] by simp
  then show "\<exists>s. lifeReach fatal s \<and> slPhase s = FatalError" by (intro exI [of _ "?s\<lparr>slPhase := FatalError\<rparr>"]) simp
qed

end
