(* ===== verification/MainRun.thy ===== *)
theory MainRun
  imports Startup
begin

text \<open>
  The flow of \<open>main.go\<close>: from the command line to the running servers (\<open>run\<close>), what the goroutine of each
  server does from the listener to the end of \<open>Serve\<close>, and the exit status of the process. Sockets and
  the \<open>Serve\<close> functions of the libraries are arguments; \<open>Lifecycle\<close> has the interleaving with the shutdown.
\<close>

section \<open>Listeners\<close>

text \<open>Network and address of a listener.\<close>

definition listenSpec :: "string \<Rightarrow> string \<times> string" where
  "listenSpec addr =
     (if hasPrefix addr ''unix://'' then (''unix'', drop (length ''unix://'') addr) else (''tcp'', addr))"

text \<open>
  \<open>svListen\<close>: a listener can be opened. \<open>svAcquire\<close>: the semaphore of the server is free. \<open>svServe\<close>: how
  \<open>Serve\<close> ends, with TLS or without: \<open>None\<close> is no error, \<open>ServerClosed\<close> the one that says that it was stopped.
\<close>

datatype serveError = ServerClosed | ServeFailed string

record serveEnv =
  svListen :: "string \<Rightarrow> string \<Rightarrow> bool"
  svAcquire :: bool
  svServe :: "bool \<Rightarrow> serveError option"

text \<open>The end of a server's goroutine: nothing was served, \<open>Serve\<close> returned and all is well, or \<open>log.Fatal\<close>.\<close>

datatype serverEnd =
    NotStarted
  | Served bool
  | FatalListen string
  | FatalServe bool serveError

definition httpTLS :: "config \<Rightarrow> bool" where
  "httpTLS c \<longleftrightarrow> cnTLSCertFile c \<noteq> [] \<and> cnTLSKeyFile c \<noteq> []"

text \<open>The end of \<open>startHttpServer\<close>, and what \<open>run\<close> makes of its error.\<close>

definition httpServe :: "config \<Rightarrow> serveEnv \<Rightarrow> serverEnd" where
  "httpServe c e =
     (let (network, addr) = listenSpec (cnHTTPAddress c) in
      if \<not> svListen e network addr then FatalListen (cnHTTPAddress c)
      else if httpTLS c then
        (if \<not> svAcquire e then NotStarted
         else (case svServe e True of
                 None \<Rightarrow> Served True
               | Some err \<Rightarrow> if err = ServerClosed then Served True else FatalServe True err))
      else if \<not> svAcquire e then NotStarted
      else (case svServe e False of
              None \<Rightarrow> Served False
            | Some err \<Rightarrow> if err = ServerClosed then Served False else FatalServe False err))"

text \<open>
  The end of \<open>startGrpcServer\<close> with \<open>ListenAndServeGRPC\<close>: here the semaphore comes before the listener, every
  error is passed on, and TLS is a matter of the server's credentials.
\<close>

definition grpcServe :: "settings \<Rightarrow> serveEnv \<Rightarrow> serverEnd" where
  "grpcServe s e =
     (let (network, addr) = listenSpec (cnGRPCAddress (stConfig s)) in
      if \<not> svAcquire e then NotStarted
      else if \<not> svListen e network addr then FatalListen (cnGRPCAddress (stConfig s))
      else (case svServe e (stTLS s \<noteq> None) of
              None \<Rightarrow> Served (stTLS s \<noteq> None)
            | Some err \<Rightarrow> FatalServe (stTLS s \<noteq> None) err))"

section \<open>The command\<close>

text \<open>
  What is started: the cache, the authentication mode, the timeout of the idle timer, the listeners of the
  two servers and the address of the profiler.
\<close>

record plan =
  plSettings :: settings
  plAuthMode :: string
  plIdleTimeout :: "int option"
  plHttp :: "string \<times> string"
  plGrpc :: "(string \<times> string) option"
  plProfile :: "string option"

datatype 'c run_result =
    ConfigRejected startup_error
  | PositionalArguments "string list"
  | CacheFailed new_error
  | CacheNeverOpens
  | Running plan 'c

definition planOf :: "settings \<Rightarrow> plan" where
  "planOf s =
     (let c = stConfig s in
      \<lparr>plSettings = s, plAuthMode = authMode c,
       plIdleTimeout = (if cnIdleTimeout c > 0 then Some (cnIdleTimeout c) else None),
       plHttp = listenSpec (cnHTTPAddress c),
       plGrpc = (if cnGRPCAddress c \<noteq> ''none'' then Some (listenSpec (cnGRPCAddress c)) else None),
       plProfile = (if cnProfileAddress c \<noteq> [] then Some (cnProfileAddress c) else None)\<rparr>)"

text \<open>\<open>run\<close>, with \<open>disk.New\<close> and the positional arguments as parameters.\<close>

definition mainRun :: "(string \<Rightarrow> 'd option) \<Rightarrow> ('d \<Rightarrow> yamlConfig \<Rightarrow> yamlConfig option) \<Rightarrow> (string \<Rightarrow> url option) \<Rightarrow>
    backendMakers \<Rightarrow> (string \<Rightarrow> int \<Rightarrow> dc_option list \<Rightarrow> (new_error + 'c) option) \<Rightarrow> cliCtx \<Rightarrow> string list \<Rightarrow> 'c run_result" where
  "mainRun readFile unmarshal parseUrl m newCache x args =
     (case configGet readFile unmarshal parseUrl m x of
        Inl e \<Rightarrow> ConfigRejected e
      | Inr s \<Rightarrow>
          if args \<noteq> [] then PositionalArguments args
          else
            (case newCache (cnDir (stConfig s)) (maxSizeBytes (stConfig s)) (diskOptions s) of
               None \<Rightarrow> CacheNeverOpens
             | Some (Inl e) \<Rightarrow> CacheFailed e
             | Some (Inr cache) \<Rightarrow> Running (planOf s) cache))"

text \<open>
  The goroutines of the servers. The process ends with status 1 as soon as one of them is fatal, and with
  status 0 when all of them have returned.
\<close>

definition serverEnds :: "plan \<Rightarrow> serveEnv \<Rightarrow> serveEnv \<Rightarrow> serverEnd list" where
  "serverEnds p eh eg =
     httpServe (stConfig (plSettings p)) eh #
     (if plGrpc p \<noteq> None then [grpcServe (plSettings p) eg] else [])"

fun fatalEnd :: "serverEnd \<Rightarrow> bool" where
  "fatalEnd NotStarted = False"
| "fatalEnd (Served tls) = False"
| "fatalEnd (FatalListen addr) = True"
| "fatalEnd (FatalServe tls err) = True"

definition exitStatus :: "'c run_result \<Rightarrow> serveEnv \<Rightarrow> serveEnv \<Rightarrow> nat option" where
  "exitStatus r eh eg =
     (case r of
        ConfigRejected e \<Rightarrow> Some 1
      | PositionalArguments args \<Rightarrow> Some 1
      | CacheFailed e \<Rightarrow> Some 1
      | CacheNeverOpens \<Rightarrow> None
      | Running p cache \<Rightarrow> Some (if list_ex fatalEnd (serverEnds p eh eg) then 1 else 0))"

end
