(* ===== verification/Flags.thy ===== *)
theory Flags
  imports Config
begin

text \<open>
  \<open>utils/flags/flags.go\<close>: the flags of the command line, with their types, default values, help
  texts and environment variables, and what it means for a flag that it is not set. How the flags library
  reads the command line is not modelled: its result is the \<open>cliCtx\<close> of \<open>Config\<close>.
\<close>

section \<open>Flags\<close>

datatype flagValue =
    StringValue string
  | IntValue int
  | Int64Value int
  | DurationValue int
  | BoolValue bool

record cliFlag =
  fgName :: string
  fgValue :: flagValue
  fgUsage :: string
  fgDefaultText :: string
  fgEnvVars :: "string list"

text \<open>\<open>strings.Join\<close>.\<close>

fun stringsJoin :: "string \<Rightarrow> string list \<Rightarrow> string" where
  "stringsJoin sep [] = []"
| "stringsJoin sep [s] = s"
| "stringsJoin sep (s # t # ts) = s @ sep @ stringsJoin sep (t # ts)"

definition s3AuthMsg :: "string list \<Rightarrow> string" where
  "s3AuthMsg authMethods = ''Applies to s3 auth method(s): '' @ stringsJoin '', '' authMethods @ ''.''"

definition azBlobAuthMsg :: "string list \<Rightarrow> string" where
  "azBlobAuthMsg authMethods = ''Applies to AzBlob auth method(s): '' @ stringsJoin '', '' authMethods @ ''.''"

text \<open>A flag without a value in the source has the zero value of its type, and no text for the default an empty one.\<close>

definition storageFlags :: "cliFlag list" where
  "storageFlags =
    [\<lparr>fgName = ''config_file'', fgValue = StringValue [],
        fgUsage = ''Path to a YAML configuration file. If this flag is specified then all other flags are ignored.'',
        fgDefaultText = [], fgEnvVars = [''BAZEL_REMOTE_CONFIG_FILE'']\<rparr>,
     \<lparr>fgName = ''dir'', fgValue = StringValue [],
        fgUsage = ''Directory path where to store the cache contents. This flag is required.'',
        fgDefaultText = [], fgEnvVars = [''BAZEL_REMOTE_DIR'']\<rparr>,
     \<lparr>fgName = ''max_size'', fgValue = Int64Value 0,
        fgUsage = ''The maximum size of bazel-remote's disk cache in GiB. This flag is required.'',
        fgDefaultText = [], fgEnvVars = [''BAZEL_REMOTE_MAX_SIZE'']\<rparr>,
     \<lparr>fgName = ''storage_mode'', fgValue = StringValue ''zstd'',
        fgUsage = ''Which format to store CAS blobs in. Must be one of \"zstd\" or \"uncompressed\".'',
        fgDefaultText = [], fgEnvVars = [''BAZEL_REMOTE_STORAGE_MODE'']\<rparr>,
     \<lparr>fgName = ''zstd_implementation'', fgValue = StringValue ''go'',
        fgUsage = ''ZSTD implementation to use. Must be one of \"go\" or \"cgo\".'',
        fgDefaultText = [], fgEnvVars = [''BAZEL_REMOTE_ZSTD_IMPLEMENTATION'']\<rparr>]"

definition listenerFlags :: "cliFlag list" where
  "listenerFlags =
    [\<lparr>fgName = ''http_address'', fgValue = StringValue [],
        fgUsage = ''Address specification for the HTTP server listener, formatted either as [host]:port for TCP or '' @
           ''unix://path.sock for Unix domain sockets.'',
        fgDefaultText = [], fgEnvVars = [''BAZEL_REMOTE_HTTP_ADDRESS'']\<rparr>,
     \<lparr>fgName = ''host'', fgValue = StringValue [],
        fgUsage = ''DEPRECATED. Use --http_address to specify the HTTP server listener.'',
        fgDefaultText = [], fgEnvVars = [''BAZEL_REMOTE_HOST'']\<rparr>,
     \<lparr>fgName = ''port'', fgValue = IntValue 8080,
        fgUsage = ''DEPRECATED. Use --http_address to specify the HTTP server listener.'',
        fgDefaultText = [], fgEnvVars = [''BAZEL_REMOTE_PORT'']\<rparr>,
     \<lparr>fgName = ''grpc_address'', fgValue = StringValue [],
        fgUsage = ''Address specification for the gRPC server listener, formatted either as [host]:port for TCP or '' @
           ''unix://path.sock for Unix domain sockets. Set to 'none' to disable.'',
        fgDefaultText = [], fgEnvVars = [''BAZEL_REMOTE_GRPC_ADDRESS'']\<rparr>,
     \<lparr>fgName = ''grpc_port'', fgValue = IntValue 9092,
        fgUsage = ''DEPRECATED. Use --grpc_address to specify the gRPC server listener. Set to 0 to disable.'',
        fgDefaultText = [], fgEnvVars = [''BAZEL_REMOTE_GRPC_PORT'']\<rparr>,
     \<lparr>fgName = ''profile_address'', fgValue = StringValue [],
        fgUsage = ''Address specification for a http server to listen on for profiling, formatted either as [host]:port for '' @
           ''TCP or unix://path.sock for Unix domain sockets. Off by default, but can also be set to 'none' to disable '' @
           ''explicitly.'',
        fgDefaultText = ''\"\", ie profiling disabled'', fgEnvVars = [''BAZEL_REMOTE_PROFILE_ADDRESS'']\<rparr>,
     \<lparr>fgName = ''profile_host'', fgValue = StringValue ''127.0.0.1'',
        fgUsage = ''DEPRECATED. Use --profile_address instead. A host address to listen on for profiling, if enabled by a '' @
           ''valid --profile_port setting.'',
        fgDefaultText = [], fgEnvVars = [''BAZEL_REMOTE_PROFILE_HOST'']\<rparr>,
     \<lparr>fgName = ''profile_port'', fgValue = IntValue 0,
        fgUsage = ''DEPRECATED. Use --profile_address instead. If a positive integer, serve /debug/pprof/* URLs from '' @
           ''http://profile_host:profile_port.'',
        fgDefaultText = ''0, ie profiling disabled'', fgEnvVars = [''BAZEL_REMOTE_PROFILE_PORT'']\<rparr>,
     \<lparr>fgName = ''http_read_timeout'', fgValue = DurationValue 0,
        fgUsage = ''The HTTP read timeout for a client request in seconds (does not apply to the proxy backends or the '' @
           ''profiling endpoint)'',
        fgDefaultText = ''0s, ie disabled'', fgEnvVars = [''BAZEL_REMOTE_HTTP_READ_TIMEOUT'']\<rparr>,
     \<lparr>fgName = ''http_write_timeout'', fgValue = DurationValue 0,
        fgUsage = ''The HTTP write timeout for a server response in seconds (does not apply to the proxy backends or the '' @
           ''profiling endpoint)'',
        fgDefaultText = ''0s, ie disabled'', fgEnvVars = [''BAZEL_REMOTE_HTTP_WRITE_TIMEOUT'']\<rparr>]"

definition securityFlags :: "cliFlag list" where
  "securityFlags =
    [\<lparr>fgName = ''htpasswd_file'', fgValue = StringValue [],
        fgUsage = ''Path to a .htpasswd file. This flag is optional. Please read '' @
           ''https://httpd.apache.org/docs/2.4/programs/htpasswd.html.'',
        fgDefaultText = [], fgEnvVars = [''BAZEL_REMOTE_HTPASSWD_FILE'']\<rparr>,
     \<lparr>fgName = ''min_tls_version'', fgValue = StringValue ''1.0'',
        fgUsage = ''The minimum TLS version that is acceptable for incoming requests (does not apply to proxy backends). '' @
           ''Allowed values: 1.0, 1.1, 1.2, 1.3.'',
        fgDefaultText = [], fgEnvVars = [''BAZEL_REMOTE_MIN_TLS_VERSION'']\<rparr>,
     \<lparr>fgName = ''tls_ca_file'', fgValue = StringValue [],
        fgUsage = ''Optional. Enables mTLS (authenticating client certificates), should be the certificate authority that '' @
           ''signed the client certificates.'',
        fgDefaultText = [], fgEnvVars = [''BAZEL_REMOTE_TLS_CA_FILE'']\<rparr>,
     \<lparr>fgName = ''tls_cert_file'', fgValue = StringValue [],
        fgUsage = ''Path to a pem encoded certificate file.'',
        fgDefaultText = [], fgEnvVars = [''BAZEL_REMOTE_TLS_CERT_FILE'']\<rparr>,
     \<lparr>fgName = ''tls_key_file'', fgValue = StringValue [],
        fgUsage = ''Path to a pem encoded key file.'',
        fgDefaultText = [], fgEnvVars = [''BAZEL_REMOTE_TLS_KEY_FILE'']\<rparr>,
     \<lparr>fgName = ''allow_unauthenticated_reads'', fgValue = BoolValue False,
        fgUsage = ''If authentication is enabled (--htpasswd_file or --tls_ca_file), allow unauthenticated clients read '' @
           ''access.'',
        fgDefaultText = ''false, ie if authentication is required, read-only requests must also be authenticated'', fgEnvVars = [''BAZEL_REMOTE_UNAUTHENTICATED_READS'']\<rparr>]"

definition limitFlags :: "cliFlag list" where
  "limitFlags =
    [\<lparr>fgName = ''idle_timeout'', fgValue = DurationValue 0,
        fgUsage = ''The maximum period of having received no request after which the server will shut itself down.'',
        fgDefaultText = ''0s, ie disabled'', fgEnvVars = [''BAZEL_REMOTE_IDLE_TIMEOUT'']\<rparr>,
     \<lparr>fgName = ''max_queued_uploads'', fgValue = IntValue 1000000,
        fgUsage = ''When using proxy backends, sets the maximum number of objects in queue for upload. If the queue is full, '' @
           ''uploads will be skipped until the queue has space again.'',
        fgDefaultText = [], fgEnvVars = [''BAZEL_REMOTE_MAX_QUEUED_UPLOADS'']\<rparr>,
     \<lparr>fgName = ''max_blob_size'', fgValue = Int64Value maxInt64,
        fgUsage = ''The maximum logical/uncompressed blob size that will be accepted from clients. Note that this limit is '' @
           ''not applied to preexisting blobs in the cache.'',
        fgDefaultText = show_int maxInt64, fgEnvVars = [''BAZEL_REMOTE_MAX_BLOB_SIZE'']\<rparr>,
     \<lparr>fgName = ''max_proxy_blob_size'', fgValue = Int64Value maxInt64,
        fgUsage = ''The maximum logical/uncompressed blob size that will be downloaded from proxies. Note that this limit is '' @
           ''not applied to preexisting blobs in the cache.'',
        fgDefaultText = show_int maxInt64, fgEnvVars = [''BAZEL_REMOTE_MAX_PROXY_BLOB_SIZE'']\<rparr>,
     \<lparr>fgName = ''num_uploaders'', fgValue = IntValue 100,
        fgUsage = ''When using proxy backends, sets the number of Goroutines to process parallel uploads to backend.'',
        fgDefaultText = [], fgEnvVars = [''BAZEL_REMOTE_NUM_UPLOADERS'']\<rparr>]"

definition grpcProxyFlags :: "cliFlag list" where
  "grpcProxyFlags =
    [\<lparr>fgName = ''grpc_proxy.url'', fgValue = StringValue [],
        fgUsage = ''The base URL to use for the experimental grpc proxy backend, e.g. grpc://localhost:9090 or '' @
           ''grpcs://example.com:7070. Note that this requires a backend with remote asset API support if you want '' @
           ''http client requests to work.'',
        fgDefaultText = [], fgEnvVars = [''BAZEL_REMOTE_GRPC_PROXY_URL'']\<rparr>,
     \<lparr>fgName = ''grpc_proxy.key_file'', fgValue = StringValue [],
        fgUsage = ''Path to a key used to authenticate with the proxy backend using mTLS. If this flag is provided, then '' @
           ''grpc_proxy.cert_file must also be specified.'',
        fgDefaultText = [], fgEnvVars = [''BAZEL_REMOTE_GRPC_PROXY_KEY_FILE'']\<rparr>,
     \<lparr>fgName = ''grpc_proxy.cert_file'', fgValue = StringValue [],
        fgUsage = ''Path to a certificate used to authenticate with the proxy backend using mTLS. If this flag is provided, '' @
           ''then grpc_proxy.key_file must also be specified.'',
        fgDefaultText = [], fgEnvVars = [''BAZEL_REMOTE_GRPC_PROXY_CERT_FILE'']\<rparr>,
     \<lparr>fgName = ''grpc_proxy.ca_file'', fgValue = StringValue [],
        fgUsage = ''Path to a certificate autority used to validate the grpc proxy backend certificate.'',
        fgDefaultText = [], fgEnvVars = [''BAZEL_REMOTE_GRPC_PROXY_CA_FILE'']\<rparr>]"

definition httpProxyFlags :: "cliFlag list" where
  "httpProxyFlags =
    [\<lparr>fgName = ''http_proxy.url'', fgValue = StringValue [],
        fgUsage = ''The base URL to use for a http proxy backend.'',
        fgDefaultText = [], fgEnvVars = [''BAZEL_REMOTE_HTTP_PROXY_URL'']\<rparr>,
     \<lparr>fgName = ''http_proxy.key_file'', fgValue = StringValue [],
        fgUsage = ''Path to a key used to authenticate with the proxy backend using mTLS. If this flag is provided, then '' @
           ''http_proxy.cert_file must also be specified.'',
        fgDefaultText = [], fgEnvVars = [''BAZEL_REMOTE_HTTP_PROXY_KEY_FILE'']\<rparr>,
     \<lparr>fgName = ''http_proxy.cert_file'', fgValue = StringValue [],
        fgUsage = ''Path to a certificate used to authenticate with the proxy backend using mTLS. If this flag is provided, '' @
           ''then http_proxy.key_file must also be specified.'',
        fgDefaultText = [], fgEnvVars = [''BAZEL_REMOTE_HTTP_PROXY_CERT_FILE'']\<rparr>,
     \<lparr>fgName = ''http_proxy.ca_file'', fgValue = StringValue [],
        fgUsage = ''Path to a certificate autority used to validate the http proxy backend certificate.'',
        fgDefaultText = [], fgEnvVars = [''BAZEL_REMOTE_HTTP_PROXY_CA_FILE'']\<rparr>]"

definition gcsFlags :: "cliFlag list" where
  "gcsFlags =
    [\<lparr>fgName = ''gcs_proxy.bucket'', fgValue = StringValue [],
        fgUsage = ''The bucket to use for the Google Cloud Storage proxy backend.'',
        fgDefaultText = [], fgEnvVars = [''BAZEL_REMOTE_GCS_BUCKET'']\<rparr>,
     \<lparr>fgName = ''gcs_proxy.use_default_credentials'', fgValue = BoolValue False,
        fgUsage = ''Whether or not to use authentication for the Google Cloud Storage proxy backend.'',
        fgDefaultText = [], fgEnvVars = [''BAZEL_REMOTE_GCS_USE_DEFAULT_CREDENTIALS'']\<rparr>,
     \<lparr>fgName = ''gcs_proxy.json_credentials_file'', fgValue = StringValue [],
        fgUsage = ''Path to a JSON file that contains Google credentials for the Google Cloud Storage proxy backend.'',
        fgDefaultText = [], fgEnvVars = [''BAZEL_REMOTE_GCS_JSON_CREDENTIALS_FILE'']\<rparr>]"

definition s3Flags :: "cliFlag list" where
  "s3Flags =
    [\<lparr>fgName = ''s3.endpoint'', fgValue = StringValue [],
        fgUsage = ''The S3/minio endpoint to use when using S3 proxy backend.'',
        fgDefaultText = [], fgEnvVars = [''BAZEL_REMOTE_S3_ENDPOINT'']\<rparr>,
     \<lparr>fgName = ''s3.bucket'', fgValue = StringValue [],
        fgUsage = ''The S3/minio bucket to use when using S3 proxy backend.'',
        fgDefaultText = [], fgEnvVars = [''BAZEL_REMOTE_S3_BUCKET'']\<rparr>,
     \<lparr>fgName = ''s3.bucket_lookup_type'', fgValue = StringValue ''auto'',
        fgUsage = ''The S3/minio bucket lookup type to use when using S3 proxy backend. Allowed values: auto, dns, path.'',
        fgDefaultText = [], fgEnvVars = [''BAZEL_REMOTE_S3_BUCKET_LOOKUP_TYPE'']\<rparr>,
     \<lparr>fgName = ''s3.prefix'', fgValue = StringValue [],
        fgUsage = ''The S3/minio object prefix to use when using S3 proxy backend.'',
        fgDefaultText = [], fgEnvVars = [''BAZEL_REMOTE_S3_PREFIX'']\<rparr>,
     \<lparr>fgName = ''s3.auth_method'', fgValue = StringValue [],
        fgUsage = ''The S3/minio authentication method. This argument is required when an s3 proxy backend is used. Allowed '' @
           ''values: '' @ stringsJoin '', '' s3AuthMethods @ ''.'',
        fgDefaultText = [], fgEnvVars = [''BAZEL_REMOTE_S3_AUTH_METHOD'']\<rparr>,
     \<lparr>fgName = ''s3.access_key_id'', fgValue = StringValue [],
        fgUsage = ''The S3/minio access key to use when using S3 proxy backend. '' @ s3AuthMsg [''access_key''],
        fgDefaultText = [], fgEnvVars = [''BAZEL_REMOTE_S3_ACCESS_KEY_ID'']\<rparr>,
     \<lparr>fgName = ''s3.secret_access_key'', fgValue = StringValue [],
        fgUsage = ''The S3/minio secret access key to use when using S3 proxy backend. '' @ s3AuthMsg [''access_key''],
        fgDefaultText = [], fgEnvVars = [''BAZEL_REMOTE_S3_SECRET_ACCESS_KEY'']\<rparr>,
     \<lparr>fgName = ''s3.signature_type'', fgValue = StringValue [],
        fgUsage = ''Which type of s3 signature to use when using S3 proxy backend. Only applies when using the s3 access_key '' @
           ''auth method. Allowed values: v2, v4, v4streaming, anonymous.'',
        fgDefaultText = ''v4'', fgEnvVars = [''BAZEL_REMOTE_S3_SIGNATURE_TYPE'']\<rparr>,
     \<lparr>fgName = ''s3.aws_shared_credentials_file'', fgValue = StringValue [],
        fgUsage = ''Path to the AWS credentials file. If not specified, the minio client will default to '~/.aws/credentials'. '' @ s3AuthMsg [''aws_credentials_file''],
        fgDefaultText = [], fgEnvVars = [''BAZEL_REMOTE_S3_AWS_SHARED_CREDENTIALS_FILE'', ''AWS_SHARED_CREDENTIALS_FILE'']\<rparr>,
     \<lparr>fgName = ''s3.aws_profile'', fgValue = StringValue ''default'',
        fgUsage = ''The aws credentials profile to use from within s3.aws_shared_credentials_file. '' @ s3AuthMsg [''aws_credentials_file''],
        fgDefaultText = [], fgEnvVars = [''BAZEL_REMOTE_S3_AWS_PROFILE'', ''AWS_PROFILE'']\<rparr>,
     \<lparr>fgName = ''s3.disable_ssl'', fgValue = BoolValue False,
        fgUsage = ''Whether to disable TLS/SSL when using the S3 proxy backend.'',
        fgDefaultText = ''false, ie enable TLS/SSL'', fgEnvVars = [''BAZEL_REMOTE_S3_DISABLE_SSL'']\<rparr>,
     \<lparr>fgName = ''s3.update_timestamps'', fgValue = BoolValue False,
        fgUsage = ''Whether to update timestamps of object on cache hit.'',
        fgDefaultText = ''false'', fgEnvVars = [''BAZEL_REMOTE_S3_UPDATE_TIMESTAMPS'']\<rparr>,
     \<lparr>fgName = ''s3.iam_role_endpoint'', fgValue = StringValue [],
        fgUsage = ''Endpoint for using IAM security credentials. By default it will look for credentials in the standard '' @
           ''locations for the AWS platform. '' @ s3AuthMsg [''iam_role''],
        fgDefaultText = [], fgEnvVars = [''BAZEL_REMOTE_S3_IAM_ROLE_ENDPOINT'']\<rparr>,
     \<lparr>fgName = ''s3.region'', fgValue = StringValue [],
        fgUsage = ''The AWS region. Required when not specifying S3/minio access keys.'',
        fgDefaultText = [], fgEnvVars = [''BAZEL_REMOTE_S3_REGION'']\<rparr>,
     \<lparr>fgName = ''s3.key_version'', fgValue = IntValue 2,
        fgUsage = ''DEPRECATED. Key version 2 now is the only supported value. This flag will be removed.'',
        fgDefaultText = ''2'', fgEnvVars = [''BAZEL_REMOTE_S3_KEY_VERSION'']\<rparr>]"

definition azBlobFlags :: "cliFlag list" where
  "azBlobFlags =
    [\<lparr>fgName = ''azblob.tenant_id'', fgValue = StringValue [],
        fgUsage = ''The Azure blob storage tenant id to use when using azblob proxy backend.'',
        fgDefaultText = [], fgEnvVars = [''BAZEL_REMOTE_AZBLOB_TENANT_ID'', ''AZURE_TENANT_ID'']\<rparr>,
     \<lparr>fgName = ''azblob.storage_account'', fgValue = StringValue [],
        fgUsage = ''The Azure blob storage storage account to use when using azblob proxy backend.'',
        fgDefaultText = [], fgEnvVars = [''BAZEL_REMOTE_AZBLOB_STORAGE_ACCOUNT'']\<rparr>,
     \<lparr>fgName = ''azblob.container_name'', fgValue = StringValue [],
        fgUsage = ''The Azure blob storage container name to use when using azblob proxy backend.'',
        fgDefaultText = [], fgEnvVars = [''BAZEL_REMOTE_AZBLOB_CONTAINER_NAME'']\<rparr>,
     \<lparr>fgName = ''azblob.prefix'', fgValue = StringValue [],
        fgUsage = ''The Azure blob storage object prefix to use when using azblob proxy backend.'',
        fgDefaultText = [], fgEnvVars = [''BAZEL_REMOTE_AZBLOB_PREFIX'']\<rparr>,
     \<lparr>fgName = ''azblob.update_timestamps'', fgValue = BoolValue False,
        fgUsage = ''Whether to update timestamps of object on cache hit.'',
        fgDefaultText = ''false'', fgEnvVars = [''BAZEL_REMOTE_AZBLOB_UPDATE_TIMESTAMPS'']\<rparr>,
     \<lparr>fgName = ''azblob.auth_method'', fgValue = StringValue [],
        fgUsage = ''The Azure blob storage authentication method. This argument is required when an azblob proxy backend is '' @
           ''used. Allowed values: '' @ stringsJoin '', '' azAuthMethods @ ''.'',
        fgDefaultText = [], fgEnvVars = [''BAZEL_REMOTE_AZBLOB_AUTH_METHOD'']\<rparr>,
     \<lparr>fgName = ''azblob.shared_key'', fgValue = StringValue [],
        fgUsage = ''The Azure blob storage account access key to use when using azblob proxy backend. '' @ azBlobAuthMsg [''shared_key''],
        fgDefaultText = [], fgEnvVars = [''BAZEL_REMOTE_AZBLOB_SHARED_KEY'', ''AZURE_STORAGE_ACCOUNT_KEY'']\<rparr>,
     \<lparr>fgName = ''azblob.client_id'', fgValue = StringValue [],
        fgUsage = ''The Azure blob storage client id to use when using azblob proxy backend. '' @ azBlobAuthMsg [''client_secret'', ''client_certificate''],
        fgDefaultText = [], fgEnvVars = [''BAZEL_REMOTE_AZBLOB_CLIENT_ID'', ''AZURE_CLIENT_ID'']\<rparr>,
     \<lparr>fgName = ''azblob.client_secret'', fgValue = StringValue [],
        fgUsage = ''The Azure blob storage client secret key to use when using azblob proxy backend. '' @ azBlobAuthMsg [''client_secret''],
        fgDefaultText = [], fgEnvVars = [''BAZEL_REMOTE_AZBLOB_SECRET_CLIENT_SECRET'', ''AZURE_CLIENT_SECRET'']\<rparr>,
     \<lparr>fgName = ''azblob.cert_path'', fgValue = StringValue [],
        fgUsage = ''Path to the certificates file. '' @ azBlobAuthMsg [''client_certificate''],
        fgDefaultText = [], fgEnvVars = [''BAZEL_REMOTE_AZBLOB_CERT_PATH'', ''AZURE_CLIENT_CERTIFICATE_PATH'']\<rparr>]"

definition featureFlags :: "cliFlag list" where
  "featureFlags =
    [\<lparr>fgName = ''disable_http_ac_validation'', fgValue = BoolValue False,
        fgUsage = ''Whether to disable ActionResult validation for HTTP requests.'',
        fgDefaultText = ''false, ie enable validation'', fgEnvVars = [''BAZEL_REMOTE_DISABLE_HTTP_AC_VALIDATION'']\<rparr>,
     \<lparr>fgName = ''disable_grpc_ac_deps_check'', fgValue = BoolValue False,
        fgUsage = ''Whether to disable ActionResult dependency checks for gRPC GetActionResult requests.'',
        fgDefaultText = ''false, ie enable ActionCache dependency checks'', fgEnvVars = [''BAZEL_REMOTE_DISABLE_GRPS_AC_DEPS_CHECK'']\<rparr>,
     \<lparr>fgName = ''enable_ac_key_instance_mangling'', fgValue = BoolValue False,
        fgUsage = ''Whether to enable mangling ActionCache keys with non-empty instance names.'',
        fgDefaultText = ''false, ie disable mangling'', fgEnvVars = [''BAZEL_REMOTE_ENABLE_AC_KEY_INSTANCE_MANGLING'']\<rparr>,
     \<lparr>fgName = ''enable_endpoint_metrics'', fgValue = BoolValue False,
        fgUsage = ''Whether to enable metrics for each HTTP/gRPC endpoint.'',
        fgDefaultText = ''false, ie disable metrics'', fgEnvVars = [''BAZEL_REMOTE_ENABLE_ENDPOINT_METRICS'']\<rparr>,
     \<lparr>fgName = ''experimental_remote_asset_api'', fgValue = BoolValue False,
        fgUsage = ''Whether to enable the experimental remote asset API implementation.'',
        fgDefaultText = ''false, ie disable remote asset API'', fgEnvVars = [''BAZEL_REMOTE_EXPERIMENTAL_REMOTE_ASSET_API'']\<rparr>,
     \<lparr>fgName = ''access_log_level'', fgValue = StringValue ''all'',
        fgUsage = ''The access logger verbosity level. If supplied, must be one of \"none\" or \"all\".'',
        fgDefaultText = ''all, ie enable full access logging'', fgEnvVars = [''BAZEL_REMOTE_ACCESS_LOG_LEVEL'']\<rparr>,
     \<lparr>fgName = ''log_timezone'', fgValue = StringValue ''UTC'',
        fgUsage = ''The timezone to use for log timestamps. If supplied, must be one of \"UTC\", \"local\" or \"none\" for no '' @
           ''timestamps.'',
        fgDefaultText = ''UTC, ie use UTC timezone'', fgEnvVars = [''BAZEL_REMOTE_LOG_TIMEZONE'']\<rparr>]"

definition GetCliFlags :: "cliFlag list" where
  "GetCliFlags = storageFlags @ listenerFlags @ securityFlags @ limitFlags @ grpcProxyFlags @
     httpProxyFlags @ gcsFlags @ s3Flags @ azBlobFlags @ featureFlags"

section \<open>The values of flags\<close>

text \<open>What the context has for a flag when it has the given value.\<close>

definition flagHolds :: "cliCtx \<Rightarrow> string \<Rightarrow> flagValue \<Rightarrow> bool" where
  "flagHolds x name v =
     (case v of
        StringValue s \<Rightarrow> clString x name = s
      | IntValue n \<Rightarrow> clInt x name = n
      | Int64Value n \<Rightarrow> clInt x name = n
      | DurationValue n \<Rightarrow> clInt x name = n
      | BoolValue b \<Rightarrow> clBool x name = b)"

text \<open>
  Every flag but the given ones has its default value: the documented behaviour of the library for flags that
  are neither on the command line nor in one of their environment variables.
\<close>

definition onlySet :: "string list \<Rightarrow> cliCtx \<Rightarrow> bool" where
  "onlySet given x =
     list_all (\<lambda>f. fgName f \<in> set given \<or> flagHolds x (fgName f) (fgValue f)) GetCliFlags"

text \<open>Two contexts with the same values of a flag, read with the type that it has.\<close>

definition flagAgrees :: "cliCtx \<Rightarrow> cliCtx \<Rightarrow> string \<Rightarrow> flagValue \<Rightarrow> bool" where
  "flagAgrees x y name v =
     (case v of
        StringValue s \<Rightarrow> clString x name = clString y name
      | IntValue n \<Rightarrow> clInt x name = clInt y name
      | Int64Value n \<Rightarrow> clInt x name = clInt y name
      | DurationValue n \<Rightarrow> clInt x name = clInt y name
      | BoolValue b \<Rightarrow> clBool x name = clBool y name)"

text \<open>The context without any flag set.\<close>

definition defaultCtx :: cliCtx where
  "defaultCtx =
     (let vals = map_of (map (\<lambda>f. (fgName f, fgValue f)) GetCliFlags) in
      \<lparr>clString = (\<lambda>n. case vals n of Some (StringValue s) \<Rightarrow> s | _ \<Rightarrow> []),
       clInt = (\<lambda>n. case vals n of Some (IntValue i) \<Rightarrow> i | Some (Int64Value i) \<Rightarrow> i | Some (DurationValue i) \<Rightarrow> i | _ \<Rightarrow> 0),
       clBool = (\<lambda>n. case vals n of Some (BoolValue b) \<Rightarrow> b | _ \<Rightarrow> False)\<rparr>)"

end
