(* ===== verification/Flags_Props.thy ===== *)
theory Flags_Props
  imports Flags Config_Props
begin

text \<open>
  The table of flags as a whole, and what the configuration is made of: only declared flags, with the types that they are
  declared with. With no flag but the two that are required the server gets the documented defaults;
  port 0 does not switch the gRPC server off.
\<close>

section \<open>The table\<close>

text \<open>Names and default values of all flags, in the order of the source.\<close>

definition flagTable :: "(string \<times> flagValue) list" where
  "flagTable =
     [(''config_file'', StringValue []), (''dir'', StringValue []), (''max_size'', Int64Value 0),
      (''storage_mode'', StringValue ''zstd''), (''zstd_implementation'', StringValue ''go''),
      (''http_address'', StringValue []), (''host'', StringValue []), (''port'', IntValue 8080),
      (''grpc_address'', StringValue []), (''grpc_port'', IntValue 9092), (''profile_address'', StringValue []),
      (''profile_host'', StringValue ''127.0.0.1''), (''profile_port'', IntValue 0),
      (''http_read_timeout'', DurationValue 0), (''http_write_timeout'', DurationValue 0),
      (''htpasswd_file'', StringValue []), (''min_tls_version'', StringValue ''1.0''),
      (''tls_ca_file'', StringValue []), (''tls_cert_file'', StringValue []), (''tls_key_file'', StringValue []),
      (''allow_unauthenticated_reads'', BoolValue False), (''idle_timeout'', DurationValue 0),
      (''max_queued_uploads'', IntValue 1000000), (''max_blob_size'', Int64Value maxInt64),
      (''max_proxy_blob_size'', Int64Value maxInt64), (''num_uploaders'', IntValue 100),
      (''grpc_proxy.url'', StringValue []), (''grpc_proxy.key_file'', StringValue []),
      (''grpc_proxy.cert_file'', StringValue []), (''grpc_proxy.ca_file'', StringValue []),
      (''http_proxy.url'', StringValue []), (''http_proxy.key_file'', StringValue []),
      (''http_proxy.cert_file'', StringValue []), (''http_proxy.ca_file'', StringValue []),
      (''gcs_proxy.bucket'', StringValue []), (''gcs_proxy.use_default_credentials'', BoolValue False),
      (''gcs_proxy.json_credentials_file'', StringValue []), (''s3.endpoint'', StringValue []),
      (''s3.bucket'', StringValue []), (''s3.bucket_lookup_type'', StringValue ''auto''),
      (''s3.prefix'', StringValue []), (''s3.auth_method'', StringValue []),
      (''s3.access_key_id'', StringValue []), (''s3.secret_access_key'', StringValue []),
      (''s3.signature_type'', StringValue []), (''s3.aws_shared_credentials_file'', StringValue []),
      (''s3.aws_profile'', StringValue ''default''), (''s3.disable_ssl'', BoolValue False),
      (''s3.update_timestamps'', BoolValue False), (''s3.iam_role_endpoint'', StringValue []),
      (''s3.region'', StringValue []), (''s3.key_version'', IntValue 2), (''azblob.tenant_id'', StringValue []),
      (''azblob.storage_account'', StringValue []), (''azblob.container_name'', StringValue []),
      (''azblob.prefix'', StringValue []), (''azblob.update_timestamps'', BoolValue False),
      (''azblob.auth_method'', StringValue []), (''azblob.shared_key'', StringValue []),
      (''azblob.client_id'', StringValue []), (''azblob.client_secret'', StringValue []),
      (''azblob.cert_path'', StringValue []), (''disable_http_ac_validation'', BoolValue False),
      (''disable_grpc_ac_deps_check'', BoolValue False), (''enable_ac_key_instance_mangling'', BoolValue False),
      (''enable_endpoint_metrics'', BoolValue False), (''experimental_remote_asset_api'', BoolValue False),
      (''access_log_level'', StringValue ''all''), (''log_timezone'', StringValue ''UTC'')]"

lemma flagTable: "map (\<lambda>f. (fgName f, fgValue f)) GetCliFlags = flagTable"
  by (simp add: GetCliFlags_def storageFlags_def listenerFlags_def securityFlags_def limitFlags_def grpcProxyFlags_def
      httpProxyFlags_def gcsFlags_def s3Flags_def azBlobFlags_def featureFlags_def flagTable_def)

lemma onlySet_table: "onlySet given x \<longleftrightarrow> list_all (\<lambda>(n, v). n \<in> set given \<or> flagHolds x n v) flagTable"
  unfolding onlySet_def flagTable [symmetric] by (simp add: list_all_iff)

lemma flag_names_distinct: "distinct (map fst flagTable)"
  by code_simp

lemma defaultCtx_table:
  "(n, v) \<in> set flagTable \<Longrightarrow> flagHolds defaultCtx n v"
  using map_of_is_SomeI [OF flag_names_distinct]
  by (auto simp: defaultCtx_def flagTable flagHolds_def Let_def split: flagValue.splits)

lemma defaultCtx_onlySet: "onlySet given defaultCtx"
  unfolding onlySet_table list_all_iff using defaultCtx_table by auto

section \<open>What the configuration reads\<close>

lemma agreeing_table:
  "\<forall>f \<in> set GetCliFlags. flagAgrees x y (fgName f) (fgValue f) \<Longrightarrow> list_all (\<lambda>(n, v). flagAgrees x y n v) flagTable"
  unfolding flagTable [symmetric] by (simp add: list_all_iff)

text \<open>
  The configuration depends on declared flags only, each read with the type that it is declared with: two
  command lines with the same values of these have the same configuration. (The flags library answers a
  read of an undeclared flag, or one with another type, with the zero value.)
\<close>

theorem config_reads_declared_flags:
  assumes "\<forall>f \<in> set GetCliFlags. flagAgrees x y (fgName f) (fgValue f)"
  shows "getConfig readFile unmarshal parseUrl x = getConfig readFile unmarshal parseUrl y"
proof -
  note eqs = agreeing_table [OF assms, unfolded flagTable_def, simplified, unfolded flagAgrees_def, simplified]
  show ?thesis
    unfolding getConfig_def cliUrlBackend_def cliS3_def cliGcs_def cliAzBlob_def cliAddress_def append.simps
    by (simp only: eqs cong: option.case_cong sum.case_cong if_cong)
qed

theorem config_reads_declared_flags_witness:
  "getConfig (\<lambda>_. None) (\<lambda>(d :: unit) c. None) (\<lambda>_. None) (defaultCtx\<lparr>clString := (clString defaultCtx)(''hosts'' := ''x'')\<rparr>) =
   getConfig (\<lambda>_. None) (\<lambda>(d :: unit) c. None) (\<lambda>_. None) defaultCtx"
proof -
  have "''hosts'' \<notin> fst ` set flagTable" by code_simp
  then have "\<forall>f \<in> set GetCliFlags. fgName f \<noteq> ''hosts''" by (force simp: flagTable [symmetric])
  then show ?thesis by (intro config_reads_declared_flags) (auto simp: flagAgrees_def split: flagValue.splits)
qed

text \<open>The addresses that the program makes of ports, when no host is given.\<close>

lemma portAddress:
  "socketOrHostPort (JoinHostPort [] (show_int n)) \<and> portOf (JoinHostPort [] (show_int n)) = show_int n"
  by (rule joined_address) (simp_all add: plainHost_def JoinHostPort_def hasPrefix_def)

lemma show_int_pos_inj: "0 < i \<Longrightarrow> 0 < j \<Longrightarrow> show_int i = show_int j \<Longrightarrow> i = j"
  using parse_show_nat by (metis eq_nat_nat_iff less_imp_le not_less option.inject show_int_def)

text \<open>The configuration when no flag but the directory, the size and the gRPC port is set.\<close>

lemma getConfig_bare:
  assumes "onlySet [''dir'', ''max_size'', ''grpc_port''] x"
    and "clString x ''dir'' \<noteq> []" "0 < clInt x ''max_size''" "clInt x ''grpc_port'' \<noteq> 8080"
  defines "g \<equiv> if 0 < clInt x ''grpc_port'' then JoinHostPort [] (show_int (clInt x ''grpc_port'')) else []"
  shows "getConfig readFile unmarshal parseUrl x =
    Inr (emptyConfig\<lparr>cnHTTPAddress := '':8080'', cnGRPCAddress := g, cnDir := clString x ''dir'',
      cnMaxSize := clInt x ''max_size'', cnStorageMode := ''zstd'', cnZstdImplementation := ''go'',
      cnMinTLSVersion := ''1.0'', cnNumUploaders := 100, cnMaxQueuedUploads := 1000000,
      cnMetricsDurationBuckets := Some defaultDurationBuckets, cnAccessLogLevel := ''all'', cnLogTimezone := ''UTC'',
      cnMaxBlobSize := maxInt64, cnMaxProxyBlobSize := maxInt64\<rparr>)" (is "_ = Inr ?c")
proof -
  note f = assms(1) [unfolded onlySet_table flagTable_def, simplified, unfolded flagHolds_def, simplified]
  have h: "JoinHostPort [] (show_int 8080) = '':8080''"
    by (simp add: JoinHostPort_def show_int_def show_nat.simps digit_char_def char_of_def bit_Suc bit_0)
  have p: "portOf '':8080'' = show_int 8080" "socketOrHostPort '':8080''" using portAddress [of 8080] h by simp_all
  have n: "JoinHostPort [] (show_int k) \<noteq> []" for k by (simp add: JoinHostPort_def)
  have q: "portOf g \<noteq> portOf '':8080''" if "g \<noteq> []"
    using that portAddress [of "clInt x ''grpc_port''"] p(1) assms(4) show_int_pos_inj [of "clInt x ''grpc_port''" 8080]
    by (auto simp: g_def split: if_splits)
  have s: "socketOrHostPort g" if "g \<noteq> []"
    using that portAddress by (auto simp: g_def split: if_splits)
  have "goodAddresses ?c"
    using p(2) q s by (auto simp: goodAddresses_def emptyConfig_def)
  then have "goodConfig ?c"
    using assms(2,3)
    by (simp add: goodConfig_def goodSecurity_def goodBackends_def proxyCount_def emptyConfig_def defaultDurationBuckets_def)
  then have v: "validateConfig ?c = None" by (simp add: validateConfig_good)
  have c: "cliUrlBackend parseUrl x ''http_proxy'' = Inr None" "cliUrlBackend parseUrl x ''grpc_proxy'' = Inr None"
    "cliS3 x = None" "cliGcs x = None" "cliAzBlob x = None" 
    by (simp_all add: cliUrlBackend_def cliS3_def cliGcs_def cliAzBlob_def f)
  have d: "cliAddress x ''grpc_address'' ''host'' ''grpc_port'' = g" "cliAddress x ''profile_address'' ''profile_host'' ''profile_port'' = []" 
    by (simp_all add: cliAddress_def f g_def)
  show ?thesis
    unfolding getConfig_def c d sum.case
    using v by (simp add: f newFromArgs_def emptyConfig_def h)
qed

end
