(* ===== verification/MainRun_Props.thy ===== *)
theory MainRun_Props
  imports MainRun Flags_Props Startup_Props
begin

text \<open>
  From the command line to the listeners: what a command with nothing but the two required flags starts, what
  is guaranteed of everything that starts, and that the two servers agree on encryption.
\<close>

section \<open>A command without options\<close>

definition bareConfig :: "string \<Rightarrow> int \<Rightarrow> int \<Rightarrow> config" where
  "bareConfig dir max_size grpc_port =
     emptyConfig\<lparr>cnHTTPAddress := '':8080'',
       cnGRPCAddress := (if 0 < grpc_port then JoinHostPort [] (show_int grpc_port) else []), cnDir := dir,
       cnMaxSize := max_size, cnStorageMode := ''zstd'', cnZstdImplementation := ''go'',
       cnMinTLSVersion := ''1.0'', cnNumUploaders := 100, cnMaxQueuedUploads := 1000000,
       cnMetricsDurationBuckets := Some defaultDurationBuckets, cnAccessLogLevel := ''all'', cnLogTimezone := ''UTC'',
       cnMaxBlobSize := maxInt64, cnMaxProxyBlobSize := maxInt64\<rparr>"

definition bareSettings :: "string \<Rightarrow> int \<Rightarrow> int \<Rightarrow> settings" where
  "bareSettings dir max_size grpc_port =
     \<lparr>stConfig = bareConfig dir max_size grpc_port, stLogger = (35, False), stProxy = None, stTLS = None\<rparr>"

lemma configGet_bare:
  assumes "onlySet [''dir'', ''max_size'', ''grpc_port''] x"
    and "clString x ''dir'' \<noteq> []" "0 < clInt x ''max_size''" "clInt x ''grpc_port'' \<noteq> 8080"
  shows "configGet readFile unmarshal parseUrl m x =
    Inr (bareSettings (clString x ''dir'') (clInt x ''max_size'') (clInt x ''grpc_port''))"
  unfolding configGet_def getConfig_bare [OF assms] sum.case
  by (simp add: setProxy_def setTLSConfig_def supportedTLSServerVersion_def setLogger_def bareSettings_def bareConfig_def
      emptyConfig_def)

lemma bareSettings_simps [simp]:
  "stConfig (bareSettings d n g) = bareConfig d n g" "stProxy (bareSettings d n g) = None" "stTLS (bareSettings d n g) = None"
  "cnDir (bareConfig d n g) = d" "cnMaxSize (bareConfig d n g) = n" "cnHTTPAddress (bareConfig d n g) = '':8080''"
  "cnIdleTimeout (bareConfig d n g) = 0" "cnProfileAddress (bareConfig d n g) = []" "cnHtpasswdFile (bareConfig d n g) = []"
  "cnTLSCaFile (bareConfig d n g) = []" "cnTLSCertFile (bareConfig d n g) = []" "cnTLSKeyFile (bareConfig d n g) = []"
  "cnGRPCAddress (bareConfig d n g) = (if 0 < g then JoinHostPort [] (show_int g) else [])"
  "cnStorageMode (bareConfig d n g) = ''zstd''" "cnZstdImplementation (bareConfig d n g) = ''go''"
  "cnMaxBlobSize (bareConfig d n g) = maxInt64" "cnMaxProxyBlobSize (bareConfig d n g) = maxInt64"
  "\<not> cnEnableEndpointMetrics (bareConfig d n g)"
  by (simp_all add: bareSettings_def bareConfig_def emptyConfig_def)

lemma listenSpec_tcp: "\<not> hasPrefix a ''unix://'' \<Longrightarrow> listenSpec a = (''tcp'', a)"
  by (simp add: listenSpec_def)

lemma listenSpec_8080: "listenSpec '':8080'' = (''tcp'', '':8080'')"
  by (rule listenSpec_tcp) (simp add: hasPrefix_def)

lemma maxSizeBytes_small:
  assumes "0 < cnMaxSize c" "cnMaxSize c < 2 ^ 33"
  shows "maxSizeBytes c = cnMaxSize c * 2 ^ 30"
  using assms by (simp add: maxSizeBytes_def wrap64_id in64_def)

text \<open>
  Property C37. A command that sets the directory, the size and perhaps the gRPC port, and nothing else, opens the
  cache in that directory with that many GiB, zstd storage and no limit on the size of blobs, and
  starts an HTTP server on port 8080 of all addresses without authentication, idle timer and profiler. It always starts a gRPC
  server as well, on the given port, and with port 0, which the help text says to disable the server,
  on the empty address, which is a port that the system chooses.
\<close>

theorem bare_command_starts:
  assumes "onlySet [''dir'', ''max_size'', ''grpc_port''] x"
    and "clString x ''dir'' \<noteq> []" "0 < clInt x ''max_size''" "clInt x ''max_size'' < 2 ^ 33" "clInt x ''grpc_port'' \<noteq> 8080"
    and "newCache (clString x ''dir'') (clInt x ''max_size'' * 2 ^ 30)
      [WithStorageMode ''zstd'', WithZstdImplementation ''go'', WithMaxBlobSize maxInt64,
       WithProxyMaxBlobSize maxInt64, WithAccessLogger] = Some (Inr cache)"
  shows "mainRun readFile unmarshal parseUrl m newCache x [] =
    Running \<lparr>plSettings = bareSettings (clString x ''dir'') (clInt x ''max_size'') (clInt x ''grpc_port''),
      plAuthMode = ''disabled'', plIdleTimeout = None, plHttp = (''tcp'', '':8080''),
      plGrpc = Some (''tcp'', if 0 < clInt x ''grpc_port'' then JoinHostPort [] (show_int (clInt x ''grpc_port'')) else []),
      plProfile = None\<rparr> cache"
proof -
  define s where "s = bareSettings (clString x ''dir'') (clInt x ''max_size'') (clInt x ''grpc_port'')"
  have "maxSizeBytes (stConfig s) = clInt x ''max_size'' * 2 ^ 30"
    using maxSizeBytes_small [of "stConfig s"] assms(3,4) by (simp add: s_def)
  moreover have "diskOptions s = [WithStorageMode ''zstd'', WithZstdImplementation ''go'', WithMaxBlobSize maxInt64,
      WithProxyMaxBlobSize maxInt64, WithAccessLogger]"
    by (simp add: diskOptions_def s_def Let_def)
  ultimately have "mainRun readFile unmarshal parseUrl m newCache x [] = Running (planOf s) cache"
    using assms(6) by (simp add: mainRun_def configGet_bare [OF assms(1-3,5)] s_def)
  moreover have "JoinHostPort [] p \<noteq> ''none''" "\<not> hasPrefix (JoinHostPort [] p) ''unix://''" for p
    by (simp_all add: JoinHostPort_def hasPrefix_def)
  then have "planOf s = \<lparr>plSettings = s, plAuthMode = ''disabled'', plIdleTimeout = None, plHttp = (''tcp'', '':8080''),
      plGrpc = Some (''tcp'', if 0 < clInt x ''grpc_port'' then JoinHostPort [] (show_int (clInt x ''grpc_port'')) else []),
      plProfile = None\<rparr>"
    by (simp add: planOf_def Let_def s_def authMode_def listenSpec_8080 listenSpec_tcp hasPrefix_def)
  ultimately show ?thesis by (simp add: s_def)
qed

definition demoCommand :: cliCtx where
  "demoCommand = defaultCtx\<lparr>clString := (clString defaultCtx)(''dir'' := ''/c''),
     clInt := (clInt defaultCtx)(''max_size'' := 5, ''grpc_port'' := 0)\<rparr>"

lemma demoCommand_onlySet: "onlySet [''dir'', ''max_size'', ''grpc_port''] demoCommand"
  using defaultCtx_onlySet [of "[''dir'', ''max_size'', ''grpc_port'']"]
  by (auto simp: onlySet_def list_all_iff flagHolds_def demoCommand_def split: flagValue.splits)

lemma demoCommand_values:
  "clString demoCommand ''dir'' = ''/c''" "clInt demoCommand ''max_size'' = 5" "clInt demoCommand ''grpc_port'' = 0"
  by (simp_all add: demoCommand_def)

theorem bare_command_starts_witness:
  "\<exists>p. mainRun (\<lambda>_. None) (\<lambda>(d :: unit) c. None) (\<lambda>_. None) undefined (\<lambda>d n opts. Some (Inr (d, n))) demoCommand [] =
     Running p (''/c'', 5368709120) \<and> plGrpc p = Some (''tcp'', [])"
  using bare_command_starts [OF demoCommand_onlySet, of "\<lambda>d n opts. Some (Inr (d, n))" "(''/c'', 5368709120)"
      "\<lambda>_. None" "\<lambda>(d :: unit) c. None" "\<lambda>_. None" undefined]
  by (simp add: demoCommand_values)

section \<open>Encryption\<close>

lemma configGet_TLS:
  assumes "configGet readFile unmarshal parseUrl m x = Inr s"
  shows "stTLS s \<noteq> None \<longleftrightarrow> httpTLS (stConfig s)"
proof -
  have g: "goodSecurity (stConfig s)" and t: "setTLSConfig (bmFiles m) (stConfig s) = Inr (stTLS s)"
    using configGet_Inr [OF assms] by (auto simp: goodConfig_def)
  show ?thesis
    using t g by (cases "stTLS s") (auto simp: setTLSConfig_def httpTLS_def goodSecurity_def split: option.splits if_splits)
qed

text \<open>Each server serves in one way only.\<close>

lemma servedWith_http:
  "httpServe c e = Served b \<Longrightarrow> b = httpTLS c" "httpServe c e = FatalServe b err \<Longrightarrow> b = httpTLS c"
  by (auto simp: httpServe_def split: prod.splits if_splits option.splits)

lemma servedWith_grpc:
  "grpcServe s e = Served b \<Longrightarrow> b = (stTLS s \<noteq> None)" "grpcServe s e = FatalServe b err \<Longrightarrow> b = (stTLS s \<noteq> None)"
  by (auto simp: grpcServe_def split: prod.splits if_splits option.splits)

lemma servedWith:
  assumes "r \<in> set (serverEnds p eh eg)" "stTLS (plSettings p) \<noteq> None \<longleftrightarrow> httpTLS (stConfig (plSettings p))"
  shows "r \<noteq> Served (\<not> httpTLS (stConfig (plSettings p)))" "r \<noteq> FatalServe (\<not> httpTLS (stConfig (plSettings p))) err"
proof -
  have r: "r = httpServe (stConfig (plSettings p)) eh \<or> r = grpcServe (plSettings p) eg"
    using assms(1) by (auto simp: serverEnds_def split: if_splits)
  show "r \<noteq> Served (\<not> httpTLS (stConfig (plSettings p)))"
    using r servedWith_http(1) servedWith_grpc(1) assms(2) by metis
  show "r \<noteq> FatalServe (\<not> httpTLS (stConfig (plSettings p))) err"
    using r servedWith_http(2) servedWith_grpc(2) assms(2) by metis
qed

text \<open>
  Property C38. What starts is well configured, and either both servers encrypt or none does: when a command gets as far as
  starting servers, the configuration was accepted, there were no positional arguments, the cache was opened with
  the configured options, and any requests that are served are served with TLS exactly when a certificate
  and a key are configured, whichever of the two servers it is.
\<close>

theorem started_servers_configured:
  assumes "mainRun readFile unmarshal parseUrl m newCache x args = Running p cache"
  shows "goodConfig (stConfig (plSettings p)) \<and> args = [] \<and>
    newCache (cnDir (stConfig (plSettings p))) (maxSizeBytes (stConfig (plSettings p))) (diskOptions (plSettings p)) =
      Some (Inr cache) \<and>
    (\<forall>r \<in> set (serverEnds p eh eg). r \<noteq> Served (cnTLSCertFile (stConfig (plSettings p)) = []) \<and>
       (\<forall>err. r \<noteq> FatalServe (cnTLSCertFile (stConfig (plSettings p)) = []) err))"
proof -
  obtain s where s: "configGet readFile unmarshal parseUrl m x = Inr s" "p = planOf s" "args = []"
      "newCache (cnDir (stConfig s)) (maxSizeBytes (stConfig s)) (diskOptions s) = Some (Inr cache)"
    using assms by (auto simp: mainRun_def split: sum.splits if_splits option.splits)
  have p: "plSettings p = s" by (simp add: s(2) planOf_def Let_def)
  have g: "goodConfig (stConfig s)" by (rule configGet_Inr(1) [OF s(1)])
  then have t: "httpTLS (stConfig s) \<longleftrightarrow> cnTLSCertFile (stConfig s) \<noteq> []"
    by (auto simp: httpTLS_def goodConfig_def goodSecurity_def)
  show ?thesis
    using s(3,4) g t servedWith [of _ p eh eg] configGet_TLS [OF s(1)] by (simp add: p)
qed

theorem started_servers_configured_witness:
  "list_all (\<lambda>r. r \<noteq> Served True)
     (serverEnds (planOf (bareSettings ''/c'' 5 0)) \<lparr>svListen = \<lambda>_ _. True, svAcquire = True, svServe = \<lambda>_. None\<rparr>
        \<lparr>svListen = \<lambda>_ _. True, svAcquire = True, svServe = \<lambda>_. Some ServerClosed\<rparr>)"
proof -
  have "mainRun (\<lambda>_. None) (\<lambda>(d :: unit) c. None) (\<lambda>_. None) undefined (\<lambda>d n opts. Some (Inr ())) demoCommand [] =
      Running (planOf (bareSettings ''/c'' 5 0)) ()"
    using configGet_bare [OF demoCommand_onlySet, of "\<lambda>_. None" "\<lambda>(d :: unit) c. None" "\<lambda>_. None" undefined]
    by (simp add: mainRun_def demoCommand_values)
  then show ?thesis
    using started_servers_configured by (fastforce simp: planOf_def Let_def list_all_iff)
qed

text \<open>
  The end of the process: a shutdown of servers that run ends it with status 0 when \<open>Serve\<close> of the gRPC server reports
  no error; a gRPC server that reports that it was stopped makes it 1, an HTTP server does not.
\<close>

lemma exit_status_of_stop:
  assumes "plGrpc p \<noteq> None" "\<And>n a. svListen eh n a" "\<And>n a. svListen eg n a" "svAcquire eh" "svAcquire eg"
    and "\<And>tls. svServe eh tls = Some ServerClosed"
  shows "exitStatus (Running p cache) eh eg =
    Some (if svServe eg (stTLS (plSettings p) \<noteq> None) = None then 0 else 1)"
  using assms by (auto simp: exitStatus_def serverEnds_def httpServe_def grpcServe_def split: prod.splits option.splits)

end
