(* ===== verification/TestClient.thy ===== *)
theory TestClient
  imports Startup GrpcProxy
begin

text \<open>
  \<open>utils/grpcreadclient\<close>: the client of the integration tests, which finds out whether a server grants or refuses
  reads and writes. The calls that it can make are a record (\<open>rpcServer\<close>); \<open>guarded\<close> and \<open>cacheServer\<close> are the value of
  that record for a server of this program: its handlers behind its interceptors.
\<close>

section \<open>Calls\<close>

text \<open>
  Each call has the answer of the server or a status, and \<open>None\<close> when no answer ever comes. \<open>rsWriteOpens\<close> and
  \<open>rsWriteSends\<close>: the stream of a write can be opened, and the message sent (or the end of the stream is seen).
  \<open>rsReadOpens\<close>: the status with which a stream for reading is refused at once.
\<close>

record 's rpcServer =
  rsGetCapabilities :: "'s \<Rightarrow> ((grpc_code + serverCapabilities) \<times> 's) option"
  rsBatchReadBlobs :: "batchReadRequest \<Rightarrow> 's \<Rightarrow> ((grpc_code + batchReadResponse option list) \<times> 's) option"
  rsFindMissingBlobs :: "digest option list \<Rightarrow> 's \<Rightarrow> ((grpc_code + digest list) \<times> 's) option"
  rsGetActionResult :: "getARRequest \<Rightarrow> 's \<Rightarrow> ((grpc_code + actionResult) \<times> 's) option"
  rsReadOpens :: "grpc_code option"
  rsRead :: "readRequest \<Rightarrow> 's \<Rightarrow> ((bytes list \<times> grpc_code option) \<times> 's) option"
  rsBatchUpdateBlobs :: "batchUpdateRequest option list \<Rightarrow> 's \<Rightarrow> ((grpc_code + batchUpdateResponse list) \<times> 's) option"
  rsUpdateActionResult :: "updateARRequest \<Rightarrow> 's \<Rightarrow> ((grpc_code + actionResult) \<times> 's) option"
  rsWriteOpens :: bool
  rsWriteSends :: bool
  rsWrite :: "writeRequest \<Rightarrow> 's \<Rightarrow> (write_answer \<times> 's) option"
  rsCheckHealth :: "string \<Rightarrow> 's \<Rightarrow> ((grpc_code + bool) \<times> 's) option"

text \<open>A check: its error, if there is one; and a sequence of checks that ends with the first error.\<close>

type_synonym 's check = "'s \<Rightarrow> (string option \<times> 's) option"

definition judged :: "('s \<Rightarrow> ('a \<times> 's) option) \<Rightarrow> ('a \<Rightarrow> string option) \<Rightarrow> 's check" where
  "judged call judge st = map_option (\<lambda>(r, st). (judge r, st)) (call st)"

fun inOrder :: "'s check list \<Rightarrow> 's check" where
  "inOrder [] st = Some (None, st)"
| "inOrder (c # cs) st =
     (case c st of
        None \<Rightarrow> None
      | Some (Some e, st) \<Rightarrow> Some (Some e, st)
      | Some (None, st) \<Rightarrow> inOrder cs st)"

section \<open>Read operations\<close>

definition emptyDigest :: digest where
  "emptyDigest = \<lparr>dHash = ''e3b0c44298fc1c149afbf4c8996fb92427ae41e4649b934ca495991b7852b855'', dSizeBytes = 0\<rparr>"

definition checkGetCapabilities :: "'s rpcServer \<Rightarrow> bool \<Rightarrow> 's check" where
  "checkGetCapabilities srv shouldWork =
     judged (rsGetCapabilities srv)
       (\<lambda>r. case r of
          Inl e \<Rightarrow> if shouldWork then Some ''Failed to get capabilities'' else None
        | Inr x \<Rightarrow> if shouldWork then None else Some ''Got capabilities when we expected it to fail'')"

text \<open>A response without a status makes the client panic.\<close>

definition checkBatchReadBlobs :: "'s rpcServer \<Rightarrow> bool \<Rightarrow> 's check" where
  "checkBatchReadBlobs srv shouldWork =
     judged (rsBatchReadBlobs srv \<lparr>bqDigests = [Some emptyDigest], bqAcceptable = []\<rparr>)
       (\<lambda>r. case r of
          Inl e \<Rightarrow> if shouldWork then Some ''BatchReadBlobs failed'' else None
        | Inr responses \<Rightarrow>
            if \<not> shouldWork then Some ''BatchReadBlobs succeeded but was expected to fail''
            else
              (case responses of
                 [Some response] \<Rightarrow>
                   (case rdStatus response of
                      None \<Rightarrow> Some ''panic''
                    | Some status \<Rightarrow>
                        if status \<noteq> codeOK then Some ''unexpected response''
                        else if rdDigest response \<noteq> emptyDigest then Some ''found different digest''
                        else if rdData response \<noteq> [] then Some ''found non-empty Data''
                        else None)
               | [None] \<Rightarrow> Some ''found nil response''
               | _ \<Rightarrow> Some ''expected 1 digest in the response''))"

definition checkFindMissingBlobs :: "'s rpcServer \<Rightarrow> bool \<Rightarrow> 's check" where
  "checkFindMissingBlobs srv shouldWork =
     judged (rsFindMissingBlobs srv [Some emptyDigest])
       (\<lambda>r. case r of
          Inl e \<Rightarrow> if shouldWork then Some ''FindMissingBlobs failed'' else None
        | Inr missing \<Rightarrow>
            if \<not> shouldWork then Some ''Expected FindMissingBlobs to fail, but it succeeded''
            else if missing \<noteq> [] then Some ''Expected no missing blobs from FindMissingBlobs call''
            else None)"

definition checkGetActionResult :: "'s rpcServer \<Rightarrow> bool \<Rightarrow> 's check" where
  "checkGetActionResult srv shouldWork =
     judged (rsGetActionResult srv
         \<lparr>gaActionDigest = Some emptyDigest, gaInstanceName = [], gaInlineStdout = False, gaInlineStderr = False,
          gaInlineOutputFiles = []\<rparr>)
       (\<lambda>r. case r of
          Inr ar \<Rightarrow>
            if shouldWork then Some ''Expected a GetActionResult to return NotFound, but it succeeded somehow''
            else Some ''Expected GetActionResult to fail, but it returned a non-nil ActionResult''
        | Inl e \<Rightarrow>
            if shouldWork then
              (if e \<noteq> codeNotFound then Some ''Expected a GetActionResult to return NotFound'' else None)
            else if e \<noteq> codeUnauthenticated then Some ''Expected GetActionResult to return Unauthenticated''
            else None)"

text \<open>The loop over the messages of the stream, with what was downloaded so far.\<close>

fun receiveEmpty :: "bytes \<Rightarrow> bytes list \<Rightarrow> grpc_code option \<Rightarrow> string option" where
  "receiveEmpty downloaded [] None = None"
| "receiveEmpty downloaded [] (Some e) = Some ''Expected success''"
| "receiveEmpty downloaded (d # ds) e =
     (if downloaded @ d \<noteq> [] then Some ''Downloaded too much data, expected an empty blob''
      else receiveEmpty (downloaded @ d) ds e)"

definition checkBytestreamRead :: "'s rpcServer \<Rightarrow> bool \<Rightarrow> 's check" where
  "checkBytestreamRead srv shouldWork st =
     (case rsReadOpens srv of
        Some e \<Rightarrow> Some (if shouldWork then Some ''Expected bytestream Read to succeed'' else None, st)
      | None \<Rightarrow>
          judged (rsRead srv \<lparr>rrResourceName = ''emptyRead/blobs/'' @ dHash emptyDigest @ ''/0'', rrReadOffset = 0, rrReadLimit = 0\<rparr>)
            (\<lambda>(messages, e).
               if \<not> shouldWork then
                 (if messages = [] then None else Some ''Expected bytestream Read to fail, but it succeeded'')
               else receiveEmpty [] messages e) st)"

definition checkHealth :: "'s rpcServer \<Rightarrow> 's check" where
  "checkHealth srv =
     judged (rsCheckHealth srv grpcHealthServiceName)
       (\<lambda>r. case r of
          Inl e \<Rightarrow> Some ''Failed to check health status''
        | Inr serving \<Rightarrow> if \<not> serving then Some ''Expected health check to return SERVING status'' else None)"

definition checkCacheReadOps :: "'s rpcServer \<Rightarrow> bool \<Rightarrow> 's check" where
  "checkCacheReadOps srv shouldWork =
     inOrder [checkBatchReadBlobs srv shouldWork, checkFindMissingBlobs srv shouldWork, checkGetActionResult srv shouldWork,
              checkBytestreamRead srv shouldWork, checkHealth srv]"

section \<open>Write operations\<close>

definition helloDigest :: digest where
  "helloDigest = \<lparr>dHash = ''1d996e033d612d9af2b44b70061ee0e868bfd14c2dd90b129e1edeb7953e7985'', dSizeBytes = 10\<rparr>"

definition helloData :: bytes where
  "helloData = map of_char ''hellothere''"

definition checkBatchUpdateBlobs :: "'s rpcServer \<Rightarrow> bool \<Rightarrow> 's check" where
  "checkBatchUpdateBlobs srv shouldWork =
     judged (rsBatchUpdateBlobs srv [Some \<lparr>buDigest = Some helloDigest, buData = helloData, buCompressor = 0\<rparr>])
       (\<lambda>r. case r of
          Inl e \<Rightarrow> if shouldWork then Some ''Expected BatchUpdateBlobs to succeed'' else None
        | Inr responses \<Rightarrow>
            if \<not> shouldWork then Some ''Expected BatchUpdateBlobs to fail, but it succeeded''
            else
              (case responses of
                 [response] \<Rightarrow>
                   if dHash (brDigest response) \<noteq> dHash helloDigest then Some ''Unexpected digest in response''
                   else if dSizeBytes (brDigest response) \<noteq> dSizeBytes helloDigest then Some ''Unexpected digest in response''
                   else if brCode response \<noteq> codeOK then Some ''Unexpected unsuccessful response''
                   else None
               | _ \<Rightarrow> Some ''Expected BatchUpdateBlobs to have 1 response''))"

definition checkUpdateActionResult :: "'s rpcServer \<Rightarrow> bool \<Rightarrow> 's check" where
  "checkUpdateActionResult srv shouldWork =
     judged (rsUpdateActionResult srv
         \<lparr>uaActionDigest = Some \<lparr>dHash = ''2cf24dba5fb0a30e26e83b2ac5b9e29e1b161e5c1fa7425e73043362938b9824'', dSizeBytes = 5\<rparr>,
          uaInstanceName = [], uaActionResult = Some (emptyActionResult\<lparr>arExitCode := 42\<rparr>)\<rparr>)
       (\<lambda>r. case r of
          Inl e \<Rightarrow> if shouldWork then Some ''Expected UpdateActionResult to succeed'' else None
        | Inr ar \<Rightarrow> if shouldWork then None else Some ''Expected UpdateActionResult to fail, but it succeeded'')"

text \<open>The blob of the test, with the time in it, and the name of its upload, are parameters.\<close>

definition checkBytestreamWrite :: "'s rpcServer \<Rightarrow> string \<Rightarrow> bytes \<Rightarrow> bool \<Rightarrow> 's check" where
  "checkBytestreamWrite srv uuid blob shouldWork st =
     (if \<not> rsWriteOpens srv then Some (Some ''BytestreamWrite failed to create ByteStreamClient'', st)
      else if \<not> rsWriteSends srv then Some (Some ''BytestreamWrite failed to send data'', st)
      else
        judged (rsWrite srv
            \<lparr>wrResourceName = ''uploads/'' @ uuid @ ''/blobs/'' @ hexEncode (sha256 blob) @ ''/'' @ show_int (blen blob),
             wrWriteOffset = 0, wrData = blob, wrFinishWrite = True\<rparr>)
          (\<lambda>r. case r of
             WriteFails e \<Rightarrow>
               if shouldWork then Some ''BytestreamWrite failed to CloseAndRecv''
               else if e = codeUnauthenticated then None
               else Some ''BytestreamWrite got unexpected unauthenticated error''
           | Committed n \<Rightarrow>
               if \<not> shouldWork then Some ''BytestreamWrite CloseAndRecv succeeded, but expected it to fail''
               else if n \<noteq> blen blob then Some ''BytestreamWrite committed a different size''
               else None) st)"

definition checkCacheWriteOps :: "'s rpcServer \<Rightarrow> string \<Rightarrow> bytes \<Rightarrow> bool \<Rightarrow> 's check" where
  "checkCacheWriteOps srv uuid blob shouldWork =
     inOrder [checkBatchUpdateBlobs srv shouldWork, checkUpdateActionResult srv shouldWork,
              checkBytestreamWrite srv uuid blob shouldWork]"

section \<open>The run\<close>

record clientFlags =
  cfServerAddr :: string
  cfReadsShouldWork :: bool
  cfCertFile :: string
  cfKeyFile :: string
  cfCaFile :: string
  cfUser :: string
  cfPassword :: string
  cfHelp :: bool

text \<open>What the client connects with: the authority that it claims, and whether it uses TLS and a certificate.\<close>

record dialOptions =
  doAuthority :: "string option"
  doTLS :: bool
  doClientCert :: bool

definition dialOptionsOf :: "tlsFiles \<Rightarrow> clientFlags \<Rightarrow> dialOptions option" where
  "dialOptionsOf f c =
     (let authority = (if cfUser c \<noteq> [] then Some (cfUser c @ '':'' @ cfPassword c @ ''@'' @ cfServerAddr c) else None) in
      if cfCaFile c = [] then Some \<lparr>doAuthority = authority, doTLS = False, doClientCert = False\<rparr>
      else
        (case tfReadCA f (cfCaFile c) of
           None \<Rightarrow> None
         | Some added \<Rightarrow>
             if \<not> added then None
             else if cfCertFile c \<noteq> [] then
               (if \<not> tfLoadPair f (cfCertFile c) (cfKeyFile c) then None
                else Some \<lparr>doAuthority = authority, doTLS = True, doClientCert = True\<rparr>)
             else Some \<lparr>doAuthority = authority, doTLS = True, doClientCert = False\<rparr>))"

text \<open>
  What dialing gives: without a context when a file of certificates is unusable, which makes \<open>run\<close> panic;
  otherwise (\<open>connect\<close>) a connection, an error, or the end of the five seconds.
\<close>

datatype dial_result = DialWithoutContext | DialTimeout | DialFailed | Connected

definition dial :: "tlsFiles \<Rightarrow> (dialOptions \<Rightarrow> dial_result) \<Rightarrow> clientFlags \<Rightarrow> dial_result" where
  "dial f connect c = (case dialOptionsOf f c of None \<Rightarrow> DialWithoutContext | Some opts \<Rightarrow> connect opts)"

definition clientChecks :: "'s rpcServer \<Rightarrow> string \<Rightarrow> bytes \<Rightarrow> dial_result \<Rightarrow> bool \<Rightarrow> bool \<Rightarrow> 's check" where
  "clientChecks srv uuid blob dialed readsShouldWork writesShouldWork st =
     (case dialed of
        DialWithoutContext \<Rightarrow> Some (Some ''panic'', st)
      | DialTimeout \<Rightarrow>
          Some (if \<not> readsShouldWork \<and> \<not> writesShouldWork then None else Some ''Failed to connect'', st)
      | DialFailed \<Rightarrow> Some (Some ''Failed to connect'', st)
      | Connected \<Rightarrow>
          inOrder [checkGetCapabilities srv readsShouldWork, checkCacheReadOps srv readsShouldWork,
                   checkCacheWriteOps srv uuid blob writesShouldWork] st)"

text \<open>What the flags say that reads and writes should do, or the exit with an error.\<close>

definition clientExpectations :: "clientFlags \<Rightarrow> (bool \<times> bool) option" where
  "clientExpectations f =
     (let authFlags = (if cfUser f \<noteq> [] then 1 else 0) + (if cfPassword f \<noteq> [] then 1 else 0 :: nat) in
      if cfHelp f then None
      else if cfServerAddr f = [] then None
      else if authFlags \<noteq> 0 \<and> authFlags \<noteq> 2 then None
      else
        (let (reads, writes) = (if authFlags \<noteq> 0 then (True, True) else (cfReadsShouldWork f, False));
             (reads, writes) = (if cfCertFile f \<noteq> [] then (True, True) else (reads, writes))
         in if cfCertFile f \<noteq> [] \<and> authFlags \<noteq> 0 then None else Some (reads, writes)))"

text \<open>The exit status of the client.\<close>

definition clientMain :: "tlsFiles \<Rightarrow> (dialOptions \<Rightarrow> dial_result) \<Rightarrow> 's rpcServer \<Rightarrow> string \<Rightarrow> bytes \<Rightarrow> clientFlags \<Rightarrow> 's \<Rightarrow>
    nat option" where
  "clientMain files connect srv uuid blob f st =
     (case clientExpectations f of
        None \<Rightarrow> Some 1
      | Some (reads, writes) \<Rightarrow>
          map_option (\<lambda>(e, st). if e = None then 0 else 1)
            (clientChecks srv uuid blob (dial files connect f) reads writes st))"

section \<open>A server of this program\<close>

text \<open>The handlers over a cache; \<open>acStatus\<close> is what the client sees of an error, a panic being no status of the handler's.\<close>

definition acStatus :: "(ac_error + 'a) \<Rightarrow> grpc_code + 'a" where
  "acStatus r = map_sum (\<lambda>e. case e of AcStatus x \<Rightarrow> x | _ \<Rightarrow> codeUnknown) id r"

record 's serverParts =
  spOps :: "'s cacheOps"
  spServer :: grpcServer
  spCtx :: ctx
  spReads :: "int \<Rightarrow> bytes \<Rightarrow> bytes list"
  spDecodeAll :: "bytes \<Rightarrow> bytes option"
  spDecoder :: "reader \<Rightarrow> reader option"
  spUnmarshal :: "bytes \<Rightarrow> actionResult option"
  spMarshal :: "actionResult \<Rightarrow> bytes option"

definition cacheServer :: "'s serverParts \<Rightarrow> 's rpcServer" where
  "cacheServer p =
     \<lparr>rsGetCapabilities = (\<lambda>st. Some (Inr GetCapabilities, st)),
      rsBatchReadBlobs = (\<lambda>req st. map_option (\<lambda>(r, st). (map_sum id (map Some) r, st)) (BatchReadBlobs (spOps p) (spCtx p) (Some req) st)),
      rsFindMissingBlobs = (\<lambda>ds st. Some (FindMissingBlobs (spOps p) (spCtx p) (Some ds) st)),
      rsGetActionResult = (\<lambda>req st. map_option (\<lambda>(r, st). (acStatus r, st))
        (GetActionResult (spServer p) (spOps p) (spUnmarshal p) (spCtx p) (Some req) st)),
      rsReadOpens = None,
      rsRead = (\<lambda>req. Read (spOps p) (spReads p) (\<lambda>i. False) (spCtx p) (Some req)),
      rsBatchUpdateBlobs = (\<lambda>rs. BatchUpdateBlobs (spOps p) (spDecodeAll p) (spCtx p) (Some rs)),
      rsUpdateActionResult = (\<lambda>req st. map_option (\<lambda>(r, st). (acStatus r, st))
        (UpdateActionResult (spServer p) (spOps p) (spMarshal p) (spCtx p) None (Some req) st)),
      rsWriteOpens = True,
      rsWriteSends = True,
      rsWrite = (\<lambda>m. Write (spOps p) (spDecoder p) False False (spCtx p) [RecvReq m]),
      rsCheckHealth = (\<lambda>service st. Some (Inr True, st))\<rparr>"

text \<open>
  What the interceptors of the server decide for one call: the state in which the handler starts, or a status. The
  environment says who the client is; \<open>stream\<close>: the call is one of the two streams.
\<close>

definition admit :: "settings \<Rightarrow> ('s, 's) grpcEnv \<Rightarrow> bool \<Rightarrow> string \<Rightarrow> 's \<Rightarrow> grpc_code + 's" where
  "admit s e stream m = startGrpcServer s (e\<lparr>geStream := stream\<rparr>) m Inr"

definition guardCall :: "settings \<Rightarrow> ('s, 's) grpcEnv \<Rightarrow> string \<Rightarrow> ('s \<Rightarrow> ((grpc_code + 'a) \<times> 's) option) \<Rightarrow>
    's \<Rightarrow> ((grpc_code + 'a) \<times> 's) option" where
  "guardCall s e m call st = (case admit s e False m st of Inl e \<Rightarrow> Some (Inl e, st) | Inr st \<Rightarrow> call st)"

text \<open>A refused stream is opened, and its first message is the status.\<close>

definition guarded :: "settings \<Rightarrow> ('s, 's) grpcEnv \<Rightarrow> 's rpcServer \<Rightarrow> 's rpcServer" where
  "guarded s e srv =
     \<lparr>rsGetCapabilities = guardCall s e ''/build.bazel.remote.execution.v2.Capabilities/GetCapabilities'' (rsGetCapabilities srv),
      rsBatchReadBlobs = (\<lambda>r. guardCall s e ''/build.bazel.remote.execution.v2.ContentAddressableStorage/BatchReadBlobs''
        (rsBatchReadBlobs srv r)),
      rsFindMissingBlobs = (\<lambda>r. guardCall s e ''/build.bazel.remote.execution.v2.ContentAddressableStorage/FindMissingBlobs''
        (rsFindMissingBlobs srv r)),
      rsGetActionResult = (\<lambda>r. guardCall s e ''/build.bazel.remote.execution.v2.ActionCache/GetActionResult'' (rsGetActionResult srv r)),
      rsReadOpens = rsReadOpens srv,
      rsRead = (\<lambda>r st. case admit s e True ''/google.bytestream.ByteStream/Read'' st of
                 Inl e \<Rightarrow> Some (([], Some e), st) | Inr st \<Rightarrow> rsRead srv r st),
      rsBatchUpdateBlobs = (\<lambda>r. guardCall s e ''/build.bazel.remote.execution.v2.ContentAddressableStorage/BatchUpdateBlobs''
        (rsBatchUpdateBlobs srv r)),
      rsUpdateActionResult = (\<lambda>r. guardCall s e ''/build.bazel.remote.execution.v2.ActionCache/UpdateActionResult''
        (rsUpdateActionResult srv r)),
      rsWriteOpens = rsWriteOpens srv,
      rsWriteSends = rsWriteSends srv,
      rsWrite = (\<lambda>r st. case admit s e True ''/google.bytestream.ByteStream/Write'' st of
                  Inl e \<Rightarrow> Some (WriteFails e, st) | Inr st \<Rightarrow> rsWrite srv r st),
      rsCheckHealth = (\<lambda>r. guardCall s e ''/grpc.health.v1.Health/Check'' (rsCheckHealth srv r))\<rparr>"

end
