(* ===== verification/TestClient_Props.thy ===== *)
theory TestClient_Props
  imports TestClient Startup_Props FindMissing_Props
begin

text \<open>
  The verdict of the test client on a server of this program: what the interceptors decide for every method that the client
  calls, and that a client without credentials finds just what the configuration promises.
\<close>

section \<open>The decision of the interceptors\<close>

lemma mTLS_exact:
  "mTLSInterceptor isStream openReads p m h st =
    (if m = grpcHealthServiceName \<and> \<not> isStream \<or> openReads \<and> m \<in> set readOnlyMethods \<or>
        (\<exists>first rest. p = PeerTLS (first # rest) \<and> first \<noteq> [])
     then h st else Inl codeUnauthenticated)"
  by (auto simp: mTLSInterceptor_def joinResult_def GRPCmTLSStreamServerInterceptor_def GRPCmTLSUnaryServerInterceptor_def
      checkGRPCClientCert_def neq_Nil_conv split: peerInfo.split)

lemma basic_exact:
  "joinResult (basicAuthInterceptor b check md m h st) =
    (if m = grpcHealthServiceName \<or> baAllowUnauthenticatedReadOnly b \<and> m \<in> set readOnlyMethods \<or> authenticated b check md
     then h st else Inl codeUnauthenticated)"
  by (simp add: basicAuth_exact joinResult_def)

lemma mayWrite_stream [simp]: "mayWrite s (e\<lparr>geStream := b\<rparr>) = mayWrite s e"
  by (simp add: mayWrite_def)

text \<open>The methods of the client that are not the health check.\<close>

definition cacheMethods :: "string list" where
  "cacheMethods =
     readOnlyMethods @
     [''/build.bazel.remote.execution.v2.ActionCache/UpdateActionResult'',
      ''/build.bazel.remote.execution.v2.ContentAddressableStorage/BatchUpdateBlobs'',
      ''/google.bytestream.ByteStream/Write'']"

lemma registered_methods:
  assumes "m \<in> set (grpcHealthServiceName # cacheMethods)"
  shows "\<exists>p \<in> set (registeredServices c). hasPrefix m p"
proof -
  let ?base = "[''/build.bazel.remote.execution.v2.ActionCache/'', ''/build.bazel.remote.execution.v2.Capabilities/'',
      ''/build.bazel.remote.execution.v2.ContentAddressableStorage/'', ''/google.bytestream.ByteStream/'', ''/grpc.health.v1.Health/'']"
  have "list_all (\<lambda>m. list_ex (hasPrefix m) ?base) (grpcHealthServiceName # cacheMethods)" by code_simp
  moreover have "set ?base \<subseteq> set (registeredServices c)" by (auto simp: registeredServices_def)
  ultimately show ?thesis using assms unfolding list_all_iff list_ex_iff by blast
qed

lemma cacheMethods_no_health: "m \<in> set cacheMethods \<Longrightarrow> m \<noteq> grpcHealthServiceName"
proof -
  have "grpcHealthServiceName \<notin> set cacheMethods" by code_simp
  then show "m \<in> set cacheMethods \<Longrightarrow> m \<noteq> grpcHealthServiceName" by blast
qed

lemma admit_chain:
  assumes "m \<in> set (grpcHealthServiceName # cacheMethods)"
  shows "admit s e stream m st = chainInterceptors (grpcInterceptors s (e\<lparr>geStream := stream\<rparr>)) m Inr st"
  using registered_methods [OF assms] by (simp add: admit_def startGrpcServer_def)

lemma admit_cache:
  assumes "setTLSConfig f (stConfig s) = Inr (stTLS s)" "\<And>m h st. geProm e m h st = h st" "m \<in> set cacheMethods"
  shows "admit s e stream m st =
    (if cnAllowUnauthenticatedReads (stConfig s) \<and> m \<in> set readOnlyMethods \<or> mayWrite s e
     then Inr (idleTick (stConfig s) (geResetTimer e) st) else Inl codeUnauthenticated)"
proof -
  have tls: "cnTLSCaFile (stConfig s) = [] \<or> (\<exists>t. stTLS s = Some t)" using setTLSConfig_client_CA [OF assms(1)] by blast
  have "admit s e stream m st = chainInterceptors (grpcInterceptors s (e\<lparr>geStream := stream\<rparr>)) m Inr st"
    by (rule admit_chain) (use assms(3) in simp)
  then show ?thesis
    using assms(2) tls cacheMethods_no_health [OF assms(3)]
    by (auto simp: grpcInterceptors_def chain_append mTLS_exact basic_exact Let_def mayWrite_def idleInterceptor_def idleTick_def)
qed

lemma admit_health:
  assumes "\<And>m h st. geProm e m h st = h st"
  shows "admit s e False ''/grpc.health.v1.Health/Check'' st = Inr (idleTick (stConfig s) (geResetTimer e) st)"
proof -
  have "admit s e False grpcHealthServiceName st =
      chainInterceptors (grpcInterceptors s (e\<lparr>geStream := False\<rparr>)) grpcHealthServiceName Inr st"
    by (rule admit_chain) simp
  then show ?thesis
    using assms
    by (auto simp: grpcInterceptors_def chain_append mTLS_exact basic_exact Let_def idleInterceptor_def idleTick_def
        grpcHealthServiceName_def [symmetric])
qed

lemma client_methods:
  "''/build.bazel.remote.execution.v2.Capabilities/GetCapabilities'' \<in> set cacheMethods \<inter> set readOnlyMethods"
  "''/build.bazel.remote.execution.v2.ContentAddressableStorage/BatchReadBlobs'' \<in> set cacheMethods \<inter> set readOnlyMethods"
  "''/build.bazel.remote.execution.v2.ContentAddressableStorage/FindMissingBlobs'' \<in> set cacheMethods \<inter> set readOnlyMethods"
  "''/build.bazel.remote.execution.v2.ActionCache/GetActionResult'' \<in> set cacheMethods \<inter> set readOnlyMethods"
  "''/google.bytestream.ByteStream/Read'' \<in> set cacheMethods \<inter> set readOnlyMethods"
  "''/build.bazel.remote.execution.v2.ContentAddressableStorage/BatchUpdateBlobs'' \<in> set cacheMethods - set readOnlyMethods"
  "''/build.bazel.remote.execution.v2.ActionCache/UpdateActionResult'' \<in> set cacheMethods - set readOnlyMethods"
  "''/google.bytestream.ByteStream/Write'' \<in> set cacheMethods - set readOnlyMethods"
  by code_simp+

section \<open>A client without credentials\<close>

text \<open>The calls of a client that may not write.\<close>

lemma refused_calls:
  assumes "setTLSConfig f (stConfig s) = Inr (stTLS s)" "\<And>m h st. geProm e m h st = h st" "\<not> mayWrite s e"
  shows "rsBatchUpdateBlobs (guarded s e srv) ub st = Some (Inl codeUnauthenticated, st)"
    and "rsUpdateActionResult (guarded s e srv) ua st = Some (Inl codeUnauthenticated, st)"
    and "rsWrite (guarded s e srv) w st = Some (WriteFails codeUnauthenticated, st)"
  using assms(3) admit_cache [OF assms(1,2)] client_methods(6-8) by (simp_all add: guarded_def guardCall_def)

lemma refused_reads:
  assumes "setTLSConfig f (stConfig s) = Inr (stTLS s)" "\<And>m h st. geProm e m h st = h st" "\<not> mayWrite s e"
    and "\<not> cnAllowUnauthenticatedReads (stConfig s)"
  shows "rsGetCapabilities (guarded s e srv) st = Some (Inl codeUnauthenticated, st)"
    and "rsBatchReadBlobs (guarded s e srv) br st = Some (Inl codeUnauthenticated, st)"
    and "rsFindMissingBlobs (guarded s e srv) fb st = Some (Inl codeUnauthenticated, st)"
    and "rsGetActionResult (guarded s e srv) ga st = Some (Inl codeUnauthenticated, st)"
    and "rsRead (guarded s e srv) rr st = Some (([], Some codeUnauthenticated), st)"
  using assms(3,4) admit_cache [OF assms(1,2)] client_methods(1-5) by (simp_all add: guarded_def guardCall_def)

lemma granted_reads:
  assumes "setTLSConfig f (stConfig s) = Inr (stTLS s)" "\<And>m h st. geProm e m h st = h st"
    and "cnAllowUnauthenticatedReads (stConfig s) \<or> mayWrite s e"
  defines "tick \<equiv> idleTick (stConfig s) (geResetTimer e)"
  shows "rsGetCapabilities (guarded s e srv) st = rsGetCapabilities srv (tick st)"
    and "rsBatchReadBlobs (guarded s e srv) br st = rsBatchReadBlobs srv br (tick st)"
    and "rsFindMissingBlobs (guarded s e srv) fb st = rsFindMissingBlobs srv fb (tick st)"
    and "rsGetActionResult (guarded s e srv) ga st = rsGetActionResult srv ga (tick st)"
    and "rsRead (guarded s e srv) rr st = rsRead srv rr (tick st)"
  using assms(3) admit_cache [OF assms(1,2)] client_methods(1-5) by (auto simp: guarded_def guardCall_def tick_def)

lemma health_call:
  assumes "\<And>m h st. geProm e m h st = h st"
  shows "rsCheckHealth (guarded s e srv) r st = rsCheckHealth srv r (idleTick (stConfig s) (geResetTimer e) st)"
  by (simp add: guarded_def guardCall_def admit_health [OF assms])

lemma guarded_streams [simp]:
  "rsReadOpens (guarded s e srv) = rsReadOpens srv" "rsWriteOpens (guarded s e srv) = rsWriteOpens srv"
  "rsWriteSends (guarded s e srv) = rsWriteSends srv"
  by (simp_all add: guarded_def)

text \<open>The write checks find that writes are refused.\<close>

lemma write_checks_refused:
  assumes "setTLSConfig f (stConfig s) = Inr (stTLS s)" "\<And>m h st. geProm e m h st = h st" "\<not> mayWrite s e"
    and "rsWriteOpens srv" "rsWriteSends srv"
  shows "checkCacheWriteOps (guarded s e srv) uuid blob False st = Some (None, st)"
  using assms(4,5)
  by (simp add: checkCacheWriteOps_def checkBatchUpdateBlobs_def checkUpdateActionResult_def checkBytestreamWrite_def judged_def
      refused_calls [OF assms(1-3)])

section \<open>The checks of the empty blob\<close>

lemma emptyDigest_sha: "emptyDigest = \<lparr>dHash = emptySha256, dSizeBytes = 0\<rparr>"
  by (simp add: emptyDigest_def emptySha256_def)

lemma emptyDigest_valid: "validateHash (dHash emptyDigest) (dSizeBytes emptyDigest) = None"
  by (simp add: emptyDigest_sha validateHash_def)

lemma cacheServer_sel [simp]:
  "rsReadOpens (cacheServer p) = None" "rsWriteOpens (cacheServer p)" "rsWriteSends (cacheServer p)"
  "rsGetCapabilities (cacheServer p) st = Some (Inr GetCapabilities, st)"
  "rsCheckHealth (cacheServer p) service st = Some (Inr True, st)"
  by (simp_all add: cacheServer_def)

lemma empty_blob_read:
  "rsBatchReadBlobs (cacheServer p) \<lparr>bqDigests = [Some emptyDigest], bqAcceptable = []\<rparr> st =
     Some (Inr [Some \<lparr>rdDigest = emptyDigest, rdData = [], rdCompressor = Compressor_IDENTITY, rdStatus = Some codeOK\<rparr>], st)"
  using emptyDigest_valid
  by (simp add: cacheServer_def BatchReadBlobs_def getBlobResponse_def getBlobData_def emptyDigest_sha)

lemma empty_blob_streamed:
  "rsRead (cacheServer p) \<lparr>rrResourceName = ''emptyRead/blobs/'' @ dHash emptyDigest @ ''/0'', rrReadOffset = 0, rrReadLimit = 0\<rparr> st =
     Some (([], None), st)"
proof -
  have "parseReadResource (''emptyRead/blobs/'' @ dHash emptyDigest @ ''/0'') = Inr (dHash emptyDigest, 0, Identity)"
    by code_simp
  then show ?thesis by (simp add: cacheServer_def Read_def)
qed

lemma empty_blob_found:
  assumes "coFindMissing (spOps p) (spCtx p) [emptyDigest] st = (Inr [], st')"
  shows "rsFindMissingBlobs (cacheServer p) [Some emptyDigest] st = Some (Inr [], st')"
  using assms emptyDigest_valid by (simp add: cacheServer_def FindMissingBlobs_def)

lemma no_action_found:
  assumes "if gsDepsCheck (spServer p) then coGetValidated (spOps p) (spCtx p) (dHash emptyDigest) st = Some (VacNotFound, st')
      else coGet (spOps p) (spCtx p) AC (dHash emptyDigest) (- 1) 0 st = Some (NotFound, st')"
  shows "rsGetActionResult (cacheServer p) \<lparr>gaActionDigest = Some emptyDigest, gaInstanceName = [], gaInlineStdout = False,
      gaInlineStderr = False, gaInlineOutputFiles = []\<rparr> st = Some (Inl codeNotFound, st')"
  using assms emptyDigest_valid
  by (auto simp: cacheServer_def GetActionResult_def actionKey_def TransformActionCacheKey_def acStatus_def getUnchecked_def
      split: if_splits)

text \<open>A search of the disk cache that is not cancelled never reports the empty blob, in any order of its goroutines.\<close>

lemma empty_blob_never_missing:
  assumes "fmreach cfg c False (fmInit st [emptyDigest]) s" "FindMissingCasBlobs s = Some r" "\<not> fmCtxDone s"
  shows "r = Inr []"
proof -
  have i: "fm_inv cfg c False st [emptyDigest] s" using fmreach_inv [OF assms(1)] by simp
  have "\<not> isl r"
    using fmreach_err_ok [OF assms(1)] assms(2,3) by (cases r) (auto simp: fm_err_ok_def FindMissing_Inl)
  then obtain ms where r: "r = Inr ms" by (cases r) auto
  have "localHit c st emptyDigest" by (simp add: localHit_def emptyDigest_sha)
  then have "avail cfg c st emptyDigest" by (simp add: avail_def)
  then show ?thesis using fm_finished_exact [OF i _ assms(3)] assms(2) r by simp
qed

text \<open>
  The check that a read of a stream is refused finds out nothing: the stream of the empty blob has no message, and its
  normal end is an error to the client as well. A server without any authentication passes it.
\<close>

lemma refused_read_check_vacuous: "checkBytestreamRead (cacheServer p) False st = Some (None, st)"
  by (simp only: checkBytestreamRead_def cacheServer_sel option.case judged_def empty_blob_streamed option.map prod.case
      simp_thms if_True)


text \<open>
  The password that the client puts into the authority is the one that the server looks for there: a user name without a
  colon and a password without an at sign arrive as they are.
\<close>

lemma client_login_found:
  assumes "dialOptionsOf f c = Some opts" "cfUser c \<noteq> []" "CHR '':'' \<notin> set (cfUser c)" "CHR ''@'' \<notin> set (cfPassword c)"
  shows "\<exists>a. doAuthority opts = Some a \<and> getLogin (Some [('':authority'', [a])]) = Inr (cfUser c, cfPassword c)"
proof -
  have a: "doAuthority opts = Some (cfUser c @ '':'' @ cfPassword c @ ''@'' @ cfServerAddr c)"
    using assms(1,2) by (auto simp: dialOptionsOf_def Let_def split: if_splits option.splits)
  then show ?thesis
    using cutAt_first [OF assms(3)] cutAt_first [OF assms(4)] by (simp add: getLogin_def loginOf_def)
qed

text \<open>A disk cache without entries behind a password, with open reads.\<close>

definition demoParts :: "dcState serverParts" where
  "demoParts =
     \<lparr>spOps = diskOps (demoConfig Zstandard) noFaults id (\<lambda>c ds st. (Inr (filter (\<lambda>d. dSizeBytes d \<noteq> 0) ds), st))
        (\<lambda>c h st. Some (VacNotFound, st)),
      spServer = \<lparr>gsDepsCheck = True, gsMangleACKeys = False\<rparr>, spCtx = emptyCtx, spReads = (\<lambda>n bs. chunks (nat n) bs),
      spDecodeAll = Some, spDecoder = Some, spUnmarshal = (\<lambda>_. None), spMarshal = (\<lambda>_. None)\<rparr>"


end
