(* ===== verification/ZstdPools.thy ===== *)
theory ZstdPools
  imports Prelude "HOL-Library.Multiset"
begin

text \<open>
  The pools of encoders and decoders around the two zstd libraries: \<open>cache/disk/zstdimpl/gozstd.go\<close> and \<open>cgozstd.go\<close>, with
  \<open>utils/zstdpool\<close>. What matters of an object is which one it is: a reader that the cache hands out is a
  handle on an object, and two open handles on one object would mix up the streams of two requests. A
  \<open>sync.Pool\<close> may give any of its objects, make a new one, and forget objects.
\<close>

section \<open>Pools\<close>

record pool =
  pFree :: "nat list"
  pNext :: nat
  pHandles :: "(nat \<times> bool) list"

definition emptyPool :: pool where
  "emptyPool = \<lparr>pFree = [], pNext = 0, pHandles = []\<rparr>"

text \<open>\<open>Get\<close> and \<open>Put\<close> of \<open>sync.Pool\<close>; the choice is the scheduler's, and \<open>New\<close> numbers the objects.\<close>

definition poolGet :: "nat option \<Rightarrow> pool \<Rightarrow> nat \<times> pool" where
  "poolGet choice p =
     (case choice of
        Some x \<Rightarrow> if x \<in> set (pFree p) then (x, p\<lparr>pFree := remove1 x (pFree p)\<rparr>) else (pNext p, p\<lparr>pNext := Suc (pNext p)\<rparr>)
      | None \<Rightarrow> (pNext p, p\<lparr>pNext := Suc (pNext p)\<rparr>))"

definition poolPut :: "nat \<Rightarrow> pool \<Rightarrow> pool" where
  "poolPut x p = p\<lparr>pFree := x # pFree p\<rparr>"

text \<open>A handle on an object: the wrapper that is returned.\<close>

definition openHandle :: "nat \<Rightarrow> pool \<Rightarrow> pool" where
  "openHandle x p = p\<lparr>pHandles := pHandles p @ [(x, False)]\<rparr>"

section \<open>The wrappers\<close>

text \<open>\<open>GetDecoder\<close> with the Go library: a decoder that cannot be reset to the input goes back at once.\<close>

definition goGetDecoder :: "nat option \<Rightarrow> bool \<Rightarrow> pool \<Rightarrow> bool \<times> pool" where
  "goGetDecoder choice resetFails p =
     (let (dec, p) = poolGet choice p in
      if resetFails then (False, poolPut dec p) else (True, openHandle dec p))"

definition goGetEncoder :: "nat option \<Rightarrow> pool \<Rightarrow> pool" where
  "goGetEncoder choice p = (let (enc, p) = poolGet choice p in openHandle enc p)"

definition cgoGetDecoder :: "nat option \<Rightarrow> pool \<Rightarrow> pool" where
  "cgoGetDecoder choice p = (let (r, p) = poolGet choice p in openHandle r p)"

definition cgoGetEncoder :: "nat option \<Rightarrow> pool \<Rightarrow> pool" where
  "cgoGetEncoder choice p = (let (w, p) = poolGet choice p in openHandle w p)"

text \<open>\<open>Close\<close> of any of the wrappers puts the object back, also when the handle was closed before.\<close>

definition closeHandle :: "nat \<Rightarrow> pool \<Rightarrow> pool" where
  "closeHandle i p =
     (if i < length (pHandles p) then
        (let x = fst (pHandles p ! i) in poolPut x (p\<lparr>pHandles := (pHandles p)[i := (x, True)]\<rparr>))
      else p)"

section \<open>Runs\<close>

text \<open>\<open>once\<close>: the users of the pool close a handle at most once.\<close>

inductive poolStep :: "bool \<Rightarrow> pool \<Rightarrow> pool \<Rightarrow> bool" for once where
  go_decoder: "poolStep once p (snd (goGetDecoder choice fails p))"
| go_encoder: "poolStep once p (goGetEncoder choice p)"
| cgo_decoder: "poolStep once p (cgoGetDecoder choice p)"
| cgo_encoder: "poolStep once p (cgoGetEncoder choice p)"
| closing: "i < length (pHandles p) \<Longrightarrow> \<not> (once \<and> snd (pHandles p ! i)) \<Longrightarrow> poolStep once p (closeHandle i p)"
| forget: "poolStep once p (p\<lparr>pFree := remove1 x (pFree p)\<rparr>)"

abbreviation poolReach :: "bool \<Rightarrow> pool \<Rightarrow> bool" where
  "poolReach once \<equiv> (poolStep once)\<^sup>*\<^sup>* emptyPool"

text \<open>The objects that are in use.\<close>

definition inUse :: "pool \<Rightarrow> nat list" where
  "inUse p = map fst (filter (\<lambda>(x, closed). \<not> closed) (pHandles p))"

definition poolInv :: "pool \<Rightarrow> bool" where
  "poolInv p \<longleftrightarrow> distinct (inUse p @ pFree p) \<and> (\<forall>x \<in> set (inUse p @ pFree p). x < pNext p)"

lemma inUse_open [simp]: "inUse (openHandle x p) = inUse p @ [x]" "pFree (openHandle x p) = pFree p" "pNext (openHandle x p) = pNext p"
  by (simp_all add: inUse_def openHandle_def)

lemma inUse_put [simp]: "inUse (poolPut x p) = inUse p" "pFree (poolPut x p) = x # pFree p" "pNext (poolPut x p) = pNext p"
  by (simp_all add: inUse_def poolPut_def)

lemma inUse_update [simp]: "inUse (p\<lparr>pFree := f\<rparr>) = inUse p" "inUse (p\<lparr>pNext := n\<rparr>) = inUse p"
  by (simp_all add: inUse_def)

lemma poolGet_inv:
  assumes "poolInv p" "poolGet choice p = (x, q)"
  shows "poolInv (openHandle x q)" "poolInv (poolPut x q)"
  using assms by (auto simp: poolInv_def poolGet_def less_Suc_eq split: option.splits if_splits dest: notin_set_remove1)

lemma inUse_close:
  assumes "i < length hs" "\<not> snd (hs ! i)"
  shows "mset (map fst (filter (\<lambda>(x, closed). \<not> closed) hs)) =
    add_mset (fst (hs ! i)) (mset (map fst (filter (\<lambda>(x, closed). \<not> closed) (hs[i := (fst (hs ! i), True)]))))"
proof -
  have "hs = take i hs @ hs ! i # drop (Suc i) hs" using assms(1) by (rule id_take_nth_drop)
  then have "filter (\<lambda>(x, closed). \<not> closed) hs =
      filter (\<lambda>(x, closed). \<not> closed) (take i hs) @ hs ! i # filter (\<lambda>(x, closed). \<not> closed) (drop (Suc i) hs)"
    using assms(2) by (metis (mono_tags, lifting) case_prod_beta filter.simps(2) filter_append)
  then show ?thesis using assms(1) by (simp add: upd_conv_take_nth_drop)
qed

lemma closeHandle_inv:
  assumes "poolInv p" "i < length (pHandles p)" "\<not> snd (pHandles p ! i)"
  shows "poolInv (closeHandle i p)"
proof -
  have m: "mset (inUse (closeHandle i p) @ pFree (closeHandle i p)) = mset (inUse p @ pFree p)"
    using inUse_close [OF assms(2,3)] assms(2) by (simp add: closeHandle_def Let_def inUse_def poolPut_def)
  have n: "pNext (closeHandle i p) = pNext p" using assms(2) by (simp add: closeHandle_def Let_def)
  have "distinct (inUse (closeHandle i p) @ pFree (closeHandle i p)) \<longleftrightarrow> distinct (inUse p @ pFree p)"
    by (rule mset_eq_imp_distinct_iff [OF m])
  then show ?thesis using assms(1) mset_eq_setD [OF m] unfolding poolInv_def n by simp
qed

lemma forget_inv: "poolInv p \<Longrightarrow> poolInv (p\<lparr>pFree := remove1 x (pFree p)\<rparr>)"
  by (auto simp: poolInv_def dest: notin_set_remove1)

lemma poolStep_inv:
  assumes "poolStep True p p'" "poolInv p"
  shows "poolInv p'"
  using assms(1)
proof cases
  case (go_decoder choice fails)
  then show ?thesis using poolGet_inv [OF assms(2)] by (cases "poolGet choice p") (simp add: goGetDecoder_def)
next
  case (go_encoder choice)
  then show ?thesis using poolGet_inv [OF assms(2)] by (cases "poolGet choice p") (simp add: goGetEncoder_def)
next
  case (cgo_decoder choice)
  then show ?thesis using poolGet_inv [OF assms(2)] by (cases "poolGet choice p") (simp add: cgoGetDecoder_def)
next
  case (cgo_encoder choice)
  then show ?thesis using poolGet_inv [OF assms(2)] by (cases "poolGet choice p") (simp add: cgoGetEncoder_def)
next
  case (closing i)
  then show ?thesis using closeHandle_inv [OF assms(2)] by simp
next
  case (forget x)
  then show ?thesis using forget_inv [OF assms(2)] by simp
qed

lemmas handle_simps = cgoGetDecoder_def poolGet_def openHandle_def emptyPool_def closeHandle_def poolPut_def inUse_def

lemma poolReach_inv: "poolReach True p \<Longrightarrow> poolInv p"
proof (induction rule: rtranclp_induct)
  case base
  then show ?case by (simp add: poolInv_def emptyPool_def inUse_def)
next
  case (step p p')
  then show ?case using poolStep_inv by blast
qed

text \<open>
  However requests take and return encoders and decoders, as long as each of them closes what it got at
  most once, no two open readers or writers share an object of a pool, and none is in the pool.
\<close>

theorem pool_objects_exclusive:
  assumes "poolReach True p"
  shows "distinct (inUse p) \<and> set (inUse p) \<inter> set (pFree p) = {} \<and> distinct (pFree p)"
  using poolReach_inv [OF assms] by (simp add: poolInv_def)

theorem pool_objects_exclusive_witness:
  "inUse (cgoGetDecoder (Some 0) (closeHandle 0 (cgoGetDecoder None emptyPool))) = [0]"
proof -
  have "poolReach True (cgoGetDecoder None emptyPool)" by (rule r_into_rtranclp, rule cgo_decoder)
  then have "poolReach True (closeHandle 0 (cgoGetDecoder None emptyPool))"
    by (rule rtranclp.rtrancl_into_rtrancl) (rule closing, simp_all add: handle_simps)
  then have "poolReach True (cgoGetDecoder (Some 0) (closeHandle 0 (cgoGetDecoder None emptyPool)))"
    by (rule rtranclp.rtrancl_into_rtrancl) (rule cgo_decoder)
  then have "distinct (inUse (cgoGetDecoder (Some 0) (closeHandle 0 (cgoGetDecoder None emptyPool))))"
    using pool_objects_exclusive by blast
  then show ?thesis
    by (simp add: handle_simps)
qed

text \<open>A reader that is closed twice is handed to two later requests.\<close>

lemma double_close_shares:
  "\<exists>p. poolReach False p \<and> inUse p = [0, 0]"
proof -
  let ?a = "cgoGetDecoder None emptyPool"
  let ?b = "closeHandle 0 (closeHandle 0 ?a)"
  let ?c = "cgoGetDecoder (Some 0) (cgoGetDecoder (Some 0) ?b)"
  have "poolReach False ?a" by (rule r_into_rtranclp, rule cgo_decoder)
  then have "poolReach False (closeHandle 0 ?a)"
    by (rule rtranclp.rtrancl_into_rtrancl) (rule closing, simp_all add: handle_simps)
  then have "poolReach False ?b"
    by (rule rtranclp.rtrancl_into_rtrancl)
      (rule closing, simp_all add: handle_simps)
  then have "poolReach False (cgoGetDecoder (Some 0) ?b)" by (rule rtranclp.rtrancl_into_rtrancl) (rule cgo_decoder)
  then have "poolReach False ?c" by (rule rtranclp.rtrancl_into_rtrancl) (rule cgo_decoder)
  moreover have "inUse ?c = [0, 0]"
    by (simp add: handle_simps)
  ultimately show ?thesis by blast
qed

end
