(* ===== verification/HelpText.thy ===== *)
theory HelpText
  imports Flags
begin

text \<open>
  \<open>utils/flags/usage.go\<close>: the help text, with the options wrapped at word boundaries. The text is ASCII. The text of an
  option and the alignment of tab stops are the work of libraries, and parameters here.
\<close>

section \<open>Words\<close>

text \<open>\<open>unicode.IsSpace\<close> on ASCII, \<open>strings.Fields\<close> and \<open>strings.TrimSpace\<close>.\<close>

definition isSpace :: "char \<Rightarrow> bool" where
  "isSpace c \<longleftrightarrow> (let n = (of_char c :: nat) in 9 \<le> n \<and> n \<le> 13 \<or> n = 32)"

abbreviation newline :: char where
  "newline \<equiv> CHR 0x0A"

fun fieldsFrom :: "string \<Rightarrow> string \<Rightarrow> string list" where
  "fieldsFrom cur [] = (if cur = [] then [] else [cur])"
| "fieldsFrom cur (c # cs) =
     (if isSpace c then (if cur = [] then fieldsFrom [] cs else cur # fieldsFrom [] cs)
      else fieldsFrom (cur @ [c]) cs)"

definition stringsFields :: "string \<Rightarrow> string list" where
  "stringsFields s = fieldsFrom [] s"

definition trimSpace :: "string \<Rightarrow> string" where
  "trimSpace s = rev (dropWhile isSpace (rev (dropWhile isSpace s)))"

section \<open>Wrapping\<close>

text \<open>The loop over the words after the first.\<close>

fun wrapWords :: "int \<Rightarrow> string \<Rightarrow> string list \<Rightarrow> string \<Rightarrow> int \<Rightarrow> string" where
  "wrapWords targetWidth padding [] wrapped spaceLeft = wrapped"
| "wrapWords targetWidth padding (word # words) wrapped spaceLeft =
     (if blen word + 1 > spaceLeft
      then wrapWords targetWidth padding words (wrapped @ newline # padding @ word) (targetWidth - blen word)
      else wrapWords targetWidth padding words (wrapped @ CHR '' '' # word) (spaceLeft - (1 + blen word)))"

definition wrapLine :: "string \<Rightarrow> int \<Rightarrow> string \<Rightarrow> string" where
  "wrapLine input wrapAt padding =
     (let offset = blen padding; targetWidth = wrapAt - offset in
      if wrapAt \<le> offset then input
      else if blen input \<le> wrapAt - offset then input
      else
        (case stringsFields input of
           [] \<Rightarrow> input
         | word # words \<Rightarrow> wrapWords targetWidth padding words word (targetWidth - blen word)))"

text \<open>The loop over the lines; \<open>first\<close> is \<open>i = 0\<close>.\<close>

fun wrapLines :: "int \<Rightarrow> string \<Rightarrow> bool \<Rightarrow> string list \<Rightarrow> string" where
  "wrapLines wrapAt padding first [] = []"
| "wrapLines wrapAt padding first (line # lines) =
     (if first then [] else padding) @ wrapLine line wrapAt padding @
     (if lines = [] then [] else [newline]) @ wrapLines wrapAt padding False lines"

definition wrap :: "string \<Rightarrow> nat \<Rightarrow> int \<Rightarrow> string" where
  "wrap input offset wrapAt =
     wrapLines wrapAt (replicate offset CHR '' '') True (split_on newline input)"

section \<open>The help text\<close>

definition defaultWidth :: int where "defaultWidth = 10000"

definition minimumWidth :: int where "minimumWidth = 30"

text \<open>\<open>columns\<close>: the environment variable; \<open>tput\<close>: the output of \<open>tput cols\<close>, if that works.\<close>

definition getConsoleWidth :: "string \<Rightarrow> string option \<Rightarrow> int" where
  "getConsoleWidth columns tput =
     (case (if columns \<noteq> [] then parse_int64 (trimSpace columns) else None) of
        Some width \<Rightarrow> if width < minimumWidth then minimumWidth else width
      | None \<Rightarrow>
          (case tput of
             None \<Rightarrow> defaultWidth
           | Some output \<Rightarrow>
               (case parse_int64 (trimSpace output) of
                  None \<Rightarrow> defaultWidth
                | Some width \<Rightarrow> if width < minimumWidth then minimumWidth else width)))"

text \<open>The template, with the texts of the visible flags.\<close>

fun templateOptions :: "int \<Rightarrow> bool \<Rightarrow> string list \<Rightarrow> string" where
  "templateOptions width first [] = []"
| "templateOptions width first (opt # opts) =
     (if first then [] else [newline] @ ''   '') @ wrap opt 6 width @ [newline] @ templateOptions width False opts"

definition helpTemplate :: "string \<Rightarrow> int \<Rightarrow> string list \<Rightarrow> string" where
  "helpTemplate name width opts =
     ''bazel-remote - A remote build cache for Bazel and other REAPI clients'' @ [newline, newline] @
     ''USAGE:'' @ [newline] @ ''   '' @ name @ '' [options]'' @ [newline, newline] @
     ''OPTIONS:'' @ [newline] @ ''   '' @ templateOptions width True opts"

definition HelpPrinter :: "(string \<Rightarrow> string) \<Rightarrow> (cliFlag \<Rightarrow> string) \<Rightarrow> string \<Rightarrow> string option \<Rightarrow> string \<Rightarrow> cliFlag list \<Rightarrow> string" where
  "HelpPrinter tabwriter flagString columns tput name visible =
     tabwriter (helpTemplate name (getConsoleWidth columns tput) (map flagString visible))"

section \<open>Words of a text\<close>

lemma isSpace_simps [simp]: "isSpace newline" "isSpace CHR '' ''"
  by code_simp+

lemma fields_append_space: "isSpace c \<Longrightarrow> fieldsFrom cur (a @ c # b) = fieldsFrom cur a @ fieldsFrom [] b"
  by (induction cur a rule: fieldsFrom.induct) auto

lemma fields_word: "\<forall>c \<in> set w. \<not> isSpace c \<Longrightarrow> fieldsFrom cur w = (if cur @ w = [] then [] else [cur @ w])"
  by (induction cur w rule: fieldsFrom.induct) auto

lemma fields_padding: "\<forall>c \<in> set p. isSpace c \<Longrightarrow> fieldsFrom [] (p @ s) = fieldsFrom [] s"
  by (induction p) auto

lemma fields_are_words:
  "w \<in> set (fieldsFrom cur s) \<Longrightarrow> \<forall>c \<in> set cur. \<not> isSpace c \<Longrightarrow> w \<noteq> [] \<and> (\<forall>c \<in> set w. \<not> isSpace c)"
proof (induction s arbitrary: cur)
  case Nil
  then show ?case by (simp split: if_splits)
next
  case (Cons c cs)
  show ?case
  proof (cases "isSpace c")
    case True
    then have "w = cur \<and> cur \<noteq> [] \<or> w \<in> set (fieldsFrom [] cs)" using Cons.prems(1) by (simp split: if_splits)
    then show ?thesis using Cons.IH [of "[]"] Cons.prems(2) by (metis empty_iff list.set(1))
  next
    case False
    then show ?thesis using Cons.IH [of "cur @ [c]"] Cons.prems by simp
  qed
qed

definition isWord :: "string \<Rightarrow> bool" where
  "isWord w \<longleftrightarrow> w \<noteq> [] \<and> (\<forall>c \<in> set w. \<not> isSpace c)"

definition isBlank :: "string \<Rightarrow> bool" where
  "isBlank p \<longleftrightarrow> (\<forall>c \<in> set p. isSpace c)"

lemma stringsFields_words: "w \<in> set (stringsFields s) \<Longrightarrow> isWord w"
  using fields_are_words [of w "[]" s] by (simp add: stringsFields_def isWord_def)

lemma stringsFields_simps [simp]:
  "stringsFields [] = []" "isWord w \<Longrightarrow> stringsFields w = [w]" "isBlank p \<Longrightarrow> stringsFields (p @ s) = stringsFields s"
  "isSpace c \<Longrightarrow> stringsFields (a @ c # b) = stringsFields a @ stringsFields b"
  by (simp_all add: stringsFields_def fields_append_space fields_padding fields_word isWord_def isBlank_def)

lemma wrapWords_words:
  "\<forall>w \<in> set ws. isWord w \<Longrightarrow> isBlank p \<Longrightarrow> stringsFields (wrapWords t p ws s n) = stringsFields s @ ws"
  by (induction t p ws s n rule: wrapWords.induct) auto

lemma wrapLine_words: "isBlank p \<Longrightarrow> stringsFields (wrapLine l w p) = stringsFields l"
  using stringsFields_words [of _ l]
  by (auto simp: wrapLine_def Let_def wrapWords_words split: list.splits)

lemma wrapLines_words:
  "isBlank p \<Longrightarrow> stringsFields (wrapLines w p first ls) = concat (map stringsFields ls)"
proof (induction w p first ls rule: wrapLines.induct)
  case (2 w p first l ls)
  then show ?case by (cases first; cases "ls = []") (simp_all add: wrapLine_words)
qed simp

lemma split_words: "concat (map stringsFields (split_on newline s)) = stringsFields s"
proof -
  have "stringsFields (join_with newline ls) = concat (map stringsFields ls)" for ls
    by (induction newline ls rule: join_with.induct) auto
  then show ?thesis using join_split [of newline s] by metis
qed

lemma wrap_words: "stringsFields (wrap s n w) = stringsFields s"
  by (simp add: wrap_def wrapLines_words isBlank_def split_words)

section \<open>Lengths of lines\<close>

definition linesFit :: "int \<Rightarrow> string \<Rightarrow> bool" where
  "linesFit n s \<longleftrightarrow> (\<forall>l \<in> set (split_on newline s). blen l \<le> n)"

definition lastLine :: "string \<Rightarrow> string" where
  "lastLine s = last (split_on newline s)"

lemma split_on_both: "split_on c (a @ c # b) = split_on c a @ split_on c b"
  by (induction a) (auto split: list.splits)

lemma split_on_extend: "c \<notin> set w \<Longrightarrow> split_on c (a @ w) = butlast (split_on c a) @ [last (split_on c a) @ w]"
proof (induction a)
  case (Cons x a)
  then show ?case by (cases "split_on c a") auto
qed (simp add: split_on_free)

lemma linesFit_newline [simp]: "linesFit n (a @ newline # b) \<longleftrightarrow> linesFit n a \<and> linesFit n b"
  by (auto simp: linesFit_def split_on_both)

lemma lastLine_newline [simp]: "lastLine (a @ newline # b) = lastLine b"
  by (simp add: lastLine_def split_on_both)

lemma linesFit_free: "newline \<notin> set w \<Longrightarrow> linesFit n w \<longleftrightarrow> blen w \<le> n" and lastLine_free: "newline \<notin> set w \<Longrightarrow> lastLine w = w"
  by (simp_all add: linesFit_def lastLine_def split_on_free)

lemma linesFit_extend:
  assumes "newline \<notin> set w" "linesFit n a" "blen (lastLine a) + blen w \<le> n"
  shows "linesFit n (a @ w)" "lastLine (a @ w) = lastLine a @ w"
  using assms in_set_butlastD by (fastforce simp: linesFit_def lastLine_def split_on_extend)+

lemma isWord_free: "isWord w \<Longrightarrow> newline \<notin> set w"
  by (auto simp: isWord_def)

text \<open>The lines so far fit, and the space left is what the last of them leaves.\<close>

lemma wrapWords_fit:
  assumes "\<forall>w \<in> set ws. isWord w \<and> blen w \<le> t" "newline \<notin> set p"
    and "linesFit (t + blen p) s" "blen (lastLine s) \<le> t + blen p - n"
  shows "linesFit (t + blen p) (wrapWords t p ws s n)"
  using assms
proof (induction t p ws s n rule: wrapWords.induct)
  case (2 t p w ws s n)
  have w: "newline \<notin> set w" "blen w \<le> t" "newline \<notin> set (p @ w)" using 2(3,4) isWord_free by auto
  show ?case
  proof (cases "blen w + 1 > n")
    case True
    have "linesFit (t + blen p) (s @ newline # p @ w)" "blen (lastLine (s @ newline # p @ w)) = blen p + blen w"
      using 2(5) w linesFit_free [OF w(3)] lastLine_free [OF w(3)] by simp_all
    then show ?thesis using 2(1) [OF True] 2(3,4) True by simp
  next
    case False
    have n: "newline \<notin> set (CHR '' '' # w)" using w(1) by simp
    have "linesFit (t + blen p) (s @ CHR '' '' # w)" "lastLine (s @ CHR '' '' # w) = lastLine s @ CHR '' '' # w"
      using linesFit_extend [OF n 2(5)] 2(6) False by simp_all
    then show ?thesis using 2(2) [OF False] 2(3,4,6) False by simp
  qed
qed simp

lemma wrapWords_append: "a @ wrapWords t p ws s n = wrapWords t p ws (a @ s) n"
  by (induction t p ws s n rule: wrapWords.induct) auto

text \<open>A line that can be wrapped: it has a word, or is short, and no word is too long.\<close>

definition wrappable :: "int \<Rightarrow> string \<Rightarrow> bool" where
  "wrappable n l \<longleftrightarrow> (stringsFields l \<noteq> [] \<or> blen l \<le> n) \<and> (\<forall>w \<in> set (stringsFields l). blen w \<le> n)"

lemma wrapLine_fits:
  assumes "wrappable t l" "newline \<notin> set l" "newline \<notin> set p" "newline \<notin> set a" "blen a \<le> blen p" "0 < t"
  shows "linesFit (t + blen p) (a @ wrapLine l (t + blen p) p)"
proof (cases "blen l \<le> t")
  case True
  then show ?thesis using assms by (simp add: wrapLine_def linesFit_free)
next
  case False
  then obtain w ws where ws: "stringsFields l = w # ws" using assms(1) by (auto simp: wrappable_def neq_Nil_conv)
  have w: "\<forall>v \<in> set (w # ws). isWord v \<and> blen v \<le> t" using assms(1) ws stringsFields_words by (metis wrappable_def)
  have aw: "newline \<notin> set (a @ w)" using w isWord_free assms(4) by auto
  have "linesFit (t + blen p) (wrapWords t p ws (a @ w) (t - blen w))"
    using w assms(3,5) linesFit_free [OF aw] lastLine_free [OF aw] by (intro wrapWords_fit) auto
  then show ?thesis using False ws assms(6) by (simp add: wrapLine_def Let_def wrapWords_append)
qed

lemma wrapLines_fit:
  assumes "\<forall>l \<in> set ls. wrappable t l \<and> newline \<notin> set l" "newline \<notin> set p" "0 < t"
  shows "linesFit (t + blen p) (wrapLines (t + blen p) p first ls)"
  using assms(1)
proof (induction ls arbitrary: first)
  case Nil
  then show ?case using assms(3) by (simp add: linesFit_def)
next
  case (Cons l ls)
  define a where "a = (if first then [] else p)"
  have "linesFit (t + blen p) (a @ wrapLine l (t + blen p) p)"
    using Cons.prems assms(2,3) by (intro wrapLine_fits) (auto simp: a_def)
  then show ?case using Cons.IH [of False] Cons.prems
    by (cases "ls = []") (simp_all add: a_def [symmetric] linesFit_newline [of _ "_ @ _", simplified])
qed

text \<open>
  Wrapping the text of an option loses, adds and reorders no word, and when every word fits next to the
  indentation (and no line of only blanks is longer than that) every line of the result fits into the console.
\<close>

theorem help_text_wrapped:
  "stringsFields (wrap input offset width) = stringsFields input \<and>
   (int offset < width \<and> (\<forall>l \<in> set (split_on newline input). wrappable (width - int offset) l) \<longrightarrow>
      (\<forall>l \<in> set (split_on newline (wrap input offset width)). blen l \<le> width))"
  using wrap_words [of input offset width] split_on_parts_free
    wrapLines_fit [of "split_on newline input" "width - int offset" "replicate offset CHR '' ''" True]
  by (auto simp: wrap_def linesFit_def blen_def [of "replicate _ _"])

theorem help_text_wrapped_witness:
  "wrap ''--dir value Directory path of the cache'' 6 30 = ''--dir value Directory'' @ newline # ''      path of the cache'' \<and>
   list_all (\<lambda>l. blen l \<le> 30) (split_on newline (wrap ''--dir value Directory path of the cache'' 6 30))"
proof -
  have "wrap ''--dir value Directory path of the cache'' 6 30 = ''--dir value Directory'' @ newline # ''      path of the cache''"
    by code_simp
  moreover have "\<forall>l \<in> set (split_on newline ''--dir value Directory path of the cache''). wrappable 24 l" by code_simp
  ultimately show ?thesis using help_text_wrapped [of "''--dir value Directory path of the cache''" 6 30] by (simp add: list_all_iff)
qed

text \<open>The width is never below the minimum, whatever the environment and the terminal say.\<close>

lemma getConsoleWidth_min: "minimumWidth \<le> getConsoleWidth columns tput"
  by (auto simp: getConsoleWidth_def minimumWidth_def defaultWidth_def split: option.splits)

end
