(* ===== verification/FileLimits.thy ===== *)
theory FileLimits
  imports HelpText
begin

text \<open>
  Two small packages: \<open>utils/rlimit\<close>, which raises the limit of open files at start, and \<open>utils/annotate\<close>, which puts the
  state of a context into an error text. The system calls are arguments. (The
  variant for Windows is there to make the compiler refuse the program.)
\<close>

section \<open>The limit of open files\<close>

record rlimit =
  rlCur :: nat
  rlMax :: nat

text \<open>\<open>getrlimit\<close>: the limits, if the call works; \<open>setFails\<close>: \<open>setrlimit\<close> fails. The result are the limits afterwards.\<close>

definition RaiseUnix :: "bool \<Rightarrow> bool \<Rightarrow> rlimit \<Rightarrow> rlimit" where
  "RaiseUnix getFails setFails limits =
     (if getFails then limits
      else if setFails then limits
      else limits\<lparr>rlCur := rlMax limits\<rparr>)"

text \<open>\<open>strings.Trim\<close> of line ends, and \<open>strconv.ParseUint\<close> with 64 bits.\<close>

definition trimNewlines :: "string \<Rightarrow> string" where
  "trimNewlines s = rev (dropWhile (\<lambda>c. c = newline) (rev (dropWhile (\<lambda>c. c = newline) s)))"

definition parseUint64 :: "string \<Rightarrow> nat option" where
  "parseUint64 s =
     (if s = [] then None
      else (case parse_digits 0 s of None \<Rightarrow> None | Some n \<Rightarrow> if n < 2 ^ 64 then Some n else None))"

text \<open>On macOS the maximum is also bounded by what \<open>sysctl\<close> prints, if it runs.\<close>

definition RaiseDarwin :: "bool \<Rightarrow> string option \<Rightarrow> bool \<Rightarrow> rlimit \<Rightarrow> rlimit" where
  "RaiseDarwin getFails sysctl setFails limits =
     (if getFails then limits
      else
        (case sysctl of
           None \<Rightarrow> limits
         | Some stdout \<Rightarrow>
             (case parseUint64 (trimNewlines stdout) of
                None \<Rightarrow> limits
              | Some sysctlMax \<Rightarrow>
                  (let new = (if rlMax limits > sysctlMax then limits\<lparr>rlMax := sysctlMax\<rparr> else limits);
                       new = new\<lparr>rlCur := rlMax new\<rparr>
                   in if setFails then limits else new))))"

text \<open>The limit never gets smaller, unless the system has a smaller maximum than the one in force.\<close>

lemma raise_never_lowers:
  assumes "rlCur limits \<le> rlMax limits"
  shows "rlCur limits \<le> rlCur (RaiseUnix getFails setFails limits)"
    and "rlCur (RaiseDarwin getFails sysctl setFails limits) < rlCur limits \<Longrightarrow>
      \<exists>out n. sysctl = Some out \<and> parseUint64 (trimNewlines out) = Some n \<and> n < rlCur limits"
  using assms by (auto simp: RaiseUnix_def RaiseDarwin_def Let_def split: option.splits if_splits)

section \<open>Errors with the state of the context\<close>

text \<open>The text of the error: \<open>ctxErr\<close> is the text of the context's error, if it is cancelled or over its deadline.\<close>

definition annotateErr :: "string option \<Rightarrow> string \<Rightarrow> string \<Rightarrow> string" where
  "annotateErr ctxErr pre err =
     (case ctxErr of
        None \<Rightarrow> pre @ '': '' @ err
      | Some e \<Rightarrow> pre @ '': '' @ err @ '' ('' @ e @ '')'')"

text \<open>The annotated text always starts with the text without a context.\<close>

lemma annotateErr_prefix: "hasPrefix (annotateErr ctxErr pre err) (pre @ '': '' @ err)"
  by (cases ctxErr) (simp_all add: annotateErr_def hasPrefix_def)

end
