(* ===== verification/Spec2Isabelle.thy ===== *)
theory Spec2Isabelle
  imports LRU_Props Key_Props Sha256_Vector Casblob_Props Disk_Props Disk_Concurrent FindMissing_Props Load_Props ValidatedAC_Props ByteStream_Props GrpcCas_Props GrpcAC_Props HttpServer_Props Startup_Props Proxies_Props Asset_Props GrpcProxy_Props AzBlob_Props Metrics_Props LruArtifact Lifecycle MainRun_Props TestClient_Props ZstdPools FileLimits
begin

text \<open>
  A model of bazel-remote, a remote cache for Bazel written in Go, with the theorems that make it correct.

  The program keeps action results (AC), blobs (CAS) and unvalidated action results (RAW) as files of
  one directory, with an index in memory that evicts the least recently used ones. It serves them
  over HTTP and gRPC, and may have a backend (S3, HTTP, Google storage, Azure, another gRPC cache) for what it
  does not have. The theories follow the packages.

  \<^bold>\<open>Foundations.\<close> \<open>Prelude\<close>: bytes, readers (their data, and whether they fail), \<open>int64\<close> with its wrap-around,
  decimal numbers, Go's string functions. \<open>Codec\<close>: files with faults and little-endian integers, with the
  locale \<open>fixed_codec\<close>. \<open>Sha256\<close>, \<open>Sha256_Vector\<close>: the digest, on words, with a test vector. \<open>Messages\<close>: the
  protocol messages that the code reads.

  \<^bold>\<open>The index\<close> (\<open>cache/disk/lru.go\<close>). \<open>LRU\<close> is the code: list elements, map, sizes that may wrap. \<open>LRU_Spec\<close> is
  what it promises, a list of entries in the order of use with a capacity and a reservation; \<open>LRU_Correct\<close> has
  the contract as the locale \<open>bounded_index\<close> and interprets it by the code, for capacities up to 2^62 - 1, where no
  sum of sizes overflows; \<open>LRU_Props\<close> has the properties: the invariant of every reachable index and the refinement.

  \<^bold>\<open>Names\<close> (\<open>cache/cache.go\<close>, \<open>cache/storage_prefix.go\<close>, \<open>utils/tempfile\<close>, the file names of \<open>disk.go\<close>). \<open>CacheKeys\<close>,
  \<open>Key_Props\<close>: lookup keys are taken apart again, and keep requests with different storage prefixes apart.

  \<^bold>\<open>Files of blobs\<close> (\<open>cache/disk/casblob\<close>). \<open>Casblob\<close>: the header, \<open>WriteAndClose\<close>, the readers, with every error and
  panic. \<open>Casblob_Correct\<close> describes a written file as a header and the compressed chunks; \<open>Casblob_Props\<close>: when
  writing succeeds, that every offset is read back, compressed or not, and what an accepted header guarantees.

  \<^bold>\<open>The disk cache\<close> (\<open>cache/disk/disk.go\<close>, \<open>findmissing.go\<close>, \<open>load.go\<close>, \<open>options.go\<close>, \<open>lru_capture.go\<close>).
  \<open>DiskCache\<close>: its state (\<open>dcState\<close>: index, files, pending removals, what the proxy and the observer got), its
  configuration and the parts of \<open>Put\<close>. \<open>DiskOps\<close>: \<open>Put\<close>, \<open>get\<close> with the backend, \<open>Contains\<close>. \<open>Disk_Correct\<close>,
  \<open>Disk_Props\<close>: no reservation leaks, stored content is verified in the compressed mode, and is read
  back. \<open>Disk_Concurrent\<close>: the same parts as steps of requests in flight, in every interleaving. \<open>FindMissing\<close>:
  the search with its goroutines as a step relation; \<open>FindMissing_Props\<close>: exactness without a backend, soundness with
  one, termination within 5n + 2 rounds of work. \<open>LoadCache\<close>, \<open>Load_Props\<close>: migration and scan at start.
  \<open>Validate\<close> (\<open>utils/validate\<close>), \<open>ValidatedAC\<close>: an action result is delivered only with all its blobs.
  \<open>LruArtifact\<close> (\<open>cache/lru_observer.go\<close>): the artifacts of observed accesses. \<open>Metrics\<close>, \<open>Metrics_Props\<close>
  (\<open>cache/disk/metrics.go\<close>): the decorator, which the locale \<open>same_answers\<close> shows to change nothing.

  \<^bold>\<open>The interface of the servers.\<close> \<open>CacheInterface\<close> has the operations as a record (\<open>cacheOps\<close>), the disk cache as one of
  its values (\<open>diskOps\<close>), and the laws that the servers rely on as the locale \<open>blob_store\<close> and those for entries of
  unknown size, interpreted by the disk cache. The handlers take any \<open>cacheOps\<close>; their round trips are proved in the
  locales and stated for the disk cache.

  \<^bold>\<open>The servers\<close> (\<open>server/\<close>). \<open>ByteStream\<close>: downloads and uploads, with the two goroutines of an upload. \<open>GrpcCas\<close>:
  batches and \<open>GetTree\<close>. \<open>GrpcAC\<close>: action results with inlined files. \<open>HttpServer\<close>: GET, PUT, HEAD and the status
  page. \<open>Asset\<close>: \<open>FetchBlob\<close>. \<open>Auth\<close>: the interceptors. Each has its \<open>_Props\<close>.

  \<^bold>\<open>The backends\<close> (\<open>cache/*proxy\<close>, \<open>utils/backendproxy\<close>). \<open>Proxies\<close>: the upload queue, S3 and HTTP. \<open>AzBlob\<close>: Azure.
  \<open>GrpcProxy\<close>: another server, with its capabilities and its stream as a reader. \<open>Proxies_Props\<close>, \<open>AzBlob_Props\<close>,
  \<open>GrpcProxy_Props\<close>: what one cache uploads another one gets, who shares a namespace with whom, and which chains of
  caches work.

  \<^bold>\<open>The process\<close> (\<open>main.go\<close>, \<open>config/\<close>, \<open>utils/flags\<close>, \<open>utils/idle\<close>). \<open>Flags\<close>, \<open>Flags_Props\<close>: the table of the flags, and that the
  configuration reads nothing else. \<open>HelpText\<close>: the wrapping of the help. \<open>Config\<close>: defaults, files, flags and the
  validation, which \<open>Config_Props\<close> describes exactly. \<open>Startup\<close>, \<open>Startup_Props\<close>: TLS, credentials, the backend, the handlers
  and interceptors of both servers, and what they let through. \<open>MainRun\<close>, \<open>MainRun_Props\<close>: the command from its flags to the
  listeners and the exit status. \<open>Lifecycle\<close>: the idle timer and the shutdown, which always completes; its phases are linearly
  ordered, and no step goes back. \<open>FileLimits\<close> (\<open>utils/rlimit\<close>, \<open>utils/annotate\<close>): the limit of open files, error texts.
  \<open>ZstdPools\<close> (\<open>zstdimpl\<close>, \<open>zstdpool\<close>): the pools of encoders and decoders, whose objects no two requests share.

  \<^bold>\<open>The test client\<close> (\<open>utils/grpcreadclient\<close>). \<open>TestClient\<close> has its checks against a record of calls, and the servers of the model
  as a value of that record: handlers behind interceptors. \<open>TestClient_Props\<close>: its verdict agrees with the configuration.

  \<^bold>\<open>Conventions.\<close> Errors are values, a panic or a call that never returns is \<open>None\<close> (or an error of its own
  where the code recovers). \<open>int64\<close> values are integers with the wrap-around written out (\<open>add64\<close>, \<open>sub64\<close>).
  Faults of the operating system are arguments (\<open>osFaults\<close>); a disk read that takes time is a function \<open>env\<close> of the
  state that the other requests change meanwhile. \<open>fillNodes\<close> is a partial function, because \<open>GetTree\<close> may not
  return; all other loops have termination proofs. Goroutines are step relations (\<open>fmstep\<close>, \<open>dstep\<close>, \<open>life\<close>) or, where
  only their results meet, arguments that say which comes first. The witnesses use a toy compression (a marker
  before each byte) that obeys the laws asked of zstd, and a cache of 100000 bytes.

  \<^bold>\<open>Parameters.\<close> zstd (\<open>zstd_laws\<close>: decoding undoes encoding, also of concatenated frames), protobuf and JSON codecs, the
  clients of S3, Azure, Google and gRPC, the transport of HTTP, the flag and YAML libraries.

  \<^bold>\<open>Not modelled.\<close> Prometheus gauges and counters other than the decorator's, and logging: they do not act
  on the cache. What the zstd, flag and YAML libraries compute. The profiler behind its address. The helpers of the unit
  tests and the fake S3 server, which the program does not contain.
\<close>

end
